(* ===== verification/Prelude.thy ===== *)
theory Prelude
  imports Main "HOL-Library.Word" "HOL-Library.State_Monad"
begin

unbundle bit_operations_syntax

text \<open>
  What every component shares: the names of the C integer types, two primitives of the state
  monad, byte orders, C strings in buffers, and the resource tracker, which replays the acquire
  and release actions of a call history against a stack and rejects a history that releases
  something it does not hold, releases out of order, or uses something it does not hold.
\<close>

section \<open>C types\<close>

type_synonym u8 = "8 word"
type_synonym u16 = "16 word"
type_synonym u32 = "32 word"
type_synonym u64 = "64 word"

text \<open>
  \<open>size_t\<close>, addresses and pointers are 64-bit words. \<open>ssize_t\<close> and \<open>long\<close> are the same
  words read with \<^const>\<open>sint\<close>. A status \<open>int\<close> on which the code only tests the sign is an
  \<^typ>\<open>int\<close>.
\<close>

type_synonym kptr = u64

abbreviation NULL :: kptr where
  "NULL \<equiv> 0"

text \<open>A string literal that ends in a newline.\<close>

definition ln :: "string \<Rightarrow> string" where
  "ln s = s @ [CHR 0x0A]"

section \<open>State monad\<close>

named_theorems prog \<open>definitions of program steps, unfolded to run them\<close>

definition upd :: "('s \<Rightarrow> 's) \<Rightarrow> ('s, unit) state" where
  "upd f = State (\<lambda>s. ((), f s))"

definition reads :: "('s \<Rightarrow> 'a) \<Rightarrow> ('s, 'a) state" where
  "reads f = State (\<lambda>s. (f s, s))"

lemma run_upd [simp]: "run_state (upd f) s = ((), f s)"
  by (simp add: upd_def)

lemma run_reads [simp]: "run_state (reads f) s = (f s, s)"
  by (simp add: reads_def)

lemma run_if [simp]: "run_state (if b then m else n) s = (if b then run_state m s else run_state n s)"
  by simp

section \<open>Resource tracking\<close>

datatype 'r act = Acq 'r | Rel 'r | Use 'r

fun act_step :: "'r act \<Rightarrow> 'r list \<Rightarrow> 'r list option" where
  "act_step (Acq r) st = Some (r # st)"
| "act_step (Rel r) [] = None"
| "act_step (Rel r) (x # st) = (if x = r then Some st else None)"
| "act_step (Use r) st = (if r \<in> set st then Some st else None)"

fun acts_run :: "'r act list \<Rightarrow> 'r list \<Rightarrow> 'r list option" where
  "acts_run [] st = Some st"
| "acts_run (a # acts) st = (case act_step a st of None \<Rightarrow> None | Some st' \<Rightarrow> acts_run acts st')"

definition track :: "('e \<Rightarrow> 'r act list) \<Rightarrow> 'e list \<Rightarrow> 'r list \<Rightarrow> 'r list option" where
  "track f log st = acts_run (concat (map f log)) st"

lemma acts_run_append:
  "acts_run (as @ bs) st = (case acts_run as st of None \<Rightarrow> None | Some st' \<Rightarrow> acts_run bs st')"
  by (induction as arbitrary: st) (auto split: option.splits)

lemma track_Nil [simp]: "track f [] st = Some st"
  by (simp add: track_def)

lemma track_snoc [simp]:
  "track f (log @ [e]) st = (case track f log st of None \<Rightarrow> None | Some st' \<Rightarrow> acts_run (f e) st')"
  by (simp add: track_def acts_run_append split: option.split)

lemma track_append:
  "track f (l1 @ l2) st = (case track f l1 st of None \<Rightarrow> None | Some st' \<Rightarrow> track f l2 st')"
  by (simp add: track_def acts_run_append split: option.split)

lemma track_Cons:
  "track f (e # log) st = (case acts_run (f e) st of None \<Rightarrow> None | Some st' \<Rightarrow> track f log st')"
  by (simp add: track_def acts_run_append split: option.split)

text \<open>Resources that lie below on the stack do not disturb a history.\<close>

lemma act_step_frame: "act_step a st = Some st' \<Longrightarrow> act_step a (st @ fr) = Some (st' @ fr)"
  by (cases "(a, st)" rule: act_step.cases) (auto split: if_splits)

lemma acts_run_frame: "acts_run as st = Some st' \<Longrightarrow> acts_run as (st @ fr) = Some (st' @ fr)"
proof (induction as arbitrary: st)
  case (Cons a as)
  then show ?case
    by (cases "act_step a st") (auto simp: act_step_frame)
qed simp

lemma track_frame: "track f log st = Some st' \<Longrightarrow> track f log (st @ fr) = Some (st' @ fr)"
  by (simp add: track_def acts_run_frame)

end
