(* ===== verification/Kernel_API.thy ===== *)
theory Kernel_API
  imports Prelude
begin

text \<open>
  The interface between the drivers and the kernel. The kernel is not part of the repository, so
  it is a parameter: a record \<open>kenv\<close> whose fields answer each call from the whole history of
  calls before it. A driver's step appends every call it makes, with the kernel's answer, to the
  history kept in its state. The last two fields are the bytes a SPI transfer left in the buffer it
  returned, and the value of a pointer variable that is read before it is written. \<open>kernel_doc\<close> names the documented behaviour some drivers rely on,
  and \<open>kacts\<close> the resources each documented call acquires, releases or needs.
\<close>

section \<open>Faults and error numbers\<close>

text \<open>What a step does instead of returning: undefined behaviour of the C code.\<close>

datatype fault = Null_deref | Out_of_bounds | Uninitialised | No_return | Use_after_free

definition EFAULT :: int where "EFAULT = 14"
definition ENOMEM :: int where "ENOMEM = 12"
definition EINVAL :: int where "EINVAL = 22"
definition ENOTTY :: int where "ENOTTY = 25"
definition EOPNOTSUPP :: int where "EOPNOTSUPP = 95"

lemmas errno_defs = EFAULT_def ENOMEM_def EINVAL_def ENOTTY_def EOPNOTSUPP_def

text \<open>A step that cannot fault, as one that may.\<close>

definition returns :: "('s, 'a) state \<Rightarrow> ('s, fault + 'a) state" where
  "returns m = do { r \<leftarrow> m; State_Monad.return (Inr r) }"

lemma run_returns [simp]: "run_state (returns m) s = map_prod Inr id (run_state m s)"
  by (simp add: returns_def split: prod.split)

text \<open>Continue with a value that was read inside the buffer, or fault.\<close>

definition need :: "'b option \<Rightarrow> ('b \<Rightarrow> ('s, fault + 'a) state) \<Rightarrow> ('s, fault + 'a) state" where
  "need x k = (case x of None \<Rightarrow> State_Monad.return (Inl Out_of_bounds) | Some v \<Rightarrow> k v)"

section \<open>Calls, answers and history\<close>

text \<open>An object is a static variable of the driver (\<open>&cdev\<close>) or a pointer the kernel returned.\<close>

datatype obj = Addr_of string | At kptr

datatype loglevel = KERN_ERR | KERN_INFO

datatype karg = PInt int | PNat nat | PStr string | PBytes "u8 list"

datatype icall =
    Register_chrdev_region u32 nat string
  | Cdev_add obj u32 nat
  | I2c_add_driver obj
  | Usb_register obj
  | Spi_register_driver obj
  | Uart_register_driver obj
  | Register_netdev obj
  | Dev_queue_xmit kptr "u8 list"
  | Validate_headers kptr obj string
  | Spi_sync obj "(kptr \<times> kptr \<times> u32) list"

datatype pcall =
    Class_create string
  | Device_create kptr u32 string
  | Cdev_alloc
  | Spi_bus_find_device
  | Spi_transfer kptr nat
  | Kmalloc nat
  | Dev_alloc_skb nat

datatype vcall =
    Printk loglevel string "karg list"
  | Dev_err obj string
  | Cdev_init obj string
  | Cdev_set_owner obj
  | Cdev_del obj
  | Kobject_put obj
  | Unregister_chrdev_region u32 nat
  | Class_destroy kptr
  | Device_destroy kptr u32
  | I2c_del_driver obj
  | Usb_deregister obj
  | Spi_unregister_driver obj
  | Spi_unregister_device kptr
  | Uart_unregister_driver obj
  | Unregister_netdev obj
  | Kfree kptr
  | Dev_kfree_skb kptr

text \<open>
  \<open>alloc_chrdev_region\<close> answers with a status and, through its pointer argument, a device number;
  the user-copy functions answer with the number of bytes not copied.
\<close>

datatype kevent =
    Alloc_chrdev_region nat nat string int u32
  | Int_call icall int
  | Ptr_call pcall kptr
  | Void_call vcall
  | Copy_from_user kptr nat nat "u8 list"
  | Copy_to_user kptr "u8 list" nat

datatype fcall = F_open | F_release | F_read kptr u64 | F_write kptr u64 | F_ioctl u32 u64

record kenv =
  int_ret :: "kevent list \<Rightarrow> icall \<Rightarrow> int"
  ptr_ret :: "kevent list \<Rightarrow> pcall \<Rightarrow> kptr"
  alloc_ret :: "kevent list \<Rightarrow> int"
  alloc_dev :: "kevent list \<Rightarrow> u32"
  from_user :: "kevent list \<Rightarrow> kptr \<Rightarrow> nat \<Rightarrow> nat \<times> u8 list"
  to_user :: "kevent list \<Rightarrow> kptr \<Rightarrow> u8 list \<Rightarrow> nat"
  IS_ERR :: "kptr \<Rightarrow> bool"
  PTR_ERR :: "kptr \<Rightarrow> int"
  MKDEV :: "nat \<Rightarrow> nat \<Rightarrow> u32"
  MAJOR :: "u32 \<Rightarrow> nat"
  MINOR :: "u32 \<Rightarrow> nat"
  IOW :: "char \<Rightarrow> char \<Rightarrow> nat \<Rightarrow> u32"
  IOR :: "char \<Rightarrow> char \<Rightarrow> nat \<Rightarrow> u32"
  no_handler :: "fcall \<Rightarrow> u64"
  spi_rx :: "kevent list \<Rightarrow> kptr \<Rightarrow> u8 list"
  uninit_ptr :: "kptr"

record kst =
  klog :: "kevent list"

definition kint :: "kenv \<Rightarrow> icall \<Rightarrow> ('a kst_scheme, int) state" where
  "kint E c = State (\<lambda>s. let r = int_ret E (klog s) c in (r, s\<lparr>klog := klog s @ [Int_call c r]\<rparr>))"

definition kptr_call :: "kenv \<Rightarrow> pcall \<Rightarrow> ('a kst_scheme, kptr) state" where
  "kptr_call E c = State (\<lambda>s. let p = ptr_ret E (klog s) c in (p, s\<lparr>klog := klog s @ [Ptr_call c p]\<rparr>))"

definition kvoid :: "vcall \<Rightarrow> ('a kst_scheme, unit) state" where
  "kvoid c = State (\<lambda>s. ((), s\<lparr>klog := klog s @ [Void_call c]\<rparr>))"

definition kalloc_region :: "kenv \<Rightarrow> nat \<Rightarrow> nat \<Rightarrow> string \<Rightarrow> ('a kst_scheme, int \<times> u32) state" where
  "kalloc_region E base n name = State (\<lambda>s.
     let r = alloc_ret E (klog s); d = alloc_dev E (klog s)
     in ((r, d), s\<lparr>klog := klog s @ [Alloc_chrdev_region base n name r d]\<rparr>))"

definition kcopy_from_user :: "kenv \<Rightarrow> kptr \<Rightarrow> nat \<Rightarrow> ('a kst_scheme, nat \<times> u8 list) state" where
  "kcopy_from_user E src n = State (\<lambda>s.
     let (left, bs) = from_user E (klog s) src n
     in ((left, bs), s\<lparr>klog := klog s @ [Copy_from_user src n left bs]\<rparr>))"

definition kcopy_to_user :: "kenv \<Rightarrow> kptr \<Rightarrow> u8 list \<Rightarrow> ('a kst_scheme, nat) state" where
  "kcopy_to_user E dst bs = State (\<lambda>s.
     let left = to_user E (klog s) dst bs
     in (left, s\<lparr>klog := klog s @ [Copy_to_user dst bs left]\<rparr>))"

lemma run_kint [simp]: "run_state (kint E c) s =
    (int_ret E (klog s) c, s\<lparr>klog := klog s @ [Int_call c (int_ret E (klog s) c)]\<rparr>)"
  by (simp add: kint_def Let_def)

lemma run_kptr_call [simp]: "run_state (kptr_call E c) s =
    (ptr_ret E (klog s) c, s\<lparr>klog := klog s @ [Ptr_call c (ptr_ret E (klog s) c)]\<rparr>)"
  by (simp add: kptr_call_def Let_def)

lemma run_kvoid [simp]: "run_state (kvoid c) s = ((), s\<lparr>klog := klog s @ [Void_call c]\<rparr>)"
  by (simp add: kvoid_def)

lemma run_kalloc_region [simp]: "run_state (kalloc_region E base n name) s =
    ((alloc_ret E (klog s), alloc_dev E (klog s)),
     s\<lparr>klog := klog s @ [Alloc_chrdev_region base n name (alloc_ret E (klog s)) (alloc_dev E (klog s))]\<rparr>)"
  by (simp add: kalloc_region_def Let_def)

lemma run_kcopy_from_user [simp]: "run_state (kcopy_from_user E src n) s =
    (from_user E (klog s) src n,
     s\<lparr>klog := klog s @ [Copy_from_user src n (fst (from_user E (klog s) src n)) (snd (from_user E (klog s) src n))]\<rparr>)"
  by (simp add: kcopy_from_user_def Let_def split: prod.splits)

lemma run_kcopy_to_user [simp]: "run_state (kcopy_to_user E dst bs) s =
    (to_user E (klog s) dst bs,
     s\<lparr>klog := klog s @ [Copy_to_user dst bs (to_user E (klog s) dst bs)]\<rparr>)"
  by (simp add: kcopy_to_user_def Let_def)

section \<open>Documented behaviour\<close>

text \<open>
  Registration calls return 0 or a negative errno, and an error pointer carries a negative errno.
\<close>

fun registers :: "icall \<Rightarrow> bool" where
  "registers (Dev_queue_xmit _ _) = False"
| "registers (Validate_headers _ _ _) = False"
| "registers (Spi_sync _ _) = False"
| "registers _ = True"

definition kernel_doc :: "kenv \<Rightarrow> bool" where
  "kernel_doc E \<longleftrightarrow> (\<forall>h c. registers c \<longrightarrow> int_ret E h c \<le> 0) \<and> (\<forall>h. alloc_ret E h \<le> 0) \<and>
     (\<forall>p. IS_ERR E p \<longrightarrow> PTR_ERR E p < 0)"

text \<open>
  A kernel that grants every request made after the history \<open>g\<close>, as one with free resources does. What it
  granted before is left open.
\<close>

definition grants_from :: "kenv \<Rightarrow> kevent list \<Rightarrow> bool" where
  "grants_from E g \<longleftrightarrow> (\<forall>h c. 0 \<le> int_ret E (g @ h) c) \<and> (\<forall>h. 0 \<le> alloc_ret E (g @ h)) \<and>
     (\<forall>h c. ptr_ret E (g @ h) c \<noteq> NULL \<and> \<not> IS_ERR E (ptr_ret E (g @ h) c))"

lemma grants_from_append: "grants_from E g \<Longrightarrow> grants_from E (g @ h)"
  by (simp add: grants_from_def)

lemma grants_fromD:
  assumes "grants_from E g"
  shows "\<not> int_ret E (g @ h) c < 0" "\<not> alloc_ret E (g @ h) < 0" "ptr_ret E (g @ h) pc \<noteq> NULL" "\<not> IS_ERR E (ptr_ret E (g @ h) pc)"
    "\<not> int_ret E g c < 0" "\<not> alloc_ret E g < 0" "ptr_ret E g pc \<noteq> NULL" "\<not> IS_ERR E (ptr_ret E g pc)"
  using assms grants_from_append [OF assms, of "[]"] unfolding grants_from_def not_less by (metis append_Nil2)+

datatype resource =
    Region u32 nat
  | Cdev_live obj
  | Cdev_mem kptr
  | Class kptr
  | Device kptr u32
  | Registered obj
  | Mem kptr
  | Skb kptr

definition got :: "int \<Rightarrow> resource \<Rightarrow> resource act list" where
  "got r x = (if r < 0 then [] else [Acq x])"

definition got_ptr :: "bool \<Rightarrow> resource \<Rightarrow> resource act list" where
  "got_ptr ok x = (if ok then [Acq x] else [])"

text \<open>
  The documented resource protocol. A call that fails acquires nothing. \<open>cdev_add\<close> needs its
  device-number range, \<open>device_create\<close> its class. A live cdev added on top of its memory goes
  down with \<open>cdev_del\<close>; releases come in the reverse order of acquisition.
\<close>

fun iacts :: "icall \<Rightarrow> int \<Rightarrow> resource act list" where
  "iacts (Register_chrdev_region d n _) r = got r (Region d n)"
| "iacts (Cdev_add c d n) r = Use (Region d n) # got r (Cdev_live c)"
| "iacts (I2c_add_driver x) r = got r (Registered x)"
| "iacts (Usb_register x) r = got r (Registered x)"
| "iacts (Spi_register_driver x) r = got r (Registered x)"
| "iacts (Uart_register_driver x) r = got r (Registered x)"
| "iacts (Register_netdev x) r = got r (Registered x)"
| "iacts (Dev_queue_xmit p _) r = [Rel (Skb p)]"
| "iacts (Validate_headers p x _) r = [Use (Skb p)]"
| "iacts (Spi_sync x _) r = []"

fun pacts :: "kenv \<Rightarrow> pcall \<Rightarrow> kptr \<Rightarrow> resource act list" where
  "pacts E (Class_create _) p = got_ptr (\<not> IS_ERR E p) (Class p)"
| "pacts E (Device_create c d _) p = Use (Class c) # got_ptr (\<not> IS_ERR E p) (Device c d)"
| "pacts E Cdev_alloc p = got_ptr (p \<noteq> NULL) (Cdev_mem p)"
| "pacts E Spi_bus_find_device p = []"
| "pacts E (Spi_transfer _ _) p = got_ptr (p \<noteq> NULL) (Mem p)"
| "pacts E (Kmalloc _) p = got_ptr (p \<noteq> NULL) (Mem p)"
| "pacts E (Dev_alloc_skb _) p = got_ptr (p \<noteq> NULL) (Skb p)"

fun cdev_mem :: "obj \<Rightarrow> resource act list" where
  "cdev_mem (Addr_of _) = []"
| "cdev_mem (At p) = [Rel (Cdev_mem p)]"

text \<open>An error message about a pointer reads the object it points to.\<close>

fun cdev_use :: "obj \<Rightarrow> resource act list" where
  "cdev_use (Addr_of _) = []"
| "cdev_use (At p) = [Use (Cdev_mem p)]"

fun vacts :: "vcall \<Rightarrow> resource act list" where
  "vacts (Dev_err c _) = cdev_use c"
| "vacts (Cdev_del c) = Rel (Cdev_live c) # cdev_mem c"
| "vacts (Kobject_put c) = cdev_mem c"
| "vacts (Unregister_chrdev_region d n) = [Rel (Region d n)]"
| "vacts (Class_destroy c) = [Rel (Class c)]"
| "vacts (Device_destroy c d) = [Rel (Device c d)]"
| "vacts (I2c_del_driver x) = [Rel (Registered x)]"
| "vacts (Usb_deregister x) = [Rel (Registered x)]"
| "vacts (Spi_unregister_driver x) = [Rel (Registered x)]"
| "vacts (Uart_unregister_driver x) = [Rel (Registered x)]"
| "vacts (Unregister_netdev x) = [Rel (Registered x)]"
| "vacts (Kfree p) = [Rel (Mem p)]"
| "vacts (Dev_kfree_skb p) = [Rel (Skb p)]"
| "vacts _ = []"

fun kacts :: "kenv \<Rightarrow> kevent \<Rightarrow> resource act list" where
  "kacts E (Alloc_chrdev_region _ n _ r d) = got r (Region d n)"
| "kacts E (Int_call c r) = iacts c r"
| "kacts E (Ptr_call c p) = pacts E c p"
| "kacts E (Void_call c) = vacts c"
| "kacts E (Copy_from_user _ _ _ _) = []"
| "kacts E (Copy_to_user _ _ _) = []"

definition held :: "kenv \<Rightarrow> 'a kst_scheme \<Rightarrow> resource list option" where
  "held E s = track (kacts E) (klog s) []"

lemmas held_simps = held_def track_append track_Cons got_def got_ptr_def

text \<open>The status an answer carries: 0 for success, a negative errno otherwise.\<close>

fun kstatus :: "kenv \<Rightarrow> kevent \<Rightarrow> int" where
  "kstatus E (Alloc_chrdev_region _ _ _ r _) = r"
| "kstatus E (Int_call _ r) = r"
| "kstatus E (Ptr_call _ p) = (if IS_ERR E p then PTR_ERR E p else 0)"
| "kstatus E (Copy_from_user _ _ left _) = (if left = 0 then 0 else - EFAULT)"
| "kstatus E (Copy_to_user _ _ left) = (if left = 0 then 0 else - EFAULT)"
| "kstatus E (Void_call _) = 0"

section \<open>File operations\<close>

text \<open>
  \<open>struct file_operations\<close>: whether the owner is set to the module, and each handler, set or null. The
  kernel's answer for a null handler is a field of \<open>kenv\<close>.
\<close>

record 's file_operations =
  fo_owner :: bool
  fo_open :: "('s, int) state option"
  fo_release :: "('s, int) state option"
  fo_read :: "(kptr \<Rightarrow> u64 \<Rightarrow> ('s, u64) state) option"
  fo_write :: "(kptr \<Rightarrow> u64 \<Rightarrow> ('s, u64) state) option"
  fo_ioctl :: "(u32 \<Rightarrow> u64 \<Rightarrow> ('s, u64) state) option"

definition vfs :: "kenv \<Rightarrow> 's file_operations \<Rightarrow> fcall \<Rightarrow> ('s, u64) state" where
  "vfs E ops c =
     (let absent = State_Monad.return (no_handler E c);
          as_long = (\<lambda>m. do { r \<leftarrow> m; State_Monad.return (word_of_int r) })
      in case c of
        F_open \<Rightarrow> (case fo_open ops of None \<Rightarrow> absent | Some m \<Rightarrow> as_long m)
      | F_release \<Rightarrow> (case fo_release ops of None \<Rightarrow> absent | Some m \<Rightarrow> as_long m)
      | F_read p n \<Rightarrow> (case fo_read ops of None \<Rightarrow> absent | Some m \<Rightarrow> m p n)
      | F_write p n \<Rightarrow> (case fo_write ops of None \<Rightarrow> absent | Some m \<Rightarrow> m p n)
      | F_ioctl cmd arg \<Rightarrow> (case fo_ioctl ops of None \<Rightarrow> absent | Some m \<Rightarrow> m cmd arg))"

text \<open>A kernel in which every call succeeds, to run the drivers on.\<close>

fun lab_ptr :: "pcall \<Rightarrow> kptr" where
  "lab_ptr (Class_create _) = 0x1000"
| "lab_ptr (Device_create _ _ _) = 0x2000"
| "lab_ptr Cdev_alloc = 0x3000"
| "lab_ptr Spi_bus_find_device = 0x4000"
| "lab_ptr (Spi_transfer _ _) = 0x5000"
| "lab_ptr (Kmalloc _) = 0x6000"
| "lab_ptr (Dev_alloc_skb _) = 0x7000"

fun lab_no_handler :: "fcall \<Rightarrow> u64" where
  "lab_no_handler F_open = 0"
| "lab_no_handler F_release = 0"
| "lab_no_handler (F_read _ _) = - 22"
| "lab_no_handler (F_write _ _) = - 22"
| "lab_no_handler (F_ioctl _ _) = - 25"

definition lab_kernel :: kenv where
  "lab_kernel = \<lparr>int_ret = (\<lambda>h c. 0), ptr_ret = (\<lambda>h. lab_ptr), alloc_ret = (\<lambda>h. 0),
     alloc_dev = (\<lambda>h. 0x0F500000), from_user = (\<lambda>h p n. (0, replicate n 7)), to_user = (\<lambda>h p bs. 0),
     IS_ERR = (\<lambda>p. - 4095 \<le> p), PTR_ERR = (\<lambda>p. uint p - 2 ^ 64),
     MKDEV = (\<lambda>ma mi. word_of_nat (ma * 2 ^ 20 + mi)),
     MAJOR = (\<lambda>d. unat d div 2 ^ 20), MINOR = (\<lambda>d. unat d mod 2 ^ 20),
     IOW = (\<lambda>t c n. word_of_nat (2 ^ 30 + n * 2 ^ 16 + of_char t * 2 ^ 8 + of_char c)),
     IOR = (\<lambda>t c n. word_of_nat (2 ^ 31 + n * 2 ^ 16 + of_char t * 2 ^ 8 + of_char c)),
     no_handler = lab_no_handler, spi_rx = (\<lambda>h p. map word_of_nat [1..<17]), uninit_ptr = 0xDEAD\<rparr>"

lemma lab_kernel_sel:
  "int_ret lab_kernel h c = 0" "ptr_ret lab_kernel h pc = lab_ptr pc" "alloc_ret lab_kernel h = 0"
  "alloc_dev lab_kernel h = 0x0F500000" "from_user lab_kernel h p n = (0, replicate n 7)"
  "to_user lab_kernel h p bs = 0" "IS_ERR lab_kernel p = (- 4095 \<le> p)" "PTR_ERR lab_kernel p = uint p - 2 ^ 64"
  "no_handler lab_kernel = lab_no_handler"
  by (simp_all add: lab_kernel_def)

lemma lab_kernel_doc: "kernel_doc lab_kernel"
  using uint_lt2p [where 'a = 64] by (simp add: kernel_doc_def lab_kernel_sel)

lemma lab_kernel_grants: "grants_from lab_kernel g"
proof -
  have "lab_ptr c \<noteq> NULL \<and> \<not> - 4095 \<le> lab_ptr c" for c
    by (cases c) (simp_all add: word_le_def)
  then show ?thesis by (simp add: grants_from_def lab_kernel_sel)
qed

end
