(* ===== verification/Module_Lifecycle.thy ===== *)
theory Module_Lifecycle
  imports Kernel_API
begin

text \<open>
  Loading and unloading (README: \<open>insmod\<close>, \<open>rmmod\<close>). A module is its init function, its exit
  function and the callbacks the kernel may run while it is loaded. \<open>mod_step\<close> is every order in
  which the kernel may use them: init only when unloaded, callbacks and exit only when loaded. Each load
  maps the module's data anew, so init starts from the values the file initialises its static variables
  with (\<open>zero\<close>), whatever an earlier load left in them. A module whose init returns a negative status stays
  unloaded, and a step that faults leaves the module crashed for good. The locale \<open>kmodule\<close> states what a driver owes the kernel, and proves
  once what follows for every such order.
\<close>

datatype modstat = Unloaded | Loaded | Crashed fault

text \<open>
  What a source file declares of its module: the functions \<open>module_init\<close> and \<open>module_exit\<close> name, and
  what \<open>modinfo\<close> shows.
\<close>

record module_about =
  MODULE_LICENSE :: string
  MODULE_AUTHOR :: "string option"
  MODULE_DESCRIPTION :: "string option"
  MODULE_VERSION :: "string option"

text \<open>The data of a freshly loaded module, on a kernel with the history so far.\<close>

abbreviation fresh :: "'a kst_scheme \<Rightarrow> 'a kst_scheme \<Rightarrow> 'a kst_scheme" where
  "fresh zero s \<equiv> zero\<lparr>klog := klog s\<rparr>"

lemma held_fresh [simp]: "held E (fresh zero s) = held E s"
  by (simp add: held_def)

record 's kernel_module =
  module_data :: 's
  module_init :: "kenv \<Rightarrow> ('s, fault + int) state"
  module_exit :: "kenv \<Rightarrow> ('s, unit) state"
  about :: module_about

inductive mod_step ::
  "kenv \<Rightarrow> 'a kst_scheme \<Rightarrow> (kenv \<Rightarrow> ('a kst_scheme, fault + int) state) \<Rightarrow> (kenv \<Rightarrow> ('a kst_scheme, unit) state) \<Rightarrow>
   (kenv \<Rightarrow> 'c \<Rightarrow> ('a kst_scheme, fault option) state) \<Rightarrow> modstat \<times> 'a kst_scheme \<Rightarrow> modstat \<times> 'a kst_scheme \<Rightarrow> bool"
  for E zero minit mexit call where
  insmod_ok: "run_state (minit E) (fresh zero s) = (Inr r, s') \<Longrightarrow> 0 \<le> r \<Longrightarrow>
    mod_step E zero minit mexit call (Unloaded, s) (Loaded, s')"
| insmod_fail: "run_state (minit E) (fresh zero s) = (Inr r, s') \<Longrightarrow> r < 0 \<Longrightarrow>
    mod_step E zero minit mexit call (Unloaded, s) (Unloaded, s')"
| insmod_fault: "run_state (minit E) (fresh zero s) = (Inl f, s') \<Longrightarrow>
    mod_step E zero minit mexit call (Unloaded, s) (Crashed f, s')"
| callback: "run_state (call E c) s = (None, s') \<Longrightarrow>
    mod_step E zero minit mexit call (Loaded, s) (Loaded, s')"
| callback_fault: "run_state (call E c) s = (Some f, s') \<Longrightarrow>
    mod_step E zero minit mexit call (Loaded, s) (Crashed f, s')"
| rmmod: "run_state (mexit E) s = ((), s') \<Longrightarrow>
    mod_step E zero minit mexit call (Loaded, s) (Unloaded, s')"

inductive_cases step_unloadedE: "mod_step E zero minit mexit call (Unloaded, s) x"
inductive_cases step_loadedE: "mod_step E zero minit mexit call (Loaded, s) x"
inductive_cases step_crashedE: "mod_step E zero minit mexit call (Crashed f, s) x"
inductive_simps step_unload_simp: "mod_step E zero minit mexit call (Loaded, s) (Unloaded, s')"

inductive mod_reach ::
  "kenv \<Rightarrow> 'a kst_scheme \<Rightarrow> (kenv \<Rightarrow> ('a kst_scheme, fault + int) state) \<Rightarrow> (kenv \<Rightarrow> ('a kst_scheme, unit) state) \<Rightarrow>
   (kenv \<Rightarrow> 'c \<Rightarrow> ('a kst_scheme, fault option) state) \<Rightarrow> modstat \<Rightarrow> 'a kst_scheme \<Rightarrow> bool"
  for E zero minit mexit call where
  start: "klog s = [] \<Longrightarrow> mod_reach E zero minit mexit call Unloaded s"
| step: "mod_reach E zero minit mexit call l s \<Longrightarrow>
    mod_step E zero minit mexit call (l, s) (l', s') \<Longrightarrow> mod_reach E zero minit mexit call l' s'"

definition module_reach ::
  "kenv \<Rightarrow> ('a kst_scheme) kernel_module \<Rightarrow> (kenv \<Rightarrow> 'c \<Rightarrow> ('a kst_scheme, fault option) state) \<Rightarrow> modstat \<Rightarrow>
   'a kst_scheme \<Rightarrow> bool" where
  "module_reach E M call = mod_reach E (module_data M) (module_init M) (module_exit M) call"

text \<open>
  What every driver owes: as long as its steps return, it holds what it says it holds, and only
  faults of the kind \<open>crash\<close> can stop it.
\<close>

locale driver_module =
  fixes minit :: "kenv \<Rightarrow> ('a kst_scheme, fault + int) state"
    and mexit :: "kenv \<Rightarrow> ('a kst_scheme, unit) state"
    and call :: "kenv \<Rightarrow> 'c \<Rightarrow> ('a kst_scheme, fault option) state"
    and holds :: "'a kst_scheme \<Rightarrow> resource list"
    and admissible :: "kenv \<Rightarrow> bool"
    and crash :: "fault \<Rightarrow> bool"
  assumes init_safe: "admissible E \<Longrightarrow> run_state (minit E) s = (x, s') \<Longrightarrow> held E s = Some st \<Longrightarrow>
      case x of Inl f \<Rightarrow> crash f | Inr r \<Rightarrow> held E s' = Some (if r < 0 then st else holds s' @ st)"
    and call_safe: "admissible E \<Longrightarrow> run_state (call E c) s = (f, s') \<Longrightarrow> held E s = Some (holds s @ st) \<Longrightarrow>
      case f of Some f \<Rightarrow> crash f | None \<Rightarrow> held E s' = Some (holds s' @ st)"
    and exit_safe: "admissible E \<Longrightarrow> run_state (mexit E) s = (u, s') \<Longrightarrow> held E s = Some (holds s @ st) \<Longrightarrow>
      held E s' = Some st"
begin

definition wf :: "kenv \<Rightarrow> modstat \<Rightarrow> 'a kst_scheme \<Rightarrow> bool" where
  "wf E l s = (case l of Unloaded \<Rightarrow> held E s = Some [] | Loaded \<Rightarrow> held E s = Some (holds s) | Crashed f \<Rightarrow> crash f)"

lemma wf_simps [simp]:
  "wf E Unloaded s \<longleftrightarrow> held E s = Some []" "wf E Loaded s \<longleftrightarrow> held E s = Some (holds s)"
  "wf E (Crashed f) s \<longleftrightarrow> crash f"
  by (simp_all add: wf_def)

lemma wf_unloaded: "wf E Unloaded s \<Longrightarrow> admissible E \<Longrightarrow> mod_step E zero minit mexit call (Unloaded, s) (l', s') \<Longrightarrow> wf E l' s'"
  by (erule step_unloadedE) (auto dest: init_safe [where st = "[]"])

lemma wf_loaded: "wf E Loaded s \<Longrightarrow> admissible E \<Longrightarrow> mod_step E zero minit mexit call (Loaded, s) (l', s') \<Longrightarrow> wf E l' s'"
  by (erule step_loadedE)
    (auto dest: exit_safe [where st = "[]", simplified] call_safe [where st = "[]", simplified])

lemma reach_wf:
  assumes "mod_reach E zero minit mexit call l s" and "admissible E"
  shows "wf E l s"
  using assms
proof (induction rule: mod_reach.induct)
  case (start s)
  then show ?case by (simp add: held_def)
next
  case (step l s l' s')
  then show ?case by (cases l) (auto intro: wf_unloaded wf_loaded elim: step_crashedE)
qed

text \<open>A module that has not crashed can be unloaded, and then holds nothing.\<close>

lemma unloads:
  assumes "mod_reach E zero minit mexit call l s" and "admissible E" and "\<And>f. l \<noteq> Crashed f"
  obtains s' where "(mod_step E zero minit mexit call)\<^sup>*\<^sup>* (l, s) (Unloaded, s')" and "held E s' = Some []"
proof (cases l)
  case Unloaded
  then show ?thesis using that [of s] reach_wf [OF assms(1,2)] by simp
next
  case Loaded
  obtain s' where run: "run_state (mexit E) s = ((), s')" by (cases "run_state (mexit E) s") simp
  then have "mod_step E zero minit mexit call (Loaded, s) (Unloaded, s')" by (rule rmmod)
  moreover from this have "wf E Unloaded s'"
    using wf_loaded assms(2) reach_wf [OF assms(1,2)] Loaded by blast
  ultimately show ?thesis using that [of s'] Loaded by auto
qed (use assms(3) in blast)

text \<open>Where init is accepted, it can also be brought back into service, with exactly what it holds.\<close>

lemma reloads:
  assumes "mod_reach E zero minit mexit call l s" and adm: "admissible E" and "\<And>f. l \<noteq> Crashed f"
    and accept: "\<And>s1. (mod_step E zero minit mexit call)\<^sup>*\<^sup>* (l, s) (Unloaded, s1) \<Longrightarrow>
      \<exists>r s'. run_state (minit E) (fresh zero s1) = (Inr r, s') \<and> 0 \<le> r"
  obtains s' where "(mod_step E zero minit mexit call)\<^sup>*\<^sup>* (l, s) (Loaded, s')" and "held E s' = Some (holds s')"
proof -
  obtain s1 where steps: "(mod_step E zero minit mexit call)\<^sup>*\<^sup>* (l, s) (Unloaded, s1)" and h: "held E s1 = Some []"
    using unloads [OF assms(1-3)] .
  obtain r s2 where run: "run_state (minit E) (fresh zero s1) = (Inr r, s2)" and r: "0 \<le> r" using accept [OF steps] by blast
  from run r have "mod_step E zero minit mexit call (Unloaded, s1) (Loaded, s2)" by (rule insmod_ok)
  with steps have "(mod_step E zero minit mexit call)\<^sup>*\<^sup>* (l, s) (Loaded, s2)" by (rule rtranclp.rtrancl_into_rtrancl)
  moreover from init_safe [OF adm run, of "[]"] h r have "held E s2 = Some (holds s2)" by simp
  ultimately show ?thesis by (rule that)
qed

end

text \<open>
  Most drivers never fault at all: the contract \<open>kmodule\<close> is \<open>driver_module\<close> with no crash allowed.
\<close>

locale kmodule =
  fixes minit :: "kenv \<Rightarrow> ('a kst_scheme, fault + int) state"
    and mexit :: "kenv \<Rightarrow> ('a kst_scheme, unit) state"
    and call :: "kenv \<Rightarrow> 'c \<Rightarrow> ('a kst_scheme, fault option) state"
    and holds :: "'a kst_scheme \<Rightarrow> resource list"
    and admissible :: "kenv \<Rightarrow> bool"
  assumes init_law: "admissible E \<Longrightarrow> run_state (minit E) s = (x, s') \<Longrightarrow> held E s = Some st \<Longrightarrow>
      \<exists>r. x = Inr r \<and> held E s' = Some (if r < 0 then st else holds s' @ st)"
    and call_law: "admissible E \<Longrightarrow> run_state (call E c) s = (f, s') \<Longrightarrow> held E s = Some (holds s @ st) \<Longrightarrow>
      f = None \<and> held E s' = Some (holds s' @ st)"
    and exit_law: "admissible E \<Longrightarrow> run_state (mexit E) s = (u, s') \<Longrightarrow> held E s = Some (holds s @ st) \<Longrightarrow>
      held E s' = Some st"

sublocale kmodule \<subseteq> driver_module minit mexit call holds admissible "\<lambda>f. False"
proof
  fix E s x s' st
  assume "admissible E" and "run_state (minit E) s = (x, s')" and "held E s = Some st"
  from init_law [OF this]
  show "case x of Inl f \<Rightarrow> False | Inr r \<Rightarrow> held E s' = Some (if r < 0 then st else holds s' @ st)" by auto
next
  fix E c s f s' st
  assume "admissible E" and "run_state (call E c) s = (f, s')" and "held E s = Some (holds s @ st)"
  from call_law [OF this]
  show "case f of None \<Rightarrow> held E s' = Some (holds s' @ st) | Some f \<Rightarrow> False" by simp
qed (rule exit_law)

context kmodule
begin

lemma reach_held:
  "mod_reach E zero minit mexit call l s \<Longrightarrow> admissible E \<Longrightarrow>
   (l = Unloaded \<or> l = Loaded) \<and> held E s = Some (if l = Loaded then holds s else [])"
  using reach_wf [of E zero l s] by (cases l) auto

lemma reach_not_crashed: "mod_reach E zero minit mexit call l s \<Longrightarrow> admissible E \<Longrightarrow> l \<noteq> Crashed f"
  using reach_held [of E zero l s] by auto

end

text \<open>An init function that cannot fault meets the contract when its plain version does.\<close>

lemma kmodule_returns:
  assumes "\<And>E s r s' st. admissible E \<Longrightarrow> run_state (m E) s = (r, s') \<Longrightarrow> held E s = Some st \<Longrightarrow>
      held E s' = Some (if r < 0 then st else holds s' @ st)"
    and "\<And>E c s f s' st. admissible E \<Longrightarrow> run_state (call E c) s = (f, s') \<Longrightarrow> held E s = Some (holds s @ st) \<Longrightarrow>
      f = None \<and> held E s' = Some (holds s' @ st)"
    and "\<And>E s u s' st. admissible E \<Longrightarrow> run_state (mexit E) s = (u, s') \<Longrightarrow> held E s = Some (holds s @ st) \<Longrightarrow>
      held E s' = Some st"
  shows "kmodule (\<lambda>E. returns (m E)) mexit call holds admissible"
proof
  fix E s x s' st
  assume adm: "admissible E" and run: "run_state (returns (m E)) s = (x, s')" and h: "held E s = Some st"
  obtain r where "x = Inr r" and "run_state (m E) s = (r, s')"
    using run by (cases "run_state (m E) s") auto
  with assms(1) [OF adm _ h] show "\<exists>r. x = Inr r \<and> held E s' = Some (if r < 0 then st else holds s' @ st)"
    by blast
qed (fact assms)+

text \<open>The callbacks of a character device are its file operations, which return.\<close>

definition fop_call :: "kenv \<Rightarrow> 's file_operations \<Rightarrow> fcall \<Rightarrow> ('s, fault option) state" where
  "fop_call E ops c = do { _ \<leftarrow> vfs E ops c; State_Monad.return None }"

lemmas call_simps = fop_call_def vfs_def Let_def

lemma fresh_itself: "klog zero = [] \<Longrightarrow> zero\<lparr>klog := []\<rparr> = zero"
  by (cases zero) simp

lemma reach_loaded:
  "klog zero = [] \<Longrightarrow> run_state (minit E) zero = (Inr r, s') \<Longrightarrow> 0 \<le> r \<Longrightarrow> mod_reach E zero minit mexit call Loaded s'"
  by (rule mod_reach.step [OF mod_reach.start [of zero] insmod_ok [of _ _ _ _ r]]) (simp_all add: fresh_itself)

text \<open>What a successful init establishes and every callback keeps holds of every loaded module.\<close>

lemma reach_inv:
  assumes "mod_reach E zero minit mexit call l s"
    and init: "\<And>s r s'. run_state (minit E) s = (Inr r, s') \<Longrightarrow> 0 \<le> r \<Longrightarrow> P s'"
    and keep: "\<And>c s f s'. run_state (call E c) s = (f, s') \<Longrightarrow> P s \<Longrightarrow> P s'"
  shows "l = Loaded \<Longrightarrow> P s"
  using assms(1)
proof (induction rule: mod_reach.induct)
  case (step l s l' s')
  from step.hyps(2) show ?case
    by (cases rule: mod_step.cases) (use step init keep in auto)
qed simp

section \<open>Simulation\<close>

text \<open>
  An abstract machine that is told what each operation put out, and accepts it with a new state or refuses
  it: \<open>astep c os v\<close>. A run of it over operations and their outputs.
\<close>

fun accepts :: "('c \<Rightarrow> 'o list \<Rightarrow> 'v \<Rightarrow> 'v option) \<Rightarrow> ('c \<times> 'o list) list \<Rightarrow> 'v \<Rightarrow> 'v option" where
  "accepts astep [] v = Some v"
| "accepts astep ((c, os) # xs) v = (case astep c os v of None \<Rightarrow> None | Some v' \<Rightarrow> accepts astep xs v')"

lemma accepts_append:
  "accepts astep (xs @ ys) v = (case accepts astep xs v of None \<Rightarrow> None | Some v' \<Rightarrow> accepts astep ys v')"
  by (induction astep xs v rule: accepts.induct) (auto split: option.split)

text \<open>
  A driver implements an abstract machine when each of its operations moves the abstract state, and
  adds to what can be seen from outside, in a way the machine accepts.
\<close>

locale simulation =
  fixes step :: "'c \<Rightarrow> 's \<Rightarrow> 's" and view :: "'s \<Rightarrow> 'v" and seen :: "'s \<Rightarrow> 'o list"
    and astep :: "'c \<Rightarrow> 'o list \<Rightarrow> 'v \<Rightarrow> 'v option"
  assumes step_accepted: "\<exists>os. seen (step c s) = seen s @ os \<and> astep c os (view s) = Some (view (step c s))"
begin

lemma steps_accepted:
  "\<exists>xs. map fst xs = cs \<and> seen (fold step cs s) = seen s @ concat (map snd xs) \<and>
     accepts astep xs (view s) = Some (view (fold step cs s))"
proof (induction cs arbitrary: s)
  case (Cons c cs)
  obtain os where one: "seen (step c s) = seen s @ os" "astep c os (view s) = Some (view (step c s))"
    using step_accepted by blast
  obtain xs where "map fst xs = cs" "seen (fold step cs (step c s)) = seen (step c s) @ concat (map snd xs)"
    "accepts astep xs (view (step c s)) = Some (view (fold step cs (step c s)))"
    using Cons by blast
  with one show ?case by (intro exI [of _ "(c, os) # xs"]) simp
qed simp

end

end
