(* ===== verification/Shared_Kernel.thy ===== *)
theory Shared_Kernel
  imports Module_Lifecycle
begin

text \<open>
  Several modules on one kernel. The kernel answers a call from the history of all modules, while a
  driver's state holds the driver's own calls. \<open>view\<close> is the kernel as one module sees it after the history
  \<open>H\<close> of all; \<open>among_step\<close> lets a module step on its view and the rest of the system do anything in
  between, and \<open>driver_module\<close> is enough for the module to keep its resources exact. The registry of device
  numbers is what modules share: \<open>numbered_module\<close> is a module that claims one fixed number.
\<close>

section \<open>One module among others\<close>

definition view :: "kenv \<Rightarrow> kevent list \<Rightarrow> kevent list \<Rightarrow> kenv" where
  "view E H own =
     (let past = (\<lambda>h. H @ drop (length own) h)
      in E\<lparr>int_ret := \<lambda>h. int_ret E (past h), ptr_ret := \<lambda>h. ptr_ret E (past h), alloc_ret := \<lambda>h. alloc_ret E (past h),
           alloc_dev := \<lambda>h. alloc_dev E (past h), from_user := \<lambda>h. from_user E (past h),
           to_user := \<lambda>h. to_user E (past h), spi_rx := \<lambda>h. spi_rx E (past h)\<rparr>)"

lemma view_sel [simp]:
  "int_ret (view E H own) h = int_ret E (H @ drop (length own) h)" "ptr_ret (view E H own) h = ptr_ret E (H @ drop (length own) h)"
  "alloc_ret (view E H own) h = alloc_ret E (H @ drop (length own) h)"
  "IS_ERR (view E H own) = IS_ERR E" "PTR_ERR (view E H own) = PTR_ERR E" "MKDEV (view E H own) = MKDEV E"
  by (simp_all add: view_def Let_def)

lemma pacts_cong: "IS_ERR E = IS_ERR E' \<Longrightarrow> pacts E c p = pacts E' c p"
  by (cases c) simp_all

lemma kacts_cong: "IS_ERR E = IS_ERR E' \<Longrightarrow> kacts E e = kacts E' e"
  using pacts_cong [of E E'] by (cases e) simp_all

lemma held_view [simp]: "held (view E H own) s = held E s"
proof -
  have "kacts (view E H own) = kacts E" by (rule ext, rule kacts_cong) simp
  then show ?thesis by (simp add: held_def)
qed

lemma kernel_doc_view: "kernel_doc E \<Longrightarrow> kernel_doc (view E H own)"
  by (simp add: kernel_doc_def)

inductive among_step ::
  "kenv \<Rightarrow> 'a kst_scheme \<Rightarrow> (kenv \<Rightarrow> ('a kst_scheme, fault + int) state) \<Rightarrow> (kenv \<Rightarrow> ('a kst_scheme, unit) state) \<Rightarrow>
   (kenv \<Rightarrow> 'c \<Rightarrow> ('a kst_scheme, fault option) state) \<Rightarrow>
   modstat \<times> 'a kst_scheme \<times> kevent list \<Rightarrow> modstat \<times> 'a kst_scheme \<times> kevent list \<Rightarrow> bool"
  for E zero minit mexit call where
  own_step: "mod_step (view E H (klog s)) zero minit mexit call (l, s) (l', s') \<Longrightarrow>
    among_step E zero minit mexit call (l, s, H) (l', s', H @ drop (length (klog s)) (klog s'))"
| other_steps: "among_step E zero minit mexit call (l, s, H) (l, s, H @ es)"

inductive_cases among_stepE: "among_step E zero minit mexit call (l, s, H) (l', s', H')"

inductive among_reach ::
  "kenv \<Rightarrow> 'a kst_scheme \<Rightarrow> (kenv \<Rightarrow> ('a kst_scheme, fault + int) state) \<Rightarrow> (kenv \<Rightarrow> ('a kst_scheme, unit) state) \<Rightarrow>
   (kenv \<Rightarrow> 'c \<Rightarrow> ('a kst_scheme, fault option) state) \<Rightarrow> modstat \<Rightarrow> 'a kst_scheme \<Rightarrow> kevent list \<Rightarrow> bool"
  for E zero minit mexit call where
  among_start: "klog s = [] \<Longrightarrow> among_reach E zero minit mexit call Unloaded s H"
| among_next: "among_reach E zero minit mexit call l s H \<Longrightarrow> among_step E zero minit mexit call (l, s, H) (l', s', H') \<Longrightarrow>
    among_reach E zero minit mexit call l' s' H'"

context driver_module
begin

lemma wf_view [simp]: "wf (view E H own) l s = wf E l s"
  by (simp add: wf_def split: modstat.split)

lemma step_wf:
  assumes "wf E l s" and "\<And>H own. admissible (view E H own)" and "mod_step (view E H own) zero minit mexit call (l, s) (l', s')"
  shows "wf E l' s'"
  using assms wf_unloaded [of "view E H own" s zero l' s'] wf_loaded [of "view E H own" s zero l' s']
  by (cases l) (auto elim: step_crashedE)

text \<open>Whatever the others do, the module holds what it says it holds.\<close>

lemma among_wf:
  assumes "among_reach E zero minit mexit call l s H" and adm: "\<And>H own. admissible (view E H own)"
  shows "wf E l s"
  using assms(1)
proof (induction rule: among_reach.induct)
  case (among_start s H)
  then show ?case by (simp add: held_def)
next
  case (among_next l s H l' s' H')
  from among_next.hyps(2) show ?case
    by (rule among_stepE) (use among_next.IH step_wf [OF _ adm] in auto)
qed

end

section \<open>The registry of device numbers\<close>

text \<open>The ranges of device numbers registered by a history, and those that cover a number.\<close>

fun range_step :: "kevent \<Rightarrow> (u32 \<times> nat) list \<Rightarrow> (u32 \<times> nat) list" where
  "range_step (Alloc_chrdev_region _ n _ r d) R = (if r < 0 then R else (d, n) # R)"
| "range_step (Int_call (Register_chrdev_region d n _) r) R = (if r < 0 then R else (d, n) # R)"
| "range_step (Void_call (Unregister_chrdev_region d n)) R = remove1 (d, n) R"
| "range_step _ R = R"

definition covers :: "u32 \<Rightarrow> u32 \<times> nat \<Rightarrow> bool" where
  "covers d r \<longleftrightarrow> uint (fst r) \<le> uint d \<and> uint d < uint (fst r) + int (snd r)"

definition ranges :: "kevent list \<Rightarrow> (u32 \<times> nat) list" where
  "ranges h = fold range_step h []"

lemma ranges_append: "ranges (h @ es) = fold range_step es (ranges h)"
  by (simp add: ranges_def)

definition taken :: "u32 \<Rightarrow> kevent list \<Rightarrow> (u32 \<times> nat) list" where
  "taken d h = filter (covers d) (ranges h)"

lemma covers_one [simp]: "covers d (d', 1) \<longleftrightarrow> d' = d" "covers d (d', Suc 0) \<longleftrightarrow> d' = d"
  by (auto simp: covers_def word_uint_eq_iff)

text \<open>
  Documented behaviour of the registry: a number that no range covers can be registered, and a cdev can
  be added on one number.
\<close>

definition number_registry :: "kenv \<Rightarrow> bool" where
  "number_registry E \<longleftrightarrow> (\<forall>h d nm. taken d h = [] \<longrightarrow> 0 \<le> int_ret E h (Register_chrdev_region d 1 nm)) \<and>
     (\<forall>h c d. 0 \<le> int_ret E h (Cdev_add c d 1))"

text \<open>A module that claims one fixed device number when it is loaded and gives it back when it goes.\<close>

locale numbered_module = kmodule minit mexit call holds "\<lambda>E. True"
  for minit :: "kenv \<Rightarrow> ('a kst_scheme, fault + int) state"
    and mexit :: "kenv \<Rightarrow> ('a kst_scheme, unit) state"
    and call :: "kenv \<Rightarrow> 'c \<Rightarrow> ('a kst_scheme, fault option) state"
    and holds :: "'a kst_scheme \<Rightarrow> resource list" +
  fixes num :: "kenv \<Rightarrow> u32" and owns :: "kenv \<Rightarrow> 'a kst_scheme \<Rightarrow> bool"
  assumes num_view: "num (view E H own) = num E" and owns_view: "owns (view E H own) s = owns E s"
    and init_ranges: "run_state (minit E) s = (x, s') \<Longrightarrow>
      \<exists>es r. klog s' = klog s @ es \<and> x = Inr r \<and> (0 \<le> r \<longrightarrow> owns E s') \<and>
        (\<forall>R. fold range_step es R = (if r < 0 then R else (num E, 1) # R))"
    and call_ranges: "run_state (call E c) s = (f, s') \<Longrightarrow> owns E s \<Longrightarrow>
      \<exists>es. klog s' = klog s @ es \<and> owns E s' \<and> (\<forall>R. fold range_step es R = R)"
    and exit_ranges: "run_state (mexit E) s = (u, s') \<Longrightarrow> owns E s \<Longrightarrow>
      \<exists>es. klog s' = klog s @ es \<and> (\<forall>R. fold range_step es R = remove1 (num E, 1) R)"
    and init_accepted: "(\<forall>nm. 0 \<le> int_ret E (klog s) (Register_chrdev_region (num E) 1 nm)) \<Longrightarrow>
      (\<forall>h c d. 0 \<le> int_ret E h (Cdev_add c d 1)) \<Longrightarrow> fst (run_state (minit E) s) = Inr 0"
begin

text \<open>Whatever the registry answers, a loaded module has its number, and holds what it says it holds.\<close>

definition sound :: "kenv \<Rightarrow> modstat \<Rightarrow> 'a kst_scheme \<Rightarrow> bool" where
  "sound E l s \<longleftrightarrow> wf E l s \<and> (l = Loaded \<longrightarrow> owns E s)"

lemma sound_status: "sound E l s \<Longrightarrow> l = Unloaded \<or> l = Loaded"
  by (cases l) (auto simp: sound_def)

lemma sound_start: "klog s = [] \<Longrightarrow> sound E Unloaded s"
  by (simp add: sound_def held_def)

text \<open>A step keeps that; it moves the registry by taking the number, by giving it back, or not at all.\<close>

lemma step_sound:
  assumes "sound E l s" and step: "mod_step (view E H own) zero minit mexit call (l, s) (l', s')"
  shows "sound E l' s' \<and> (\<exists>es. klog s' = klog s @ es \<and> (\<forall>R. fold range_step es R =
    (if l = Unloaded \<and> l' = Loaded then (num E, 1) # R else if l = Loaded \<and> l' = Unloaded then remove1 (num E, 1) R else R)))"
proof -
  have wf: "wf E l' s'" using step_wf [OF _ TrueI step] assms(1) by (simp add: sound_def)
  from sound_status [OF assms(1)] show ?thesis
  proof
    assume l: "l = Unloaded"
    with step obtain x where run: "run_state (minit (view E H own)) (fresh zero s) = (x, s')"
        and l': "l' = (case x of Inl f \<Rightarrow> Crashed f | Inr r \<Rightarrow> if r < 0 then Unloaded else Loaded)"
      by (auto elim!: step_unloadedE)
    obtain es r where "klog s' = klog s @ es" "x = Inr r" "0 \<le> r \<longrightarrow> owns E s'"
        "\<forall>R. fold range_step es R = (if r < 0 then R else (num E, 1) # R)"
      using init_ranges [OF run] by (auto simp: num_view owns_view)
    with l l' wf show ?thesis by (auto simp: sound_def)
  next
    assume l: "l = Loaded"
    then have own: "owns (view E H own) s" using assms(1) by (simp add: sound_def owns_view)
    from step l consider c f where "run_state (call (view E H own) c) s = (f, s')" "l' = (case f of None \<Rightarrow> Loaded | Some f \<Rightarrow> Crashed f)"
      | "run_state (mexit (view E H own)) s = ((), s')" "l' = Unloaded"
      by (auto elim!: step_loadedE)
    then show ?thesis
    proof cases
      case 1
      then have "l' = Loaded" using wf by (cases f) auto
      with call_ranges [OF 1(1) own] l wf show ?thesis by (auto simp: sound_def owns_view)
    next
      case 2
      with exit_ranges [OF 2(1) own] l wf show ?thesis by (auto simp: sound_def num_view)
    qed
  qed
qed

text \<open>
  The state of a module and the registry agree when its number is covered by its own range exactly while
  it is loaded. A step of the module keeps that, and touches no other number.
\<close>

definition agrees :: "kenv \<Rightarrow> modstat \<Rightarrow> 'a kst_scheme \<Rightarrow> kevent list \<Rightarrow> bool" where
  "agrees E l s H \<longleftrightarrow> sound E l s \<and> taken (num E) H = (if l = Loaded then [(num E, 1)] else [])"

lemma agrees_other: "agrees E l s H \<Longrightarrow> taken (num E) H' = taken (num E) H \<Longrightarrow> agrees E l s H'"
  by (simp add: agrees_def)

lemma step_agrees:
  assumes "agrees E l s H" and step: "mod_step (view E H (klog s)) zero minit mexit call (l, s) (l', s')"
  defines "H' \<equiv> H @ drop (length (klog s)) (klog s')"
  shows "agrees E l' s' H' \<and> (\<forall>d. d \<noteq> num E \<longrightarrow> taken d H' = taken d H)"
proof -
  have sound: "sound E l s" using assms(1) by (simp add: agrees_def)
  from step_sound [OF this step] obtain es where es: "sound E l' s'" "klog s' = klog s @ es"
    "\<forall>R. fold range_step es R = (if l = Unloaded \<and> l' = Loaded then (num E, 1) # R
      else if l = Loaded \<and> l' = Unloaded then remove1 (num E, 1) R else R)" by blast
  then have "H' = H @ es" by (simp add: H'_def)
  with es assms(1) sound_status [OF sound] sound_status [OF es(1)] show ?thesis
    by (auto simp: agrees_def ranges_append taken_def filter_remove1)
qed

text \<open>An unloaded module can always be loaded where the registry gives out free numbers.\<close>

lemma loads:
  assumes "agrees E Unloaded s H" and "number_registry E"
  shows "fst (run_state (minit (view E H (klog s))) (fresh zero s)) = Inr 0"
  using assms by (intro init_accepted) (simp_all add: agrees_def number_registry_def num_view)

end

end
