(* ===== verification/Bytes.thy ===== *)
theory Bytes
  imports Prelude
begin

text \<open>
  Integers as bytes in both byte orders, fields of a byte buffer, and C strings in buffers whose
  bytes may be uninitialised. The code runs on a little-endian machine: storing an integer through
  a pointer writes \<open>le16\<close> or \<open>le32\<close>, and \<open>htons\<close> is what turns it into network order.
\<close>

section \<open>Byte orders\<close>

definition le16 :: "u16 \<Rightarrow> u8 list" where
  "le16 w = [ucast w, ucast (drop_bit 8 w)]"

definition le32 :: "u32 \<Rightarrow> u8 list" where
  "le32 w = [ucast w, ucast (drop_bit 8 w), ucast (drop_bit 16 w), ucast (drop_bit 24 w)]"

fun of_le16 :: "u8 list \<Rightarrow> u16" where
  "of_le16 [] = 0"
| "of_le16 (b # bs) = ucast b OR push_bit 8 (of_le16 bs)"

fun of_le32 :: "u8 list \<Rightarrow> u32" where
  "of_le32 [] = 0"
| "of_le32 (b # bs) = ucast b OR push_bit 8 (of_le32 bs)"

definition of_be16 :: "u8 list \<Rightarrow> u16" where
  "of_be16 bs = of_le16 (rev bs)"

definition htons :: "u16 \<Rightarrow> u16" where
  "htons w = of_le16 (rev (le16 w))"

lemma length_le16 [simp]: "length (le16 w) = 2"
  by (simp add: le16_def)

lemma length_le32 [simp]: "length (le32 w) = 4"
  by (simp add: le32_def)

lemma length2: "length bs = 2 \<longleftrightarrow> (\<exists>a b. bs = [a, b])"
  by (auto simp: length_Suc_conv numeral_eq_Suc)

lemma length4: "length bs = 4 \<longleftrightarrow> (\<exists>a b c d. bs = [a, b, c, d])"
  by (auto simp: length_Suc_conv numeral_eq_Suc)

lemma bit_of_le16: "n < 16 \<Longrightarrow> bit (of_le16 [a, b]) n \<longleftrightarrow> (if n < 8 then bit a n else bit b (n - 8))"
  by (auto simp: bit_simps simp del: push_bit_or dest: bit_imp_le_length)

lemma bit_of_le32: "n < 32 \<Longrightarrow> bit (of_le32 [a, b, c, d]) n \<longleftrightarrow>
    (if n < 8 then bit a n else if n < 16 then bit b (n - 8) else if n < 24 then bit c (n - 16) else bit d (n - 24))"
  by (auto simp: bit_simps simp del: push_bit_or dest: bit_imp_le_length)

lemma of_le16_le16 [simp]: "of_le16 (le16 w) = w"
proof (rule bit_word_eqI)
  fix n assume "n < LENGTH(16)"
  then show "bit (of_le16 (le16 w)) n \<longleftrightarrow> bit w n"
    unfolding le16_def by (subst bit_of_le16) (auto simp: bit_simps)
qed

lemma of_le32_le32 [simp]: "of_le32 (le32 w) = w"
proof (rule bit_word_eqI)
  fix n assume "n < LENGTH(32)"
  then show "bit (of_le32 (le32 w)) n \<longleftrightarrow> bit w n"
    unfolding le32_def by (subst bit_of_le32) (auto simp: bit_simps)
qed

lemma le16_of_le16: "length bs = 2 \<Longrightarrow> le16 (of_le16 bs) = bs"
  by (auto simp: length2 le16_def intro!: bit_word_eqI simp del: push_bit_or of_le16.simps)
    (auto simp: bit_simps bit_of_le16 simp del: push_bit_or of_le16.simps dest: bit_imp_le_length)

lemma le32_of_le32: "length bs = 4 \<Longrightarrow> le32 (of_le32 bs) = bs"
  by (auto simp: length4 le32_def intro!: bit_word_eqI simp del: push_bit_or of_le32.simps)
    (auto simp: bit_simps bit_of_le32 simp del: push_bit_or of_le32.simps dest: bit_imp_le_length)

text \<open>Storing \<open>htons w\<close> puts the high byte first.\<close>

lemma le16_htons: "le16 (htons w) = rev (le16 w)"
  by (simp add: htons_def le16_of_le16)

lemma of_be16_htons [simp]: "of_be16 (le16 (htons w)) = w"
  by (simp add: le16_htons of_be16_def)

lemma htons_htons [simp]: "htons (htons w) = w"
  by (simp add: htons_def [of "htons w"] le16_htons)

section \<open>Fields of a buffer\<close>

text \<open>A checked read: \<open>None\<close> is a read past the end of the buffer.\<close>

definition rd :: "'a list \<Rightarrow> nat \<Rightarrow> 'a option" where
  "rd xs i = (if i < length xs then Some (xs ! i) else None)"

definition field :: "'a list \<Rightarrow> nat \<Rightarrow> nat \<Rightarrow> 'a list" where
  "field xs i n = take n (drop i xs)"

lemma rd_Some_iff: "(\<exists>x. rd xs i = Some x) \<longleftrightarrow> i < length xs"
  by (simp add: rd_def)

text \<open>Overwriting \<open>length ys\<close> elements from index \<open>i\<close> on, inside the buffer.\<close>

definition splice :: "'a list \<Rightarrow> nat \<Rightarrow> 'a list \<Rightarrow> 'a list" where
  "splice xs i ys = take i xs @ ys @ drop (i + length ys) xs"

lemma length_splice [simp]: "i + length ys \<le> length xs \<Longrightarrow> length (splice xs i ys) = length xs"
  by (simp add: splice_def)

lemma field_splice_same: "i + length ys \<le> length xs \<Longrightarrow> field (splice xs i ys) i (length ys) = ys"
  by (simp add: splice_def field_def)

lemma nth_splice: "i + length ys \<le> length xs \<Longrightarrow> k < length xs \<Longrightarrow>
    splice xs i ys ! k = (if i \<le> k \<and> k < i + length ys then ys ! (k - i) else xs ! k)"
  by (auto simp: splice_def nth_append)

section \<open>C strings\<close>

text \<open>
  A buffer of bytes some of which were never written (\<open>None\<close>). Printing with \<open>%s\<close> reads bytes up
  to the first zero byte; reading an unwritten byte or running past the end is a fault.
\<close>

type_synonym cbuf = "u8 option list"

fun cstr :: "cbuf \<Rightarrow> u8 list option" where
  "cstr [] = None"
| "cstr (None # bs) = None"
| "cstr (Some b # bs) = (if b = 0 then Some [] else map_option ((#) b) (cstr bs))"

definition bytes_of :: "string \<Rightarrow> u8 list" where
  "bytes_of s = map of_char s"

text \<open>A string literal in memory: its characters and a zero byte.\<close>

definition cstring :: "string \<Rightarrow> u8 list" where
  "cstring s = bytes_of s @ [0]"

lemma length_bytes_of [simp]: "length (bytes_of s) = length s"
  by (simp add: bytes_of_def)

lemma length_cstring [simp]: "length (cstring s) = Suc (length s)"
  by (simp add: cstring_def)

lemma cstr_terminated: "\<exists>s. cstr (map Some bs @ Some 0 # rest) = Some s \<and> length s \<le> length bs"
  by (induction bs) auto

lemma cstr_Some_zero: "cstr b = Some s \<Longrightarrow> Some 0 \<in> set b"
  by (induction b arbitrary: s rule: cstr.induct) (auto split: if_splits)

lemma cstr_nonzero: "0 \<notin> set bs \<Longrightarrow> cstr (map Some bs @ Some 0 # rest) = Some bs"
  by (induction bs) auto

text \<open>What \<open>%s\<close> prints of a buffer: the bytes before the first zero, if no unwritten byte comes earlier.\<close>

lemma cstr_take: "cstr (map Some bs @ Some 0 # rest) = Some (takeWhile (\<lambda>b. b \<noteq> 0) bs)"
  by (induction bs) auto

lemma cstr_zero_in: "0 \<in> set bs \<Longrightarrow> cstr (map Some bs @ rest) = Some (takeWhile (\<lambda>b. b \<noteq> 0) bs)"
  by (induction bs) auto

lemma cstr_no_zero: "0 \<notin> set bs \<Longrightarrow> cstr (map Some bs @ rest) = map_option ((@) bs) (cstr rest)"
  by (cases "cstr rest"; induction bs) auto

lemma cstr_None_no_zero: "Some 0 \<notin> set b \<Longrightarrow> cstr b = None"
  using cstr_Some_zero by (cases "cstr b") auto

text \<open>A buffer over the content its memory had before: unwritten bytes keep the old one.\<close>

definition overlay :: "cbuf \<Rightarrow> u8 list \<Rightarrow> u8 list" where
  "overlay c old = map2 (\<lambda>b w. case b of None \<Rightarrow> w | Some v \<Rightarrow> v) c old"

lemma length_overlay [simp]: "length old = length c \<Longrightarrow> length (overlay c old) = length c"
  by (simp add: overlay_def)

lemma overlay_Some [simp]: "overlay (Some v # c) (w # old) = v # overlay c old"
  by (simp add: overlay_def)

lemma overlay_append: "length c = length old \<Longrightarrow> overlay (c @ d) (old @ old') = overlay c old @ overlay d old'"
  by (simp add: overlay_def)

lemma overlay_written: "length bs = length old \<Longrightarrow> overlay (map Some bs) old = bs"
  by (simp add: overlay_def list_eq_iff_nth_eq)

lemma overlay_unwritten: "n = length old \<Longrightarrow> overlay (replicate n None) old = old"
  by (simp add: overlay_def list_eq_iff_nth_eq)

end
