(* ===== verification/User_API.thy ===== *)
theory User_API
  imports Kernel_API Bytes
begin

text \<open>
  The interface between the user-space programs and the system. As with the kernel, the system is a
  parameter: \<open>uenv\<close> answers each call from the history of calls. A program's step appends its calls,
  what it prints and what it reports to the history. A program ends with an exit status, or with a
  fault when it reads memory it never wrote or runs past a buffer.
\<close>

section \<open>Calls and history\<close>

text \<open>
  The address of a packet socket and of a CAN socket. The argument of an ioctl: an integer, memory
  behind a pointer, or the SPI transfer request (bytes to send, room for the answer, length). \<open>struct
  termios\<close> is a block of memory whose layout is the library's.
\<close>

record sockaddr_ll =
  sll_family :: u16
  sll_protocol :: u16
  sll_ifindex :: u32
  sll_hatype :: u16
  sll_pkttype :: u8
  sll_halen :: u8
  sll_addr :: "u8 list"

record sockaddr_can =
  can_family :: u16
  can_ifindex :: u32

datatype ioctl_arg = Int_arg u32 | Pointer_to cbuf | Spi_ioc_transfer "u8 list" nat nat

text \<open>
  Every file the programs open is opened for reading and writing (\<open>O_RDWR\<close>). \<open>Sendto\<close> has no flags,
  and \<open>Tcsetattr\<close> acts at once (\<open>TCSANOW\<close>).
\<close>

datatype ucall =
    Open string
  | Socket string
  | If_nametoindex string
  | Ioctl int string ioctl_arg
  | Bind int sockaddr_can
  | Write int cbuf
  | Sendto int cbuf sockaddr_ll
  | Tcgetattr int
  | Tcsetattr int cbuf
  | Hci_get_route
  | Genl_connect kptr
  | Genl_ctrl_alloc_cache kptr
  | Nl_send_auto_complete kptr kptr
  | Nl_recvmsgs kptr
  | Sleep nat

datatype ucall_ptr = Nl_socket_alloc | Nlmsg_alloc | Malloc nat

datatype uarg = AInt int | ABytes "u8 list" | AStr string

datatype uevent =
    U_call ucall int
  | U_ptr ucall_ptr kptr
  | U_read int nat int "u8 list"
  | U_inquiry int nat nat int kptr
  | U_close int
  | U_free kptr
  | U_nl_socket_free kptr
  | U_nlmsg_free kptr
  | U_genlmsg_put kptr kptr string
  | U_nla_put_u32 kptr string u32
  | Printf string "uarg list"
  | Perror string
  | Stderr string

text \<open>
  \<open>read_data\<close> is what a read stores and \<open>xfer_data\<close> what an ioctl, or \<open>tcgetattr\<close>, stores through its
  argument; \<open>cfsetospeed\<close> is the library function that sets the output speed in a \<open>struct termios\<close>;
  \<open>new_devices\<close> and \<open>new_cache\<close> are the pointers stored through the pointer arguments of
  \<open>hci_inquiry\<close> and \<open>genl_ctrl_alloc_cache\<close>; \<open>bdaddrs\<close> are the addresses \<open>hci_inquiry\<close> found.
\<close>

record uenv =
  sys :: "uevent list \<Rightarrow> ucall \<Rightarrow> int"
  sys_ptr :: "uevent list \<Rightarrow> ucall_ptr \<Rightarrow> kptr"
  read_ret :: "uevent list \<Rightarrow> int \<Rightarrow> nat \<Rightarrow> int"
  read_data :: "uevent list \<Rightarrow> int \<Rightarrow> nat \<Rightarrow> u8 list"
  xfer_data :: "uevent list \<Rightarrow> u8 list"
  cfsetospeed :: "cbuf \<Rightarrow> u32 \<Rightarrow> cbuf"
  inquiry_ret :: "uevent list \<Rightarrow> nat \<Rightarrow> int"
  new_devices :: "uevent list \<Rightarrow> kptr"
  bdaddrs :: "uevent list \<Rightarrow> u8 list list"
  new_cache :: "uevent list \<Rightarrow> kptr"

record ust =
  ulog :: "uevent list"

definition usys :: "uenv \<Rightarrow> ucall \<Rightarrow> (ust, int) state" where
  "usys E c = State (\<lambda>s. let r = sys E (ulog s) c in (r, s\<lparr>ulog := ulog s @ [U_call c r]\<rparr>))"

definition usys_ptr :: "uenv \<Rightarrow> ucall_ptr \<Rightarrow> (ust, kptr) state" where
  "usys_ptr E c = State (\<lambda>s. let p = sys_ptr E (ulog s) c in (p, s\<lparr>ulog := ulog s @ [U_ptr c p]\<rparr>))"

text \<open>
  \<open>hci_inquiry\<close> on an adapter, for \<open>len\<close> units of time and at most \<open>n\<close> devices, with no class filter and the
  cache flushed: the number of devices found, and the pointer it stored for their array.
\<close>

definition uinquiry :: "uenv \<Rightarrow> int \<Rightarrow> nat \<Rightarrow> nat \<Rightarrow> (ust, int \<times> kptr) state" where
  "uinquiry E dev len n = State (\<lambda>s. let r = inquiry_ret E (ulog s) n; p = new_devices E (ulog s)
     in ((r, p), s\<lparr>ulog := ulog s @ [U_inquiry dev len n r p]\<rparr>))"

definition uemit :: "uevent \<Rightarrow> (ust, unit) state" where
  "uemit e = State (\<lambda>s. ((), s\<lparr>ulog := ulog s @ [e]\<rparr>))"

text \<open>A buffer after a call stored \<open>data\<close> at its front: never more than fits.\<close>

definition fill :: "cbuf \<Rightarrow> u8 list \<Rightarrow> cbuf" where
  "fill buf data = map Some (take (length buf) data) @ drop (length data) buf"

text \<open>
  \<open>read(fd, buf, n)\<close>, with \<open>n\<close> at most the buffer's size: the status, and the buffer with the bytes
  read stored at its front.
\<close>

definition uread :: "uenv \<Rightarrow> int \<Rightarrow> cbuf \<Rightarrow> nat \<Rightarrow> (ust, int \<times> cbuf) state" where
  "uread E fd buf n = State (\<lambda>s.
     let r = read_ret E (ulog s) fd n;
         data = take (nat r) (read_data E (ulog s) fd n)
     in ((r, fill buf data), s\<lparr>ulog := ulog s @ [U_read fd n r data]\<rparr>))"

lemma run_usys [simp]: "run_state (usys E c) s =
    (sys E (ulog s) c, s\<lparr>ulog := ulog s @ [U_call c (sys E (ulog s) c)]\<rparr>)"
  by (simp add: usys_def Let_def)

lemma run_usys_ptr [simp]: "run_state (usys_ptr E c) s =
    (sys_ptr E (ulog s) c, s\<lparr>ulog := ulog s @ [U_ptr c (sys_ptr E (ulog s) c)]\<rparr>)"
  by (simp add: usys_ptr_def Let_def)

lemma run_uinquiry [simp]: "run_state (uinquiry E dev len n) s =
    ((inquiry_ret E (ulog s) n, new_devices E (ulog s)),
     s\<lparr>ulog := ulog s @ [U_inquiry dev len n (inquiry_ret E (ulog s) n) (new_devices E (ulog s))]\<rparr>)"
  by (simp add: uinquiry_def Let_def)

lemma run_uemit [simp]: "run_state (uemit e) s = ((), s\<lparr>ulog := ulog s @ [e]\<rparr>)"
  by (simp add: uemit_def)

lemma run_uread [simp]: "run_state (uread E fd buf n) s =
    ((read_ret E (ulog s) fd n, fill buf (take (nat (read_ret E (ulog s) fd n)) (read_data E (ulog s) fd n))),
     s\<lparr>ulog := ulog s @ [U_read fd n (read_ret E (ulog s) fd n)
        (take (nat (read_ret E (ulog s) fd n)) (read_data E (ulog s) fd n))]\<rparr>)"
  by (simp add: uread_def Let_def)

lemma length_fill [simp]: "length (fill buf data) = max (length buf) (min (length buf) (length data))"
  by (simp add: fill_def)

lemma fill_all: "length data = length buf \<Longrightarrow> fill buf data = map Some data"
  by (simp add: fill_def)

text \<open>\<open>strcpy\<close> of a literal: its bytes and the zero byte, or a write past the buffer.\<close>

definition strcpy :: "cbuf \<Rightarrow> string \<Rightarrow> cbuf option" where
  "strcpy buf lit = (if length (cstring lit) \<le> length buf then Some (fill buf (cstring lit)) else None)"

text \<open>\<open>%s\<close>: the string in a buffer, or a fault.\<close>

definition show_string :: "cbuf \<Rightarrow> (u8 list \<Rightarrow> (ust, fault + 'a) state) \<Rightarrow> (ust, fault + 'a) state" where
  "show_string b k = (case cstr b of None \<Rightarrow> State_Monad.return (Inl Out_of_bounds) | Some str \<Rightarrow> k str)"

section \<open>Documented behaviour\<close>

text \<open>
  System calls return -1 on error, a read delivers as many bytes as it reports and no more than were
  asked for, and an inquiry reports as many addresses as it returns.
\<close>

definition system_doc :: "uenv \<Rightarrow> bool" where
  "system_doc E \<longleftrightarrow> (\<forall>h c. - 1 \<le> sys E h c) \<and>
     (\<forall>h fd n. - 1 \<le> read_ret E h fd n \<and> read_ret E h fd n \<le> int n \<and>
        nat (read_ret E h fd n) \<le> length (read_data E h fd n))"

lemma sys_error: "system_doc E \<Longrightarrow> sys E h c < 0 \<longleftrightarrow> sys E h c = - 1"
  and read_error: "system_doc E \<Longrightarrow> read_ret E h fd n < 0 \<longleftrightarrow> read_ret E h fd n = - 1"
proof -
  assume "system_doc E"
  then have "- 1 \<le> sys E h c" and "- 1 \<le> read_ret E h fd n" by (simp_all add: system_doc_def)
  then show "sys E h c < 0 \<longleftrightarrow> sys E h c = - 1" and "read_ret E h fd n < 0 \<longleftrightarrow> read_ret E h fd n = - 1"
    by linarith+
qed

lemma length_read: "system_doc E \<Longrightarrow> 0 \<le> read_ret E h fd n \<Longrightarrow>
    length (take (nat (read_ret E h fd n)) (read_data E h fd n)) = nat (read_ret E h fd n) \<and> nat (read_ret E h fd n) \<le> n"
  by (auto simp: system_doc_def nat_le_iff)

datatype uresource = Fd int | Heap kptr | Nl_sock kptr | Nl_msg kptr

definition ugot :: "bool \<Rightarrow> uresource \<Rightarrow> uresource act list" where
  "ugot ok x = (if ok then [Acq x] else [])"

fun ucall_acts :: "ucall \<Rightarrow> int \<Rightarrow> uresource act list" where
  "ucall_acts (Open _) r = ugot (0 \<le> r) (Fd r)"
| "ucall_acts (Socket _) r = ugot (0 \<le> r) (Fd r)"
| "ucall_acts (Ioctl fd _ _) r = [Use (Fd fd)]"
| "ucall_acts (Bind fd _) r = [Use (Fd fd)]"
| "ucall_acts (Write fd _) r = [Use (Fd fd)]"
| "ucall_acts (Sendto fd _ _) r = [Use (Fd fd)]"
| "ucall_acts (Tcgetattr fd) r = [Use (Fd fd)]"
| "ucall_acts (Tcsetattr fd _) r = [Use (Fd fd)]"
| "ucall_acts (If_nametoindex _) r = []"
| "ucall_acts Hci_get_route r = []"
| "ucall_acts (Genl_connect s) r = [Use (Nl_sock s)]"
| "ucall_acts (Genl_ctrl_alloc_cache s) r = [Use (Nl_sock s)]"
| "ucall_acts (Nl_send_auto_complete s m) r = [Use (Nl_sock s), Use (Nl_msg m)]"
| "ucall_acts (Nl_recvmsgs s) r = [Use (Nl_sock s)]"
| "ucall_acts (Sleep _) r = []"

fun uacts :: "uevent \<Rightarrow> uresource act list" where
  "uacts (U_call c r) = ucall_acts c r"
| "uacts (U_ptr Nl_socket_alloc p) = ugot (p \<noteq> NULL) (Nl_sock p)"
| "uacts (U_ptr Nlmsg_alloc p) = ugot (p \<noteq> NULL) (Nl_msg p)"
| "uacts (U_ptr (Malloc _) p) = ugot (p \<noteq> NULL) (Heap p)"
| "uacts (U_read fd _ _ _) = [Use (Fd fd)]"
| "uacts (U_inquiry _ _ _ r p) = ugot (0 \<le> r) (Heap p)"
| "uacts (U_free p) = [Rel (Heap p)]"
| "uacts (U_close fd) = [Rel (Fd fd)]"
| "uacts (U_nl_socket_free p) = [Rel (Nl_sock p)]"
| "uacts (U_nlmsg_free p) = [Rel (Nl_msg p)]"
| "uacts (U_genlmsg_put p _ _) = [Use (Nl_msg p)]"
| "uacts (U_nla_put_u32 p _ _) = [Use (Nl_msg p)]"
| "uacts _ = []"

definition uheld :: "ust \<Rightarrow> uresource list option" where
  "uheld s = track uacts (ulog s) []"

lemmas uheld_simps = uheld_def track_append track_Cons ugot_def

lemma opened: "system_doc E \<Longrightarrow> sys E h c \<noteq> - 1 \<Longrightarrow> ugot (0 \<le> sys E h c) x = [Acq x]"
  using sys_error [of E h c] by (auto simp: ugot_def)

section \<open>Programs\<close>

text \<open>
  What a program that ends owes the system: nothing it opened is still open, nothing was used after
  it was closed, and its result is an exit status or a fault.
\<close>

locale tidy_program =
  fixes main :: "uenv \<Rightarrow> (ust, fault + int) state"
    and admissible :: "uenv \<Rightarrow> bool"
  assumes tidy: "admissible E \<Longrightarrow> run_state (main E) s = (Inr r, s') \<Longrightarrow> uheld s = Some st \<Longrightarrow> uheld s' = Some st"
begin

text \<open>Running it again and again, as a shell loop does, until it faults.\<close>

lemma tidy_runs:
  assumes "admissible E" and "uheld s = Some st"
    and "\<And>k. k < n \<Longrightarrow> \<exists>r. fst (run_state (main E) (((\<lambda>s. snd (run_state (main E) s)) ^^ k) s)) = Inr r"
  shows "uheld (((\<lambda>s. snd (run_state (main E) s)) ^^ n) s) = Some st"
  using assms(3)
proof (induction n)
  case 0
  then show ?case by (simp add: assms)
next
  case (Suc n)
  let ?s = "((\<lambda>s. snd (run_state (main E) s)) ^^ n) s"
  from Suc.prems [of n] obtain r where "fst (run_state (main E) ?s) = Inr r" by auto
  moreover have "uheld ?s = Some st" using Suc by simp
  ultimately show ?case
    using tidy [OF assms(1)] by (metis comp_apply funpow.simps(2) prod.collapse)
qed

end

text \<open>A system in which every call succeeds.\<close>

fun lab_sys :: "ucall \<Rightarrow> int" where
  "lab_sys (Open _) = 3"
| "lab_sys (Socket _) = 4"
| "lab_sys (Write _ b) = int (length b)"
| "lab_sys (Sendto _ b _) = int (length b)"
| "lab_sys (If_nametoindex _) = 2"
| "lab_sys _ = 0"

definition lab_system :: uenv where
  "lab_system = \<lparr>sys = (\<lambda>h. lab_sys), sys_ptr = (\<lambda>h c. case c of Nl_socket_alloc \<Rightarrow> 0x100 | Nlmsg_alloc \<Rightarrow> 0x200 | Malloc _ \<Rightarrow> 0x500),
     read_ret = (\<lambda>h fd n. min (int n) 2), read_data = (\<lambda>h fd n. replicate (min n 2) 65),
     xfer_data = (\<lambda>h. [1, 2, 3]), cfsetospeed = (\<lambda>t v. fill t (le32 v)), inquiry_ret = (\<lambda>h n. 2), new_devices = (\<lambda>h. 0x300), bdaddrs = (\<lambda>h. [replicate 6 1, replicate 6 2]),
     new_cache = (\<lambda>h. 0x400)\<rparr>"

lemma lab_system_doc: "system_doc lab_system"
proof -
  have "- 1 \<le> lab_sys c" for c by (cases c) auto
  then show ?thesis by (auto simp: system_doc_def lab_system_def)
qed

lemma lab_system_sel:
  "sys lab_system h c = lab_sys c" "read_ret lab_system h fd n = min (int n) 2"
  "read_data lab_system h fd n = replicate (min n 2) 65" "xfer_data lab_system h = [1, 2, 3]"
  "cfsetospeed lab_system t v = fill t (le32 v)"
  "inquiry_ret lab_system h n = 2" "new_devices lab_system h = 0x300"
  "bdaddrs lab_system h = [replicate 6 1, replicate 6 2]" "new_cache lab_system h = 0x400"
  "sys_ptr lab_system h Nl_socket_alloc = 0x100" "sys_ptr lab_system h Nlmsg_alloc = 0x200" "sys_ptr lab_system h (Malloc m) = 0x500"
  by (simp_all add: lab_system_def)

definition fresh_process :: ust where
  "fresh_process = \<lparr>ulog = []\<rparr>"

lemma fresh_process [simp]: "ulog fresh_process = []" "uheld fresh_process = Some []"
  by (simp_all add: fresh_process_def uheld_def)

end
