(* ===== verification/Char_Device.thy ===== *)
theory Char_Device
  imports Shared_Kernel User_API
begin

text \<open>
  What a character driver owes the programs that open its device file: the status of a read or write
  never exceeds what was asked for, and a read that reports some bytes has copied that many to the
  user. The locale \<open>char_device\<close> states it over the operations table; from it follows that a system
  whose device file is served by the driver keeps the documented types of its calls.
\<close>

section \<open>What reached the user\<close>

text \<open>The copy function answers with the number of bytes at the end it did not copy.\<close>

fun copied :: "kevent \<Rightarrow> u8 list" where
  "copied (Copy_to_user _ bs left) = take (length bs - left) bs"
| "copied _ = []"

definition delivered :: "kevent list \<Rightarrow> u8 list" where
  "delivered h = concat (map copied h)"

lemma delivered_simps [simp]:
  "delivered [] = []" "delivered (e # h) = copied e @ delivered h" "delivered (g @ h) = delivered g @ delivered h"
  by (simp_all add: delivered_def)

section \<open>A system that ends in a driver\<close>

text \<open>
  A process whose open, write, read and close calls all go to one device file. What the driver has
  seen of the process is its history replayed: a descriptor that was opened, each write and read,
  and the last close, which releases the device. (The open handlers here always succeed, so an open
  that failed never reached the driver.)
\<close>

fun fcall_of :: "kptr \<Rightarrow> uevent \<Rightarrow> fcall option" where
  "fcall_of p (U_call (Open _) r) = (if 0 \<le> r then Some F_open else None)"
| "fcall_of p (U_call (Write _ b) r) = Some (F_write p (word_of_nat (length b)))"
| "fcall_of p (U_read _ n _ _) = Some (F_read p (word_of_nat n))"
| "fcall_of p (U_close _) = Some F_release"
| "fcall_of p _ = None"

definition drive :: "kenv \<Rightarrow> 's file_operations \<Rightarrow> fcall option \<Rightarrow> 's \<Rightarrow> 's" where
  "drive E ops c s = (case c of None \<Rightarrow> s | Some c \<Rightarrow> snd (run_state (vfs E ops c) s))"

definition replay :: "kenv \<Rightarrow> 's file_operations \<Rightarrow> kptr \<Rightarrow> uevent list \<Rightarrow> 's \<Rightarrow> 's" where
  "replay E ops p h ds = fold (\<lambda>e. drive E ops (fcall_of p e)) h ds"

lemma replay_simps [simp]:
  "replay E ops p [] ds = ds" "replay E ops p (e # h) ds = replay E ops p h (drive E ops (fcall_of p e) ds)"
  "replay E ops p (g @ h) ds = replay E ops p h (replay E ops p g ds)"
  by (simp_all add: replay_def)

text \<open>
  A negative answer of the handler becomes -1, as the C library reports errors, and what a read stores
  is what the handler copied to the user.
\<close>

definition user_status :: "u64 \<Rightarrow> int" where
  "user_status r = (if sint r < 0 then - 1 else sint r)"

definition via_driver ::
  "kenv \<Rightarrow> ('a kst_scheme) file_operations \<Rightarrow> 'a kst_scheme \<Rightarrow> kptr \<Rightarrow> uenv \<Rightarrow> uenv" where
  "via_driver E ops ds p U =
     (let now = (\<lambda>h. replay E ops p h ds);
          answer = (\<lambda>h c. fst (run_state (vfs E ops c) (now h)))
      in U\<lparr>
        sys := (\<lambda>h c. case c of
            Open _ \<Rightarrow> if sint (answer h F_open) < 0 then - 1 else sys U h c
          | Write _ b \<Rightarrow> user_status (answer h (F_write p (word_of_nat (length b))))
          | _ \<Rightarrow> sys U h c),
        read_ret := (\<lambda>h fd n. user_status (answer h (F_read p (word_of_nat n)))),
        read_data := (\<lambda>h fd n. delivered (drop (length (klog (now h)))
          (klog (snd (run_state (vfs E ops (F_read p (word_of_nat n))) (now h))))))\<rparr>)"

lemma user_status_ge: "- 1 \<le> user_status r"
  by (simp add: user_status_def)

section \<open>The contract\<close>

text \<open>The kernel's answer for a null handler is a negative errno.\<close>

definition no_handler_error :: "kenv \<Rightarrow> bool" where
  "no_handler_error E \<longleftrightarrow> (\<forall>p n. sint (no_handler E (F_read p n)) < 0 \<and> sint (no_handler E (F_write p n)) < 0)"

locale char_device =
  fixes ops :: "kenv \<Rightarrow> ('a kst_scheme) file_operations"
    and ok :: "kenv \<Rightarrow> bool"
  assumes read_typed: "ok E \<Longrightarrow> run_state (vfs E (ops E) (F_read p n)) s = (r, s') \<Longrightarrow> 0 \<le> sint r \<Longrightarrow>
      sint r \<le> uint n \<and> nat (sint r) \<le> length (delivered (drop (length (klog s)) (klog s')))"
begin

lemma typed_system:
  assumes "ok E" and sys: "\<And>h c. - 1 \<le> sys U h c"
  shows "system_doc (via_driver E (ops E) ds p U)"
proof -
  let ?D = "via_driver E (ops E) ds p U"
  have s: "- 1 \<le> sys ?D h c" for h c
    using sys user_status_ge by (simp add: via_driver_def Let_def split: ucall.split)
  have rd: "- 1 \<le> read_ret ?D h fd n \<and> read_ret ?D h fd n \<le> int n \<and>
    nat (read_ret ?D h fd n) \<le> length (read_data ?D h fd n)" for h fd n
  proof -
    obtain r s' where run: "run_state (vfs E (ops E) (F_read p (word_of_nat n))) (replay E (ops E) p h ds) = (r, s')"
      by fastforce
    have n: "uint (word_of_nat n :: u64) \<le> int n" by (simp add: unsigned_of_nat take_bit_nat_less_eq_self)
    show ?thesis
    proof (cases "sint r < 0")
      case True
      then show ?thesis by (simp add: via_driver_def Let_def run user_status_def)
    next
      case False
      with read_typed [OF assms(1) run] n show ?thesis by (simp add: via_driver_def Let_def run user_status_def)
    qed
  qed
  show ?thesis unfolding system_doc_def using s rd by blast
qed

end

text \<open>A driver without a read handler, and one that reports an empty read, meet the contract.\<close>

lemma char_device_no_read: "(\<And>E. fo_read (ops E) = None) \<Longrightarrow> char_device ops no_handler_error"
  by unfold_locales (auto simp: vfs_def Let_def no_handler_error_def not_less [symmetric])

lemma char_device_empty_read:
  assumes "\<And>E p n. \<exists>m. fo_read (ops E) = Some m \<and> (\<forall>s. fst (run_state (m p n) s) = 0)"
  shows "char_device ops (\<lambda>E. True)"
proof
  fix E p n s r s'
  assume run: "run_state (vfs E (ops E) (F_read p n)) s = (r, s')"
  obtain m where "fo_read (ops E) = Some m" "fst (run_state (m p n) s) = 0" using assms by blast
  with run have "r = 0" by (simp add: vfs_def Let_def)
  then show "sint r \<le> uint n \<and> nat (sint r) \<le> length (delivered (drop (length (klog s)) (klog s')))" by simp
qed

end
