(* ===== verification/Can_Driver.thy ===== *)
theory Can_Driver
  imports Char_Device
begin

text \<open>
  \<open>MyCanDriver.c\<close>: a character device under the fixed major number 250 with stub file
  operations.
\<close>

record can_state = kst +
  can_dev :: u32

text \<open>The static variables as the file initialises them.\<close>

definition can_zero :: can_state where
  "can_zero = \<lparr>klog = [], can_dev = 0\<rparr>"

definition can_DEV_NAME :: string where "can_DEV_NAME = ''mycandevice''"
definition can_MAJOR_NUM :: nat where "can_MAJOR_NUM = 250"
definition can_MINOR_NUM :: nat where "can_MINOR_NUM = 0"
definition can_NUM_MINORS :: nat where "can_NUM_MINORS = 1"

abbreviation can_cdev :: obj where "can_cdev \<equiv> Addr_of ''cdev''"

definition can_open :: "('a kst_scheme, int) state" where
  "can_open = do { kvoid (Printk KERN_INFO (ln ''CAN device opened'') []); State_Monad.return 0 }"

definition can_release :: "('a kst_scheme, int) state" where
  "can_release = do { kvoid (Printk KERN_INFO (ln ''CAN device closed'') []); State_Monad.return 0 }"

definition can_read :: "kptr \<Rightarrow> u64 \<Rightarrow> ('a kst_scheme, u64) state" where
  "can_read buf len = State_Monad.return 0"

definition can_write :: "kptr \<Rightarrow> u64 \<Rightarrow> ('a kst_scheme, u64) state" where
  "can_write buf len = State_Monad.return len"

definition can_fops :: "('a kst_scheme) file_operations" where
  "can_fops = \<lparr>fo_owner = True, fo_open = Some can_open, fo_release = Some can_release,
     fo_read = Some can_read, fo_write = Some can_write, fo_ioctl = None\<rparr>"

definition can_init :: "kenv \<Rightarrow> (can_state, int) state" where
  "can_init E = do {
     let d = MKDEV E can_MAJOR_NUM can_MINOR_NUM;
     upd (can_dev_update (\<lambda>_. d));
     ret \<leftarrow> kint E (Register_chrdev_region d can_NUM_MINORS can_DEV_NAME);
     if ret < 0 then do {
       kvoid (Printk KERN_ERR (ln ''Failed to register device'') []);
       State_Monad.return ret
     } else do {
       kvoid (Cdev_init can_cdev ''can_fops'');
       kvoid (Cdev_set_owner can_cdev);
       ret \<leftarrow> kint E (Cdev_add can_cdev d can_NUM_MINORS);
       if ret < 0 then do {
         kvoid (Unregister_chrdev_region d can_NUM_MINORS);
         kvoid (Printk KERN_ERR (ln ''Failed to add device'') []);
         State_Monad.return ret
       } else do {
         kvoid (Printk KERN_INFO (ln ''CAN device driver initialized'') []);
         State_Monad.return 0
       }
     }
   }"

definition can_exit :: "kenv \<Rightarrow> (can_state, unit) state" where
  "can_exit E = do {
     kvoid (Cdev_del can_cdev);
     d \<leftarrow> reads can_dev;
     kvoid (Unregister_chrdev_region d can_NUM_MINORS);
     kvoid (Printk KERN_INFO (ln ''CAN device driver exited'') [])
   }"

lemmas can_prog [prog] = can_open_def can_release_def can_read_def can_write_def can_fops_def
  can_init_def can_exit_def

definition can_call :: "kenv \<Rightarrow> fcall \<Rightarrow> (can_state, fault option) state" where
  "can_call E = fop_call E can_fops"

definition can_holds :: "can_state \<Rightarrow> resource list" where
  "can_holds s = [Cdev_live can_cdev, Region (can_dev s) can_NUM_MINORS]"

lemma can_init_law:
  "run_state (can_init E) s = (r, s') \<Longrightarrow> held E s = Some st \<Longrightarrow>
   held E s' = Some (if r < 0 then st else can_holds s' @ st)"
  by (auto simp: prog Let_def can_holds_def held_simps split: if_splits)

lemma can_call_law:
  "run_state (can_call E c) s = (f, s') \<Longrightarrow> held E s = Some (can_holds s @ st) \<Longrightarrow>
   f = None \<and> held E s' = Some (can_holds s' @ st)"
  by (auto simp: can_call_def call_simps prog can_holds_def held_simps split: fcall.splits)

lemma can_exit_law:
  "run_state (can_exit E) s = (u, s') \<Longrightarrow> held E s = Some (can_holds s @ st) \<Longrightarrow> held E s' = Some st"
  by (auto simp: prog can_holds_def held_simps)

definition can_about :: module_about where
  "can_about = \<lparr>MODULE_LICENSE = ''GPL'', MODULE_AUTHOR = Some ''Your Name'',
     MODULE_DESCRIPTION = Some ''CAN Protocol Device Driver'', MODULE_VERSION = None\<rparr>"

definition can_module :: "can_state kernel_module" where
  "can_module = \<lparr>module_data = can_zero, module_init = (\<lambda>E. returns (can_init E)), module_exit = can_exit, about = can_about\<rparr>"

interpretation can: kmodule "\<lambda>E. returns (can_init E)" can_exit can_call can_holds "\<lambda>E. True"
  by (intro kmodule_returns) (rule can_init_law can_call_law can_exit_law, assumption+)+

interpretation can_device: char_device "\<lambda>E. can_fops" "\<lambda>E. True"
  by (rule char_device_empty_read) (simp add: can_prog)

section \<open>Properties\<close>

lemma can_loaded_dev:
  "mod_reach E can_zero (\<lambda>E. returns (can_init E)) can_exit can_call l s \<Longrightarrow> l = Loaded \<Longrightarrow> can_dev s = MKDEV E 250 0"
  by (erule reach_inv)
    (auto simp: can_prog Let_def can_MAJOR_NUM_def can_MINOR_NUM_def can_call_def call_simps split: if_splits fcall.splits)

text \<open>
  After any sequence of loads, file operations and unloads, whatever the kernel answered, the
  module holds its live cdev and device number 250:0 while loaded, and nothing otherwise.
\<close>

theorem can_lifecycle:
  assumes "mod_reach E can_zero (\<lambda>E. returns (can_init E)) can_exit can_call l s"
  shows "(l = Unloaded \<or> l = Loaded) \<and>
    held E s = Some (if l = Loaded then [Cdev_live can_cdev, Region (MKDEV E 250 0) 1] else [])"
  using can.reach_held [OF assms] can_loaded_dev [OF assms] by (simp add: can_holds_def can_NUM_MINORS_def)

theorem can_lifecycle_witness:
  "held lab_kernel (snd (run_state (can_init lab_kernel) can_zero)) =
   Some [Cdev_live can_cdev, Region (MKDEV lab_kernel 250 0) 1]"
proof -
  obtain s' where run: "run_state (can_init lab_kernel) can_zero = (0, s')"
    by (auto simp: can_prog Let_def lab_kernel_sel)
  have "mod_reach lab_kernel can_zero (\<lambda>E. returns (can_init E)) can_exit can_call Loaded s'"
    by (rule reach_loaded [of can_zero _ _ 0]) (simp add: can_zero_def, simp_all add: run)
  from can_lifecycle [OF this] run show ?thesis by simp
qed

end
