(* ===== verification/Wifi_Driver.thy ===== *)
theory Wifi_Driver
  imports Char_Device
begin

text \<open>
  \<open>Wi-fi_device_driver.c\<close>: a character device under the fixed major number 251 with stub file
  operations.
\<close>

record wifi_state = kst +
  wifi_dev :: u32

text \<open>The static variables as the file initialises them.\<close>

definition wifi_zero :: wifi_state where
  "wifi_zero = \<lparr>klog = [], wifi_dev = 0\<rparr>"

definition wifi_DEV_NAME :: string where "wifi_DEV_NAME = ''mywifidevice''"
definition wifi_MAJOR_NUM :: nat where "wifi_MAJOR_NUM = 251"
definition wifi_MINOR_NUM :: nat where "wifi_MINOR_NUM = 0"
definition wifi_NUM_MINORS :: nat where "wifi_NUM_MINORS = 1"

abbreviation wifi_cdev :: obj where "wifi_cdev \<equiv> Addr_of ''cdev''"

definition wifi_open :: "('a kst_scheme, int) state" where
  "wifi_open = do { kvoid (Printk KERN_INFO (ln ''Wi-Fi device opened'') []); State_Monad.return 0 }"

definition wifi_release :: "('a kst_scheme, int) state" where
  "wifi_release = do { kvoid (Printk KERN_INFO (ln ''Wi-Fi device closed'') []); State_Monad.return 0 }"

definition wifi_read :: "kptr \<Rightarrow> u64 \<Rightarrow> ('a kst_scheme, u64) state" where
  "wifi_read buf len = State_Monad.return 0"

definition wifi_write :: "kptr \<Rightarrow> u64 \<Rightarrow> ('a kst_scheme, u64) state" where
  "wifi_write buf len = State_Monad.return len"

definition wifi_fops :: "('a kst_scheme) file_operations" where
  "wifi_fops = \<lparr>fo_owner = True, fo_open = Some wifi_open, fo_release = Some wifi_release,
     fo_read = Some wifi_read, fo_write = Some wifi_write, fo_ioctl = None\<rparr>"

definition wifi_init :: "kenv \<Rightarrow> (wifi_state, int) state" where
  "wifi_init E = do {
     let d = MKDEV E wifi_MAJOR_NUM wifi_MINOR_NUM;
     upd (wifi_dev_update (\<lambda>_. d));
     ret \<leftarrow> kint E (Register_chrdev_region d wifi_NUM_MINORS wifi_DEV_NAME);
     if ret < 0 then do {
       kvoid (Printk KERN_ERR (ln ''Failed to register device'') []);
       State_Monad.return ret
     } else do {
       kvoid (Cdev_init wifi_cdev ''wifi_fops'');
       kvoid (Cdev_set_owner wifi_cdev);
       ret \<leftarrow> kint E (Cdev_add wifi_cdev d wifi_NUM_MINORS);
       if ret < 0 then do {
         kvoid (Unregister_chrdev_region d wifi_NUM_MINORS);
         kvoid (Printk KERN_ERR (ln ''Failed to add device'') []);
         State_Monad.return ret
       } else do {
         kvoid (Printk KERN_INFO (ln ''Wi-Fi device driver initialized'') []);
         State_Monad.return 0
       }
     }
   }"

definition wifi_exit :: "kenv \<Rightarrow> (wifi_state, unit) state" where
  "wifi_exit E = do {
     kvoid (Cdev_del wifi_cdev);
     d \<leftarrow> reads wifi_dev;
     kvoid (Unregister_chrdev_region d wifi_NUM_MINORS);
     kvoid (Printk KERN_INFO (ln ''Wi-Fi device driver exited'') [])
   }"

lemmas wifi_prog [prog] = wifi_open_def wifi_release_def wifi_read_def wifi_write_def wifi_fops_def
  wifi_init_def wifi_exit_def

definition wifi_call :: "kenv \<Rightarrow> fcall \<Rightarrow> (wifi_state, fault option) state" where
  "wifi_call E = fop_call E wifi_fops"

definition wifi_holds :: "wifi_state \<Rightarrow> resource list" where
  "wifi_holds s = [Cdev_live wifi_cdev, Region (wifi_dev s) wifi_NUM_MINORS]"

lemma wifi_init_law:
  "run_state (wifi_init E) s = (r, s') \<Longrightarrow> held E s = Some st \<Longrightarrow>
   held E s' = Some (if r < 0 then st else wifi_holds s' @ st)"
  by (auto simp: prog Let_def wifi_holds_def held_simps split: if_splits)

lemma wifi_call_law:
  "run_state (wifi_call E c) s = (f, s') \<Longrightarrow> held E s = Some (wifi_holds s @ st) \<Longrightarrow>
   f = None \<and> held E s' = Some (wifi_holds s' @ st)"
  by (auto simp: wifi_call_def call_simps prog wifi_holds_def held_simps split: fcall.splits)

lemma wifi_exit_law:
  "run_state (wifi_exit E) s = (u, s') \<Longrightarrow> held E s = Some (wifi_holds s @ st) \<Longrightarrow> held E s' = Some st"
  by (auto simp: prog wifi_holds_def held_simps)

definition wifi_about :: module_about where
  "wifi_about = \<lparr>MODULE_LICENSE = ''GPL'', MODULE_AUTHOR = Some ''Your Name'',
     MODULE_DESCRIPTION = Some ''Wi-Fi Protocol Device Driver'', MODULE_VERSION = None\<rparr>"

definition wifi_module :: "wifi_state kernel_module" where
  "wifi_module = \<lparr>module_data = wifi_zero, module_init = (\<lambda>E. returns (wifi_init E)), module_exit = wifi_exit, about = wifi_about\<rparr>"

interpretation wifi: kmodule "\<lambda>E. returns (wifi_init E)" wifi_exit wifi_call wifi_holds "\<lambda>E. True"
  by (intro kmodule_returns) (rule wifi_init_law wifi_call_law wifi_exit_law, assumption+)+

interpretation wifi_device: char_device "\<lambda>E. wifi_fops" "\<lambda>E. True"
  by (rule char_device_empty_read) (simp add: wifi_prog)

section \<open>Properties\<close>

lemma wifi_loaded_dev:
  "mod_reach E wifi_zero (\<lambda>E. returns (wifi_init E)) wifi_exit wifi_call l s \<Longrightarrow> l = Loaded \<Longrightarrow> wifi_dev s = MKDEV E 251 0"
  by (erule reach_inv)
    (auto simp: wifi_prog Let_def wifi_MAJOR_NUM_def wifi_MINOR_NUM_def wifi_call_def call_simps split: if_splits fcall.splits)

text \<open>
  After any sequence of loads, file operations and unloads, whatever the kernel answered, the
  module holds its live cdev and device number 251:0 while loaded, and nothing otherwise.
\<close>

theorem wifi_lifecycle:
  assumes "mod_reach E wifi_zero (\<lambda>E. returns (wifi_init E)) wifi_exit wifi_call l s"
  shows "(l = Unloaded \<or> l = Loaded) \<and>
    held E s = Some (if l = Loaded then [Cdev_live wifi_cdev, Region (MKDEV E 251 0) 1] else [])"
  using wifi.reach_held [OF assms] wifi_loaded_dev [OF assms] by (simp add: wifi_holds_def wifi_NUM_MINORS_def)

theorem wifi_lifecycle_witness:
  "held lab_kernel (snd (run_state (wifi_init lab_kernel) wifi_zero)) =
   Some [Cdev_live wifi_cdev, Region (MKDEV lab_kernel 251 0) 1]"
proof -
  obtain s' where run: "run_state (wifi_init lab_kernel) wifi_zero = (0, s')"
    by (auto simp: wifi_prog Let_def lab_kernel_sel)
  have "mod_reach lab_kernel wifi_zero (\<lambda>E. returns (wifi_init E)) wifi_exit wifi_call Loaded s'"
    by (rule reach_loaded [of wifi_zero _ _ 0]) (simp add: wifi_zero_def, simp_all add: run)
  from wifi_lifecycle [OF this] run show ?thesis by simp
qed

end
