(* ===== verification/Bluetooth_Driver.thy ===== *)
theory Bluetooth_Driver
  imports Char_Device
begin

text \<open>
  \<open>MyBlutooth_Device_Driver.c\<close>: a character device under the fixed major number 252 with stub file
  operations.
\<close>

record bluetooth_state = kst +
  bluetooth_dev :: u32

text \<open>The static variables as the file initialises them.\<close>

definition bluetooth_zero :: bluetooth_state where
  "bluetooth_zero = \<lparr>klog = [], bluetooth_dev = 0\<rparr>"

definition bluetooth_DEV_NAME :: string where "bluetooth_DEV_NAME = ''mybluetoothdevice''"
definition bluetooth_MAJOR_NUM :: nat where "bluetooth_MAJOR_NUM = 252"
definition bluetooth_MINOR_NUM :: nat where "bluetooth_MINOR_NUM = 0"
definition bluetooth_NUM_MINORS :: nat where "bluetooth_NUM_MINORS = 1"

abbreviation bluetooth_cdev :: obj where "bluetooth_cdev \<equiv> Addr_of ''cdev''"

definition bluetooth_open :: "('a kst_scheme, int) state" where
  "bluetooth_open = do { kvoid (Printk KERN_INFO (ln ''Bluetooth device opened'') []); State_Monad.return 0 }"

definition bluetooth_release :: "('a kst_scheme, int) state" where
  "bluetooth_release = do { kvoid (Printk KERN_INFO (ln ''Bluetooth device closed'') []); State_Monad.return 0 }"

definition bluetooth_read :: "kptr \<Rightarrow> u64 \<Rightarrow> ('a kst_scheme, u64) state" where
  "bluetooth_read buf len = State_Monad.return 0"

definition bluetooth_write :: "kptr \<Rightarrow> u64 \<Rightarrow> ('a kst_scheme, u64) state" where
  "bluetooth_write buf len = State_Monad.return len"

definition bluetooth_fops :: "('a kst_scheme) file_operations" where
  "bluetooth_fops = \<lparr>fo_owner = True, fo_open = Some bluetooth_open, fo_release = Some bluetooth_release,
     fo_read = Some bluetooth_read, fo_write = Some bluetooth_write, fo_ioctl = None\<rparr>"

definition bluetooth_init :: "kenv \<Rightarrow> (bluetooth_state, int) state" where
  "bluetooth_init E = do {
     let d = MKDEV E bluetooth_MAJOR_NUM bluetooth_MINOR_NUM;
     upd (bluetooth_dev_update (\<lambda>_. d));
     ret \<leftarrow> kint E (Register_chrdev_region d bluetooth_NUM_MINORS bluetooth_DEV_NAME);
     if ret < 0 then do {
       kvoid (Printk KERN_ERR (ln ''Failed to register device'') []);
       State_Monad.return ret
     } else do {
       kvoid (Cdev_init bluetooth_cdev ''bluetooth_fops'');
       kvoid (Cdev_set_owner bluetooth_cdev);
       ret \<leftarrow> kint E (Cdev_add bluetooth_cdev d bluetooth_NUM_MINORS);
       if ret < 0 then do {
         kvoid (Unregister_chrdev_region d bluetooth_NUM_MINORS);
         kvoid (Printk KERN_ERR (ln ''Failed to add device'') []);
         State_Monad.return ret
       } else do {
         kvoid (Printk KERN_INFO (ln ''Bluetooth device driver initialized'') []);
         State_Monad.return 0
       }
     }
   }"

definition bluetooth_exit :: "kenv \<Rightarrow> (bluetooth_state, unit) state" where
  "bluetooth_exit E = do {
     kvoid (Cdev_del bluetooth_cdev);
     d \<leftarrow> reads bluetooth_dev;
     kvoid (Unregister_chrdev_region d bluetooth_NUM_MINORS);
     kvoid (Printk KERN_INFO (ln ''Bluetooth device driver exited'') [])
   }"

lemmas bluetooth_prog [prog] = bluetooth_open_def bluetooth_release_def bluetooth_read_def bluetooth_write_def bluetooth_fops_def
  bluetooth_init_def bluetooth_exit_def

definition bluetooth_call :: "kenv \<Rightarrow> fcall \<Rightarrow> (bluetooth_state, fault option) state" where
  "bluetooth_call E = fop_call E bluetooth_fops"

definition bluetooth_holds :: "bluetooth_state \<Rightarrow> resource list" where
  "bluetooth_holds s = [Cdev_live bluetooth_cdev, Region (bluetooth_dev s) bluetooth_NUM_MINORS]"

lemma bluetooth_init_law:
  "run_state (bluetooth_init E) s = (r, s') \<Longrightarrow> held E s = Some st \<Longrightarrow>
   held E s' = Some (if r < 0 then st else bluetooth_holds s' @ st)"
  by (auto simp: prog Let_def bluetooth_holds_def held_simps split: if_splits)

lemma bluetooth_call_law:
  "run_state (bluetooth_call E c) s = (f, s') \<Longrightarrow> held E s = Some (bluetooth_holds s @ st) \<Longrightarrow>
   f = None \<and> held E s' = Some (bluetooth_holds s' @ st)"
  by (auto simp: bluetooth_call_def call_simps prog bluetooth_holds_def held_simps split: fcall.splits)

lemma bluetooth_exit_law:
  "run_state (bluetooth_exit E) s = (u, s') \<Longrightarrow> held E s = Some (bluetooth_holds s @ st) \<Longrightarrow> held E s' = Some st"
  by (auto simp: prog bluetooth_holds_def held_simps)

definition bluetooth_about :: module_about where
  "bluetooth_about = \<lparr>MODULE_LICENSE = ''GPL'', MODULE_AUTHOR = Some ''Your Name'',
     MODULE_DESCRIPTION = Some ''Bluetooth Protocol Device Driver'', MODULE_VERSION = None\<rparr>"

definition bluetooth_module :: "bluetooth_state kernel_module" where
  "bluetooth_module = \<lparr>module_data = bluetooth_zero, module_init = (\<lambda>E. returns (bluetooth_init E)), module_exit = bluetooth_exit, about = bluetooth_about\<rparr>"

interpretation bluetooth: kmodule "\<lambda>E. returns (bluetooth_init E)" bluetooth_exit bluetooth_call bluetooth_holds "\<lambda>E. True"
  by (intro kmodule_returns) (rule bluetooth_init_law bluetooth_call_law bluetooth_exit_law, assumption+)+

interpretation bluetooth_device: char_device "\<lambda>E. bluetooth_fops" "\<lambda>E. True"
  by (rule char_device_empty_read) (simp add: bluetooth_prog)

section \<open>Properties\<close>

lemma bluetooth_loaded_dev:
  "mod_reach E bluetooth_zero (\<lambda>E. returns (bluetooth_init E)) bluetooth_exit bluetooth_call l s \<Longrightarrow> l = Loaded \<Longrightarrow> bluetooth_dev s = MKDEV E 252 0"
  by (erule reach_inv)
    (auto simp: bluetooth_prog Let_def bluetooth_MAJOR_NUM_def bluetooth_MINOR_NUM_def bluetooth_call_def call_simps split: if_splits fcall.splits)

text \<open>
  After any sequence of loads, file operations and unloads, whatever the kernel answered, the
  module holds its live cdev and device number 252:0 while loaded, and nothing otherwise.
\<close>

theorem bluetooth_lifecycle:
  assumes "mod_reach E bluetooth_zero (\<lambda>E. returns (bluetooth_init E)) bluetooth_exit bluetooth_call l s"
  shows "(l = Unloaded \<or> l = Loaded) \<and>
    held E s = Some (if l = Loaded then [Cdev_live bluetooth_cdev, Region (MKDEV E 252 0) 1] else [])"
  using bluetooth.reach_held [OF assms] bluetooth_loaded_dev [OF assms] by (simp add: bluetooth_holds_def bluetooth_NUM_MINORS_def)

theorem bluetooth_lifecycle_witness:
  "held lab_kernel (snd (run_state (bluetooth_init lab_kernel) bluetooth_zero)) =
   Some [Cdev_live bluetooth_cdev, Region (MKDEV lab_kernel 252 0) 1]"
proof -
  obtain s' where run: "run_state (bluetooth_init lab_kernel) bluetooth_zero = (0, s')"
    by (auto simp: bluetooth_prog Let_def lab_kernel_sel)
  have "mod_reach lab_kernel bluetooth_zero (\<lambda>E. returns (bluetooth_init E)) bluetooth_exit bluetooth_call Loaded s'"
    by (rule reach_loaded [of bluetooth_zero _ _ 0]) (simp add: bluetooth_zero_def, simp_all add: run)
  from bluetooth_lifecycle [OF this] run show ?thesis by simp
qed

end
