(* ===== verification/Usb_Driver.thy ===== *)
theory Usb_Driver
  imports Module_Lifecycle
begin

text \<open>\<open>USB_device_driver_v1_1.c\<close>: a USB driver that reports plug and unplug of one device id.\<close>

text \<open>The file has no static variables of its own to keep between calls.\<close>

definition usb_zero :: kst where
  "usb_zero = \<lparr>klog = []\<rparr>"

abbreviation my_usb_driver :: obj where "my_usb_driver \<equiv> Addr_of ''my_usb_driver''"

text \<open>Vendor and product ids; the table ends with an empty entry.\<close>

type_synonym usb_device_id = "u16 \<times> u16"

definition my_usb_table :: "usb_device_id list" where
  "my_usb_table = [(0x1234, 0x5678), (0, 0)]"

definition my_usb_probe :: "kptr \<Rightarrow> usb_device_id \<Rightarrow> (kst, int) state" where
  "my_usb_probe interface dev_id = do {
     kvoid (Printk KERN_INFO (ln ''USB device (%04X:%04X) plugged'') [PNat (unat (fst dev_id)), PNat (unat (snd dev_id))]);
     State_Monad.return 0
   }"

text \<open>\<open>desc\<close> is the descriptor of the device that \<open>interface_to_usbdev\<close> finds.\<close>

definition my_usb_disconnect :: "(kptr \<Rightarrow> usb_device_id) \<Rightarrow> kptr \<Rightarrow> (kst, unit) state" where
  "my_usb_disconnect desc interface =
     (let dev = desc interface
      in kvoid (Printk KERN_INFO (ln ''USB device (%04X:%04X) unplugged'') [PNat (unat (fst dev)), PNat (unat (snd dev))]))"

definition my_usb_init :: "kenv \<Rightarrow> (kst, int) state" where
  "my_usb_init E = kint E (Usb_register my_usb_driver)"

definition my_usb_exit :: "kenv \<Rightarrow> (kst, unit) state" where
  "my_usb_exit E = kvoid (Usb_deregister my_usb_driver)"

lemmas usb_prog [prog] = my_usb_probe_def my_usb_disconnect_def my_usb_init_def my_usb_exit_def

text \<open>The driver structure, and the callbacks through which the bus uses it.\<close>

record usb_driver =
  usbd_name :: string
  usbd_probe :: "kptr \<Rightarrow> usb_device_id \<Rightarrow> (kst, int) state"
  usbd_disconnect :: "kptr \<Rightarrow> (kst, unit) state"
  usbd_id_table :: "usb_device_id list"

definition my_usb_driver_struct :: "(kptr \<Rightarrow> usb_device_id) \<Rightarrow> usb_driver" where
  "my_usb_driver_struct desc = \<lparr>usbd_name = ''my_usb_driver'', usbd_probe = my_usb_probe,
     usbd_disconnect = my_usb_disconnect desc, usbd_id_table = my_usb_table\<rparr>"

datatype usb_call = Usb_probe kptr usb_device_id | Usb_disconnect kptr

definition my_usb_ops :: "(kptr \<Rightarrow> usb_device_id) \<Rightarrow> kenv \<Rightarrow> usb_call \<Rightarrow> (kst, fault option) state" where
  "my_usb_ops desc E c = (case c of
     Usb_probe p i \<Rightarrow> do { _ \<leftarrow> usbd_probe (my_usb_driver_struct desc) p i; State_Monad.return None }
   | Usb_disconnect p \<Rightarrow> do { usbd_disconnect (my_usb_driver_struct desc) p; State_Monad.return None })"

definition usb_holds :: "kst \<Rightarrow> resource list" where
  "usb_holds s = [Registered my_usb_driver]"

lemma usb_init_law:
  "run_state (my_usb_init E) s = (r, s') \<Longrightarrow> held E s = Some st \<Longrightarrow>
   held E s' = Some (if r < 0 then st else usb_holds s' @ st)"
  by (auto simp: prog usb_holds_def held_simps split: if_splits)

lemma usb_call_law:
  "run_state (my_usb_ops desc E c) s = (f, s') \<Longrightarrow> held E s = Some (usb_holds s @ st) \<Longrightarrow>
   f = None \<and> held E s' = Some (usb_holds s' @ st)"
  by (auto simp: my_usb_ops_def my_usb_driver_struct_def prog Let_def usb_holds_def held_simps split: usb_call.splits)

lemma usb_exit_law:
  "run_state (my_usb_exit E) s = (u, s') \<Longrightarrow> held E s = Some (usb_holds s @ st) \<Longrightarrow> held E s' = Some st"
  by (auto simp: prog usb_holds_def held_simps)

definition my_usb_about :: module_about where
  "my_usb_about = \<lparr>MODULE_LICENSE = ''GPL'', MODULE_AUTHOR = Some ''Your Name'',
     MODULE_DESCRIPTION = Some ''Simple USB Driver'', MODULE_VERSION = None\<rparr>"

definition my_usb_module :: "kst kernel_module" where
  "my_usb_module = \<lparr>module_data = usb_zero, module_init = (\<lambda>E. returns (my_usb_init E)), module_exit = my_usb_exit, about = my_usb_about\<rparr>"

interpretation usb: kmodule "\<lambda>E. returns (my_usb_init E)" my_usb_exit "my_usb_ops desc" usb_holds "\<lambda>E. True"
  by (intro kmodule_returns) (rule usb_init_law usb_call_law usb_exit_law, assumption+)+

section \<open>Properties\<close>

text \<open>
  Every order of loads, plugs, unplugs and unloads keeps the driver registered exactly while the
  module is loaded.
\<close>

theorem usb_lifecycle:
  assumes "mod_reach E usb_zero (\<lambda>E. returns (my_usb_init E)) my_usb_exit (my_usb_ops desc) l s"
  shows "(l = Unloaded \<or> l = Loaded) \<and> held E s = Some (if l = Loaded then
    [Registered my_usb_driver] else [])"
  using usb.reach_held [OF assms TrueI] by (simp add: usb_holds_def)

theorem usb_lifecycle_witness:
  "held lab_kernel (snd (run_state (my_usb_init lab_kernel) usb_zero)) =
   Some [Registered my_usb_driver]"
proof -
  obtain s' where run: "run_state (my_usb_init lab_kernel) usb_zero = (0, s')"
    by (auto simp: usb_prog lab_kernel_sel)
  have "mod_reach lab_kernel usb_zero (\<lambda>E. returns (my_usb_init E)) my_usb_exit (my_usb_ops (\<lambda>p. (0x1234, 0x5678))) Loaded s'"
    by (rule reach_loaded [of usb_zero _ _ 0]) (simp add: usb_zero_def, simp_all add: run)
  from usb_lifecycle [OF this] run show ?thesis by simp
qed

section \<open>Which devices the driver sees\<close>

text \<open>
  The bus offers an interface to the driver when an entry of the driver's table has the vendor and
  product of its device; the first empty entry ends the table. It disconnects what it has bound.
\<close>

definition usb_match :: "usb_device_id list \<Rightarrow> usb_device_id \<Rightarrow> usb_device_id option" where
  "usb_match table dev = List.find (\<lambda>i. i = dev) (takeWhile (\<lambda>i. i \<noteq> (0, 0)) table)"

fun usb_bound :: "(kptr \<Rightarrow> usb_device_id) \<Rightarrow> usb_call list \<Rightarrow> kptr list \<Rightarrow> kptr list option" where
  "usb_bound desc [] ps = Some ps"
| "usb_bound desc (Usb_probe p i # cs) ps =
     (if p \<notin> set ps \<and> usb_match (usbd_id_table (my_usb_driver_struct desc)) (desc p) = Some i
      then usb_bound desc cs (p # ps) else None)"
| "usb_bound desc (Usb_disconnect p # cs) ps = (if p \<in> set ps then usb_bound desc cs (remove1 p ps) else None)"

definition usb_run :: "(kptr \<Rightarrow> usb_device_id) \<Rightarrow> kenv \<Rightarrow> usb_call list \<Rightarrow> kst \<Rightarrow> kst" where
  "usb_run desc E cs s = fold (\<lambda>c s. snd (run_state (my_usb_ops desc E c) s)) cs s"

definition plugged :: kevent where
  "plugged = Void_call (Printk KERN_INFO (ln ''USB device (%04X:%04X) plugged'') [PNat 0x1234, PNat 0x5678])"

definition unplugged :: kevent where
  "unplugged = Void_call (Printk KERN_INFO (ln ''USB device (%04X:%04X) unplugged'') [PNat 0x1234, PNat 0x5678])"

lemma usb_match_table: "usb_match my_usb_table dev = Some i \<longleftrightarrow> dev = (0x1234, 0x5678) \<and> i = dev"
  by (auto simp: usb_match_def my_usb_table_def)

lemma usb_events_distinct: "plugged \<noteq> unplugged" "unplugged \<noteq> plugged"
  by (simp_all add: plugged_def unplugged_def ln_def)

lemma usb_run_log:
  assumes "usb_bound desc cs ps = Some qs" and "\<forall>p\<in>set ps. desc p = (0x1234, 0x5678)"
  shows "\<exists>es. klog (usb_run desc E cs s) = klog s @ es \<and> set es \<subseteq> {plugged, unplugged} \<and>
    count_list es plugged + length ps = count_list es unplugged + length qs"
  using assms
proof (induction cs arbitrary: ps s)
  case Nil
  then show ?case by (simp add: usb_run_def)
next
  case (Cons c cs)
  let ?s = "snd (run_state (my_usb_ops desc E c) s)"
  have run: "usb_run desc E (c # cs) s = usb_run desc E cs ?s" by (simp add: usb_run_def)
  show ?case
  proof (cases c)
    case (Usb_probe p i)
    with Cons.prems have b: "usb_bound desc cs (p # ps) = Some qs" "desc p = (0x1234, 0x5678)" "i = desc p"
      by (auto simp: my_usb_driver_struct_def usb_match_table split: if_splits)
    have log: "klog ?s = klog s @ [plugged]"
      by (simp add: Usb_probe my_usb_ops_def my_usb_driver_struct_def usb_prog plugged_def b)
    from Cons.IH [OF b(1), of ?s] Cons.prems(2) b(2) obtain es where
      "klog (usb_run desc E cs ?s) = klog ?s @ es" "set es \<subseteq> {plugged, unplugged}"
      "count_list es plugged + length (p # ps) = count_list es unplugged + length qs" by auto
    then show ?thesis unfolding run log by (auto simp: usb_events_distinct intro!: exI [of _ "plugged # es"])
  next
    case (Usb_disconnect p)
    with Cons.prems have p: "p \<in> set ps" and b: "usb_bound desc cs (remove1 p ps) = Some qs" "desc p = (0x1234, 0x5678)"
      by (auto split: if_splits)
    have log: "klog ?s = klog s @ [unplugged]"
      by (simp add: Usb_disconnect my_usb_ops_def my_usb_driver_struct_def usb_prog unplugged_def b)
    have "\<forall>q\<in>set (remove1 p ps). desc q = (0x1234, 0x5678)" using Cons.prems(2) by (meson notin_set_remove1)
    from Cons.IH [OF b(1) this, of ?s] obtain es where
      "klog (usb_run desc E cs ?s) = klog ?s @ es" "set es \<subseteq> {plugged, unplugged}"
      "count_list es plugged + length (remove1 p ps) = count_list es unplugged + length qs" by auto
    moreover have "Suc (length (remove1 p ps)) = length ps"
      using p by (simp add: length_remove1) (metis Suc_pred length_pos_if_in_set)
    ultimately show ?thesis unfolding run log
      by (auto simp: usb_events_distinct intro!: exI [of _ "unplugged # es"])
  qed
qed

text \<open>
  C33: every line the driver logs while devices come and go is about the one device of its table, vendor
  1234 and product 5678, and the devices still plugged in are as many as the plugged lines outnumber the
  unplugged ones.
\<close>

theorem usb_plug_lines:
  assumes "usb_bound desc cs [] = Some bound" and "klog s = []"
  shows "set (klog (usb_run desc E cs s)) \<subseteq>
      {Void_call (Printk KERN_INFO (ln ''USB device (%04X:%04X) plugged'') [PNat 0x1234, PNat 0x5678]),
       Void_call (Printk KERN_INFO (ln ''USB device (%04X:%04X) unplugged'') [PNat 0x1234, PNat 0x5678])} \<and>
    count_list (klog (usb_run desc E cs s)) plugged = count_list (klog (usb_run desc E cs s)) unplugged + length bound"
  using usb_run_log [OF assms(1), of E s] assms(2) by (auto simp: plugged_def unplugged_def)

theorem usb_plug_lines_witness:
  "count_list (klog (usb_run (\<lambda>p. (0x1234, 0x5678)) lab_kernel
     [Usb_probe 1 (0x1234, 0x5678), Usb_probe 2 (0x1234, 0x5678), Usb_disconnect 1] usb_zero)) plugged = 2"
proof -
  let ?cs = "[Usb_probe 1 (0x1234, 0x5678), Usb_probe 2 (0x1234, 0x5678), Usb_disconnect 1]"
  have "usb_bound (\<lambda>p. (0x1234, 0x5678)) ?cs [] = Some [2]"
    by (simp add: my_usb_driver_struct_def usb_match_table)
  moreover have "klog usb_zero = []" by (simp add: usb_zero_def)
  ultimately have "count_list (klog (usb_run (\<lambda>p. (0x1234, 0x5678)) lab_kernel ?cs usb_zero)) plugged =
    count_list (klog (usb_run (\<lambda>p. (0x1234, 0x5678)) lab_kernel ?cs usb_zero)) unplugged + 1"
    using usb_plug_lines [of "\<lambda>p. (0x1234, 0x5678)" ?cs "[2]" usb_zero lab_kernel] by simp
  moreover have "count_list (klog (usb_run (\<lambda>p. (0x1234, 0x5678)) lab_kernel ?cs usb_zero)) unplugged = 1"
    by (simp add: usb_run_def usb_zero_def my_usb_ops_def my_usb_driver_struct_def usb_prog plugged_def unplugged_def ln_def)
  ultimately show ?thesis by simp
qed

end
