(* ===== verification/Uart_Driver.thy ===== *)
theory Uart_Driver
  imports Module_Lifecycle
begin

text \<open>
  \<open>UART_as_char_driver_registration.c\<close>: registers a UART driver. The character device of the file
  is a template (its handlers are comments), so it has no callbacks.
\<close>

text \<open>The file has no static variables of its own to keep between calls.\<close>

definition uart_zero :: kst where
  "uart_zero = \<lparr>klog = []\<rparr>"

record uart_driver =
  driver_name :: string
  dev_name :: string
  nr :: nat
  cons :: kptr

definition my_uart_driver :: uart_driver where
  "my_uart_driver = \<lparr>driver_name = ''my_uart'', dev_name = ''ttyMYUART'', nr = 1, cons = NULL\<rparr>"

abbreviation uart_obj :: obj where "uart_obj \<equiv> Addr_of ''my_uart_driver''"

definition my_uart_init :: "kenv \<Rightarrow> (kst, int) state" where
  "my_uart_init E = do {
     ret \<leftarrow> kint E (Uart_register_driver uart_obj);
     if ret \<noteq> 0 then do {
       kvoid (Printk KERN_ERR (ln ''Failed to register UART driver: %d'') [PInt ret]);
       State_Monad.return ret
     } else do {
       kvoid (Printk KERN_INFO (ln ''UART driver initialized successfully!'') []);
       State_Monad.return 0
     }
   }"

definition my_uart_exit :: "kenv \<Rightarrow> (kst, unit) state" where
  "my_uart_exit E = do {
     kvoid (Uart_unregister_driver uart_obj);
     kvoid (Printk KERN_INFO (ln ''UART driver exited.'') [])
   }"

lemmas uart_prog [prog] = my_uart_init_def my_uart_exit_def

definition uart_call :: "kenv \<Rightarrow> unit \<Rightarrow> (kst, fault option) state" where
  "uart_call E c = State_Monad.return None"

definition uart_holds :: "kst \<Rightarrow> resource list" where
  "uart_holds s = [Registered uart_obj]"

lemma uart_init_law:
  "kernel_doc E \<Longrightarrow> run_state (my_uart_init E) s = (r, s') \<Longrightarrow> held E s = Some st \<Longrightarrow>
   held E s' = Some (if r < 0 then st else uart_holds s' @ st)"
  by (auto simp: prog uart_holds_def held_simps kernel_doc_def split: if_splits intro: less_le_trans)

lemma uart_call_law:
  "run_state (uart_call E c) s = (f, s') \<Longrightarrow> held E s = Some (uart_holds s @ st) \<Longrightarrow>
   f = None \<and> held E s' = Some (uart_holds s' @ st)"
  by (auto simp: uart_call_def uart_holds_def)

lemma uart_exit_law:
  "run_state (my_uart_exit E) s = (u, s') \<Longrightarrow> held E s = Some (uart_holds s @ st) \<Longrightarrow> held E s' = Some st"
  by (auto simp: prog uart_holds_def held_simps)

definition my_uart_about :: module_about where
  "my_uart_about = \<lparr>MODULE_LICENSE = ''GPL'', MODULE_AUTHOR = None,
     MODULE_DESCRIPTION = None, MODULE_VERSION = None\<rparr>"

definition my_uart_module :: "kst kernel_module" where
  "my_uart_module = \<lparr>module_data = uart_zero, module_init = (\<lambda>E. returns (my_uart_init E)), module_exit = my_uart_exit, about = my_uart_about\<rparr>"

interpretation uart: kmodule "\<lambda>E. returns (my_uart_init E)" my_uart_exit uart_call uart_holds kernel_doc
  by (intro kmodule_returns) (rule uart_init_law uart_call_law uart_exit_law, assumption+)+

section \<open>Properties\<close>

text \<open>
  Where registration answers 0 or a negative status, the driver is registered exactly while the
  module is loaded.
\<close>

theorem uart_lifecycle:
  assumes "mod_reach E uart_zero (\<lambda>E. returns (my_uart_init E)) my_uart_exit uart_call l s" and "kernel_doc E"
  shows "(l = Unloaded \<or> l = Loaded) \<and> held E s = Some (if l = Loaded then
    [Registered uart_obj] else [])"
  using uart.reach_held [OF assms] by (simp add: uart_holds_def)

theorem uart_lifecycle_witness:
  "held lab_kernel (snd (run_state (my_uart_init lab_kernel) uart_zero)) =
   Some [Registered uart_obj]"
proof -
  obtain s' where run: "run_state (my_uart_init lab_kernel) uart_zero = (0, s')"
    by (auto simp: uart_prog lab_kernel_sel)
  have "mod_reach lab_kernel uart_zero (\<lambda>E. returns (my_uart_init E)) my_uart_exit uart_call Loaded s'"
    by (rule reach_loaded [of uart_zero _ _ 0]) (simp add: uart_zero_def, simp_all add: run)
  from uart_lifecycle [OF this lab_kernel_doc] run show ?thesis by simp
qed

end
