(* ===== verification/Spi_Bus_Driver.thy ===== *)
theory Spi_Bus_Driver
  imports Module_Lifecycle
begin

text \<open>
  \<open>Spi_kernel_space_test_v1_1.c\<close>: an SPI bus driver that remembers the device it is bound to, and
  two functions that send and receive one transfer.
\<close>

section \<open>Probe and remove\<close>

record spi_state = kst +
  spi_dev :: kptr

text \<open>The static variables as the file initialises them.\<close>

definition spi_bus_zero :: spi_state where
  "spi_bus_zero = \<lparr>klog = [], spi_dev = NULL\<rparr>"

abbreviation spi_driver :: obj where "spi_driver \<equiv> Addr_of ''spi_driver''"

definition spi_driver_probe :: "kptr \<Rightarrow> (spi_state, int) state" where
  "spi_driver_probe spi = do { upd (spi_dev_update (\<lambda>_. spi)); State_Monad.return 0 }"

definition spi_driver_remove :: "kptr \<Rightarrow> (spi_state, int) state" where
  "spi_driver_remove spi = do { upd (spi_dev_update (\<lambda>_. NULL)); State_Monad.return 0 }"

text \<open>The driver structure, without a table of device ids, and the callbacks through which the bus uses it.\<close>

record spi_driver =
  spid_probe :: "kptr \<Rightarrow> (spi_state, int) state"
  spid_remove :: "kptr \<Rightarrow> (spi_state, int) state"
  spid_name :: string
  spid_owner :: bool

definition spi_driver_struct :: spi_driver where
  "spi_driver_struct = \<lparr>spid_probe = spi_driver_probe, spid_remove = spi_driver_remove,
     spid_name = ''my_spi_driver'', spid_owner = True\<rparr>"

datatype spi_call = Spi_probe kptr | Spi_remove kptr

definition spi_driver_ops :: "spi_call \<Rightarrow> (spi_state, int) state" where
  "spi_driver_ops c = (case c of
     Spi_probe p \<Rightarrow> spid_probe spi_driver_struct p
   | Spi_remove p \<Rightarrow> spid_remove spi_driver_struct p)"

definition spi_driver_init :: "kenv \<Rightarrow> (spi_state, int) state" where
  "spi_driver_init E = kint E (Spi_register_driver spi_driver)"

definition spi_driver_exit :: "kenv \<Rightarrow> (spi_state, unit) state" where
  "spi_driver_exit E = kvoid (Spi_unregister_driver spi_driver)"

lemmas spi_prog [prog] = spi_driver_probe_def spi_driver_remove_def spi_driver_struct_def spi_driver_ops_def
  spi_driver_init_def spi_driver_exit_def

definition spi_bus_call :: "kenv \<Rightarrow> spi_call \<Rightarrow> (spi_state, fault option) state" where
  "spi_bus_call E c = do { _ \<leftarrow> spi_driver_ops c; State_Monad.return None }"

definition spi_holds :: "spi_state \<Rightarrow> resource list" where
  "spi_holds s = [Registered spi_driver]"

lemma spi_init_law:
  "run_state (spi_driver_init E) s = (r, s') \<Longrightarrow> held E s = Some st \<Longrightarrow>
   held E s' = Some (if r < 0 then st else spi_holds s' @ st)"
  by (auto simp: prog spi_holds_def held_simps split: if_splits)

lemma spi_call_law:
  "run_state (spi_bus_call E c) s = (f, s') \<Longrightarrow> held E s = Some (spi_holds s @ st) \<Longrightarrow>
   f = None \<and> held E s' = Some (spi_holds s' @ st)"
  by (auto simp: spi_bus_call_def prog spi_holds_def held_simps split: spi_call.splits)

lemma spi_exit_law:
  "run_state (spi_driver_exit E) s = (u, s') \<Longrightarrow> held E s = Some (spi_holds s @ st) \<Longrightarrow> held E s' = Some st"
  by (auto simp: prog spi_holds_def held_simps)

definition spi_driver_about :: module_about where
  "spi_driver_about = \<lparr>MODULE_LICENSE = ''GPL'', MODULE_AUTHOR = Some ''Your Name'',
     MODULE_DESCRIPTION = Some ''SPI Driver Example'', MODULE_VERSION = None\<rparr>"

definition spi_driver_module :: "spi_state kernel_module" where
  "spi_driver_module = \<lparr>module_data = spi_bus_zero, module_init = (\<lambda>E. returns (spi_driver_init E)), module_exit = spi_driver_exit, about = spi_driver_about\<rparr>"

interpretation spi_bus: kmodule "\<lambda>E. returns (spi_driver_init E)" spi_driver_exit spi_bus_call spi_holds "\<lambda>E. True"
  by (intro kmodule_returns) (rule spi_init_law spi_call_law spi_exit_law, assumption+)+

section \<open>Transfers\<close>

text \<open>
  \<open>struct spi_transfer\<close>, the fields this code sets. Its \<open>len\<close> is an \<open>unsigned int\<close>, so storing a
  \<open>size_t\<close> keeps the low 32 bits. A message is the list of its transfers.
\<close>

record spi_transfer =
  tx_buf :: kptr
  rx_buf :: kptr
  xfer_len :: u32

definition zero_transfer :: spi_transfer where
  "zero_transfer = \<lparr>tx_buf = NULL, rx_buf = NULL, xfer_len = 0\<rparr>"

definition spi_message_init :: "spi_transfer list" where
  "spi_message_init = []"

definition spi_message_add_tail :: "spi_transfer \<Rightarrow> spi_transfer list \<Rightarrow> spi_transfer list" where
  "spi_message_add_tail t m = m @ [t]"

definition as_sync :: "spi_transfer list \<Rightarrow> (kptr \<times> kptr \<times> u32) list" where
  "as_sync m = map (\<lambda>t. (tx_buf t, rx_buf t, xfer_len t)) m"

definition spi_write :: "kenv \<Rightarrow> kptr \<Rightarrow> kptr \<Rightarrow> u64 \<Rightarrow> (spi_state, int) state" where
  "spi_write E spi data len =
     (let message = spi_message_init;
          transfer = zero_transfer\<lparr>tx_buf := data, xfer_len := ucast len\<rparr>;
          message = spi_message_add_tail transfer message
      in kint E (Spi_sync (At spi) (as_sync message)))"

definition spi_read :: "kenv \<Rightarrow> kptr \<Rightarrow> kptr \<Rightarrow> u64 \<Rightarrow> (spi_state, int) state" where
  "spi_read E spi data len =
     (let message = spi_message_init;
          transfer = zero_transfer\<lparr>rx_buf := data, xfer_len := ucast len\<rparr>;
          message = spi_message_add_tail transfer message
      in kint E (Spi_sync (At spi) (as_sync message)))"

lemmas spi_xfer_defs = spi_write_def spi_read_def spi_message_init_def spi_message_add_tail_def
  as_sync_def zero_transfer_def

section \<open>Properties\<close>

text \<open>Running a list of bus callbacks, and the devices a legal list leaves bound to the driver.\<close>

definition spi_run :: "spi_call list \<Rightarrow> spi_state \<Rightarrow> spi_state" where
  "spi_run cs s = fold (\<lambda>c s. snd (run_state (spi_driver_ops c) s)) cs s"

fun spi_bound :: "spi_call list \<Rightarrow> kptr list \<Rightarrow> kptr list option" where
  "spi_bound [] ps = Some ps"
| "spi_bound (Spi_probe p # cs) ps = (if p = NULL \<or> p \<in> set ps then None else spi_bound cs (p # ps))"
| "spi_bound (Spi_remove p # cs) ps = (if p \<in> set ps then spi_bound cs (remove1 p ps) else None)"

lemma spi_run_Cons: "spi_run (c # cs) s = spi_run cs (snd (run_state (spi_driver_ops c) s))"
  by (simp add: spi_run_def)

lemma spi_step_dev: "spi_dev (snd (run_state (spi_driver_ops c) s)) = (case c of Spi_probe p \<Rightarrow> p | Spi_remove p \<Rightarrow> NULL)"
  by (simp add: spi_prog split: spi_call.split)

lemma spi_bound_safe:
  "spi_bound cs ps = Some qs \<Longrightarrow> spi_dev s = NULL \<or> spi_dev s \<in> set ps \<Longrightarrow>
   spi_dev (spi_run cs s) = NULL \<or> spi_dev (spi_run cs s) \<in> set qs"
proof (induction cs ps arbitrary: s rule: spi_bound.induct)
  case (2 p cs ps)
  then show ?case by (simp add: spi_run_Cons spi_step_dev split: if_splits)
next
  case (3 p cs ps)
  then show ?case by (simp add: spi_run_Cons spi_step_dev split: if_splits)
qed (simp add: spi_run_def)

lemma spi_bound_distinct: "spi_bound cs ps = Some qs \<Longrightarrow> distinct ps \<Longrightarrow> distinct qs"
  by (induction cs ps rule: spi_bound.induct) (auto split: if_splits)

lemma spi_bound_append: "spi_bound (cs @ ds) ps = (case spi_bound cs ps of None \<Rightarrow> None | Some qs \<Rightarrow> spi_bound ds qs)"
  by (induction cs ps rule: spi_bound.induct) auto

text \<open>
  C24: for every legal sequence of probes and removes from an unbound start, the remembered
  device is null or still bound: it never dangles. A device probed last is remembered; after the
  removal of any device nothing is, also when others are still bound.
\<close>

theorem spi_dev_safe:
  assumes "spi_bound cs [] = Some qs" and "spi_dev s = NULL"
  shows "(spi_dev (spi_run cs s) = NULL \<or> spi_dev (spi_run cs s) \<in> set qs) \<and>
    spi_dev (spi_run (cs @ [Spi_probe p]) s) = p \<and> spi_dev (spi_run (cs @ [Spi_remove q]) s) = NULL \<and>
    (q \<in> set qs \<longrightarrow> spi_bound (cs @ [Spi_remove q]) [] = Some (remove1 q qs))"
  using spi_bound_safe [OF assms(1), of s] assms(2)
  by (auto simp: spi_bound_append assms(1), auto simp: spi_run_def spi_step_dev)

theorem spi_dev_safe_witness:
  "spi_bound [Spi_probe 0x10, Spi_probe 0x20, Spi_remove 0x10] [] = Some [0x20] \<and>
   spi_dev (spi_run [Spi_probe 0x10, Spi_probe 0x20, Spi_remove 0x10] \<lparr>klog = [], spi_dev = NULL\<rparr>) = NULL"
  using spi_dev_safe [where cs = "[Spi_probe 0x10, Spi_probe 0x20]" and qs = "[0x20, 0x10]" and s = "\<lparr>klog = [], spi_dev = NULL\<rparr>" and q = "0x10"] by simp

text \<open>
  Each transfer function hands the bus one message with one transfer in its own direction,
  and returns the bus's status; the length is exact exactly when it is below \<open>2 ^ 32\<close>.
\<close>

theorem spi_bus_transfer:
  "let n = (ucast len :: u32); w = Spi_sync (At spi) [(data, NULL, n)]; r = Spi_sync (At spi) [(NULL, data, n)] in
   run_state (spi_write E spi data len) s = (int_ret E (klog s) w, s\<lparr>klog := klog s @ [Int_call w (int_ret E (klog s) w)]\<rparr>) \<and>
   run_state (spi_read E spi data len) s = (int_ret E (klog s) r, s\<lparr>klog := klog s @ [Int_call r (int_ret E (klog s) r)]\<rparr>) \<and>
   unat n = unat len mod 2 ^ 32 \<and> (unat n = unat len \<longleftrightarrow> len < 2 ^ 32)"
proof -
  have len: "unat (ucast len :: u32) = unat len mod 2 ^ 32" for len :: u64
    by (simp add: unsigned_ucast_eq take_bit_eq_mod)
  have "unat len mod 2 ^ 32 = unat len \<longleftrightarrow> len < 2 ^ 32" for len :: u64
    by (simp add: word_less_nat_alt) (metis mod_less mod_less_divisor zero_less_numeral)
  with len show ?thesis by (simp add: spi_xfer_defs Let_def)
qed

text \<open>
  Every order of loads, bus callbacks and unloads keeps the driver registered exactly while the
  module is loaded.
\<close>

theorem spi_bus_lifecycle:
  assumes "mod_reach E spi_bus_zero (\<lambda>E. returns (spi_driver_init E)) spi_driver_exit spi_bus_call l s"
  shows "(l = Unloaded \<or> l = Loaded) \<and> held E s = Some (if l = Loaded then
    [Registered spi_driver] else [])"
  using spi_bus.reach_held [OF assms TrueI] by (simp add: spi_holds_def)

theorem spi_bus_lifecycle_witness:
  "held lab_kernel (snd (run_state (spi_driver_init lab_kernel) spi_bus_zero)) =
   Some [Registered spi_driver]"
proof -
  obtain s' where run: "run_state (spi_driver_init lab_kernel) spi_bus_zero = (0, s')"
    by (auto simp: spi_prog lab_kernel_sel)
  have "mod_reach lab_kernel spi_bus_zero (\<lambda>E. returns (spi_driver_init E)) spi_driver_exit spi_bus_call Loaded s'"
    by (rule reach_loaded [of spi_bus_zero _ _ 0]) (simp add: spi_bus_zero_def, simp_all add: run)
  from spi_bus_lifecycle [OF this] run show ?thesis by simp
qed

end
