(* ===== verification/Modules.thy ===== *)
theory Modules
  imports Can_Driver Wifi_Driver Bluetooth_Driver Usb_Driver Uart_Driver Spi_Bus_Driver
begin

text \<open>
  The modules with one registration each, as \<open>insmod\<close> and \<open>rmmod\<close> see them: what runs is what
  \<open>module_init\<close> and \<open>module_exit\<close> name. The three character stubs register a number range and a cdev,
  the three bus drivers one driver object.
\<close>

lemmas module_reach_defs = module_reach_def can_module_def wifi_module_def bluetooth_module_def
  my_usb_module_def my_uart_module_def spi_driver_module_def

text \<open>
  The three character drivers under fixed numbers hold their live cdev and their own device
  number 250, 251 or 252 exactly while loaded, and nothing otherwise, after any sequence of loads,
  file operations and unloads, whatever the kernel answers.
\<close>

theorem static_modules:
  assumes "module_reach E can_module can_call l1 s1" and "module_reach E wifi_module wifi_call l2 s2"
    and "module_reach E bluetooth_module bluetooth_call l3 s3"
  shows "{l1, l2, l3} \<subseteq> {Unloaded, Loaded} \<and>
    held E s1 = Some (if l1 = Loaded then [Cdev_live can_cdev, Region (MKDEV E 250 0) 1] else []) \<and>
    held E s2 = Some (if l2 = Loaded then [Cdev_live wifi_cdev, Region (MKDEV E 251 0) 1] else []) \<and>
    held E s3 = Some (if l3 = Loaded then [Cdev_live bluetooth_cdev, Region (MKDEV E 252 0) 1] else [])"
  using can_lifecycle wifi_lifecycle bluetooth_lifecycle assms
  unfolding module_reach_defs kernel_module.simps by blast

theorem static_modules_witness:
  "held lab_kernel (snd (run_state (wifi_init lab_kernel) wifi_zero)) =
   Some [Cdev_live wifi_cdev, Region (MKDEV lab_kernel 251 0) 1]"
proof -
  obtain s' where run: "run_state (wifi_init lab_kernel) wifi_zero = (0, s')"
    by (auto simp: wifi_prog Let_def lab_kernel_sel)
  have can: "module_reach lab_kernel can_module can_call Unloaded can_zero"
    and bluetooth: "module_reach lab_kernel bluetooth_module bluetooth_call Unloaded bluetooth_zero"
    by (simp_all add: module_reach_def mod_reach.start can_zero_def bluetooth_zero_def)
  have "module_reach lab_kernel wifi_module wifi_call Loaded s'"
    unfolding module_reach_defs kernel_module.simps
    by (rule reach_loaded [of wifi_zero _ _ 0]) (simp add: wifi_zero_def, simp_all add: run)
  from static_modules [OF can this bluetooth] run show ?thesis by simp
qed

text \<open>
  The USB, UART and SPI drivers are registered exactly while loaded, whatever devices come
  and go in between; for the UART driver, which tests the registration for being nonzero, where
  the answer is 0 or a negative errno.
\<close>

theorem bus_modules:
  assumes "module_reach E my_usb_module (my_usb_ops desc) l1 s1" and "module_reach E spi_driver_module spi_bus_call l2 s2"
    and "module_reach E my_uart_module uart_call l3 s3" and "kernel_doc E"
  shows "{l1, l2, l3} \<subseteq> {Unloaded, Loaded} \<and>
    held E s1 = Some (if l1 = Loaded then [Registered my_usb_driver] else []) \<and>
    held E s2 = Some (if l2 = Loaded then [Registered spi_driver] else []) \<and>
    held E s3 = Some (if l3 = Loaded then [Registered uart_obj] else [])"
  using usb_lifecycle spi_bus_lifecycle uart_lifecycle assms
  unfolding module_reach_defs kernel_module.simps by blast

theorem bus_modules_witness:
  "held lab_kernel (snd (run_state (my_usb_init lab_kernel) usb_zero)) = Some [Registered my_usb_driver]"
proof -
  obtain s' where run: "run_state (my_usb_init lab_kernel) usb_zero = (0, s')"
    by (auto simp: usb_prog lab_kernel_sel)
  have spi: "module_reach lab_kernel spi_driver_module spi_bus_call Unloaded spi_bus_zero"
    and uart: "module_reach lab_kernel my_uart_module uart_call Unloaded uart_zero"
    by (simp_all add: module_reach_def mod_reach.start spi_bus_zero_def uart_zero_def)
  have "module_reach lab_kernel my_usb_module (my_usb_ops (\<lambda>p. (0x1234, 0x5678))) Loaded s'"
    unfolding module_reach_defs kernel_module.simps
    by (rule reach_loaded [of usb_zero _ _ 0]) (simp add: usb_zero_def, simp_all add: run)
  from bus_modules [OF this spi uart lab_kernel_doc] run show ?thesis by simp
qed

end
