(* ===== verification/Ioctl_Driver.thy ===== *)
theory Ioctl_Driver
  imports Char_Device
begin

text \<open>
  \<open>Ioctl_kernel_device_driver.c\<close>: a character device with one 32-bit value that two ioctl
  commands set from and copy to user memory.
\<close>

section \<open>State and file operations\<close>

text \<open>\<open>value\<close> is an \<open>int32_t\<close> on a little-endian machine: its bytes in user memory are \<open>le32\<close>.\<close>

record etx_state = kst +
  etx_value :: u32
  etx_dev :: u32
  etx_class :: kptr

text \<open>The static variables as the file initialises them.\<close>

definition etx_zero :: etx_state where
  "etx_zero = \<lparr>klog = [], etx_value = 0, etx_dev = 0, etx_class = 0\<rparr>"

abbreviation etx_cdev :: obj where "etx_cdev \<equiv> Addr_of ''etx_cdev''"

text \<open>\<open>int32_t*\<close> is eight bytes wide where pointers are 64-bit.\<close>

definition WR_VALUE :: "kenv \<Rightarrow> u32" where "WR_VALUE E = IOW E (CHR ''a'') (CHR ''a'') 8"
definition RD_VALUE :: "kenv \<Rightarrow> u32" where "RD_VALUE E = IOR E (CHR ''a'') (CHR ''b'') 8"

definition etx_open :: "('a kst_scheme, int) state" where
  "etx_open = do { kvoid (Printk KERN_INFO (ln ''Device File Opened...!!!'') []); State_Monad.return 0 }"

definition etx_release :: "('a kst_scheme, int) state" where
  "etx_release = do { kvoid (Printk KERN_INFO (ln ''Device File Closed...!!!'') []); State_Monad.return 0 }"

definition etx_read :: "kptr \<Rightarrow> u64 \<Rightarrow> ('a kst_scheme, u64) state" where
  "etx_read buf len = do { kvoid (Printk KERN_INFO (ln ''Read Function'') []); State_Monad.return 0 }"

definition etx_write :: "kptr \<Rightarrow> u64 \<Rightarrow> ('a kst_scheme, u64) state" where
  "etx_write buf len = do { kvoid (Printk KERN_INFO (ln ''Write function'') []); State_Monad.return len }"

definition etx_ioctl :: "kenv \<Rightarrow> u32 \<Rightarrow> u64 \<Rightarrow> (etx_state, u64) state" where
  "etx_ioctl E cmd arg = do {
     (if cmd = WR_VALUE E then do {
        (left, bs) \<leftarrow> kcopy_from_user E arg 4;
        upd (etx_value_update (\<lambda>_. of_le32 bs));
        (if left \<noteq> 0 then kvoid (Printk KERN_ERR (ln ''Data Write : Err!'') []) else State_Monad.return ());
        v \<leftarrow> reads etx_value;
        kvoid (Printk KERN_INFO (ln ''Value = %d'') [PInt (sint v)])
      } else if cmd = RD_VALUE E then do {
        v \<leftarrow> reads etx_value;
        left \<leftarrow> kcopy_to_user E arg (le32 v);
        (if left \<noteq> 0 then kvoid (Printk KERN_ERR (ln ''Data Read : Err!'') []) else State_Monad.return ())
      } else kvoid (Printk KERN_INFO (ln ''Default'') []));
     State_Monad.return 0
   }"

definition etx_fops :: "kenv \<Rightarrow> etx_state file_operations" where
  "etx_fops E = \<lparr>fo_owner = True, fo_open = Some etx_open, fo_release = Some etx_release,
     fo_read = Some etx_read, fo_write = Some etx_write, fo_ioctl = Some (etx_ioctl E)\<rparr>"

section \<open>Init and exit\<close>

text \<open>The two cleanup labels of the init function, each falling through to the next.\<close>

definition etx_r_class :: "(etx_state, int) state" where
  "etx_r_class = do {
     d \<leftarrow> reads etx_dev;
     kvoid (Unregister_chrdev_region d 1);
     State_Monad.return (- 1)
   }"

definition etx_r_device :: "(etx_state, int) state" where
  "etx_r_device = do {
     cl \<leftarrow> reads etx_class;
     kvoid (Class_destroy cl);
     etx_r_class
   }"

definition etx_driver_init :: "kenv \<Rightarrow> (etx_state, int) state" where
  "etx_driver_init E = do {
     (ret, d) \<leftarrow> kalloc_region E 0 1 ''etx_Dev'';
     upd (etx_dev_update (\<lambda>_. d));
     if ret < 0 then do {
       kvoid (Printk KERN_ERR (ln ''Cannot allocate major number'') []);
       State_Monad.return (- 1)
     } else do {
       kvoid (Printk KERN_INFO (ln ''Major = %d Minor = %d '') [PNat (MAJOR E d), PNat (MINOR E d)]);
       kvoid (Cdev_init etx_cdev ''fops'');
       ret \<leftarrow> kint E (Cdev_add etx_cdev d 1);
       if ret < 0 then do {
         kvoid (Printk KERN_ERR (ln ''Cannot add the device to the system'') []);
         etx_r_class
       } else do {
         cl \<leftarrow> kptr_call E (Class_create ''etx_class'');
         upd (etx_class_update (\<lambda>_. cl));
         if IS_ERR E cl then do {
           kvoid (Printk KERN_ERR (ln ''Cannot create the struct class'') []);
           etx_r_class
         } else do {
           dv \<leftarrow> kptr_call E (Device_create cl d ''etx_device'');
           if IS_ERR E dv then do {
             kvoid (Printk KERN_ERR (ln ''Cannot create the Device 1'') []);
             etx_r_device
           } else do {
             kvoid (Printk KERN_INFO (ln ''Device Driver Insert...Done!!!'') []);
             State_Monad.return 0
           }
         }
       }
     }
   }"

definition etx_driver_exit :: "kenv \<Rightarrow> (etx_state, unit) state" where
  "etx_driver_exit E = do {
     cl \<leftarrow> reads etx_class;
     d \<leftarrow> reads etx_dev;
     kvoid (Device_destroy cl d);
     kvoid (Class_destroy cl);
     kvoid (Cdev_del etx_cdev);
     kvoid (Unregister_chrdev_region d 1);
     kvoid (Printk KERN_INFO (ln ''Device Driver Remove...Done!!!'') [])
   }"

lemmas etx_prog [prog] = etx_open_def etx_release_def etx_read_def etx_write_def etx_ioctl_def etx_fops_def
  etx_r_class_def etx_r_device_def etx_driver_init_def etx_driver_exit_def

definition etx_call :: "kenv \<Rightarrow> fcall \<Rightarrow> (etx_state, fault option) state" where
  "etx_call E = fop_call E (etx_fops E)"

definition etx_holds :: "etx_state \<Rightarrow> resource list" where
  "etx_holds s = [Device (etx_class s) (etx_dev s), Class (etx_class s), Cdev_live etx_cdev, Region (etx_dev s) 1]"

text \<open>The contract holds where the kernel never refuses the class or the device node.\<close>

definition class_device_ok :: "kenv \<Rightarrow> bool" where
  "class_device_ok E \<longleftrightarrow> (\<forall>h nm. \<not> IS_ERR E (ptr_ret E h (Class_create nm))) \<and>
     (\<forall>h c d nm. \<not> IS_ERR E (ptr_ret E h (Device_create c d nm)))"

lemma etx_init_law:
  "class_device_ok E \<Longrightarrow> run_state (etx_driver_init E) s = (r, s') \<Longrightarrow> held E s = Some st \<Longrightarrow>
   held E s' = Some (if r < 0 then st else etx_holds s' @ st)"
  by (auto simp: prog Let_def etx_holds_def held_simps class_device_ok_def split: if_splits)

lemma etx_call_law:
  "run_state (etx_call E c) s = (f, s') \<Longrightarrow> held E s = Some (etx_holds s @ st) \<Longrightarrow>
   f = None \<and> held E s' = Some (etx_holds s' @ st)"
  by (auto simp: etx_call_def call_simps prog etx_holds_def held_simps split: fcall.splits if_splits prod.splits)

lemma etx_exit_law:
  "run_state (etx_driver_exit E) s = (u, s') \<Longrightarrow> held E s = Some (etx_holds s @ st) \<Longrightarrow> held E s' = Some st"
  by (auto simp: prog etx_holds_def held_simps)

definition etx_about :: module_about where
  "etx_about = \<lparr>MODULE_LICENSE = ''GPL'', MODULE_AUTHOR = Some ''EmbeTronicX <embetronicx@gmail.com>'',
     MODULE_DESCRIPTION = Some ''Simple Linux device driver (IOCTL)'', MODULE_VERSION = Some ''1.5''\<rparr>"

definition etx_module :: "etx_state kernel_module" where
  "etx_module = \<lparr>module_data = etx_zero, module_init = (\<lambda>E. returns (etx_driver_init E)), module_exit = etx_driver_exit, about = etx_about\<rparr>"

interpretation etx: kmodule "\<lambda>E. returns (etx_driver_init E)" etx_driver_exit etx_call etx_holds class_device_ok
  by (intro kmodule_returns) (rule etx_init_law etx_call_law etx_exit_law, assumption+)+

interpretation etx_device: char_device etx_fops "\<lambda>E. True"
  by (rule char_device_empty_read) (simp add: etx_prog)

section \<open>Properties\<close>

text \<open>Running a list of file operations.\<close>

definition etx_run :: "kenv \<Rightarrow> fcall list \<Rightarrow> etx_state \<Rightarrow> etx_state" where
  "etx_run E cs s = fold (\<lambda>c s. snd (run_state (vfs E (etx_fops E) c) s)) cs s"

lemma etx_step_value:
  "etx_value (snd (run_state (vfs E (etx_fops E) c) s)) =
   (case c of F_ioctl cmd arg \<Rightarrow> if cmd = WR_VALUE E then of_le32 (snd (from_user E (klog s) arg 4)) else etx_value s
    | _ \<Rightarrow> etx_value s)"
  by (auto simp: vfs_def Let_def prog split: fcall.split prod.split)

lemma etx_run_value:
  "\<forall>c \<in> set cs. \<forall>x. c \<noteq> F_ioctl (WR_VALUE E) x \<Longrightarrow> etx_value (etx_run E cs s) = etx_value s"
  by (induction cs arbitrary: s) (auto simp: etx_run_def etx_step_value split: fcall.split)

text \<open>
  C1: the value a \<open>WR_VALUE\<close> ioctl took from user memory is the value a later \<open>RD_VALUE\<close> ioctl copies
  back, byte for byte, whatever other file operations run in between.
\<close>

theorem ioctl_set_get:
  assumes distinct: "WR_VALUE E \<noteq> RD_VALUE E"
    and set: "from_user E (klog s) a 4 = (left, bs)" "length bs = 4"
    and between: "\<forall>c \<in> set cs. \<forall>x. c \<noteq> F_ioctl (WR_VALUE E) x"
    and s1: "s1 = etx_run E (F_ioctl (WR_VALUE E) a # cs) s"
    and s2: "s2 = etx_run E [F_ioctl (RD_VALUE E) b] s1"
  shows "\<exists>left'. klog s2 = klog s1 @ Copy_to_user b bs left' #
    (if left' = 0 then [] else [Void_call (Printk KERN_ERR (ln ''Data Read : Err!'') [])])"
proof -
  have "etx_value s1 = of_le32 bs"
    using set etx_run_value [OF between] by (simp add: s1 etx_run_def etx_step_value)
  then have "le32 (etx_value s1) = bs"
    using set(2) by (simp add: le32_of_le32)
  with distinct show ?thesis
    by (auto simp: s2 etx_run_def vfs_def Let_def prog)
qed

lemma lab_WR_RD: "WR_VALUE lab_kernel \<noteq> RD_VALUE lab_kernel"
  by (simp add: WR_VALUE_def RD_VALUE_def lab_kernel_def)

theorem ioctl_set_get_witness:
  "\<exists>left'. klog (etx_run lab_kernel [F_ioctl (RD_VALUE lab_kernel) 0x20]
       (etx_run lab_kernel [F_ioctl (WR_VALUE lab_kernel) 0x10, F_open, F_write 0 3] etx_zero)) =
     klog (etx_run lab_kernel [F_ioctl (WR_VALUE lab_kernel) 0x10, F_open, F_write 0 3] etx_zero) @
       Copy_to_user 0x20 [7, 7, 7, 7] left' #
       (if left' = 0 then [] else [Void_call (Printk KERN_ERR (ln ''Data Read : Err!'') [])])"
proof -
  have set: "from_user lab_kernel (klog etx_zero) 0x10 4 = (0, [7, 7, 7, 7])"
    by (simp add: lab_kernel_sel numeral_eq_Suc)
  have len: "length [7, 7, 7, 7 :: u8] = 4" by simp
  have between: "\<forall>c \<in> set [F_open, F_write 0 3]. \<forall>x. c \<noteq> F_ioctl (WR_VALUE lab_kernel) x" by simp
  show ?thesis by (rule ioctl_set_get [OF lab_WR_RD set len between refl refl])
qed

text \<open>
  The ioctl handler reports success for every command, even when a user copy failed, and changes
  the stored value on \<open>WR_VALUE\<close> only, to whatever the copy left in it.
\<close>

theorem ioctl_always_succeeds:
  "fst (run_state (etx_ioctl E cmd arg) s) = 0 \<and>
   etx_value (snd (run_state (etx_ioctl E cmd arg) s)) =
     (if cmd = WR_VALUE E then of_le32 (snd (from_user E (klog s) arg 4)) else etx_value s)"
  by (auto simp: prog split: prod.split)

text \<open>
  C11: a failed init has cleaned up exactly when \<open>cdev_add\<close> had not succeeded. Once it has, both
  error labels give the device number back under the live cdev, which is never deleted.
\<close>

theorem etx_init_unwind:
  assumes "klog s = []" and "run_state (etx_driver_init E) s = (r, s')"
  shows "(r = 0 \<or> r = - 1) \<and> Void_call (Cdev_del etx_cdev) \<notin> set (klog s') \<and>
    held E s' = (if r = 0 then Some (etx_holds s')
      else if \<exists>d x. Int_call (Cdev_add etx_cdev d 1) x \<in> set (klog s') \<and> 0 \<le> x then None else Some [])"
  using assms by (auto simp: prog Let_def etx_holds_def held_simps split: if_splits)

theorem etx_init_unwind_witness:
  "held (lab_kernel\<lparr>ptr_ret := (\<lambda>h c. - 12)\<rparr>)
     (snd (run_state (etx_driver_init (lab_kernel\<lparr>ptr_ret := (\<lambda>h c. - 12)\<rparr>)) etx_zero)) = None"
proof -
  define E where "E = lab_kernel\<lparr>ptr_ret := (\<lambda>h c. - 12)\<rparr>"
  obtain r s' where run: "run_state (etx_driver_init E) etx_zero = (r, s')" by fastforce
  have "r = - 1 \<and> Int_call (Cdev_add etx_cdev 0x0F500000 1) 0 \<in> set (klog s')"
    using run by (simp add: E_def etx_zero_def etx_prog Let_def lab_kernel_def, elim conjE, hypsubst, simp)
  then have "r \<noteq> 0" and "\<exists>d x. Int_call (Cdev_add etx_cdev d 1) x \<in> set (klog s') \<and> 0 \<le> x"
    by auto
  moreover have "klog etx_zero = []" by (simp add: etx_zero_def)
  ultimately have "held E s' = None"
    using etx_init_unwind [OF _ run] by simp
  with run show ?thesis by (simp add: E_def)
qed

text \<open>
  Where the kernel never refuses the class or the device node, every sequence of loads, file
  operations and unloads keeps the module's resources exact: everything while loaded, nothing else.
\<close>

theorem etx_lifecycle:
  assumes "mod_reach E etx_zero (\<lambda>E. returns (etx_driver_init E)) etx_driver_exit etx_call l s" and "class_device_ok E"
  shows "(l = Unloaded \<or> l = Loaded) \<and> held E s = Some (if l = Loaded then
    [Device (etx_class s) (etx_dev s), Class (etx_class s), Cdev_live etx_cdev, Region (etx_dev s) 1] else [])"
  using etx.reach_held [OF assms] by (simp add: etx_holds_def)

lemma lab_class_device_ok: "class_device_ok lab_kernel"
  by (simp add: class_device_ok_def lab_kernel_def)

theorem etx_lifecycle_witness:
  "held lab_kernel (snd (run_state (etx_driver_init lab_kernel) etx_zero)) =
   Some [Device 0x1000 0x0F500000, Class 0x1000, Cdev_live etx_cdev, Region 0x0F500000 1]"
proof -
  obtain s' where run: "run_state (etx_driver_init lab_kernel) etx_zero = (0, s')"
      and vars: "etx_class s' = 0x1000" "etx_dev s' = 0x0F500000"
    by (auto simp: etx_zero_def etx_prog Let_def lab_kernel_def)
  have "mod_reach lab_kernel etx_zero (\<lambda>E. returns (etx_driver_init E)) etx_driver_exit etx_call Loaded s'"
    by (rule reach_loaded [of etx_zero _ _ 0]) (simp add: etx_zero_def, simp_all add: run)
  from etx_lifecycle [OF this lab_class_device_ok] run vars show ?thesis by simp
qed

section \<open>The driver as a register\<close>

text \<open>
  The abstract machine: a 32-bit register that accepts one copy per ioctl. A write takes over whatever its copy
  from the caller's address left in the variable, a read offers exactly the register's bytes to the caller's
  address, and no other operation copies anything or changes the register. Nothing is assumed of the user
  memory, nor that a copy succeeds.
\<close>

fun reg_step :: "kenv \<Rightarrow> fcall \<Rightarrow> kevent list \<Rightarrow> u32 \<Rightarrow> u32 option" where
  "reg_step E (F_ioctl cmd arg) os v =
     (if cmd = WR_VALUE E then
        (case os of [Copy_from_user p n left bs] \<Rightarrow> if p = arg \<and> n = 4 then Some (of_le32 bs) else None | _ \<Rightarrow> None)
      else if cmd = RD_VALUE E then
        (case os of [Copy_to_user p bs left] \<Rightarrow> if p = arg \<and> bs = le32 v then Some v else None | _ \<Rightarrow> None)
      else if os = [] then Some v else None)"
| "reg_step E c os v = (if os = [] then Some v else None)"

fun is_copy :: "kevent \<Rightarrow> bool" where
  "is_copy (Copy_from_user _ _ _ _) = True"
| "is_copy (Copy_to_user _ _ _) = True"
| "is_copy _ = False"

definition etx_copies :: "etx_state \<Rightarrow> kevent list" where
  "etx_copies s = filter is_copy (klog s)"

definition etx_step :: "kenv \<Rightarrow> fcall \<Rightarrow> etx_state \<Rightarrow> etx_state" where
  "etx_step E c s = snd (run_state (vfs E (etx_fops E) c) s)"

lemma etx_step_accepted:
  "\<exists>os. etx_copies (etx_step E c s) = etx_copies s @ os \<and> reg_step E c os (etx_value s) = Some (etx_value (etx_step E c s))"
  by (cases c) (auto simp: etx_step_def etx_copies_def vfs_def Let_def prog split: prod.split)

interpretation etx_reg: simulation "etx_step E" etx_value etx_copies "reg_step E"
  by unfold_locales (rule etx_step_accepted)

text \<open>
  C2: over any sequence of file operations, on any kernel and with any outcome of each user copy, failed and
  partial ones included, the driver is a 32-bit register: each write ioctl makes one copy, of four bytes from its
  argument, and the value becomes what that copy left; each read ioctl makes one copy, of exactly the value's
  bytes to its argument; no other operation copies anything or changes the value.
\<close>

theorem etx_refines_register:
  "\<exists>xs. map fst xs = cs \<and> etx_copies (fold (etx_step E) cs s) = etx_copies s @ concat (map snd xs) \<and>
     accepts (reg_step E) xs (etx_value s) = Some (etx_value (fold (etx_step E) cs s))"
  by (rule etx_reg.steps_accepted)

text \<open>A user memory that keeps its four-byte cells and can always be copied from.\<close>

definition user_memory :: "kenv \<Rightarrow> (u64 \<Rightarrow> u8 list) \<Rightarrow> bool" where
  "user_memory E mem \<longleftrightarrow> WR_VALUE E \<noteq> RD_VALUE E \<and> (\<forall>h a. from_user E h a 4 = (0, mem a))"

end
