(* ===== verification/Esp32_Driver.thy ===== *)
theory Esp32_Driver
  imports Char_Device
begin

text \<open>
  \<open>MyWi-fiDriver.c\<close>: a character device with a dynamically allocated number, its own class and
  device node. Its file operations have open and release only.
\<close>

record esp32_state = kst +
  esp32_dev_num :: u32
  esp32_class :: kptr
  esp32_device :: kptr

text \<open>The static variables as the file initialises them.\<close>

definition esp32_zero :: esp32_state where
  "esp32_zero = \<lparr>klog = [], esp32_dev_num = 0, esp32_class = NULL, esp32_device = NULL\<rparr>"

definition esp32_DRIVER_NAME :: string where "esp32_DRIVER_NAME = ''esp32_wifi''"

abbreviation esp32_cdev :: obj where "esp32_cdev \<equiv> Addr_of ''cdev''"

definition esp32_open :: "('a kst_scheme, int) state" where
  "esp32_open = do { kvoid (Printk KERN_INFO (ln ''Opened /dev/myWi-Fi device'') []); State_Monad.return 0 }"

definition esp32_release :: "('a kst_scheme, int) state" where
  "esp32_release = do { kvoid (Printk KERN_INFO (ln ''Closed /dev/my-Wi-Fi device'') []); State_Monad.return 0 }"

definition esp32_fops :: "('a kst_scheme) file_operations" where
  "esp32_fops = \<lparr>fo_owner = False, fo_open = Some esp32_open, fo_release = Some esp32_release,
     fo_read = None, fo_write = None, fo_ioctl = None\<rparr>"

definition esp32_init :: "kenv \<Rightarrow> (esp32_state, int) state" where
  "esp32_init E = do {
     (ret, d) \<leftarrow> kalloc_region E 0 1 esp32_DRIVER_NAME;
     upd (esp32_dev_num_update (\<lambda>_. d));
     if ret < 0 then do {
       kvoid (Printk KERN_ERR (ln ''Failed to allocate device number'') []);
       State_Monad.return ret
     } else do {
       cl \<leftarrow> kptr_call E (Class_create esp32_DRIVER_NAME);
       upd (esp32_class_update (\<lambda>_. cl));
       if IS_ERR E cl then do {
         kvoid (Printk KERN_ERR (ln ''Failed to create device class'') []);
         kvoid (Unregister_chrdev_region d 1);
         State_Monad.return (PTR_ERR E cl)
       } else do {
         dv \<leftarrow> kptr_call E (Device_create cl d esp32_DRIVER_NAME);
         upd (esp32_device_update (\<lambda>_. dv));
         if IS_ERR E dv then do {
           kvoid (Printk KERN_ERR (ln ''Failed to create device'') []);
           kvoid (Class_destroy cl);
           kvoid (Unregister_chrdev_region d 1);
           State_Monad.return (PTR_ERR E dv)
         } else do {
           kvoid (Cdev_init esp32_cdev ''esp32_fops'');
           ret \<leftarrow> kint E (Cdev_add esp32_cdev d 1);
           if ret < 0 then do {
             kvoid (Printk KERN_ERR (ln ''Failed to register file operations'') []);
             kvoid (Device_destroy cl d);
             kvoid (Class_destroy cl);
             kvoid (Unregister_chrdev_region d 1);
             State_Monad.return ret
           } else do {
             kvoid (Printk KERN_INFO (ln ''ESP32 Wi-Fi module initialized'') []);
             State_Monad.return 0
           }
         }
       }
     }
   }"

definition esp32_exit :: "kenv \<Rightarrow> (esp32_state, unit) state" where
  "esp32_exit E = do {
     kvoid (Cdev_del esp32_cdev);
     cl \<leftarrow> reads esp32_class;
     d \<leftarrow> reads esp32_dev_num;
     kvoid (Device_destroy cl d);
     kvoid (Class_destroy cl);
     kvoid (Unregister_chrdev_region d 1);
     kvoid (Printk KERN_INFO (ln ''ESP32 Wi-Fi module removed'') [])
   }"

lemmas esp32_prog [prog] = esp32_open_def esp32_release_def esp32_fops_def esp32_init_def esp32_exit_def

definition esp32_call :: "kenv \<Rightarrow> fcall \<Rightarrow> (esp32_state, fault option) state" where
  "esp32_call E = fop_call E esp32_fops"

definition esp32_holds :: "esp32_state \<Rightarrow> resource list" where
  "esp32_holds s = [Cdev_live esp32_cdev, Device (esp32_class s) (esp32_dev_num s),
     Class (esp32_class s), Region (esp32_dev_num s) 1]"

lemma esp32_init_law:
  "kernel_doc E \<Longrightarrow> run_state (esp32_init E) s = (r, s') \<Longrightarrow> held E s = Some st \<Longrightarrow>
   held E s' = Some (if r < 0 then st else esp32_holds s' @ st)"
  by (auto simp: prog Let_def esp32_holds_def held_simps kernel_doc_def split: if_splits)

lemma esp32_call_law:
  "run_state (esp32_call E c) s = (f, s') \<Longrightarrow> held E s = Some (esp32_holds s @ st) \<Longrightarrow>
   f = None \<and> held E s' = Some (esp32_holds s' @ st)"
  by (auto simp: esp32_call_def call_simps prog esp32_holds_def held_simps split: fcall.splits)

lemma esp32_exit_law:
  "run_state (esp32_exit E) s = (u, s') \<Longrightarrow> held E s = Some (esp32_holds s @ st) \<Longrightarrow> held E s' = Some st"
  by (auto simp: prog esp32_holds_def held_simps)

definition esp32_about :: module_about where
  "esp32_about = \<lparr>MODULE_LICENSE = ''GPL'', MODULE_AUTHOR = Some ''Your Name'',
     MODULE_DESCRIPTION = Some ''ESP32 Wi-Fi module driver'', MODULE_VERSION = None\<rparr>"

definition esp32_module :: "esp32_state kernel_module" where
  "esp32_module = \<lparr>module_data = esp32_zero, module_init = (\<lambda>E. returns (esp32_init E)), module_exit = esp32_exit, about = esp32_about\<rparr>"

interpretation esp32: kmodule "\<lambda>E. returns (esp32_init E)" esp32_exit esp32_call esp32_holds kernel_doc
  by (intro kmodule_returns) (rule esp32_init_law esp32_call_law esp32_exit_law, assumption+)+

interpretation esp32_device: char_device "\<lambda>E. esp32_fops" no_handler_error
  by (rule char_device_no_read) (simp add: esp32_prog)

section \<open>Properties\<close>

text \<open>
  Under the documented sign of kernel answers, the four-stage init, its three cleanup paths and the
  exit keep the module's resources exact for every order of loads, file operations and unloads.
\<close>

theorem esp32_lifecycle:
  assumes "mod_reach E esp32_zero (\<lambda>E. returns (esp32_init E)) esp32_exit esp32_call l s" and "kernel_doc E"
  shows "(l = Unloaded \<or> l = Loaded) \<and> held E s = Some (if l = Loaded then
    [Cdev_live esp32_cdev, Device (esp32_class s) (esp32_dev_num s), Class (esp32_class s), Region (esp32_dev_num s) 1] else [])"
  using esp32.reach_held [OF assms] by (simp add: esp32_holds_def)

theorem esp32_lifecycle_witness:
  "held lab_kernel (snd (run_state (esp32_init lab_kernel) esp32_zero)) =
   Some [Cdev_live esp32_cdev, Device 0x1000 0x0F500000, Class 0x1000, Region 0x0F500000 1]"
proof -
  obtain s' where run: "run_state (esp32_init lab_kernel) esp32_zero = (0, s')"
      and vars: "esp32_class s' = 0x1000" "esp32_dev_num s' = 0x0F500000"
    by (auto simp: esp32_zero_def esp32_prog Let_def lab_kernel_sel)
  have "mod_reach lab_kernel esp32_zero (\<lambda>E. returns (esp32_init E)) esp32_exit esp32_call Loaded s'"
    by (rule reach_loaded [of esp32_zero _ _ 0]) (simp add: esp32_zero_def, simp_all add: run)
  from esp32_lifecycle [OF this lab_kernel_doc] run vars show ?thesis by simp
qed

text \<open>
  The init function fails exactly when it has logged an error message, succeeds exactly
  when it has logged the success message, and returns the negative status of the call that failed.
\<close>

theorem esp32_init_error:
  assumes "kernel_doc E" and "klog s = []" and "run_state (esp32_init E) s = (r, s')"
  shows "r \<le> 0 \<and> (r < 0 \<longleftrightarrow> (\<exists>m as. Void_call (Printk KERN_ERR m as) \<in> set (klog s'))) \<and>
    (r = 0 \<longleftrightarrow> Void_call (Printk KERN_INFO (ln ''ESP32 Wi-Fi module initialized'') []) \<in> set (klog s')) \<and>
    r \<in> insert 0 (kstatus E ` set (klog s'))"
  using assms by (auto simp: esp32_prog Let_def kernel_doc_def not_less split: if_splits intro: order_antisym)

theorem esp32_init_error_witness:
  "\<exists>s' m as. run_state (esp32_init (lab_kernel\<lparr>int_ret := (\<lambda>h c. - 16)\<rparr>)) esp32_zero = (- 16, s') \<and>
     Void_call (Printk KERN_ERR m as) \<in> set (klog s')"
proof -
  define E where "E = lab_kernel\<lparr>int_ret := (\<lambda>h c. - 16)\<rparr>"
  have doc: "kernel_doc E" using lab_kernel_doc by (simp add: E_def kernel_doc_def)
  obtain s' where run: "run_state (esp32_init E) esp32_zero = (- 16, s')"
    by (auto simp: E_def esp32_prog Let_def lab_kernel_sel)
  have "klog esp32_zero = []" by (simp add: esp32_zero_def)
  from esp32_init_error [OF doc this run] run show ?thesis unfolding E_def by auto
qed

lemma esp32_init_accepts: "grants_from E (klog s) \<Longrightarrow> \<exists>s'. run_state (esp32_init E) s = (0, s')"
  by (auto simp: esp32_prog Let_def grants_fromD)

lemma esp32_init_log: "map_prod Inr id (run_state (esp32_init E) s) = (x, s') \<Longrightarrow> \<exists>h. klog s' = klog s @ h"
  by (auto simp: esp32_prog Let_def split: if_splits)

lemma esp32_exit_log: "run_state (esp32_exit E) s = (u, s') \<Longrightarrow> \<exists>h. klog s' = klog s @ h"
  by (auto simp: esp32_prog)

lemma esp32_call_log: "run_state (esp32_call E c) s = (f, s') \<Longrightarrow> \<exists>h. klog s' = klog s @ h"
  by (auto simp: esp32_call_def call_simps esp32_prog split: fcall.splits)

lemma esp32_grants_step:
  assumes "mod_step E esp32_zero (\<lambda>E. returns (esp32_init E)) esp32_exit esp32_call x y" and "grants_from E (klog (snd x))"
  shows "grants_from E (klog (snd y))"
proof -
  have "\<exists>h. klog (snd y) = klog (snd x) @ h"
    using assms(1) by cases (auto dest: esp32_init_log [where s = "fresh esp32_zero _"] esp32_call_log esp32_exit_log)
  with assms(2) show ?thesis by (auto intro: grants_from_append)
qed

lemma esp32_grants_steps:
  assumes "(mod_step E esp32_zero (\<lambda>E. returns (esp32_init E)) esp32_exit esp32_call)\<^sup>*\<^sup>* x y" and "grants_from E (klog (snd x))"
  shows "grants_from E (klog (snd y))"
  using assms by (induction rule: rtranclp_induct) (auto dest: esp32_grants_step)

text \<open>
  C14: whatever happened so far on a kernel with documented answers, which may have refused any request, loads that
  failed at any stage included: from the moment the kernel grants the requests, the driver can be unloaded and
  loaded again, and then holds its four resources and nothing else, nothing left of what failed before.
\<close>

theorem esp32_reload:
  assumes "mod_reach E esp32_zero (\<lambda>E. returns (esp32_init E)) esp32_exit esp32_call l s" and "kernel_doc E"
    and "grants_from E (klog s)"
  shows "\<exists>s'. (mod_step E esp32_zero (\<lambda>E. returns (esp32_init E)) esp32_exit esp32_call)\<^sup>*\<^sup>* (l, s) (Loaded, s') \<and>
    held E s' = Some [Cdev_live esp32_cdev, Device (esp32_class s') (esp32_dev_num s'), Class (esp32_class s'),
      Region (esp32_dev_num s') 1]"
proof -
  let ?step = "mod_step E esp32_zero (\<lambda>E. returns (esp32_init E)) esp32_exit esp32_call"
  have "\<exists>r s'. run_state (returns (esp32_init E)) (fresh esp32_zero s1) = (Inr r, s') \<and> 0 \<le> r"
    if "?step\<^sup>*\<^sup>* (l, s) (Unloaded, s1)" for s1
  proof -
    have "grants_from E (klog (fresh esp32_zero s1))" using esp32_grants_steps [OF that] assms(3) by simp
    from esp32_init_accepts [OF this] show ?thesis by auto
  qed
  from esp32.reloads [OF assms(1,2) esp32.reach_not_crashed [OF assms(1,2)] this]
  show ?thesis by (metis esp32_holds_def)
qed

text \<open>A kernel that refuses the first device node it is asked for: the first load fails, the next succeeds.\<close>

definition late_kernel :: kenv where
  "late_kernel = lab_kernel\<lparr>ptr_ret := (\<lambda>h c. case c of Device_create _ _ _ \<Rightarrow> if length h < 4 then - 12 else lab_ptr c | _ \<Rightarrow> lab_ptr c)\<rparr>"

lemma late_kernel_doc: "kernel_doc late_kernel"
  using lab_kernel_doc by (simp add: late_kernel_def kernel_doc_def)

lemma late_kernel_grants: "4 \<le> length g \<Longrightarrow> grants_from late_kernel g"
  using lab_kernel_grants [of g] by (auto simp: late_kernel_def grants_from_def lab_kernel_sel split: pcall.split)

theorem esp32_reload_witness:
  "\<exists>r s s'. run_state (esp32_init late_kernel) esp32_zero = (r, s) \<and> r < 0 \<and>
    (mod_step late_kernel esp32_zero (\<lambda>E. returns (esp32_init E)) esp32_exit esp32_call)\<^sup>*\<^sup>* (Unloaded, s) (Loaded, s') \<and>
    held late_kernel s' = Some [Cdev_live esp32_cdev, Device (esp32_class s') (esp32_dev_num s'), Class (esp32_class s'),
      Region (esp32_dev_num s') 1]"
proof -
  obtain s where run: "run_state (esp32_init late_kernel) esp32_zero = (- 12, s)" and log: "4 \<le> length (klog s)"
    by (auto simp: late_kernel_def esp32_zero_def esp32_prog Let_def lab_kernel_sel)
  have zero: "klog esp32_zero = []" by (simp add: esp32_zero_def)
  have "mod_reach late_kernel esp32_zero (\<lambda>E. returns (esp32_init E)) esp32_exit esp32_call Unloaded s"
    by (rule mod_reach.step [OF mod_reach.start [OF zero] insmod_fail [of _ _ _ _ "- 12"]])
      (simp_all add: fresh_itself [OF zero] zero run)
  from esp32_reload [OF this late_kernel_doc late_kernel_grants [OF log]] run show ?thesis by auto
qed

end
