(* ===== verification/I2c_Driver.thy ===== *)
theory I2c_Driver
  imports Char_Device
begin

text \<open>
  \<open>I2c_driver_test.c\<close>: an I2C client driver that also offers a character device. Its callbacks
  are the file operations and the bus's probe and remove.
\<close>

record i2c_state = kst +
  i2c_client :: kptr
  i2c_dev_class :: kptr
  i2c_dev_num :: u32

text \<open>The static variables as the file initialises them.\<close>

definition i2c_zero :: i2c_state where
  "i2c_zero = \<lparr>klog = [], i2c_client = NULL, i2c_dev_class = NULL, i2c_dev_num = 0\<rparr>"

definition i2c_DRIVER_NAME :: string where "i2c_DRIVER_NAME = ''i2c_char_driver''"

abbreviation i2c_char_driver :: obj where "i2c_char_driver \<equiv> Addr_of ''i2c_char_driver''"

definition i2c_char_driver_open :: "('a kst_scheme, int) state" where
  "i2c_char_driver_open = do { kvoid (Printk KERN_INFO (ln ''I2C char driver opened'') []); State_Monad.return 0 }"

definition i2c_char_driver_release :: "('a kst_scheme, int) state" where
  "i2c_char_driver_release = do { kvoid (Printk KERN_INFO (ln ''I2C char driver closed'') []); State_Monad.return 0 }"

definition i2c_char_driver_read :: "kptr \<Rightarrow> u64 \<Rightarrow> ('a kst_scheme, u64) state" where
  "i2c_char_driver_read buf len = State_Monad.return 0"

definition i2c_char_driver_write :: "kptr \<Rightarrow> u64 \<Rightarrow> ('a kst_scheme, u64) state" where
  "i2c_char_driver_write buf len = State_Monad.return len"

definition i2c_char_driver_fops :: "('a kst_scheme) file_operations" where
  "i2c_char_driver_fops = \<lparr>fo_owner = False, fo_open = Some i2c_char_driver_open, fo_release = Some i2c_char_driver_release,
     fo_read = Some i2c_char_driver_read, fo_write = Some i2c_char_driver_write, fo_ioctl = None\<rparr>"

definition i2c_char_driver_probe :: "kptr \<Rightarrow> (i2c_state, int) state" where
  "i2c_char_driver_probe client = do {
     kvoid (Printk KERN_INFO (ln ''I2C char driver probed'') []);
     upd (i2c_client_update (\<lambda>_. client));
     State_Monad.return 0
   }"

definition i2c_char_driver_remove :: "kptr \<Rightarrow> (i2c_state, int) state" where
  "i2c_char_driver_remove client = do {
     kvoid (Printk KERN_INFO (ln ''I2C char driver removed'') []);
     State_Monad.return 0
   }"

text \<open>The device ids the bus matches, ended by an empty entry.\<close>

definition i2c_char_driver_id :: "(string \<times> nat) list" where
  "i2c_char_driver_id = [(''i2c_device_name'', 0), ([], 0)]"

text \<open>The driver structure, and the callbacks through which the bus uses it.\<close>

record i2c_driver =
  i2cd_name :: string
  i2cd_owner :: bool
  i2cd_probe :: "kptr \<Rightarrow> (i2c_state, int) state"
  i2cd_remove :: "kptr \<Rightarrow> (i2c_state, int) state"
  i2cd_id_table :: "(string \<times> nat) list"

definition i2c_char_driver_struct :: i2c_driver where
  "i2c_char_driver_struct = \<lparr>i2cd_name = i2c_DRIVER_NAME, i2cd_owner = True, i2cd_probe = i2c_char_driver_probe,
     i2cd_remove = i2c_char_driver_remove, i2cd_id_table = i2c_char_driver_id\<rparr>"

datatype bus_call = Probe kptr | Remove kptr

definition i2c_bus :: "bus_call \<Rightarrow> (i2c_state, int) state" where
  "i2c_bus c = (case c of
     Probe p \<Rightarrow> i2cd_probe i2c_char_driver_struct p
   | Remove p \<Rightarrow> i2cd_remove i2c_char_driver_struct p)"

definition i2c_char_driver_init :: "kenv \<Rightarrow> (i2c_state, int) state" where
  "i2c_char_driver_init E = do {
     ret \<leftarrow> kint E (I2c_add_driver i2c_char_driver);
     if ret < 0 then do {
       kvoid (Printk KERN_ERR (ln ''Failed to register I2C driver'') []);
       State_Monad.return ret
     } else do {
       (ret, d) \<leftarrow> kalloc_region E 0 1 i2c_DRIVER_NAME;
       upd (i2c_dev_num_update (\<lambda>_. d));
       if ret < 0 then do {
         kvoid (Printk KERN_ERR (ln ''Failed to allocate device number'') []);
         kvoid (I2c_del_driver i2c_char_driver);
         State_Monad.return ret
       } else do {
         cl \<leftarrow> kptr_call E (Class_create i2c_DRIVER_NAME);
         upd (i2c_dev_class_update (\<lambda>_. cl));
         if IS_ERR E cl then do {
           kvoid (Unregister_chrdev_region d 1);
           kvoid (I2c_del_driver i2c_char_driver);
           State_Monad.return (PTR_ERR E cl)
         } else do {
           _ \<leftarrow> kptr_call E (Device_create cl d i2c_DRIVER_NAME);
           kvoid (Printk KERN_INFO (ln ''I2C char driver initialized'') []);
           State_Monad.return 0
         }
       }
     }
   }"

definition i2c_char_driver_exit :: "kenv \<Rightarrow> (i2c_state, unit) state" where
  "i2c_char_driver_exit E = do {
     cl \<leftarrow> reads i2c_dev_class;
     d \<leftarrow> reads i2c_dev_num;
     kvoid (Device_destroy cl d);
     kvoid (Class_destroy cl);
     kvoid (Unregister_chrdev_region d 1);
     kvoid (I2c_del_driver i2c_char_driver);
     kvoid (Printk KERN_INFO (ln ''I2C char driver exited'') [])
   }"

lemmas i2c_prog [prog] = i2c_char_driver_open_def i2c_char_driver_release_def i2c_char_driver_read_def
  i2c_char_driver_write_def i2c_char_driver_fops_def i2c_char_driver_probe_def i2c_char_driver_remove_def
  i2c_char_driver_struct_def i2c_bus_def i2c_char_driver_init_def i2c_char_driver_exit_def

definition i2c_call :: "kenv \<Rightarrow> fcall + bus_call \<Rightarrow> (i2c_state, fault option) state" where
  "i2c_call E c = (case c of
     Inl f \<Rightarrow> fop_call E i2c_char_driver_fops f
   | Inr b \<Rightarrow> do { _ \<leftarrow> i2c_bus b; State_Monad.return None })"

definition i2c_holds :: "i2c_state \<Rightarrow> resource list" where
  "i2c_holds s = [Device (i2c_dev_class s) (i2c_dev_num s), Class (i2c_dev_class s),
     Region (i2c_dev_num s) 1, Registered i2c_char_driver]"

text \<open>The init function never looks at what \<open>device_create\<close> returned: the contract needs it to succeed.\<close>

definition i2c_device_ok :: "kenv \<Rightarrow> bool" where
  "i2c_device_ok E \<longleftrightarrow> kernel_doc E \<and> (\<forall>h c d nm. \<not> IS_ERR E (ptr_ret E h (Device_create c d nm)))"

lemma i2c_init_law:
  "i2c_device_ok E \<Longrightarrow> run_state (i2c_char_driver_init E) s = (r, s') \<Longrightarrow> held E s = Some st \<Longrightarrow>
   held E s' = Some (if r < 0 then st else i2c_holds s' @ st)"
  by (auto simp: prog Let_def i2c_holds_def held_simps i2c_device_ok_def kernel_doc_def split: if_splits)

lemma i2c_call_law:
  "run_state (i2c_call E c) s = (f, s') \<Longrightarrow> held E s = Some (i2c_holds s @ st) \<Longrightarrow>
   f = None \<and> held E s' = Some (i2c_holds s' @ st)"
  by (auto simp: i2c_call_def call_simps prog i2c_holds_def held_simps split: fcall.splits sum.splits bus_call.splits)

lemma i2c_exit_law:
  "run_state (i2c_char_driver_exit E) s = (u, s') \<Longrightarrow> held E s = Some (i2c_holds s @ st) \<Longrightarrow> held E s' = Some st"
  by (auto simp: prog i2c_holds_def held_simps)

definition i2c_char_driver_about :: module_about where
  "i2c_char_driver_about = \<lparr>MODULE_LICENSE = ''GPL'', MODULE_AUTHOR = Some ''Your Name'',
     MODULE_DESCRIPTION = Some ''I2C char driver'', MODULE_VERSION = None\<rparr>"

definition i2c_char_driver_module :: "i2c_state kernel_module" where
  "i2c_char_driver_module = \<lparr>module_data = i2c_zero, module_init = (\<lambda>E. returns (i2c_char_driver_init E)), module_exit = i2c_char_driver_exit, about = i2c_char_driver_about\<rparr>"

interpretation i2c: kmodule "\<lambda>E. returns (i2c_char_driver_init E)" i2c_char_driver_exit i2c_call i2c_holds i2c_device_ok
  by (intro kmodule_returns) (rule i2c_init_law i2c_call_law i2c_exit_law, assumption+)+

interpretation i2c_device: char_device "\<lambda>E. i2c_char_driver_fops" "\<lambda>E. True"
  by (rule char_device_empty_read) (simp add: i2c_prog)

section \<open>Properties\<close>

text \<open>
  Where \<open>device_create\<close> succeeds, every order of loads, file operations, probes, removes and
  unloads keeps the module's resources exact.
\<close>

theorem i2c_lifecycle:
  assumes "mod_reach E i2c_zero (\<lambda>E. returns (i2c_char_driver_init E)) i2c_char_driver_exit i2c_call l s" and "i2c_device_ok E"
  shows "(l = Unloaded \<or> l = Loaded) \<and> held E s = Some (if l = Loaded then
    [Device (i2c_dev_class s) (i2c_dev_num s), Class (i2c_dev_class s), Region (i2c_dev_num s) 1, Registered i2c_char_driver] else [])"
  using i2c.reach_held [OF assms] by (simp add: i2c_holds_def)

lemma lab_i2c_device_ok: "i2c_device_ok lab_kernel"
  using lab_kernel_doc by (simp add: i2c_device_ok_def lab_kernel_sel)

theorem i2c_lifecycle_witness:
  "held lab_kernel (snd (run_state (i2c_char_driver_init lab_kernel) i2c_zero)) =
   Some [Device 0x1000 0x0F500000, Class 0x1000, Region 0x0F500000 1, Registered i2c_char_driver]"
proof -
  obtain s' where run: "run_state (i2c_char_driver_init lab_kernel) i2c_zero = (0, s')"
      and vars: "i2c_dev_class s' = 0x1000" "i2c_dev_num s' = 0x0F500000"
    by (auto simp: i2c_zero_def i2c_prog Let_def lab_kernel_sel)
  have "mod_reach lab_kernel i2c_zero (\<lambda>E. returns (i2c_char_driver_init E)) i2c_char_driver_exit i2c_call Loaded s'"
    by (rule reach_loaded [of i2c_zero _ _ 0]) (simp add: i2c_zero_def, simp_all add: run)
  from i2c_lifecycle [OF this lab_i2c_device_ok] run vars show ?thesis by simp
qed

text \<open>
  When \<open>device_create\<close> fails, the init function, which never looks at its
  result, still reports success with no device node, and the exit function then destroys a device that
  does not exist.
\<close>

theorem i2c_unchecked_device:
  assumes "klog s = []" and "run_state (i2c_char_driver_init E) s = (r, s')"
    and "Ptr_call (Device_create c d nm) p \<in> set (klog s')" and "IS_ERR E p"
  shows "r = 0 \<and> held E s' = Some [Class c, Region d 1, Registered i2c_char_driver] \<and>
    held E (snd (run_state (i2c_char_driver_exit E) s')) = None"
  using assms by (auto simp: i2c_prog Let_def held_simps split: if_splits)

lemma lab_i2c_device_err:
  "ptr_ret (lab_kernel\<lparr>ptr_ret := (\<lambda>h c. case c of Device_create _ _ _ \<Rightarrow> - 12 | _ \<Rightarrow> lab_ptr c)\<rparr>) h c =
   (case c of Device_create _ _ _ \<Rightarrow> - 12 | _ \<Rightarrow> lab_ptr c)"
  by simp

theorem i2c_unchecked_device_witness:
  "\<exists>E s'. run_state (i2c_char_driver_init E) i2c_zero = (0, s') \<and>
     held E (snd (run_state (i2c_char_driver_exit E) s')) = None"
proof -
  define E where "E = lab_kernel\<lparr>ptr_ret := (\<lambda>h c. case c of Device_create _ _ _ \<Rightarrow> - 12 | _ \<Rightarrow> lab_ptr c)\<rparr>"
  obtain s' where run: "run_state (i2c_char_driver_init E) i2c_zero = (0, s')"
      and dev: "Ptr_call (Device_create 0x1000 0x0F500000 i2c_DRIVER_NAME) (- 12) \<in> set (klog s')"
    by (auto simp: E_def i2c_zero_def i2c_prog Let_def lab_kernel_sel)
  have "klog i2c_zero = []" and "IS_ERR E (- 12)" by (simp_all add: i2c_zero_def E_def lab_kernel_sel)
  from i2c_unchecked_device [OF this(1) run dev this(2)] run show ?thesis by blast
qed

section \<open>The remembered client\<close>

text \<open>Running one bus callback. The abstract machine is the client probed last.\<close>

definition i2c_step :: "bus_call \<Rightarrow> i2c_state \<Rightarrow> i2c_state" where
  "i2c_step c s = snd (run_state (i2c_bus c) s)"

definition client_step :: "bus_call \<Rightarrow> kptr \<Rightarrow> kptr" where
  "client_step c p = (case c of Probe q \<Rightarrow> q | Remove q \<Rightarrow> p)"

lemma i2c_client_step: "i2c_client (i2c_step c s) = client_step c (i2c_client s)"
  by (simp add: i2c_step_def client_step_def i2c_prog split: bus_call.split)

lemma i2c_client_steps: "i2c_client (fold i2c_step cs s) = fold client_step cs (i2c_client s)"
  by (induction cs arbitrary: s) (simp_all add: i2c_client_step)

text \<open>
  \<open>i2c_client\<close> is the client probed last, also after that client was removed: remove does not clear
  it.
\<close>

lemma i2c_client_stale:
  "i2c_client (fold i2c_step (cs @ [Probe p, Remove p]) s) = p"
  by (simp add: i2c_client_step client_step_def)

end
