(* ===== verification/Spi_Char_Driver.thy ===== *)
theory Spi_Char_Driver
  imports Char_Device
begin

text \<open>
  \<open>CharSpiKS.c\<close>: a character device whose read fetches 16 bytes over SPI and copies the requested
  part to the user.
\<close>

record spi_char_state = kst +
  spi_char_dev_num :: u32
  spi_char_my_cdev :: kptr
  spi_char_my_spi_dev :: kptr

text \<open>The static variables as the file initialises them.\<close>

definition spi_char_zero :: spi_char_state where
  "spi_char_zero = \<lparr>klog = [], spi_char_dev_num = 0, spi_char_my_cdev = NULL, spi_char_my_spi_dev = NULL\<rparr>"

definition spi_char_DEVICE_NAME :: string where "spi_char_DEVICE_NAME = ''spi_char_dev''"
definition spi_char_DATA_SIZE :: nat where "spi_char_DATA_SIZE = 16"

text \<open>
  \<open>spi_transfer\<close> returns a buffer or null. The pointer passed to it is the uninitialised
  \<open>spi_data\<close>. The error message of the first branch is addressed to an unrelated object.
\<close>

definition spi_char_read :: "kenv \<Rightarrow> kptr \<Rightarrow> u64 \<Rightarrow> (spi_char_state, u64) state" where
  "spi_char_read E user_buf count = do {
     spi_data \<leftarrow> kptr_call E (Spi_transfer (uninit_ptr E) spi_char_DATA_SIZE);
     if spi_data = NULL then do {
       kvoid (Dev_err (Addr_of ''d_sb'') (ln ''Failed to receive data from SPI device''));
       State_Monad.return (word_of_int (- EFAULT))
     } else do {
       data \<leftarrow> reads (\<lambda>s. spi_rx E (klog s) spi_data);
       let count = min count (word_of_nat spi_char_DATA_SIZE);
       left \<leftarrow> kcopy_to_user E user_buf (take (unat count) data);
       if left \<noteq> 0 then do {
         kvoid (Kfree spi_data);
         State_Monad.return (word_of_int (- EFAULT))
       } else do {
         kvoid (Kfree spi_data);
         State_Monad.return count
       }
     }
   }"

definition spi_char_fops :: "kenv \<Rightarrow> spi_char_state file_operations" where
  "spi_char_fops E = \<lparr>fo_owner = True, fo_open = None, fo_release = None,
     fo_read = Some (spi_char_read E), fo_write = None, fo_ioctl = None\<rparr>"

text \<open>The two cleanup labels, each falling through to the next.\<close>

definition spi_err_free_chrdev :: "int \<Rightarrow> (spi_char_state, fault + int) state" where
  "spi_err_free_chrdev ret = do {
     d \<leftarrow> reads spi_char_dev_num;
     kvoid (Unregister_chrdev_region d 1);
     State_Monad.return (Inr ret)
   }"

definition spi_err_free_cdev :: "int \<Rightarrow> (spi_char_state, fault + int) state" where
  "spi_err_free_cdev ret = do {
     c \<leftarrow> reads spi_char_my_cdev;
     kvoid (Kobject_put (At c));
     spi_err_free_chrdev ret
   }"

text \<open>
  When the SPI device is missing, the error message reads \<open>my_cdev->dev\<close> before \<open>my_cdev\<close> has been
  allocated by this init.
\<close>

definition spi_char_init :: "kenv \<Rightarrow> (spi_char_state, fault + int) state" where
  "spi_char_init E = do {
     (ret, d) \<leftarrow> kalloc_region E 0 1 spi_char_DEVICE_NAME;
     upd (spi_char_dev_num_update (\<lambda>_. d));
     if ret < 0 then State_Monad.return (Inr ret)
     else do {
       sp \<leftarrow> kptr_call E Spi_bus_find_device;
       upd (spi_char_my_spi_dev_update (\<lambda>_. sp));
       if sp = NULL then do {
         c \<leftarrow> reads spi_char_my_cdev;
         if c = NULL then State_Monad.return (Inl Null_deref)
         else do {
           kvoid (Dev_err (At c) (ln ''Failed to find SPI device''));
           spi_err_free_chrdev (- EOPNOTSUPP)
         }
       } else do {
         c \<leftarrow> kptr_call E Cdev_alloc;
         upd (spi_char_my_cdev_update (\<lambda>_. c));
         if c = NULL then spi_err_free_chrdev (- ENOMEM)
         else do {
           kvoid (Cdev_init (At c) ''spi_char_fops'');
           ret \<leftarrow> kint E (Cdev_add (At c) d 1);
           if ret < 0 then spi_err_free_cdev ret
           else State_Monad.return (Inr 0)
         }
       }
     }
   }"

definition spi_char_exit :: "kenv \<Rightarrow> (spi_char_state, unit) state" where
  "spi_char_exit E = do {
     c \<leftarrow> reads spi_char_my_cdev;
     kvoid (Cdev_del (At c));
     d \<leftarrow> reads spi_char_dev_num;
     kvoid (Unregister_chrdev_region d 1)
   }"

lemmas spi_char_prog [prog] = spi_char_read_def spi_char_fops_def spi_err_free_chrdev_def
  spi_err_free_cdev_def spi_char_init_def spi_char_exit_def

definition spi_char_call :: "kenv \<Rightarrow> fcall \<Rightarrow> (spi_char_state, fault option) state" where
  "spi_char_call E = fop_call E (spi_char_fops E)"

definition spi_char_holds :: "spi_char_state \<Rightarrow> resource list" where
  "spi_char_holds s = [Cdev_live (At (spi_char_my_cdev s)), Cdev_mem (spi_char_my_cdev s), Region (spi_char_dev_num s) 1]"

definition spi_found :: "kenv \<Rightarrow> bool" where
  "spi_found E \<longleftrightarrow> (\<forall>h. ptr_ret E h Spi_bus_find_device \<noteq> NULL)"

lemma spi_char_init_law:
  "spi_found E \<Longrightarrow> run_state (spi_char_init E) s = (x, s') \<Longrightarrow> held E s = Some st \<Longrightarrow>
   \<exists>r. x = Inr r \<and> held E s' = Some (if r < 0 then st else spi_char_holds s' @ st)"
  by (auto simp: prog Let_def spi_char_holds_def held_simps spi_found_def errno_defs split: if_splits)

lemma spi_char_call_law:
  "run_state (spi_char_call E c) s = (f, s') \<Longrightarrow> held E s = Some (spi_char_holds s @ st) \<Longrightarrow>
   f = None \<and> held E s' = Some (spi_char_holds s' @ st)"
  by (auto simp: spi_char_call_def call_simps prog spi_char_holds_def held_simps split: fcall.splits if_splits)

lemma spi_char_exit_law:
  "run_state (spi_char_exit E) s = (u, s') \<Longrightarrow> held E s = Some (spi_char_holds s @ st) \<Longrightarrow> held E s' = Some st"
  by (auto simp: prog spi_char_holds_def held_simps)

definition spi_char_about :: module_about where
  "spi_char_about = \<lparr>MODULE_LICENSE = ''GPL'', MODULE_AUTHOR = Some ''Your Name'',
     MODULE_DESCRIPTION = Some ''Character driver for SPI data access'', MODULE_VERSION = None\<rparr>"

definition spi_char_module :: "spi_char_state kernel_module" where
  "spi_char_module = \<lparr>module_data = spi_char_zero, module_init = spi_char_init, module_exit = spi_char_exit, about = spi_char_about\<rparr>"

interpretation spi_char: kmodule spi_char_init spi_char_exit spi_char_call spi_char_holds spi_found
  by unfold_locales (rule spi_char_init_law spi_char_call_law spi_char_exit_law, assumption+)+

text \<open>A SPI transfer fills the buffer it returns.\<close>

definition spi_char_rx_full :: "kenv \<Rightarrow> bool" where
  "spi_char_rx_full E \<longleftrightarrow> (\<forall>h p. length (spi_rx E h p) = spi_char_DATA_SIZE)"

lemma min_count: "sint (min n 16 :: u64) = uint (min n 16) \<and> uint (min n 16) \<le> uint n \<and> uint (min n 16) \<le> 16"
proof -
  have "sint m = uint m" if "uint m \<le> 16" for m :: u64
    unfolding sint_uint by (rule signed_take_bit_int_eq_self) (use that in \<open>auto intro: order_trans [OF _ unsigned_greater_eq]\<close>)
  moreover have "uint (min n 16) \<le> 16" and "uint (min n 16) \<le> uint n"
    by (simp_all add: min_def word_le_def)
  ultimately show ?thesis by blast
qed

lemma spi_char_read_typed:
  assumes "spi_char_rx_full E" and "run_state (vfs E (spi_char_fops E) (F_read p n)) s = (r, s')" and "0 \<le> sint r"
  shows "sint r \<le> uint n \<and> nat (sint r) \<le> length (delivered (drop (length (klog s)) (klog s')))"
proof -
  have neg: "sint (word_of_int (- EFAULT) :: u64) < 0" by (simp add: EFAULT_def)
  have len: "length (take (unat (min n 16)) (spi_rx E h q)) = nat (sint (min n 16))" for h q
  proof -
    have "unat (min n 16) \<le> 16" using min_count [of n] by (simp only: unat_eq_nat_uint nat_le_iff) simp
    then show ?thesis using assms(1) min_count [of n] by (simp add: spi_char_rx_full_def spi_char_DATA_SIZE_def)
  qed
  show ?thesis
    using assms(2,3) neg len min_count [of n]
    by (auto simp: vfs_def Let_def spi_char_fops_def spi_char_read_def spi_char_DATA_SIZE_def split: if_splits)
qed

interpretation spi_char_device: char_device spi_char_fops spi_char_rx_full
  by unfold_locales (rule spi_char_read_typed, assumption+)

section \<open>Properties\<close>

text \<open>
  Where the SPI device exists, the init function never faults and every order of loads, reads and
  unloads, with every kernel answer, keeps the module's resources exact.
\<close>

theorem spi_char_lifecycle:
  assumes "mod_reach E spi_char_zero spi_char_init spi_char_exit spi_char_call l s" and "spi_found E"
  shows "(l = Unloaded \<or> l = Loaded) \<and> held E s = Some (if l = Loaded then
    [Cdev_live (At (spi_char_my_cdev s)), Cdev_mem (spi_char_my_cdev s), Region (spi_char_dev_num s) 1] else [])"
  using spi_char.reach_held [OF assms] by (simp add: spi_char_holds_def)

lemma lab_spi_found: "spi_found lab_kernel"
  by (simp add: spi_found_def lab_kernel_sel)

theorem spi_char_lifecycle_witness:
  "held lab_kernel (snd (run_state (spi_char_init lab_kernel) spi_char_zero)) =
   Some [Cdev_live (At 0x3000), Cdev_mem 0x3000, Region 0x0F500000 1]"
proof -
  obtain s' where run: "run_state (spi_char_init lab_kernel) spi_char_zero = (Inr 0, s')"
      and vars: "spi_char_my_cdev s' = 0x3000" "spi_char_dev_num s' = 0x0F500000"
    by (auto simp: spi_char_zero_def spi_char_prog Let_def lab_kernel_sel)
  have "mod_reach lab_kernel spi_char_zero spi_char_init spi_char_exit spi_char_call Loaded s'"
    by (rule reach_loaded [of spi_char_zero _ _ 0]) (simp add: spi_char_zero_def, simp_all add: run)
  from spi_char_lifecycle [OF this lab_spi_found] run vars show ?thesis by simp
qed

lemma spi_char_init_fresh:
  assumes "run_state (spi_char_init E) (fresh spi_char_zero s) = (x, s')" and "held E s = Some []"
  shows "case x of
      Inl f \<Rightarrow> f = Null_deref \<and> held E s' = Some [Region (spi_char_dev_num s') 1] \<and> last (klog s') = Ptr_call Spi_bus_find_device NULL
    | Inr r \<Rightarrow> held E s' = Some (if r < 0 then [] else spi_char_holds s')"
  using assms by (auto simp: spi_char_prog Let_def held_simps spi_char_holds_def spi_char_zero_def errno_defs split: if_splits)

lemma spi_char_reach:
  assumes "mod_reach E spi_char_zero spi_char_init spi_char_exit spi_char_call l s"
  shows "case l of Unloaded \<Rightarrow> held E s = Some [] | Loaded \<Rightarrow> held E s = Some (spi_char_holds s)
    | Crashed f \<Rightarrow> f = Null_deref \<and> held E s = Some [Region (spi_char_dev_num s) 1] \<and> last (klog s) = Ptr_call Spi_bus_find_device NULL"
  using assms
proof (induction rule: mod_reach.induct)
  case (start s)
  then show ?case by (simp add: held_def)
next
  case (step l s l' s')
  from step.hyps(2) show ?case
    by (cases rule: mod_step.cases)
      (use step.IH in \<open>auto dest: spi_char_init_fresh spi_char_call_law [where st = "[]", simplified]
        spi_char_exit_law [where st = "[]", simplified] split: if_splits\<close>)
qed

text \<open>
  C18: when the SPI device is missing, the init function never unwinds. On any kernel, after any loads
  and unloads, a load that gets its device number and does not find the device does nothing else than
  dereference the null \<open>my_cdev\<close> for its error message, with the number still held; this is the one way the
  module can crash, and otherwise it holds its cdev and its number exactly while loaded.
\<close>

theorem spi_char_missing_device:
  assumes "mod_reach E spi_char_zero spi_char_init spi_char_exit spi_char_call l s"
  shows "(case l of
      Unloaded \<Rightarrow> held E s = Some []
    | Loaded \<Rightarrow> held E s = Some [Cdev_live (At (spi_char_my_cdev s)), Cdev_mem (spi_char_my_cdev s), Region (spi_char_dev_num s) 1]
    | Crashed f \<Rightarrow> f = Null_deref \<and> held E s = Some [Region (spi_char_dev_num s) 1] \<and> last (klog s) = Ptr_call Spi_bus_find_device NULL) \<and>
    (l = Unloaded \<and> 0 \<le> alloc_ret E (klog s) \<and>
      ptr_ret E (klog s @ [Alloc_chrdev_region 0 1 spi_char_DEVICE_NAME (alloc_ret E (klog s)) (alloc_dev E (klog s))]) Spi_bus_find_device = NULL \<longrightarrow>
      (\<exists>s'. held E s' = Some [Region (alloc_dev E (klog s)) 1] \<and>
        (\<forall>x. mod_step E spi_char_zero spi_char_init spi_char_exit spi_char_call (l, s) x \<longleftrightarrow> x = (Crashed Null_deref, s'))))"
proof (intro conjI impI; (elim conjE)?)
  show inv: "case l of
      Unloaded \<Rightarrow> held E s = Some []
    | Loaded \<Rightarrow> held E s = Some [Cdev_live (At (spi_char_my_cdev s)), Cdev_mem (spi_char_my_cdev s), Region (spi_char_dev_num s) 1]
    | Crashed f \<Rightarrow> f = Null_deref \<and> held E s = Some [Region (spi_char_dev_num s) 1] \<and> last (klog s) = Ptr_call Spi_bus_find_device NULL"
    using spi_char_reach [OF assms] unfolding spi_char_holds_def .
  assume l: "l = Unloaded" and missing: "0 \<le> alloc_ret E (klog s)" "ptr_ret E (klog s @ [Alloc_chrdev_region 0 1
      spi_char_DEVICE_NAME (alloc_ret E (klog s)) (alloc_dev E (klog s))]) Spi_bus_find_device = NULL"
  obtain s' where run: "run_state (spi_char_init E) (fresh spi_char_zero s) = (Inl Null_deref, s')"
      and dev: "spi_char_dev_num s' = alloc_dev E (klog s)"
    using missing by (auto simp: spi_char_prog Let_def spi_char_zero_def)
  have "held E s = Some []" using inv l by simp
  from spi_char_init_fresh [OF run this] dev have "held E s' = Some [Region (alloc_dev E (klog s)) 1]" by simp
  moreover have "mod_step E spi_char_zero spi_char_init spi_char_exit spi_char_call (l, s) x \<longleftrightarrow> x = (Crashed Null_deref, s')" for x
    using run l by (auto elim!: step_unloadedE intro: insmod_fault)
  ultimately show "\<exists>s'. held E s' = Some [Region (alloc_dev E (klog s)) 1] \<and>
      (\<forall>x. mod_step E spi_char_zero spi_char_init spi_char_exit spi_char_call (l, s) x \<longleftrightarrow> x = (Crashed Null_deref, s'))" by blast
qed

text \<open>A kernel that has the SPI device at first and has lost it when the module is loaded again.\<close>

definition lost_kernel :: kenv where
  "lost_kernel = lab_kernel\<lparr>ptr_ret := (\<lambda>h c. if c = Spi_bus_find_device \<and> 3 < length h then NULL else lab_ptr c)\<rparr>"

theorem spi_char_missing_device_witness:
  "\<exists>s1 s2 s3. mod_step lost_kernel spi_char_zero spi_char_init spi_char_exit spi_char_call (Unloaded, spi_char_zero) (Loaded, s1) \<and>
     mod_step lost_kernel spi_char_zero spi_char_init spi_char_exit spi_char_call (Loaded, s1) (Unloaded, s2) \<and>
     mod_step lost_kernel spi_char_zero spi_char_init spi_char_exit spi_char_call (Unloaded, s2) (Crashed Null_deref, s3) \<and>
     held lost_kernel s3 = Some [Region 0x0F500000 1]"
proof -
  have zero: "klog spi_char_zero = []" by (simp add: spi_char_zero_def)
  obtain s1 where init: "run_state (spi_char_init lost_kernel) spi_char_zero = (Inr 0, s1)" and log1: "length (klog s1) = 5"
    by (auto simp: lost_kernel_def spi_char_zero_def spi_char_prog Let_def lab_kernel_sel)
  obtain s2 where exit: "run_state (spi_char_exit lost_kernel) s1 = ((), s2)" and log2: "length (klog s2) = 7"
    using log1 by (auto simp: spi_char_prog)
  have 1: "mod_step lost_kernel spi_char_zero spi_char_init spi_char_exit spi_char_call (Unloaded, spi_char_zero) (Loaded, s1)"
    by (rule insmod_ok [of _ _ _ _ 0]) (use init in \<open>simp_all add: zero fresh_itself\<close>)
  have 2: "mod_step lost_kernel spi_char_zero spi_char_init spi_char_exit spi_char_call (Loaded, s1) (Unloaded, s2)"
    by (rule rmmod) (rule exit)
  have reach: "mod_reach lost_kernel spi_char_zero spi_char_init spi_char_exit spi_char_call Unloaded s2"
    by (rule mod_reach.step [OF mod_reach.step [OF mod_reach.start [OF zero] 1] 2])
  have "0 \<le> alloc_ret lost_kernel (klog s2)" and "alloc_dev lost_kernel (klog s2) = 0x0F500000"
    and "ptr_ret lost_kernel (klog s2 @ [e]) Spi_bus_find_device = NULL" for e
    by (simp_all add: lost_kernel_def lab_kernel_sel log2)
  with conjunct2 [OF spi_char_missing_device [OF reach]] obtain s3 where "held lost_kernel s3 = Some [Region 0x0F500000 1]"
    and "mod_step lost_kernel spi_char_zero spi_char_init spi_char_exit spi_char_call (Unloaded, s2) (Crashed Null_deref, s3)"
    by auto
  with 1 2 show ?thesis by blast
qed

text \<open>
  C19: a read makes one transfer and copies exactly the first \<open>min count 16\<close> bytes of the
  received buffer, frees the buffer on every path, and reports that length or \<open>-EFAULT\<close>; a non-empty
  read that works never reports end of file.
\<close>

theorem spi_char_read_result:
  assumes "run_state (spi_char_read E buf count) s = (r, s')"
    and "p = ptr_ret E (klog s) (Spi_transfer (uninit_ptr E) 16)"
    and "h = klog s @ [Ptr_call (Spi_transfer (uninit_ptr E) 16) p]"
    and "bs = take (min (unat count) 16) (spi_rx E h p)" and "left = to_user E h buf bs"
  shows "if p = NULL then r = word_of_int (- 14) \<and> klog s' = h @ [Void_call (Dev_err (Addr_of ''d_sb'') (ln ''Failed to receive data from SPI device''))]
    else klog s' = h @ [Copy_to_user buf bs left, Void_call (Kfree p)] \<and>
      (if left = 0 then unat r = min (unat count) 16 \<and> (r = 0 \<longleftrightarrow> count = 0) else r = word_of_int (- 14))"
proof -
  have "unat (min count 16) = min (unat count) 16"
    by (auto simp: min_def word_le_nat_alt)
  moreover have "min count 16 = 0 \<longleftrightarrow> count = 0"
    by (auto simp: min_def)
  ultimately show ?thesis
    using assms by (auto simp: spi_char_prog Let_def spi_char_DATA_SIZE_def errno_defs)
qed

theorem spi_char_read_result_witness:
  "unat (fst (run_state (spi_char_read lab_kernel 0x10 100) spi_char_zero)) = 16"
proof -
  obtain r s' where run: "run_state (spi_char_read lab_kernel 0x10 100) spi_char_zero = (r, s')" by fastforce
  from spi_char_read_result [OF run refl refl refl refl] run show ?thesis
    by (simp add: lab_kernel_sel)
qed

end
