(* ===== verification/Module_Sharing.thy ===== *)
theory Module_Sharing
  imports Shared_Kernel Can_Driver Wifi_Driver Bluetooth_Driver Ioctl_Driver Esp32_Driver I2c_Driver Spi_Char_Driver Usb_Driver
begin

text \<open>
  The repository's modules together on one kernel, in every interleaving of their steps.
\<close>

section \<open>The three drivers with fixed numbers\<close>

lemmas can_numbers = can_prog Let_def can_MAJOR_NUM_def can_MINOR_NUM_def can_NUM_MINORS_def can_call_def call_simps

interpretation can_num: numbered_module "\<lambda>E. returns (can_init E)" can_exit can_call can_holds
  "\<lambda>E. MKDEV E 250 0" "\<lambda>E s. can_dev s = MKDEV E 250 0"
  by unfold_locales (auto simp: can_numbers not_less [symmetric] split: if_splits fcall.splits)

lemmas wifi_numbers = wifi_prog Let_def wifi_MAJOR_NUM_def wifi_MINOR_NUM_def wifi_NUM_MINORS_def wifi_call_def call_simps

interpretation wifi_num: numbered_module "\<lambda>E. returns (wifi_init E)" wifi_exit wifi_call wifi_holds
  "\<lambda>E. MKDEV E 251 0" "\<lambda>E s. wifi_dev s = MKDEV E 251 0"
  by unfold_locales (auto simp: wifi_numbers not_less [symmetric] split: if_splits fcall.splits)

lemmas bluetooth_numbers = bluetooth_prog Let_def bluetooth_MAJOR_NUM_def bluetooth_MINOR_NUM_def bluetooth_NUM_MINORS_def bluetooth_call_def call_simps

interpretation bluetooth_num: numbered_module "\<lambda>E. returns (bluetooth_init E)" bluetooth_exit bluetooth_call bluetooth_holds
  "\<lambda>E. MKDEV E 252 0" "\<lambda>E s. bluetooth_dev s = MKDEV E 252 0"
  by unfold_locales (auto simp: bluetooth_numbers not_less [symmetric] split: if_splits fcall.splits)

text \<open>
  The joint state: the status and variables of each module, and the calls of all so far. Besides the three
  modules' own steps there are those of the rest of the system, of which \<open>rest\<close> says what it may do.
\<close>

type_synonym static_state =
  "(modstat \<times> can_state) \<times> (modstat \<times> wifi_state) \<times> (modstat \<times> bluetooth_state) \<times> kevent list"

inductive static_step :: "kenv \<Rightarrow> (kevent list \<Rightarrow> kevent list \<Rightarrow> bool) \<Rightarrow> static_state \<Rightarrow> static_state \<Rightarrow> bool" for E rest where
  can_steps: "mod_step (view E H (klog s)) can_zero (\<lambda>E. returns (can_init E)) can_exit can_call (l, s) (l', s') \<Longrightarrow>
    static_step E rest ((l, s), w, b, H) ((l', s'), w, b, H @ drop (length (klog s)) (klog s'))"
| wifi_steps: "mod_step (view E H (klog s)) wifi_zero (\<lambda>E. returns (wifi_init E)) wifi_exit wifi_call (l, s) (l', s') \<Longrightarrow>
    static_step E rest (c, (l, s), b, H) (c, (l', s'), b, H @ drop (length (klog s)) (klog s'))"
| bluetooth_steps: "mod_step (view E H (klog s)) bluetooth_zero (\<lambda>E. returns (bluetooth_init E)) bluetooth_exit bluetooth_call (l, s) (l', s') \<Longrightarrow>
    static_step E rest (c, w, (l, s), H) (c, w, (l', s'), H @ drop (length (klog s)) (klog s'))"
| rest_steps: "rest H es \<Longrightarrow> static_step E rest (c, w, b, H) (c, w, b, H @ es)"

inductive static_reach :: "kenv \<Rightarrow> (kevent list \<Rightarrow> kevent list \<Rightarrow> bool) \<Rightarrow> static_state \<Rightarrow> bool" for E rest where
  static_start: "klog s1 = [] \<Longrightarrow> klog s2 = [] \<Longrightarrow> klog s3 = [] \<Longrightarrow>
    static_reach E rest ((Unloaded, s1), (Unloaded, s2), (Unloaded, s3), [])"
| static_next: "static_reach E rest x \<Longrightarrow> static_step E rest x y \<Longrightarrow> static_reach E rest y"

text \<open>The rest of the system leaves the three numbers alone.\<close>

definition spares :: "kenv \<Rightarrow> (kevent list \<Rightarrow> kevent list \<Rightarrow> bool) \<Rightarrow> bool" where
  "spares E rest \<longleftrightarrow> (\<forall>H es. rest H es \<longrightarrow> (\<forall>ma\<in>{250, 251, 252}. taken (MKDEV E ma 0) (H @ es) = taken (MKDEV E ma 0) H))"

text \<open>What holds whatever the rest does and the kernel answers.\<close>

definition static_sound :: "kenv \<Rightarrow> static_state \<Rightarrow> bool" where
  "static_sound E x = (case x of ((l1, s1), (l2, s2), (l3, s3), H) \<Rightarrow>
     can_num.sound E l1 s1 \<and> wifi_num.sound E l2 s2 \<and> bluetooth_num.sound E l3 s3)"

lemma static_reach_sound: "static_reach E rest x \<Longrightarrow> static_sound E x"
proof (induction rule: static_reach.induct)
  case (static_next x y)
  from static_next.hyps(2) show ?case
    by (cases rule: static_step.cases)
      (use static_next.IH in \<open>auto simp: static_sound_def dest: can_num.step_sound wifi_num.step_sound bluetooth_num.step_sound\<close>)
qed (simp add: static_sound_def can_num.sound_start wifi_num.sound_start bluetooth_num.sound_start)

text \<open>What holds of the registry when the rest spares the numbers.\<close>

definition static_inv :: "kenv \<Rightarrow> static_state \<Rightarrow> bool" where
  "static_inv E x = (case x of ((l1, s1), (l2, s2), (l3, s3), H) \<Rightarrow>
     can_num.agrees E l1 s1 H \<and> wifi_num.agrees E l2 s2 H \<and> bluetooth_num.agrees E l3 s3 H)"

lemma static_step_inv:
  assumes "static_step E rest x y" and "static_inv E x" and "distinct [MKDEV E 250 0, MKDEV E 251 0, MKDEV E 252 0]"
    and "spares E rest"
  shows "static_inv E y"
  using assms(1)
proof (cases rule: static_step.cases)
  case (can_steps H s l l' s' w b)
  obtain l2 s2 l3 s3 where wb: "w = (l2, s2)" "b = (l3, s3)" by fastforce
  with assms(2) can_steps(1) have inv: "can_num.agrees E l s H" "wifi_num.agrees E l2 s2 H" "bluetooth_num.agrees E l3 s3 H"
    by (simp_all add: static_inv_def)
  from can_num.step_agrees [OF inv(1) can_steps(3)] inv(2,3) assms(3) show ?thesis
    by (auto simp: can_steps(2) wb static_inv_def intro: wifi_num.agrees_other bluetooth_num.agrees_other)
next
  case (wifi_steps H s l l' s' c b)
  obtain l1 s1 l3 s3 where cb: "c = (l1, s1)" "b = (l3, s3)" by fastforce
  with assms(2) wifi_steps(1) have inv: "can_num.agrees E l1 s1 H" "wifi_num.agrees E l s H" "bluetooth_num.agrees E l3 s3 H"
    by (simp_all add: static_inv_def)
  from wifi_num.step_agrees [OF inv(2) wifi_steps(3)] inv(1,3) assms(3) show ?thesis
    by (auto simp: wifi_steps(2) cb static_inv_def intro: can_num.agrees_other bluetooth_num.agrees_other)
next
  case (bluetooth_steps H s l l' s' c w)
  obtain l1 s1 l2 s2 where cw: "c = (l1, s1)" "w = (l2, s2)" by fastforce
  with assms(2) bluetooth_steps(1) have inv: "can_num.agrees E l1 s1 H" "wifi_num.agrees E l2 s2 H" "bluetooth_num.agrees E l s H"
    by (simp_all add: static_inv_def)
  from bluetooth_num.step_agrees [OF inv(3) bluetooth_steps(3)] inv(1,2) assms(3) show ?thesis
    by (auto simp: bluetooth_steps(2) cw static_inv_def intro: can_num.agrees_other wifi_num.agrees_other)
next
  case (rest_steps H es c w b)
  obtain l1 s1 l2 s2 l3 s3 where cwb: "c = (l1, s1)" "w = (l2, s2)" "b = (l3, s3)" by fastforce
  with assms(2) rest_steps(1) have inv: "can_num.agrees E l1 s1 H" "wifi_num.agrees E l2 s2 H" "bluetooth_num.agrees E l3 s3 H"
    by (simp_all add: static_inv_def)
  with rest_steps(3) assms(4) show ?thesis
    by (auto simp: rest_steps(2) cwb static_inv_def spares_def
        intro: can_num.agrees_other wifi_num.agrees_other bluetooth_num.agrees_other)
qed

lemma static_reach_inv:
  assumes "static_reach E rest x" and "distinct [MKDEV E 250 0, MKDEV E 251 0, MKDEV E 252 0]" and "spares E rest"
  shows "static_inv E x"
  using assms(1)
proof (induction rule: static_reach.induct)
  case (static_start s1 s2 s3)
  then show ?case
    by (simp add: static_inv_def can_num.agrees_def wifi_num.agrees_def bluetooth_num.agrees_def can_num.sound_start
        wifi_num.sound_start bluetooth_num.sound_start taken_def ranges_def)
next
  case (static_next x y)
  with static_step_inv assms(2,3) show ?case by blast
qed

text \<open>
  C23: the CAN, Wi-Fi and Bluetooth modules, in any interleaving of their loads, file operations and
  unloads with each other and with anything the rest of the system does, hold their live cdev and their number
  exactly while loaded, on any kernel, one that refuses requests included. Nor do they get in each other's way:
  where their three numbers are distinct, the rest of the system leaves these numbers alone, and the kernel
  grants numbers that are free and the addition of a cdev, each of them that is not loaded can be loaded at any
  time.
\<close>

theorem static_interleaved:
  assumes "static_reach E rest ((l1, s1), (l2, s2), (l3, s3), H)"
  shows "{l1, l2, l3} \<subseteq> {Unloaded, Loaded} \<and>
    held E s1 = Some (if l1 = Loaded then [Cdev_live can_cdev, Region (MKDEV E 250 0) 1] else []) \<and>
    held E s2 = Some (if l2 = Loaded then [Cdev_live wifi_cdev, Region (MKDEV E 251 0) 1] else []) \<and>
    held E s3 = Some (if l3 = Loaded then [Cdev_live bluetooth_cdev, Region (MKDEV E 252 0) 1] else []) \<and>
    (distinct [MKDEV E 250 0, MKDEV E 251 0, MKDEV E 252 0] \<and> spares E rest \<and> number_registry E \<longrightarrow>
      (l1 = Unloaded \<longrightarrow> fst (run_state (can_init (view E H (klog s1))) (fresh can_zero s1)) = 0) \<and>
      (l2 = Unloaded \<longrightarrow> fst (run_state (wifi_init (view E H (klog s2))) (fresh wifi_zero s2)) = 0) \<and>
      (l3 = Unloaded \<longrightarrow> fst (run_state (bluetooth_init (view E H (klog s3))) (fresh bluetooth_zero s3)) = 0))"
proof -
  have c: "can_num.sound E l1 s1" and w: "wifi_num.sound E l2 s2" and b: "bluetooth_num.sound E l3 s3"
    using static_reach_sound [OF assms] by (simp_all add: static_sound_def)
  note holds = can_holds_def wifi_holds_def bluetooth_holds_def can_NUM_MINORS_def wifi_NUM_MINORS_def bluetooth_NUM_MINORS_def
  have "{l1, l2, l3} \<subseteq> {Unloaded, Loaded}"
    using can_num.sound_status [OF c] wifi_num.sound_status [OF w] bluetooth_num.sound_status [OF b] by auto
  moreover from this have "held E s1 = Some (if l1 = Loaded then [Cdev_live can_cdev, Region (MKDEV E 250 0) 1] else [])"
    "held E s2 = Some (if l2 = Loaded then [Cdev_live wifi_cdev, Region (MKDEV E 251 0) 1] else [])"
    "held E s3 = Some (if l3 = Loaded then [Cdev_live bluetooth_cdev, Region (MKDEV E 252 0) 1] else [])"
    using c w b by (auto simp: can_num.sound_def wifi_num.sound_def bluetooth_num.sound_def holds)
  moreover have "(l1 = Unloaded \<longrightarrow> fst (run_state (can_init (view E H (klog s1))) (fresh can_zero s1)) = 0) \<and>
      (l2 = Unloaded \<longrightarrow> fst (run_state (wifi_init (view E H (klog s2))) (fresh wifi_zero s2)) = 0) \<and>
      (l3 = Unloaded \<longrightarrow> fst (run_state (bluetooth_init (view E H (klog s3))) (fresh bluetooth_zero s3)) = 0)"
    if "distinct [MKDEV E 250 0, MKDEV E 251 0, MKDEV E 252 0]" and "spares E rest" and "number_registry E"
    using static_reach_inv [OF assms that(1,2)] can_num.loads [OF _ that(3), of s1 H can_zero]
      wifi_num.loads [OF _ that(3), of s2 H wifi_zero] bluetooth_num.loads [OF _ that(3), of s3 H bluetooth_zero]
    by (auto simp: static_inv_def)
  ultimately show ?thesis by blast
qed

lemma lab_number_registry: "number_registry lab_kernel"
  by (simp add: number_registry_def lab_kernel_sel)

lemma lab_spares: "distinct [MKDEV lab_kernel 250 0, MKDEV lab_kernel 251 0, MKDEV lab_kernel 252 0] \<and>
    spares lab_kernel (\<lambda>H es. es = []) \<and> number_registry lab_kernel"
  by (simp add: spares_def lab_number_registry) (simp add: lab_kernel_def)

theorem static_interleaved_witness:
  "\<exists>s1. static_reach lab_kernel (\<lambda>H es. es = []) ((Loaded, s1), (Unloaded, wifi_zero), (Unloaded, bluetooth_zero), klog s1) \<and>
     held lab_kernel s1 = Some [Cdev_live can_cdev, Region (MKDEV lab_kernel 250 0) 1] \<and>
     fst (run_state (wifi_init (view lab_kernel (klog s1) [])) wifi_zero) = 0"
proof -
  have log: "klog can_zero = []" "klog wifi_zero = []" "klog bluetooth_zero = []"
    by (simp_all add: can_zero_def wifi_zero_def bluetooth_zero_def)
  note start = static_start [OF log, of lab_kernel "\<lambda>H es. es = []"]
  obtain s1 where run: "run_state (can_init (view lab_kernel [] (klog can_zero))) can_zero = (0, s1)"
    using static_interleaved [OF start] lab_spares by (metis prod.collapse log(1) fresh_itself)
  have "mod_step (view lab_kernel [] (klog can_zero)) can_zero (\<lambda>E. returns (can_init E)) can_exit can_call (Unloaded, can_zero) (Loaded, s1)"
    by (rule insmod_ok [of _ _ _ _ 0]) (use run in \<open>simp_all add: log fresh_itself\<close>)
  from static_next [OF start can_steps [OF this]]
  have "static_reach lab_kernel (\<lambda>H es. es = []) ((Loaded, s1), (Unloaded, wifi_zero), (Unloaded, bluetooth_zero), klog s1)"
    by (simp add: log)
  from this static_interleaved [OF this] lab_spares show ?thesis by (auto simp: log fresh_itself)
qed

section \<open>The drivers that take what the kernel gives them\<close>

text \<open>
  C17: whatever the rest of the system does between their steps, each of the ioctl, ESP32, I2C and SPI
  character modules holds exactly what it acquired while loaded and nothing otherwise: the ioctl module on every
  kernel that never refuses it the class or the device node, the ESP32 module on every kernel whose answers have
  the documented signs, the I2C module on every one of these that never refuses its device node, the SPI character
  module on every kernel that has its SPI device.
\<close>

theorem modules_among_others:
  "(among_reach E1 etx_zero (\<lambda>E. returns (etx_driver_init E)) etx_driver_exit etx_call l1 s1 H1 \<and> class_device_ok E1 \<longrightarrow>
      l1 \<in> {Unloaded, Loaded} \<and> held E1 s1 = Some (if l1 = Loaded
        then [Device (etx_class s1) (etx_dev s1), Class (etx_class s1), Cdev_live etx_cdev, Region (etx_dev s1) 1] else [])) \<and>
   (among_reach E2 esp32_zero (\<lambda>E. returns (esp32_init E)) esp32_exit esp32_call l2 s2 H2 \<and> kernel_doc E2 \<longrightarrow>
      l2 \<in> {Unloaded, Loaded} \<and> held E2 s2 = Some (if l2 = Loaded
        then [Cdev_live esp32_cdev, Device (esp32_class s2) (esp32_dev_num s2), Class (esp32_class s2), Region (esp32_dev_num s2) 1] else [])) \<and>
   (among_reach E3 i2c_zero (\<lambda>E. returns (i2c_char_driver_init E)) i2c_char_driver_exit i2c_call l3 s3 H3 \<and> i2c_device_ok E3 \<longrightarrow>
      l3 \<in> {Unloaded, Loaded} \<and> held E3 s3 = Some (if l3 = Loaded
        then [Device (i2c_dev_class s3) (i2c_dev_num s3), Class (i2c_dev_class s3), Region (i2c_dev_num s3) 1, Registered i2c_char_driver] else [])) \<and>
   (among_reach E4 spi_char_zero spi_char_init spi_char_exit spi_char_call l4 s4 H4 \<and> spi_found E4 \<longrightarrow>
      l4 \<in> {Unloaded, Loaded} \<and> held E4 s4 = Some (if l4 = Loaded
        then [Cdev_live (At (spi_char_my_cdev s4)), Cdev_mem (spi_char_my_cdev s4), Region (spi_char_dev_num s4) 1] else []))"
proof (intro conjI impI; elim conjE)
  assume "among_reach E1 etx_zero (\<lambda>E. returns (etx_driver_init E)) etx_driver_exit etx_call l1 s1 H1" and "class_device_ok E1"
  then have "etx.wf E1 l1 s1" by (elim etx.among_wf) (simp add: class_device_ok_def)
  then show "l1 \<in> {Unloaded, Loaded}" and "held E1 s1 = Some (if l1 = Loaded
      then [Device (etx_class s1) (etx_dev s1), Class (etx_class s1), Cdev_live etx_cdev, Region (etx_dev s1) 1] else [])"
    by (cases l1, simp_all add: etx_holds_def)+
next
  assume "among_reach E2 esp32_zero (\<lambda>E. returns (esp32_init E)) esp32_exit esp32_call l2 s2 H2" and "kernel_doc E2"
  then have "esp32.wf E2 l2 s2" by (elim esp32.among_wf) (rule kernel_doc_view)
  then show "l2 \<in> {Unloaded, Loaded}" and "held E2 s2 = Some (if l2 = Loaded
      then [Cdev_live esp32_cdev, Device (esp32_class s2) (esp32_dev_num s2), Class (esp32_class s2), Region (esp32_dev_num s2) 1] else [])"
    by (cases l2, simp_all add: esp32_holds_def)+
next
  assume "among_reach E3 i2c_zero (\<lambda>E. returns (i2c_char_driver_init E)) i2c_char_driver_exit i2c_call l3 s3 H3" and "i2c_device_ok E3"
  then have "i2c.wf E3 l3 s3" by (elim i2c.among_wf) (simp add: i2c_device_ok_def kernel_doc_view)
  then show "l3 \<in> {Unloaded, Loaded}" and "held E3 s3 = Some (if l3 = Loaded
      then [Device (i2c_dev_class s3) (i2c_dev_num s3), Class (i2c_dev_class s3), Region (i2c_dev_num s3) 1, Registered i2c_char_driver] else [])"
    by (cases l3, simp_all add: i2c_holds_def)+
next
  assume "among_reach E4 spi_char_zero spi_char_init spi_char_exit spi_char_call l4 s4 H4" and "spi_found E4"
  then have "spi_char.wf E4 l4 s4" by (elim spi_char.among_wf) (simp add: spi_found_def)
  then show "l4 \<in> {Unloaded, Loaded}" and "held E4 s4 = Some (if l4 = Loaded
      then [Cdev_live (At (spi_char_my_cdev s4)), Cdev_mem (spi_char_my_cdev s4), Region (spi_char_dev_num s4) 1] else [])"
    by (cases l4, simp_all add: spi_char_holds_def)+
qed

text \<open>
  The ioctl module on a kernel where another module has been at work, and the ESP32 module after a load
  that a kernel with documented answers refused.
\<close>

theorem modules_among_others_witness:
  "held lab_kernel (snd (run_state (etx_driver_init (view lab_kernel [Void_call (Kfree 0)] [])) etx_zero)) =
     Some [Device 0x1000 0x0F500000, Class 0x1000, Cdev_live etx_cdev, Region 0x0F500000 1] \<and>
   (\<exists>s2. run_state (esp32_init (view late_kernel [] [])) esp32_zero = (- 12, s2) \<and> held late_kernel s2 = Some [])"
proof -
  have zero: "klog etx_zero = []" "klog esp32_zero = []" by (simp_all add: etx_zero_def esp32_zero_def)
  obtain s1 where run: "run_state (etx_driver_init (view lab_kernel [Void_call (Kfree 0)] [])) etx_zero = (0, s1)"
      and vars: "etx_class s1 = 0x1000" "etx_dev s1 = 0x0F500000"
    by (auto simp: etx_zero_def etx_prog Let_def lab_kernel_def view_def)
  have "mod_step (view lab_kernel [Void_call (Kfree 0)] (klog etx_zero)) etx_zero (\<lambda>E. returns (etx_driver_init E)) etx_driver_exit etx_call
      (Unloaded, etx_zero) (Loaded, s1)"
    by (rule insmod_ok [of _ _ _ _ 0]) (simp_all add: run zero fresh_itself)
  from among_next [OF among_start own_step [OF this]]
  have etx: "among_reach lab_kernel etx_zero (\<lambda>E. returns (etx_driver_init E)) etx_driver_exit etx_call Loaded s1 (Void_call (Kfree 0) # klog s1)"
    by (simp add: zero)
  obtain s2 where fail: "run_state (esp32_init (view late_kernel [] [])) esp32_zero = (- 12, s2)"
    by (auto simp: late_kernel_def esp32_zero_def esp32_prog Let_def lab_kernel_sel)
  have "mod_step (view late_kernel [] (klog esp32_zero)) esp32_zero (\<lambda>E. returns (esp32_init E)) esp32_exit esp32_call
      (Unloaded, esp32_zero) (Unloaded, s2)"
    by (rule insmod_fail [of _ _ _ _ "- 12"]) (simp_all add: fail zero fresh_itself)
  from among_next [OF among_start own_step [OF this]]
  have esp32: "among_reach late_kernel esp32_zero (\<lambda>E. returns (esp32_init E)) esp32_exit esp32_call Unloaded s2 (klog s2)"
    by (simp add: zero)
  note each = modules_among_others [of lab_kernel Loaded s1 _ late_kernel Unloaded s2]
  have "held lab_kernel s1 = Some [Device (etx_class s1) (etx_dev s1), Class (etx_class s1), Cdev_live etx_cdev, Region (etx_dev s1) 1]"
    using conjunct1 [OF each, THEN mp, OF conjI [OF etx lab_class_device_ok]] by simp
  moreover have "held late_kernel s2 = Some []"
    using conjunct1 [OF conjunct2 [OF each], THEN mp, OF conjI [OF esp32 late_kernel_doc]] by simp
  ultimately show ?thesis using run vars fail by simp
qed

end
