(* ===== verification/Device_Files.thy ===== *)
theory Device_Files
  imports Module_Lifecycle
begin

text \<open>
  Programs hold a device file open while the administrator loads and unloads the module behind it. The
  kernel counts the open files of a module only when the file operations name their owner: with the
  owner set, \<open>rmmod\<close> is refused while a file is open; without it, the module's code goes away under the
  file, and the next use of that file runs freed memory. The same happens to a program that opens a
  character device a failed load has left behind. \<open>dev_step\<close> is every order of loads, unloads and
  calls on the device file under these rules, and \<open>owned_device\<close> is the contract that keeps them safe.
\<close>

section \<open>Opening, using and closing the device file\<close>

text \<open>
  The device file leads to the driver only while a character device is live: added with success, and not
  deleted since. That is so whatever became of the module that added it.
\<close>

fun cdev_step :: "kevent \<Rightarrow> obj list \<Rightarrow> obj list" where
  "cdev_step (Int_call (Cdev_add c _ _) r) L = (if r < 0 then L else c # L)"
| "cdev_step (Void_call (Cdev_del c)) L = remove1 c L"
| "cdev_step _ L = L"

definition live_cdevs :: "kevent list \<Rightarrow> obj list" where
  "live_cdevs h = fold cdev_step h []"

definition node_live :: "'a kst_scheme \<Rightarrow> bool" where
  "node_live s \<longleftrightarrow> live_cdevs (klog s) \<noteq> []"

text \<open>A module that keeps the resource protocol has live exactly the character devices it holds.\<close>

fun cdev_of :: "resource \<Rightarrow> obj option" where
  "cdev_of (Cdev_live c) = Some c"
| "cdev_of _ = None"

fun cdevs :: "resource list \<Rightarrow> obj list" where
  "cdevs [] = []"
| "cdevs (r # st) = (case cdev_of r of None \<Rightarrow> cdevs st | Some c \<Rightarrow> c # cdevs st)"

fun act_cdev :: "resource act \<Rightarrow> obj list \<Rightarrow> obj list" where
  "act_cdev (Acq r) L = (case cdev_of r of None \<Rightarrow> L | Some c \<Rightarrow> c # L)"
| "act_cdev (Rel r) L = (case cdev_of r of None \<Rightarrow> L | Some c \<Rightarrow> remove1 c L)"
| "act_cdev (Use r) L = L"

lemma act_cdevs: "act_step a st = Some st' \<Longrightarrow> cdevs st' = act_cdev a (cdevs st)"
  by (cases "(a, st)" rule: act_step.cases) (auto split: if_splits option.split)

lemma acts_cdevs: "acts_run as st = Some st' \<Longrightarrow> cdevs st' = fold act_cdev as (cdevs st)"
  by (induction as arbitrary: st) (auto simp: act_cdevs split: option.splits)

lemma kacts_cdev: "fold act_cdev (kacts E e) L = cdev_step e L"
proof (cases e)
  case (Int_call c r)
  then show ?thesis by (cases c) (auto simp: got_def)
next
  case (Ptr_call c p)
  then show ?thesis by (cases c) (auto simp: got_ptr_def)
next
  case (Void_call c)
  have "fold act_cdev (cdev_mem x) M = M" "fold act_cdev (cdev_use x) M = M" for x M by (cases x, simp_all)+
  with Void_call show ?thesis by (cases c) auto
qed (auto simp: got_def)

lemma held_cdevs: "held E s = Some st \<Longrightarrow> live_cdevs (klog s) = cdevs st"
proof -
  have "fold act_cdev (concat (map (kacts E) h)) L = fold cdev_step h L" for h L
    by (induction h arbitrary: L) (simp_all add: kacts_cdev)
  then show "held E s = Some st \<Longrightarrow> live_cdevs (klog s) = cdevs st"
    using acts_cdevs by (fastforce simp: held_def track_def live_cdevs_def)
qed

lemma no_add_no_node: "\<forall>e\<in>set (klog s). \<forall>c d n r. e \<noteq> Int_call (Cdev_add c d n) r \<Longrightarrow> \<not> node_live s"
proof -
  have "fold cdev_step h [] = []" if "\<forall>e\<in>set h. \<forall>c d n r. e \<noteq> Int_call (Cdev_add c d n) r" for h
    using that
  proof (induction h)
    case (Cons e h)
    then show ?case by (cases "(e, [] :: obj list)" rule: cdev_step.cases) auto
  qed simp
  then show "\<forall>e\<in>set (klog s). \<forall>c d n r. e \<noteq> Int_call (Cdev_add c d n) r \<Longrightarrow> \<not> node_live s"
    by (simp add: node_live_def live_cdevs_def)
qed

text \<open>\<open>rmmod\<close> goes ahead when no open file holds the module.\<close>

definition may_unload :: "'s file_operations \<Rightarrow> nat \<Rightarrow> bool" where
  "may_unload ops files \<longleftrightarrow> fo_owner ops \<longrightarrow> files = 0"

text \<open>
  A state is the module's status, the number of files open on the loaded module, the number of files
  left over from a module that was unloaded under them, and the driver's state. A driver on a bus also
  has the bus's callbacks.
\<close>

inductive dev_step ::
  "kenv \<Rightarrow> 'a kst_scheme \<Rightarrow> (kenv \<Rightarrow> ('a kst_scheme, fault + int) state) \<Rightarrow> (kenv \<Rightarrow> ('a kst_scheme, unit) state) \<Rightarrow>
   ('a kst_scheme) file_operations \<Rightarrow> ('b \<Rightarrow> ('a kst_scheme, int) state) option \<Rightarrow>
   modstat \<times> nat \<times> nat \<times> 'a kst_scheme \<Rightarrow> modstat \<times> nat \<times> nat \<times> 'a kst_scheme \<Rightarrow> bool"
  for E zero minit mexit ops bus where
  dev_insmod: "run_state (minit E) (fresh zero s) = (Inr r, s') \<Longrightarrow>
    dev_step E zero minit mexit ops bus (Unloaded, n, k, s) (if r < 0 then Unloaded else Loaded, 0, k, s')"
| dev_insmod_fault: "run_state (minit E) (fresh zero s) = (Inl f, s') \<Longrightarrow>
    dev_step E zero minit mexit ops bus (Unloaded, n, k, s) (Crashed f, 0, k, s')"
| dev_open: "node_live s \<Longrightarrow> run_state (vfs E ops F_open) s = (r, s') \<Longrightarrow>
    dev_step E zero minit mexit ops bus (Loaded, n, k, s) (Loaded, if sint r < 0 then n else Suc n, k, s')"
| dev_use: "0 < n \<Longrightarrow> c \<noteq> F_open \<Longrightarrow> c \<noteq> F_release \<Longrightarrow> run_state (vfs E ops c) s = (r, s') \<Longrightarrow>
    dev_step E zero minit mexit ops bus (Loaded, n, k, s) (Loaded, n, k, s')"
| dev_close: "run_state (vfs E ops F_release) s = (r, s') \<Longrightarrow>
    dev_step E zero minit mexit ops bus (Loaded, Suc n, k, s) (Loaded, n, k, s')"
| dev_bus: "bus = Some h \<Longrightarrow> run_state (h b) s = (r, s') \<Longrightarrow>
    dev_step E zero minit mexit ops bus (Loaded, n, k, s) (Loaded, n, k, s')"
| dev_rmmod: "may_unload ops n \<Longrightarrow> run_state (mexit E) s = ((), s') \<Longrightarrow>
    dev_step E zero minit mexit ops bus (Loaded, n, k, s) (Unloaded, 0, k + n, s')"
| dev_stale: "l = Loaded \<or> l = Unloaded \<Longrightarrow>
    dev_step E zero minit mexit ops bus (l, n, Suc k, s) (Crashed Use_after_free, n, k, s)"
| dev_open_gone: "node_live s \<Longrightarrow>
    dev_step E zero minit mexit ops bus (Unloaded, n, k, s) (Crashed Use_after_free, n, k, s)"

inductive_cases dev_stepE: "dev_step E zero minit mexit ops bus (l, n, k, s) (l', n', k', s')"

inductive dev_reach ::
  "kenv \<Rightarrow> 'a kst_scheme \<Rightarrow> (kenv \<Rightarrow> ('a kst_scheme, fault + int) state) \<Rightarrow> (kenv \<Rightarrow> ('a kst_scheme, unit) state) \<Rightarrow>
   ('a kst_scheme) file_operations \<Rightarrow> ('b \<Rightarrow> ('a kst_scheme, int) state) option \<Rightarrow>
   modstat \<Rightarrow> nat \<Rightarrow> nat \<Rightarrow> 'a kst_scheme \<Rightarrow> bool"
  for E zero minit mexit ops bus where
  dev_start: "klog s = [] \<Longrightarrow> dev_reach E zero minit mexit ops bus Unloaded 0 0 s"
| dev_next: "dev_reach E zero minit mexit ops bus l n k s \<Longrightarrow>
    dev_step E zero minit mexit ops bus (l, n, k, s) (l', n', k', s') \<Longrightarrow> dev_reach E zero minit mexit ops bus l' n' k' s'"

lemma dev_steps_reach:
  assumes "(dev_step E zero minit mexit ops bus)\<^sup>*\<^sup>* (l, n, k, s) (l', n', k', s')" and "dev_reach E zero minit mexit ops bus l n k s"
  shows "dev_reach E zero minit mexit ops bus l' n' k' s'"
  using assms
proof (induction "(l', n', k', s')" arbitrary: l' n' k' s' rule: rtranclp_induct)
  case (step y)
  then show ?case by (cases y) (auto intro: dev_next)
qed simp

text \<open>
  Only what the module's own steps allow happens to the driver: up to the use of a left-over file, every
  such history is one of the module's lifecycle.
\<close>

lemma dev_reach_module:
  assumes "dev_reach E zero minit mexit ops bus l n k s"
    and fop: "\<And>f. \<exists>c. call E c = fop_call E ops f"
    and bus: "\<And>h b. bus = Some h \<Longrightarrow> \<exists>c. call E c = do { _ \<leftarrow> h b; State_Monad.return None }"
  shows "l \<noteq> Crashed Use_after_free \<Longrightarrow> mod_reach E zero minit mexit call l s"
  using assms(1)
proof (induction rule: dev_reach.induct)
  case (dev_start s)
  from dev_start.hyps show ?case by (rule mod_reach.start)
next
  case (dev_next l n k s l' n' k' s')
  have vfs: "mod_step E zero minit mexit call (Loaded, s) (Loaded, s')" if "run_state (vfs E ops f) s = (r, s')" for f r
  proof -
    obtain c where "call E c = fop_call E ops f" using fop by blast
    then show ?thesis using that by (intro callback [of _ _ c]) (simp add: fop_call_def)
  qed
  have busc: "mod_step E zero minit mexit call (Loaded, s) (Loaded, s')" if h: "bus = Some h" and run: "run_state (h b) s = (r, s')" for h b r
  proof -
    obtain c where "call E c = do { _ \<leftarrow> h b; State_Monad.return None }" using bus [OF h, of b] by blast
    then show ?thesis using run by (intro callback [of _ _ c]) simp
  qed
  from dev_next.hyps(2) show ?case
    by (rule dev_stepE)
      (use dev_next in \<open>auto 0 3 split: if_splits intro: mod_reach.step [OF _ vfs] mod_reach.step [OF _ busc]
         mod_reach.step [OF _ insmod_fail] mod_reach.step [OF _ insmod_ok] mod_reach.step [OF _ insmod_fault] mod_reach.step [OF _ rmmod]\<close>)
qed

text \<open>
  The files of a module are safe when none outlives it: none is left over, so none can be used after the
  module, and a module with an open file is loaded and stays so until the file is closed.
\<close>

definition files_safe ::
  "kenv \<Rightarrow> 'a kst_scheme \<Rightarrow> (kenv \<Rightarrow> ('a kst_scheme, fault + int) state) \<Rightarrow> (kenv \<Rightarrow> ('a kst_scheme, unit) state) \<Rightarrow>
   ('a kst_scheme) file_operations \<Rightarrow> ('b \<Rightarrow> ('a kst_scheme, int) state) option \<Rightarrow> bool" where
  "files_safe E zero minit mexit ops bus \<longleftrightarrow> (\<forall>l n k s. dev_reach E zero minit mexit ops bus l n k s \<longrightarrow>
     k = 0 \<and> l \<noteq> Crashed Use_after_free \<and> (n = 0 \<or>
       (l = Loaded \<and> (\<forall>n' k' s'. \<not> dev_step E zero minit mexit ops bus (l, n, k, s) (Unloaded, n', k', s')))))"

section \<open>Drivers that name their owner\<close>

locale owned_device = kmodule minit mexit call holds admissible
  for minit :: "kenv \<Rightarrow> ('a kst_scheme, fault + int) state"
    and mexit :: "kenv \<Rightarrow> ('a kst_scheme, unit) state"
    and call :: "kenv \<Rightarrow> 'c \<Rightarrow> ('a kst_scheme, fault option) state"
    and holds :: "'a kst_scheme \<Rightarrow> resource list"
    and admissible :: "kenv \<Rightarrow> bool" +
  fixes ops :: "kenv \<Rightarrow> ('a kst_scheme) file_operations"
    and bus :: "('b \<Rightarrow> ('a kst_scheme, int) state) option"
  assumes owned: "fo_owner (ops E)"
    and fop_calls: "\<exists>c. call E c = fop_call E (ops E) f"
    and bus_calls: "bus = Some h \<Longrightarrow> \<exists>c. call E c = do { _ \<leftarrow> h b; State_Monad.return None }"
begin

lemma files_module: "dev_reach E zero minit mexit (ops E) bus l n k s \<Longrightarrow> l \<noteq> Crashed Use_after_free \<Longrightarrow> mod_reach E zero minit mexit call l s"
  by (erule dev_reach_module) (auto intro: fop_calls bus_calls)

lemma no_stale:
  assumes "dev_reach E zero minit mexit (ops E) bus l n k s" and adm: "admissible E"
  shows "k = 0 \<and> (l = Unloaded \<or> l = Loaded) \<and> (n = 0 \<or> l = Loaded)"
  using assms(1)
proof (induction rule: dev_reach.induct)
  case (dev_next l n k s l' n' k' s')
  have "mod_reach E zero minit mexit call l s" by (rule files_module [OF dev_next.hyps(1)]) (use dev_next.IH in auto)
  from reach_held [OF this adm] have "l = Unloaded \<Longrightarrow> live_cdevs (klog s) = []"
    by (simp add: held_cdevs)
  moreover have "run_state (minit E) (fresh zero s) \<noteq> (Inl f, s')" if "l = Unloaded" for f
    using reach_held [OF \<open>mod_reach E zero minit mexit call l s\<close> adm] init_law [OF adm, of "fresh zero s" "Inl f" s' "[]"] that by auto
  ultimately show ?case using dev_next.hyps(2)
    by (elim dev_stepE) (use dev_next.IH in \<open>auto simp: may_unload_def owned node_live_def split: if_splits\<close>)
qed simp

text \<open>Once the programs close their files, the module can be unloaded.\<close>

lemma closes: "\<exists>s'. (dev_step E zero minit mexit (ops E) bus)\<^sup>*\<^sup>* (Loaded, n, k, s) (Loaded, 0, k, s')"
proof (induction n arbitrary: s)
  case (Suc n)
  obtain r s1 where "run_state (vfs E (ops E) F_release) s = (r, s1)" by fastforce
  then have "dev_step E zero minit mexit (ops E) bus (Loaded, Suc n, k, s) (Loaded, n, k, s1)" by (rule dev_close)
  with Suc.IH [of s1] show ?case by (blast intro: converse_rtranclp_into_rtranclp)
qed blast

lemma unloadable:
  obtains s' where "(dev_step E zero minit mexit (ops E) bus)\<^sup>*\<^sup>* (Loaded, n, k, s) (Unloaded, 0, k, s')"
proof -
  obtain s1 where steps: "(dev_step E zero minit mexit (ops E) bus)\<^sup>*\<^sup>* (Loaded, n, k, s) (Loaded, 0, k, s1)"
    using closes by blast
  obtain s2 where "run_state (mexit E) s1 = ((), s2)" by (cases "run_state (mexit E) s1") simp
  then have "dev_step E zero minit mexit (ops E) bus (Loaded, 0, k, s1) (Unloaded, 0, k + 0, s2)"
    by (intro dev_rmmod) (simp_all add: may_unload_def)
  with steps show thesis by (intro that [of s2]) (simp add: rtranclp.rtrancl_into_rtrancl)
qed

text \<open>The module cannot go while a file is open.\<close>

lemma pinned: "dev_step E zero minit mexit (ops E) bus (Loaded, Suc n, k, s) (l', n', k', s') \<Longrightarrow> l' \<noteq> Unloaded"
  by (erule dev_stepE) (auto simp: may_unload_def owned)

lemma files_stay:
  assumes "admissible E"
  shows "files_safe E zero minit mexit (ops E) bus"
  unfolding files_safe_def
proof (intro allI impI)
  fix l n k s
  assume "dev_reach E zero minit mexit (ops E) bus l n k s"
  from no_stale [OF this assms] pinned
  show "k = 0 \<and> l \<noteq> Crashed Use_after_free \<and> (n = 0 \<or>
    (l = Loaded \<and> (\<forall>n' k' s'. \<not> dev_step E zero minit mexit (ops E) bus (l, n, k, s) (Unloaded, n', k', s'))))"
    by (cases n) (auto dest: pinned)
qed

end

section \<open>Drivers that do not\<close>

text \<open>
  Loaded, opened, unloaded and used: a driver without an owner runs freed memory, whenever the kernel
  grants the requests of its init and its open.
\<close>

lemma unowned_crash:
  assumes "\<not> fo_owner ops" and "run_state (minit E) (fresh zero s) = (Inr r, s1)" and "0 \<le> r" and "node_live s1"
    and "run_state (vfs E ops F_open) s1 = (q, s2)" and "0 \<le> sint q"
  shows "\<exists>s'. (dev_step E zero minit mexit ops bus)\<^sup>*\<^sup>* (Unloaded, n, k, s) (Crashed Use_after_free, 0, k, s')"
proof -
  obtain s3 where run: "run_state (mexit E) s2 = ((), s3)" by (cases "run_state (mexit E) s2") simp
  have 1: "dev_step E zero minit mexit ops bus (Unloaded, n, k, s) (Loaded, 0, k, s1)"
    using dev_insmod [of minit E s zero r s1 mexit ops bus n k] assms(2,3) by simp
  have 2: "dev_step E zero minit mexit ops bus (Loaded, 0, k, s1) (Loaded, Suc 0, k, s2)"
    using dev_open [of s1 E ops q s2 zero minit mexit bus 0 k] assms(4-6) by simp
  have 3: "dev_step E zero minit mexit ops bus (Loaded, Suc 0, k, s2) (Unloaded, 0, k + Suc 0, s3)"
    using run by (intro dev_rmmod) (simp_all add: may_unload_def assms(1))
  have 4: "dev_step E zero minit mexit ops bus (Unloaded, 0, Suc k, s3) (Crashed Use_after_free, 0, k, s3)"
    by (rule dev_stale) simp
  show ?thesis using 1 2 3 4 by (auto intro!: exI [of _ s3] elim!: converse_rtranclp_into_rtranclp)
qed

end
