(* ===== verification/Open_Files.thy ===== *)
theory Open_Files
  imports Device_Files Can_Driver Wifi_Driver Bluetooth_Driver Ioctl_Driver Spi_Char_Driver Esp32_Driver I2c_Driver
begin

text \<open>
  The character drivers under programs that keep their device file open: the five whose file operations
  name their owner, the ESP32 driver, whose do not, and the I2C driver, whose device file leads nowhere.
\<close>

section \<open>Five drivers that are pinned by their open files\<close>

abbreviation no_bus :: "(unit \<Rightarrow> ('s, int) state) option" where "no_bus \<equiv> None"

interpretation can_files: owned_device "\<lambda>E. returns (can_init E)" can_exit can_call can_holds "\<lambda>E. True" "\<lambda>E. can_fops" no_bus
  by unfold_locales (auto simp: can_fops_def can_call_def)

interpretation wifi_files: owned_device "\<lambda>E. returns (wifi_init E)" wifi_exit wifi_call wifi_holds "\<lambda>E. True" "\<lambda>E. wifi_fops" no_bus
  by unfold_locales (auto simp: wifi_fops_def wifi_call_def)

interpretation bluetooth_files: owned_device "\<lambda>E. returns (bluetooth_init E)" bluetooth_exit bluetooth_call bluetooth_holds "\<lambda>E. True" "\<lambda>E. bluetooth_fops" no_bus
  by unfold_locales (auto simp: bluetooth_fops_def bluetooth_call_def)

interpretation etx_files: owned_device "\<lambda>E. returns (etx_driver_init E)" etx_driver_exit etx_call etx_holds class_device_ok etx_fops no_bus
  by unfold_locales (auto simp: etx_fops_def etx_call_def)

interpretation spi_char_files: owned_device spi_char_init spi_char_exit spi_char_call spi_char_holds spi_found spi_char_fops no_bus
  by unfold_locales (auto simp: spi_char_fops_def spi_char_call_def)

section \<open>The ESP32 driver\<close>

lemma esp32_reach_module:
  "dev_reach E esp32_zero (\<lambda>E. returns (esp32_init E)) esp32_exit esp32_fops no_bus l n k s \<Longrightarrow> l \<noteq> Crashed Use_after_free \<Longrightarrow>
   mod_reach E esp32_zero (\<lambda>E. returns (esp32_init E)) esp32_exit esp32_call l s"
  by (erule dev_reach_module) (auto simp: esp32_call_def)

lemma esp32_unload:
  "(dev_step E esp32_zero (\<lambda>E. returns (esp32_init E)) esp32_exit esp32_fops no_bus)\<^sup>*\<^sup>* (Loaded, n, k, s)
     (Unloaded, 0, k + n, snd (run_state (esp32_exit E) s))"
  by (intro r_into_rtranclp dev_rmmod) (simp_all add: may_unload_def esp32_fops_def prod_eq_iff)

lemma esp32_crash_unloaded:
  assumes "kernel_doc E" and "grants_from E (klog s)" and "held E s = Some []"
  shows "\<exists>s'. (dev_step E esp32_zero (\<lambda>E. returns (esp32_init E)) esp32_exit esp32_fops no_bus)\<^sup>*\<^sup>* (Unloaded, n, k, s)
    (Crashed Use_after_free, 0, k, s')"
proof -
  obtain s1 where run: "run_state (esp32_init E) (fresh esp32_zero s) = (0, s1)"
    using esp32_init_accepts [of E "fresh esp32_zero s"] assms(2) by auto
  from esp32_init_law [OF assms(1) run, of "[]"] assms(3) have "node_live s1"
    by (simp add: node_live_def held_cdevs esp32_holds_def)
  moreover obtain s2 where "run_state (vfs E esp32_fops F_open) s1 = (0, s2)"
    by (simp add: vfs_def Let_def esp32_prog)
  ultimately show ?thesis
    using run by (intro unowned_crash [of _ _ _ _ _ 0 s1 0 s2]) (simp_all add: esp32_fops_def)
qed

lemma esp32_crash_loaded:
  assumes "kernel_doc E" and "grants_from E (klog s)" and "held E s = Some (esp32_holds s)"
  shows "\<exists>s'. (dev_step E esp32_zero (\<lambda>E. returns (esp32_init E)) esp32_exit esp32_fops no_bus)\<^sup>*\<^sup>* (Loaded, n, k, s)
    (Crashed Use_after_free, 0, k + n, s')"
proof -
  obtain s1 where run: "run_state (esp32_exit E) s = ((), s1)" by (cases "run_state (esp32_exit E) s") simp
  have "held E s1 = Some []" using esp32_exit_law [OF run, of "[]"] assms(3) by simp
  moreover have "grants_from E (klog s1)" using esp32_exit_log [OF run] assms(2) by (auto intro: grants_from_append)
  ultimately show ?thesis
    using esp32_crash_unloaded [OF assms(1)] esp32_unload [of E n k s] run by (fastforce intro: rtranclp_trans)
qed

text \<open>
  C9: with documented answers, whatever the kernel grants or refuses, the ESP32 driver keeps its
  resources exact until the first use of a file left over from an unload. Such a use is within reach of every
  state from which on the kernel grants the requests: neither its file operations nor its cdev name an owner, so
  loading, opening, unloading and using the file runs freed memory.
\<close>

theorem esp32_open_unload:
  assumes "dev_reach E esp32_zero (\<lambda>E. returns (esp32_init E)) esp32_exit esp32_fops no_bus l n k s"
    and "kernel_doc E"
  shows "(l = Crashed Use_after_free \<or> ((l = Unloaded \<or> l = Loaded) \<and> held E s = Some (if l = Loaded then
      [Cdev_live esp32_cdev, Device (esp32_class s) (esp32_dev_num s), Class (esp32_class s), Region (esp32_dev_num s) 1] else []))) \<and>
    (grants_from E (klog s) \<longrightarrow>
      (\<exists>n' k' s'. (dev_step E esp32_zero (\<lambda>E. returns (esp32_init E)) esp32_exit esp32_fops no_bus)\<^sup>*\<^sup>* (l, n, k, s)
        (Crashed Use_after_free, n', k', s')))"
proof (cases "l = Crashed Use_after_free")
  case False
  from esp32_lifecycle [OF esp32_reach_module [OF assms(1) False] assms(2)]
  have h: "(l = Unloaded \<or> l = Loaded) \<and> held E s = Some (if l = Loaded then
      [Cdev_live esp32_cdev, Device (esp32_class s) (esp32_dev_num s), Class (esp32_class s), Region (esp32_dev_num s) 1] else [])" .
  have "\<exists>n' k' s'. (dev_step E esp32_zero (\<lambda>E. returns (esp32_init E)) esp32_exit esp32_fops no_bus)\<^sup>*\<^sup>* (l, n, k, s)
        (Crashed Use_after_free, n', k', s')" if grants: "grants_from E (klog s)"
  proof (cases "l = Loaded")
    case True
    with h have "held E s = Some (esp32_holds s)" by (simp add: esp32_holds_def)
    from esp32_crash_loaded [OF assms(2) grants this] True show ?thesis by blast
  next
    case False
    with h have "l = Unloaded" and "held E s = Some []" by simp_all
    with esp32_crash_unloaded [OF assms(2) grants] show ?thesis by blast
  qed
  with h show ?thesis by blast
qed auto

text \<open>
  On the kernel that refuses the first device node, after the load that failed.
\<close>

theorem esp32_open_unload_witness:
  "\<exists>s n' k' s'. run_state (esp32_init late_kernel) esp32_zero = (- 12, s) \<and> held late_kernel s = Some [] \<and>
    (dev_step late_kernel esp32_zero (\<lambda>E. returns (esp32_init E)) esp32_exit esp32_fops no_bus)\<^sup>*\<^sup>* (Unloaded, 0, 0, s)
     (Crashed Use_after_free, n', k', s')"
proof -
  obtain s where run: "run_state (esp32_init late_kernel) esp32_zero = (- 12, s)" and log: "4 \<le> length (klog s)"
    by (auto simp: late_kernel_def esp32_zero_def esp32_prog Let_def lab_kernel_sel)
  have zero: "klog esp32_zero = []" by (simp add: esp32_zero_def)
  have "dev_step late_kernel esp32_zero (\<lambda>E. returns (esp32_init E)) esp32_exit esp32_fops no_bus
      (Unloaded, 0, 0, esp32_zero) (if (- 12 :: int) < 0 then Unloaded else Loaded, 0, 0, s)"
    by (rule dev_insmod) (simp add: fresh_itself [OF zero] zero run)
  then have "dev_reach late_kernel esp32_zero (\<lambda>E. returns (esp32_init E)) esp32_exit esp32_fops no_bus Unloaded 0 0 s"
    by (auto intro: dev_next [OF dev_start [OF zero]])
  from esp32_open_unload [OF this late_kernel_doc] late_kernel_grants [OF log] run show ?thesis by auto
qed

section \<open>The five drivers\<close>

text \<open>
  C16: for the CAN, Wi-Fi, Bluetooth, ioctl and SPI character drivers no file outlives its
  module, whatever programs and administrator do: none is ever left over, so none can be used after an
  unload, and a module with an open file is loaded and cannot be unloaded before the file is closed. For the
  ioctl driver that needs a kernel that never refuses the class or the device node, for the SPI driver one
  that has the SPI device.
\<close>

theorem open_files_safe:
  assumes "class_device_ok E" and "spi_found E"
  shows "files_safe E can_zero (\<lambda>E. returns (can_init E)) can_exit can_fops no_bus \<and>
   files_safe E wifi_zero (\<lambda>E. returns (wifi_init E)) wifi_exit wifi_fops no_bus \<and>
   files_safe E bluetooth_zero (\<lambda>E. returns (bluetooth_init E)) bluetooth_exit bluetooth_fops no_bus \<and>
   files_safe E etx_zero (\<lambda>E. returns (etx_driver_init E)) etx_driver_exit (etx_fops E) no_bus \<and>
   files_safe E spi_char_zero spi_char_init spi_char_exit (spi_char_fops E) no_bus"
  by (intro conjI can_files.files_stay wifi_files.files_stay bluetooth_files.files_stay
      etx_files.files_stay spi_char_files.files_stay assms TrueI)

theorem open_files_safe_witness:
  "files_safe lab_kernel etx_zero (\<lambda>E. returns (etx_driver_init E)) etx_driver_exit (etx_fops lab_kernel) no_bus"
proof -
  have "spi_found lab_kernel" by (simp add: spi_found_def lab_kernel_sel)
  from open_files_safe [OF lab_class_device_ok this] show ?thesis by blast
qed

text \<open>
  C12: where the class or the device node is refused, the ioctl driver's failed init leaves
  its cdev live: the module is gone, its device number is free, and the next open of the device runs freed
  memory.
\<close>

theorem etx_failed_load:
  assumes run: "run_state (etx_driver_init E) (fresh etx_zero s) = (r, s')" and "r < 0"
    and add: "Int_call (Cdev_add etx_cdev d 1) x \<in> set (drop (length (klog s)) (klog s'))" and "0 \<le> x"
  shows "Void_call (Unregister_chrdev_region d 1) \<in> set (klog s') \<and>
    (dev_step E etx_zero (\<lambda>E. returns (etx_driver_init E)) etx_driver_exit (etx_fops E) no_bus)\<^sup>*\<^sup>* (Unloaded, n, k, s)
      (Crashed Use_after_free, 0, k, s')"
proof -
  have "live_cdevs (klog s') = etx_cdev # live_cdevs (klog s) \<and> Void_call (Unregister_chrdev_region d 1) \<in> set (klog s')"
    using assms by (auto simp: etx_prog Let_def live_cdevs_def split: if_splits)
  moreover from this have 2: "dev_step E etx_zero (\<lambda>E. returns (etx_driver_init E)) etx_driver_exit (etx_fops E) no_bus
      (Unloaded, 0, k, s') (Crashed Use_after_free, 0, k, s')"
    by (intro dev_open_gone) (simp add: node_live_def)
  moreover have "dev_step E etx_zero (\<lambda>E. returns (etx_driver_init E)) etx_driver_exit (etx_fops E) no_bus
      (Unloaded, n, k, s) (if r < 0 then Unloaded else Loaded, 0, k, s')"
    by (rule dev_insmod) (simp add: run)
  ultimately show ?thesis using assms(2) by (auto elim!: converse_rtranclp_into_rtranclp)
qed

theorem etx_failed_load_witness:
  "\<exists>s'. (dev_step (lab_kernel\<lparr>ptr_ret := (\<lambda>h c. - 12)\<rparr>) etx_zero (\<lambda>E. returns (etx_driver_init E)) etx_driver_exit
      (etx_fops (lab_kernel\<lparr>ptr_ret := (\<lambda>h c. - 12)\<rparr>)) no_bus)\<^sup>*\<^sup>* (Unloaded, 0, 0, etx_zero) (Crashed Use_after_free, 0, 0, s')"
proof -
  define E where "E = lab_kernel\<lparr>ptr_ret := (\<lambda>h c. - 12)\<rparr>"
  obtain r s' where run: "run_state (etx_driver_init E) etx_zero = (r, s')" by fastforce
  have "r = - 1 \<and> Int_call (Cdev_add etx_cdev 0x0F500000 1) 0 \<in> set (drop (length (klog etx_zero)) (klog s'))"
    using run by (simp add: E_def etx_zero_def etx_prog Let_def lab_kernel_sel, elim conjE, hypsubst, simp)
  moreover have zero: "klog etx_zero = []" by (simp add: etx_zero_def)
  moreover have "run_state (etx_driver_init E) (fresh etx_zero etx_zero) = (r, s')"
    using run by (simp add: zero fresh_itself)
  ultimately show ?thesis using etx_failed_load [of E etx_zero r s' "0x0F500000" 0 0 0] unfolding E_def by auto
qed

section \<open>The I2C driver\<close>

fun adds_cdev :: "kevent \<Rightarrow> bool" where
  "adds_cdev (Int_call (Cdev_add _ _ _) _) = True"
| "adds_cdev _ = False"

definition i2c_opened :: kevent where
  "i2c_opened = Void_call (Printk KERN_INFO (ln ''I2C char driver opened'') [])"

abbreviation quiet :: "i2c_state \<Rightarrow> bool" where
  "quiet s \<equiv> list_all (\<lambda>e. \<not> adds_cdev e \<and> e \<noteq> i2c_opened) (klog s)"

lemma i2c_quiet_init: "map_prod Inr id (run_state (i2c_char_driver_init E) (fresh i2c_zero s)) = (x, s') \<Longrightarrow> quiet s \<Longrightarrow>
    (\<exists>r. x = Inr r) \<and> quiet s'"
  by (auto simp: i2c_prog Let_def i2c_opened_def ln_def split: if_splits)

lemma i2c_quiet_exit: "run_state (i2c_char_driver_exit E) s = (u, s') \<Longrightarrow> quiet s \<Longrightarrow> quiet s'"
  by (auto simp: i2c_prog Let_def i2c_opened_def ln_def)

lemma i2c_quiet_bus: "run_state (i2c_bus b) s = (r, s') \<Longrightarrow> quiet s \<Longrightarrow> quiet s'"
  by (auto simp: i2c_prog Let_def i2c_opened_def ln_def split: bus_call.splits)

lemma i2c_quiet:
  "dev_reach E i2c_zero (\<lambda>E. returns (i2c_char_driver_init E)) i2c_char_driver_exit i2c_char_driver_fops (Some i2c_bus) l n k s \<Longrightarrow>
   n = 0 \<and> k = 0 \<and> (l = Unloaded \<or> l = Loaded) \<and> quiet s"
proof (induction rule: dev_reach.induct)
  case (dev_next l n k s l' n' k' s')
  then have "\<not> node_live s"
    by (intro no_add_no_node) (fastforce simp: list_all_iff)
  with dev_next.hyps(2) dev_next.IH show ?case
    by (auto elim!: dev_stepE split: if_splits dest: i2c_quiet_init i2c_quiet_exit i2c_quiet_bus)
qed simp

text \<open>
  C25: the I2C driver never adds its character device, so in no history of loads, probes,
  removes and unloads is its device file ever opened, and none of its four file operations ever runs, on any
  kernel.
\<close>

theorem i2c_node_dead:
  assumes "dev_reach E i2c_zero (\<lambda>E. returns (i2c_char_driver_init E)) i2c_char_driver_exit i2c_char_driver_fops (Some i2c_bus) l n k s"
  shows "n = 0 \<and> \<not> node_live s \<and> Void_call (Printk KERN_INFO (ln ''I2C char driver opened'') []) \<notin> set (klog s)"
  using i2c_quiet [OF assms] no_add_no_node [of s] by (fastforce simp: list_all_iff i2c_opened_def)

theorem i2c_node_dead_witness:
  "\<not> node_live (snd (run_state (i2c_char_driver_init lab_kernel) i2c_zero))"
proof -
  obtain s' where run: "run_state (i2c_char_driver_init lab_kernel) i2c_zero = (0, s')"
    by (auto simp: i2c_zero_def i2c_prog Let_def lab_kernel_sel)
  have "klog i2c_zero = []" by (simp add: i2c_zero_def)
  then have "dev_reach lab_kernel i2c_zero (\<lambda>E. returns (i2c_char_driver_init E)) i2c_char_driver_exit i2c_char_driver_fops (Some i2c_bus) Unloaded 0 0 i2c_zero"
    by (rule dev_start)
  moreover have "dev_step lab_kernel i2c_zero (\<lambda>E. returns (i2c_char_driver_init E)) i2c_char_driver_exit i2c_char_driver_fops (Some i2c_bus)
      (Unloaded, 0, 0, i2c_zero) (if (0 :: int) < 0 then Unloaded else Loaded, 0, 0, s')"
    by (rule dev_insmod) (simp add: run)
  ultimately have "dev_reach lab_kernel i2c_zero (\<lambda>E. returns (i2c_char_driver_init E)) i2c_char_driver_exit i2c_char_driver_fops (Some i2c_bus) Loaded 0 0 s'"
    by (auto intro: dev_next)
  from i2c_node_dead [OF this] run show ?thesis by simp
qed

end
