(* ===== verification/Concurrent_Calls.thy ===== *)
theory Concurrent_Calls
  imports Module_Lifecycle "HOL-Library.Multiset"
begin

text \<open>
  Calls of a driver that overlap. The kernel takes no lock around a file operation, so any number of
  processes can be inside the same handler. A handler is a thread: a computation cut into steps, one per
  access to what the threads share (the driver's variables, the kernel). A pool of threads runs in every
  interleaving of their steps. Two contracts of a handler, each proved for every pool: it takes effect in one
  step (so the pool is linearizable), and each call gives back what it took itself (so none frees or leaks what is another's).
\<close>

section \<open>Threads\<close>

datatype ('s, 'a) thread = Done 'a | Step "('s, ('s, 'a) thread) state"

text \<open>A step, and what is left to do with its result.\<close>

definition act :: "('s, 'b) state \<Rightarrow> ('b \<Rightarrow> ('s, 'a) thread) \<Rightarrow> ('s, 'a) thread" where
  "act m f = Step (map_state f m)"

definition flatten :: "('s, ('s, 'a) state) state \<Rightarrow> ('s, 'a) state" where
  "flatten m = do { n \<leftarrow> m; n }"

text \<open>The thread run without interruption.\<close>

primrec alone :: "('s, 'a) thread \<Rightarrow> ('s, 'a) state" where
  "alone (Done a) = State_Monad.return a"
| "alone (Step m) = flatten (map_state alone m)"

lemma run_map_state [simp]: "run_state (map_state f m) s = map_prod f id (run_state m s)"
  by (cases m) (simp add: map_prod_def)

lemma run_alone_act [simp]:
  "run_state (alone (act m f)) s = (case run_state m s of (x, s') \<Rightarrow> run_state (alone (f x)) s')"
  by (simp add: act_def flatten_def split: prod.split)

lemma act_not_Done [simp]: "act m f \<noteq> Done a" "Done a \<noteq> act m f"
  by (simp_all add: act_def)

lemma act_Step: "(act m f = Step n) \<longleftrightarrow> n = map_state f m"
  by (auto simp: act_def)

section \<open>A pool of overlapping calls\<close>

text \<open>
  The history of a pool: a call made, what a step of a call did with the kernel, a call's return. The pool
  holds each call made, by its number, with what is left of its thread; a call that is done can return.
\<close>

datatype ('c, 'r) crossing = Called nat 'c | Acted nat "kevent list" | Returned nat 'r

type_synonym ('c, 'a, 'r) calls = "('c \<times> ('a kst_scheme, 'r) thread) list"

inductive pool :: "('c \<Rightarrow> ('a kst_scheme, 'r) thread) \<Rightarrow> 'a kst_scheme \<Rightarrow> ('c, 'a, 'r) calls \<Rightarrow> 'a kst_scheme \<Rightarrow>
    ('c, 'r) crossing list \<Rightarrow> bool"
  for thr s0 where
  pool_start: "pool thr s0 [] s0 []"
| pool_call: "pool thr s0 P s h \<Longrightarrow> pool thr s0 (P @ [(c, thr c)]) s (h @ [Called (length P) c])"
| pool_step: "pool thr s0 P s h \<Longrightarrow> i < length P \<Longrightarrow> P ! i = (c, Step m) \<Longrightarrow> run_state m s = (t, s') \<Longrightarrow>
    pool thr s0 (P[i := (c, t)]) s' (h @ [Acted i (drop (length (klog s)) (klog s'))])"
| pool_return: "pool thr s0 P s h \<Longrightarrow> i < length P \<Longrightarrow> P ! i = (c, Done r) \<Longrightarrow> \<forall>r'. Returned i r' \<notin> set h \<Longrightarrow>
    pool thr s0 P s (h @ [Returned i r])"

text \<open>What one call did with the kernel, and what all of them did, in order.\<close>

fun step_of :: "nat \<Rightarrow> ('c, 'r) crossing \<Rightarrow> kevent list" where
  "step_of i (Acted j es) = (if j = i then es else [])"
| "step_of i _ = []"

fun step_any :: "('c, 'r) crossing \<Rightarrow> kevent list" where
  "step_any (Acted j es) = es"
| "step_any _ = []"

definition acted :: "nat \<Rightarrow> ('c, 'r) crossing list \<Rightarrow> kevent list" where
  "acted i h = concat (map (step_of i) h)"

definition all_acted :: "('c, 'r) crossing list \<Rightarrow> kevent list" where
  "all_acted h = concat (map step_any h)"

lemma acted_simps [simp]:
  "acted i [] = []" "acted i (h @ [e]) = acted i h @ step_of i e"
  "all_acted [] = []" "all_acted (h @ [e]) = all_acted h @ step_any e"
  by (simp_all add: acted_def all_acted_def)

lemma acted_none: "\<forall>es. Acted i es \<notin> set h \<Longrightarrow> acted i h = []"
proof (induction h rule: rev_induct)
  case (snoc e h)
  then show ?case by (cases e) auto
qed simp

text \<open>Calls made together, and a schedule: the calls whose turn it is, one step each.\<close>

definition opened :: "('c \<Rightarrow> ('a kst_scheme, 'r) thread) \<Rightarrow> 'c list \<Rightarrow> ('c, 'a, 'r) calls" where
  "opened thr cs = map (\<lambda>c. (c, thr c)) cs"

definition called :: "'c list \<Rightarrow> ('c, 'r) crossing list" where
  "called cs = map (\<lambda>(i, c). Called i c) (enumerate 0 cs)"

lemma pool_opened: "pool thr s0 (opened thr cs) s0 (called cs)"
proof (induction cs rule: rev_induct)
  case Nil
  show ?case by (simp add: opened_def called_def pool_start)
next
  case (snoc c cs)
  from pool_call [OF snoc, of c] show ?case by (simp add: opened_def called_def enumerate_append_eq)
qed

definition turn :: "nat \<Rightarrow> ('c, 'a, 'r) calls \<times> 'a kst_scheme \<times> ('c, 'r) crossing list \<Rightarrow>
    ('c, 'a, 'r) calls \<times> 'a kst_scheme \<times> ('c, 'r) crossing list" where
  "turn i x = (case x of (P, s, h) \<Rightarrow> case snd (P ! i) of
     Done r \<Rightarrow> (P, s, h)
   | Step m \<Rightarrow> (case run_state m s of (t, s') \<Rightarrow>
       (P[i := (fst (P ! i), t)], s', h @ [Acted i (drop (length (klog s)) (klog s'))])))"

lemma case_act [simp]: "case_thread f g (act m k) = g (map_state k m)"
  by (simp add: act_def)

lemma pool_turns:
  "pool thr s0 P s h \<Longrightarrow> \<forall>i\<in>set sched. i < length P \<Longrightarrow> fold turn sched (P, s, h) = (P', s', h') \<Longrightarrow>
   pool thr s0 P' s' h'"
proof (induction sched arbitrary: P s h)
  case (Cons i sched)
  obtain P1 s1 h1 where one: "turn i (P, s, h) = (P1, s1, h1)" by (metis prod_cases3)
  have "pool thr s0 P1 s1 h1 \<and> length P1 = length P"
  proof (cases "snd (P ! i)")
    case (Step m)
    obtain t s2 where run: "run_state m s = (t, s2)" by fastforce
    have "P ! i = (fst (P ! i), Step m)" using Step by (metis prod.collapse)
    from pool_step [OF Cons.prems(1) _ this run] show ?thesis
      using one Step run Cons.prems(2) by (auto simp: turn_def)
  qed (use one Cons.prems(1) in \<open>auto simp: turn_def\<close>)
  then show ?case using Cons.IH [of P1 s1 h1] Cons.prems one by simp
qed simp

text \<open>A call made when no other is unfinished, and run to its end, does what the handler does alone.\<close>

lemma pool_run:
  "pool thr s0 (P @ [(c, t)]) s h \<Longrightarrow> run_state (alone t) s = (r, s') \<Longrightarrow>
   \<exists>h'. pool thr s0 (P @ [(c, Done r)]) s' (h @ h')"
proof (induction t arbitrary: s h)
  case (Done r')
  then show ?case by (intro exI [of _ "[]"]) simp
next
  case (Step m)
  obtain t s1 where run: "run_state m s = (t, s1)" by fastforce
  let ?e = "Acted (length P) (drop (length (klog s)) (klog s1))"
  have "pool thr s0 ((P @ [(c, Step m)])[length P := (c, t)]) s1 (h @ [?e])"
    by (rule pool_step [OF Step.prems(1) _ _ run]) simp_all
  then have rest: "pool thr s0 (P @ [(c, t)]) s1 (h @ [?e])" by simp
  have "t \<in> set_state m" using run by (auto simp: set_state_iff)
  moreover have "run_state (alone t) s1 = (r, s')" using Step.prems(2) run by (simp add: flatten_def)
  ultimately obtain h' where "pool thr s0 (P @ [(c, Done r)]) s' ((h @ [?e]) @ h')" using Step.IH rest by blast
  then show ?case by (intro exI [of _ "?e # h'"]) simp
qed

lemma pool_alone:
  assumes "pool thr s0 P s h" and "run_state (alone (thr c)) s = (r, s')"
  shows "\<exists>h'. pool thr s0 (P @ [(c, Done r)]) s' (h @ h')"
proof -
  obtain h' where "pool thr s0 (P @ [(c, Done r)]) s' ((h @ [Called (length P) c]) @ h')"
    using pool_run [OF pool_call [OF assms(1)] assms(2)] by blast
  then show ?thesis by (intro exI [of _ "Called (length P) c # h'"]) simp
qed

section \<open>One effect per call\<close>

text \<open>
  The driver as an object: what it shows (\<open>view\<close>), and which of its kernel calls can be seen (\<open>p\<close>). A quiet
  thread changes nothing that is shown, makes no call that can be seen, and returns the result; a thread with one
  effect has one step whose change and whose visible calls the abstract operation \<open>f\<close> accepts, and is quiet
  otherwise.
\<close>

inductive quiet :: "('a kst_scheme \<Rightarrow> 'v) \<Rightarrow> (kevent \<Rightarrow> bool) \<Rightarrow> 'r \<Rightarrow> ('a kst_scheme, 'r) thread \<Rightarrow> bool" for view p r where
  quiet_done: "quiet view p r (Done r)"
| quiet_step: "(\<And>s. quiet view p r (fst (run_state m s)) \<and> view (snd (run_state m s)) = view s \<and>
    (\<exists>es. klog (snd (run_state m s)) = klog s @ es \<and> filter p es = [])) \<Longrightarrow> quiet view p r (Step m)"

inductive one_effect ::
  "('a kst_scheme \<Rightarrow> 'v) \<Rightarrow> (kevent \<Rightarrow> bool) \<Rightarrow> (kevent list \<Rightarrow> 'v \<Rightarrow> 'v option) \<Rightarrow> 'r \<Rightarrow> ('a kst_scheme, 'r) thread \<Rightarrow> bool"
  for view p f r where
  effect_step: "(\<And>s. \<exists>es. klog (snd (run_state m s)) = klog s @ es \<and>
      (quiet view p r (fst (run_state m s)) \<and> f (filter p es) (view s) = Some (view (snd (run_state m s))) \<or>
       one_effect view p f r (fst (run_state m s)) \<and> view (snd (run_state m s)) = view s \<and> filter p es = [])) \<Longrightarrow>
    one_effect view p f r (Step m)"

inductive_simps quiet_Done [simp]: "quiet view p r (Done a)"
inductive_simps quiet_Step: "quiet view p r (Step m)"
inductive_simps effect_Done [simp]: "one_effect view p f r (Done a)"
inductive_simps effect_Step: "one_effect view p f r (Step m)"

lemma quiet_act:
  "quiet view p r (act m f) \<longleftrightarrow> (\<forall>s. quiet view p r (f (fst (run_state m s))) \<and> view (snd (run_state m s)) = view s \<and>
     (\<exists>es. klog (snd (run_state m s)) = klog s @ es \<and> filter p es = []))"
  by (simp add: act_def quiet_Step)

lemma effect_now:
  assumes "\<And>s. quiet view p r (k (fst (run_state m s)))"
    and "\<And>s. \<exists>es. klog (snd (run_state m s)) = klog s @ es \<and> f (filter p es) (view s) = Some (view (snd (run_state m s)))"
  shows "one_effect view p f r (act m k)"
  unfolding act_def by (rule effect_step) (use assms in auto)

section \<open>Linearizability\<close>

text \<open>Some element that satisfies \<open>A\<close> lies before one that satisfies \<open>B\<close>.\<close>

definition ahead :: "('x \<Rightarrow> bool) \<Rightarrow> ('x \<Rightarrow> bool) \<Rightarrow> 'x list \<Rightarrow> bool" where
  "ahead A B xs \<longleftrightarrow> (\<exists>us vs. xs = us @ vs \<and> (\<exists>u\<in>set us. A u) \<and> (\<exists>v\<in>set vs. B v))"

lemma ahead_Nil [simp]: "\<not> ahead A B []"
  by (simp add: ahead_def)

lemma ahead_snoc: "ahead A B (xs @ [x]) \<longleftrightarrow> ahead A B xs \<or> (\<exists>u\<in>set xs. A u) \<and> B x"
proof
  assume "ahead A B (xs @ [x])"
  then obtain us vs u v where split: "xs @ [x] = us @ vs" and u: "u \<in> set us" "A u" and v: "v \<in> set vs" "B v"
    by (auto simp: ahead_def)
  from v(1) obtain ws where vs: "vs = ws @ [x]" and xs: "xs = us @ ws"
    using split by (cases vs rule: rev_cases) auto
  show "ahead A B xs \<or> (\<exists>u\<in>set xs. A u) \<and> B x"
  proof (cases "v \<in> set ws")
    case True
    then show ?thesis using u v(2) xs by (auto simp: ahead_def)
  next
    case False
    with v vs xs u show ?thesis by auto
  qed
next
  assume "ahead A B xs \<or> (\<exists>u\<in>set xs. A u) \<and> B x"
  then show "ahead A B (xs @ [x])"
  proof
    assume "ahead A B xs"
    then obtain us vs where "xs = us @ vs" "\<exists>u\<in>set us. A u" "\<exists>v\<in>set vs. B v" by (auto simp: ahead_def)
    then show ?thesis unfolding ahead_def by (intro exI [of _ us] exI [of _ "vs @ [x]"]) auto
  next
    assume "(\<exists>u\<in>set xs. A u) \<and> B x"
    then show ?thesis unfolding ahead_def by (intro exI [of _ xs] exI [of _ "[x]"]) auto
  qed
qed

text \<open>
  An order of call numbers that explains the history: every call that returned is in it, only calls made
  are, none twice, and a call that returned before another was made comes first.
\<close>

definition returns_before :: "('c, 'r) crossing list \<Rightarrow> nat \<Rightarrow> nat \<Rightarrow> bool" where
  "returns_before h i j \<longleftrightarrow> ahead (\<lambda>e. \<exists>r. e = Returned i r) (\<lambda>e. \<exists>c. e = Called j c) h"

definition order_of :: "('c, 'r) crossing list \<Rightarrow> nat list \<Rightarrow> bool" where
  "order_of h ord \<longleftrightarrow> distinct ord \<and> (\<forall>i r. Returned i r \<in> set h \<longrightarrow> i \<in> set ord) \<and>
     (\<forall>i\<in>set ord. \<exists>c. Called i c \<in> set h) \<and>
     (\<forall>i j. returns_before h i j \<longrightarrow> j \<in> set ord \<longrightarrow> ahead ((=) i) ((=) j) ord)"

lemma returns_before_snoc:
  "returns_before (h @ [e]) i j \<longleftrightarrow> returns_before h i j \<or> (\<exists>r. Returned i r \<in> set h) \<and> (\<exists>c. e = Called j c)"
  by (auto simp: returns_before_def ahead_snoc)

text \<open>What the pool's history says of its calls.\<close>

definition accounted :: "('c, 'a, 'r) calls \<Rightarrow> ('c, 'r) crossing list \<Rightarrow> bool" where
  "accounted P h \<longleftrightarrow> (\<forall>i c. Called i c \<in> set h \<longleftrightarrow> i < length P \<and> fst (P ! i) = c) \<and>
     (\<forall>i es. Acted i es \<in> set h \<longrightarrow> i < length P) \<and>
     (\<forall>i r. Returned i r \<in> set h \<longrightarrow> i < length P \<and> snd (P ! i) = Done r)"

lemma pool_accounted: "pool thr s0 P s h \<Longrightarrow> accounted P h"
proof (induction rule: pool.induct)
  case (pool_step P s h i c m t s')
  have "\<forall>r. Returned i r \<notin> set h"
  proof (intro allI notI)
    fix r
    assume "Returned i r \<in> set h"
    then have "snd (P ! i) = Done r" using pool_step.IH unfolding accounted_def by blast
    then show False using pool_step.hyps(3) by simp
  qed
  then show ?case using pool_step by (auto simp: accounted_def nth_list_update)
qed (auto simp: accounted_def nth_append less_Suc_eq)

lemma new_acted: "accounted P h \<Longrightarrow> acted (length P) h = []"
  by (rule acted_none) (auto simp: accounted_def)

text \<open>A linearization: numbers of calls, each with the visible kernel calls it made. The calls it names.\<close>

definition calls_in :: "('c, 'a, 'r) calls \<Rightarrow> (nat \<times> kevent list) list \<Rightarrow> ('c \<times> kevent list) list" where
  "calls_in P lin = map (\<lambda>(i, os). (fst (P ! i), os)) lin"

lemma calls_in_call: "\<forall>i\<in>fst ` set lin. i < length P \<Longrightarrow> calls_in (P @ [x]) lin = calls_in P lin"
  by (auto simp: calls_in_def nth_append)

lemma calls_in_step:
  assumes "\<forall>j\<in>fst ` set lin. j < length P" and "P ! i = (c, t)"
  shows "calls_in (P[i := (c, t')]) lin = calls_in P lin"
proof -
  have "fst (P[i := (c, t')] ! j) = fst (P ! j)" if "j < length P" for j
    using assms(2) that by (cases "j = i") simp_all
  then show ?thesis using assms(1) by (auto simp: calls_in_def)
qed

lemma calls_in_snoc: "calls_in P (lin @ [(i, os)]) = calls_in P lin @ [(fst (P ! i), os)]"
  by (simp add: calls_in_def)

locale linear_object =
  fixes thr :: "'c \<Rightarrow> ('a kst_scheme, 'r) thread" and view :: "'a kst_scheme \<Rightarrow> 'v" and p :: "kevent \<Rightarrow> bool"
    and astep :: "'c \<Rightarrow> kevent list \<Rightarrow> 'v \<Rightarrow> 'v option" and res :: "'c \<Rightarrow> 'r"
  assumes one_effect: "one_effect view p (astep c) (res c) (thr c)"
begin

definition explains :: "'a kst_scheme \<Rightarrow> ('c, 'a, 'r) calls \<Rightarrow> 'a kst_scheme \<Rightarrow> ('c, 'r) crossing list \<Rightarrow>
    (nat \<times> kevent list) list \<Rightarrow> bool" where
  "explains s0 P s h lin \<longleftrightarrow> order_of h (map fst lin) \<and>
     accepts astep (calls_in P lin) (view s0) = Some (view s) \<and>
     filter p (klog s) = filter p (klog s0) @ concat (map snd lin) \<and>
     (\<forall>i os. (i, os) \<in> set lin \<longrightarrow> os = filter p (acted i h)) \<and>
     (\<forall>i<length P. if i \<in> fst ` set lin then quiet view p (res (fst (P ! i))) (snd (P ! i))
       else one_effect view p (astep (fst (P ! i))) (res (fst (P ! i))) (snd (P ! i)) \<and> filter p (acted i h) = [])"

lemma explains_old: "accounted P h \<Longrightarrow> explains s0 P s h lin \<Longrightarrow> \<forall>i\<in>fst ` set lin. i < length P"
  by (auto simp: explains_def order_of_def accounted_def)

lemma explains_left:
  assumes "explains s0 P s h lin" and "i < length P" and "P ! i = (c, t)"
  shows "if i \<in> fst ` set lin then quiet view p (res c) t
    else one_effect view p (astep c) (res c) t \<and> filter p (acted i h) = []"
proof -
  from assms(1) have "\<forall>i<length P. if i \<in> fst ` set lin then quiet view p (res (fst (P ! i))) (snd (P ! i))
       else one_effect view p (astep (fst (P ! i))) (res (fst (P ! i))) (snd (P ! i)) \<and> filter p (acted i h) = []"
    unfolding explains_def by (elim conjE)
  from this [rule_format, OF assms(2)] show ?thesis unfolding assms(3) fst_conv snd_conv .
qed

lemma explains_call:
  assumes "accounted P h" and "explains s0 P s h lin"
  shows "explains s0 (P @ [(c, thr c)]) s (h @ [Called (length P) c]) lin"
proof -
  note old = explains_old [OF assms]
  have "order_of (h @ [Called (length P) c]) (map fst lin)"
    using assms(2) old by (auto simp: explains_def order_of_def returns_before_snoc)
  moreover have "length P \<notin> fst ` set lin" using old by blast
  ultimately show ?thesis
    using assms(2) one_effect calls_in_call [OF old] new_acted [OF assms(1)]
    by (auto simp: explains_def nth_append less_Suc_eq)
qed

lemma order_of_acted: "order_of (h @ [Acted i es]) ord \<longleftrightarrow> order_of h ord"
  by (auto simp: order_of_def returns_before_snoc)

lemma order_of_snoc:
  assumes "accounted P h" and "order_of h ord" and "i < length P" and "i \<notin> set ord"
  shows "order_of h (ord @ [i])"
proof -
  have "\<exists>c. Called i c \<in> set h" using assms(1,3) by (auto simp: accounted_def)
  moreover have "i' \<in> set ord" if "returns_before h i' j" for i' j
  proof -
    have "\<exists>r. Returned i' r \<in> set h" using that by (auto simp: returns_before_def ahead_def)
    then show ?thesis using assms(2) unfolding order_of_def by blast
  qed
  ultimately show ?thesis using assms(2,4) by (auto simp: order_of_def ahead_snoc)
qed

lemma explains_quiet_step:
  assumes acc: "accounted P h" and inv: "explains s0 P s h lin" and i: "i < length P" "P ! i = (c, Step m)"
    and new: "klog s' = klog s @ es" "filter p es = []" "view s' = view s"
    and left: "if i \<in> fst ` set lin then quiet view p (res c) t else one_effect view p (astep c) (res c) t"
  shows "explains s0 (P[i := (c, t)]) s' (h @ [Acted i es]) lin"
  using inv new left i calls_in_step [OF explains_old [OF acc inv] i(2)]
  by (auto simp: explains_def nth_list_update order_of_acted)

lemma explains_effect_step:
  assumes acc: "accounted P h" and inv: "explains s0 P s h lin" and i: "i < length P" "P ! i = (c, Step m)" "i \<notin> fst ` set lin"
    and new: "klog s' = klog s @ es" "astep c (filter p es) (view s) = Some (view s')" "quiet view p (res c) t"
  shows "explains s0 (P[i := (c, t)]) s' (h @ [Acted i es]) (lin @ [(i, filter p es)])"
proof -
  have "order_of (h @ [Acted i es]) (map fst (lin @ [(i, filter p es)]))"
    using order_of_snoc [OF acc _ i(1)] inv i(3) by (auto simp: explains_def order_of_acted)
  moreover have "accepts astep (calls_in (P[i := (c, t)]) (lin @ [(i, filter p es)])) (view s0) = Some (view s')"
    using inv new(2) i calls_in_step [OF explains_old [OF acc inv] i(2)]
    by (simp add: explains_def calls_in_snoc accepts_append)
  ultimately show ?thesis
    using inv new i unfolding explains_def by (force simp: nth_list_update)
qed

lemma explains_step:
  assumes acc: "accounted P h" and inv: "explains s0 P s h lin" and i: "i < length P" "P ! i = (c, Step m)"
    and run: "run_state m s = (t, s')"
  shows "\<exists>lin'. explains s0 (P[i := (c, t)]) s' (h @ [Acted i (drop (length (klog s)) (klog s'))]) lin'"
proof (cases "i \<in> fst ` set lin")
  case True
  then have "quiet view p (res c) (Step m)" using explains_left [OF inv i] by simp
  then obtain es where "klog s' = klog s @ es" "filter p es = []" "view s' = view s" "quiet view p (res c) t"
    using run by (auto simp: quiet_Step dest: spec [of _ s])
  with explains_quiet_step [OF acc inv i] True have "explains s0 (P[i := (c, t)]) s' (h @ [Acted i es]) lin" by simp
  then show ?thesis using \<open>klog s' = klog s @ es\<close> by auto
next
  case False
  then have "one_effect view p (astep c) (res c) (Step m)" using explains_left [OF inv i] by simp
  then obtain es where new: "klog s' = klog s @ es" and
    "quiet view p (res c) t \<and> astep c (filter p es) (view s) = Some (view s') \<or>
     one_effect view p (astep c) (res c) t \<and> view s' = view s \<and> filter p es = []"
    using run by (auto simp: effect_Step dest: spec [of _ s])
  then have "\<exists>lin'. explains s0 (P[i := (c, t)]) s' (h @ [Acted i es]) lin'"
    using explains_effect_step [OF acc inv i False new] explains_quiet_step [OF acc inv i new] False by auto
  then show ?thesis using new by simp
qed

lemma explains_return:
  assumes "explains s0 P s h lin" and "i < length P" and "P ! i = (c, Done r)"
  shows "explains s0 P s (h @ [Returned i r]) lin"
proof -
  have "i \<in> set (map fst lin)" using explains_left [OF assms] by (auto split: if_splits)
  then have "order_of (h @ [Returned i r]) (map fst lin)"
    using assms(1) by (auto simp: explains_def order_of_def returns_before_snoc)
  with assms(1) show ?thesis by (simp add: explains_def)
qed

lemma explained: "pool thr s0 P s h \<Longrightarrow> \<exists>lin. explains s0 P s h lin"
proof (induction rule: pool.induct)
  case pool_start
  show ?case by (rule exI [of _ "[]"]) (simp add: explains_def order_of_def returns_before_def calls_in_def)
next
  case (pool_call P s h c)
  then show ?case using explains_call [OF pool_accounted [OF pool_call.hyps]] by blast
next
  case (pool_step P s h i c m t s')
  then show ?case using explains_step [OF pool_accounted [OF pool_step.hyps(1)] _ pool_step.hyps(2-4)] by blast
next
  case (pool_return P s h i c r)
  then show ?case using explains_return by blast
qed

lemma linearizable:
  assumes "pool thr s0 P s h"
  shows "\<exists>lin. order_of h (map fst lin) \<and> accepts astep (calls_in P lin) (view s0) = Some (view s) \<and>
    filter p (klog s) = filter p (klog s0) @ concat (map snd lin) \<and>
    (\<forall>i os. (i, os) \<in> set lin \<longrightarrow> os = filter p (acted i h)) \<and>
    (\<forall>i r. Returned i r \<in> set h \<longrightarrow> r = res (fst (P ! i)))"
proof -
  obtain lin where inv: "explains s0 P s h lin" using explained [OF assms] ..
  have "r = res (fst (P ! i))" if ret: "Returned i r \<in> set h" for i r
  proof -
    have i: "i < length P" "P ! i = (fst (P ! i), Done r)"
      using ret pool_accounted [OF assms] by (auto simp: accounted_def prod_eq_iff)
    show ?thesis using explains_left [OF inv i] by (auto split: if_splits)
  qed
  with inv show ?thesis unfolding explains_def by blast
qed

end

section \<open>What a call owns\<close>

text \<open>
  Overlapping calls do not release in the reverse order of acquisition, so what is held is a multiset. A
  release or use of what is not held has no result.
\<close>

fun mact_step :: "'r act \<Rightarrow> 'r multiset \<Rightarrow> 'r multiset option" where
  "mact_step (Acq r) M = Some (add_mset r M)"
| "mact_step (Rel r) M = (if r \<in># M then Some (M - {#r#}) else None)"
| "mact_step (Use r) M = (if r \<in># M then Some M else None)"

fun mrun :: "'r act list \<Rightarrow> 'r multiset \<Rightarrow> 'r multiset option" where
  "mrun [] M = Some M"
| "mrun (a # as) M = (case mact_step a M of None \<Rightarrow> None | Some M' \<Rightarrow> mrun as M')"

definition kacts_of :: "kenv \<Rightarrow> kevent list \<Rightarrow> resource act list" where
  "kacts_of E es = concat (map (kacts E) es)"

lemma kacts_of_simps [simp]:
  "kacts_of E [] = []" "kacts_of E (e # es) = kacts E e @ kacts_of E es" "kacts_of E (es @ fs) = kacts_of E es @ kacts_of E fs"
  by (simp_all add: kacts_of_def)

lemma mrun_append: "mrun (as @ bs) M = (case mrun as M of None \<Rightarrow> None | Some M' \<Rightarrow> mrun bs M')"
  by (induction as arbitrary: M) (auto split: option.split)

text \<open>
  A thread that owns \<open>R\<close> releases and uses only what it owns, whatever the kernel answers and the other
  threads do in between, never owns more than \<open>k\<close> things, and ends with a result and a rest that satisfy \<open>Q\<close>.
\<close>

inductive owner :: "kenv \<Rightarrow> nat \<Rightarrow> ('r \<Rightarrow> resource multiset \<Rightarrow> bool) \<Rightarrow> resource multiset \<Rightarrow>
    ('a kst_scheme, 'r) thread \<Rightarrow> bool" for E k Q where
  owner_done: "size R \<le> k \<Longrightarrow> Q r R \<Longrightarrow> owner E k Q R (Done r)"
| owner_step: "size R \<le> k \<Longrightarrow> (\<And>s. \<exists>es R'. klog (snd (run_state m s)) = klog s @ es \<and> mrun (kacts_of E es) R = Some R' \<and>
    owner E k Q R' (fst (run_state m s))) \<Longrightarrow> owner E k Q R (Step m)"

inductive_simps owner_Done [simp]: "owner E k Q R (Done r)"
inductive_simps owner_Step: "owner E k Q R (Step m)"

lemma owner_act:
  "owner E k Q R (act m f) \<longleftrightarrow> size R \<le> k \<and> (\<forall>s. \<exists>es R'. klog (snd (run_state m s)) = klog s @ es \<and>
     mrun (kacts_of E es) R = Some R' \<and> owner E k Q R' (f (fst (run_state m s))))"
  by (simp add: act_def owner_Step)

lemma owner_size: "owner E k Q R t \<Longrightarrow> size R \<le> k"
  by (cases t) (simp_all add: owner_Step)

text \<open>A handler whose calls bring something along (a packet handed over) and end as \<open>Q\<close> says.\<close>

locale owning_calls =
  fixes E :: kenv and k :: nat and thr :: "'c \<Rightarrow> ('a kst_scheme, 'r) thread" and brings :: "'c \<Rightarrow> resource multiset"
    and Q :: "'c \<Rightarrow> 'r \<Rightarrow> resource multiset \<Rightarrow> bool"
  assumes owner_thr: "owner E k (Q c) (brings c) (thr c)"
begin

definition owned :: "('c, 'a, 'r) calls \<Rightarrow> ('c, 'r) crossing list \<Rightarrow> bool" where
  "owned P h \<longleftrightarrow> (\<forall>i<length P. \<exists>M. mrun (kacts_of E (acted i h)) (brings (fst (P ! i))) = Some M \<and>
     owner E k (Q (fst (P ! i))) M (snd (P ! i)))"

lemma owned_step:
  assumes inv: "owned P h" and i: "i < length P" "P ! i = (c, Step m)" and run: "run_state m s = (t, s')"
  shows "\<exists>es. klog s' = klog s @ es \<and> owned (P[i := (c, t)]) (h @ [Acted i es])"
proof -
  obtain M where M: "mrun (kacts_of E (acted i h)) (brings c) = Some M" "owner E k (Q c) M (Step m)"
    using inv i by (auto simp: owned_def dest!: spec [of _ i])
  then obtain es R where new: "klog s' = klog s @ es" "mrun (kacts_of E es) M = Some R" "owner E k (Q c) R t"
    using run by (auto simp: owner_Step dest: spec [of _ s])
  have "owned (P[i := (c, t)]) (h @ [Acted i es])"
    using inv i M new by (auto simp: owned_def nth_list_update mrun_append)
  with new(1) show ?thesis by blast
qed

lemma pool_owned: "pool thr s0 P s h \<Longrightarrow> owned P h \<and> klog s = klog s0 @ all_acted h"
proof (induction rule: pool.induct)
  case pool_start
  show ?case by (simp add: owned_def)
next
  case (pool_call P s h c)
  then show ?case
    using owner_thr new_acted [OF pool_accounted [OF pool_call.hyps]] by (auto simp: owned_def nth_append less_Suc_eq)
next
  case (pool_step P s h i c m t s')
  then obtain es where es: "klog s' = klog s @ es" "owned (P[i := (c, t)]) (h @ [Acted i es])"
    using owned_step [OF _ pool_step.hyps(2-4)] by blast
  then have "drop (length (klog s)) (klog s') = es" by simp
  with es pool_step.IH show ?case by simp
next
  case (pool_return P s h i c r)
  then show ?case by (simp add: owned_def)
qed

text \<open>
  What the calls did is all the kernel saw. Each call, on what it brought, released and used only what it
  held itself, holds no more than \<open>k\<close> things, and when done has the rest that goes with its result.
\<close>

lemma overlap_safe:
  assumes "pool thr s0 P s h"
  shows "klog s = klog s0 @ all_acted h \<and>
    (\<forall>i<length P. \<exists>M. mrun (kacts_of E (acted i h)) (brings (fst (P ! i))) = Some M \<and> size M \<le> k \<and>
      (\<forall>r. snd (P ! i) = Done r \<longrightarrow> Q (fst (P ! i)) r M))"
proof -
  from pool_owned [OF assms] have "klog s = klog s0 @ all_acted h" and inv: "owned P h" by simp_all
  moreover have "\<exists>M. mrun (kacts_of E (acted i h)) (brings (fst (P ! i))) = Some M \<and> size M \<le> k \<and>
      (\<forall>r. snd (P ! i) = Done r \<longrightarrow> Q (fst (P ! i)) r M)" if "i < length P" for i
  proof -
    obtain M where "mrun (kacts_of E (acted i h)) (brings (fst (P ! i))) = Some M"
      "owner E k (Q (fst (P ! i))) M (snd (P ! i))"
      using inv \<open>i < length P\<close> by (auto simp: owned_def)
    then show ?thesis using owner_size [of E k _ M] by auto
  qed
  ultimately show ?thesis by blast
qed

end

end
