(* ===== verification/Ioctl_Concurrent.thy ===== *)
theory Ioctl_Concurrent
  imports Concurrent_Calls Ioctl_Driver
begin

text \<open>
  The ioctl driver under processes that use the device at the same time. Its variable \<open>value\<close> is shared and
  no lock guards it (the handler is the \<open>unlocked_ioctl\<close> one). A user copy of the four-byte variable is one
  access to it.
\<close>

section \<open>The handlers as threads\<close>

text \<open>
  \<open>etx_ioctl\<close> cut where another process can come in between: at the copy, at each message, and at the second
  look at \<open>value\<close> for the message that reports it.
\<close>

definition etx_report_steps :: "(etx_state, u64) thread" where
  "etx_report_steps =
     act (reads etx_value) (\<lambda>v.
     act (kvoid (Printk KERN_INFO (ln ''Value = %d'') [PInt (sint v)])) (\<lambda>_.
     Done 0))"

definition etx_ioctl_steps :: "kenv \<Rightarrow> u32 \<Rightarrow> u64 \<Rightarrow> (etx_state, u64) thread" where
  "etx_ioctl_steps E cmd arg =
     (if cmd = WR_VALUE E then
        act (do {
          (left, bs) \<leftarrow> kcopy_from_user E arg 4;
          upd (etx_value_update (\<lambda>_. of_le32 bs));
          State_Monad.return left
        }) (\<lambda>left.
        if left \<noteq> 0 then act (kvoid (Printk KERN_ERR (ln ''Data Write : Err!'') [])) (\<lambda>_. etx_report_steps)
        else etx_report_steps)
      else if cmd = RD_VALUE E then
        act (do {
          v \<leftarrow> reads etx_value;
          kcopy_to_user E arg (le32 v)
        }) (\<lambda>left.
        if left \<noteq> 0 then act (kvoid (Printk KERN_ERR (ln ''Data Read : Err!'') [])) (\<lambda>_. Done 0)
        else Done 0)
      else act (kvoid (Printk KERN_INFO (ln ''Default'') [])) (\<lambda>_. Done 0))"

text \<open>The other handlers make one call.\<close>

definition etx_thread :: "kenv \<Rightarrow> fcall \<Rightarrow> (etx_state, u64) thread" where
  "etx_thread E c = (case c of
     F_open \<Rightarrow> act etx_open (\<lambda>r. Done (word_of_int r))
   | F_release \<Rightarrow> act etx_release (\<lambda>r. Done (word_of_int r))
   | F_read buf len \<Rightarrow> act (etx_read buf len) Done
   | F_write buf len \<Rightarrow> act (etx_write buf len) Done
   | F_ioctl cmd arg \<Rightarrow> etx_ioctl_steps E cmd arg)"

lemmas etx_steps = etx_thread_def etx_ioctl_steps_def etx_report_steps_def

text \<open>Run without interruption, each thread is the handler.\<close>

lemma etx_thread_alone: "run_state (alone (etx_thread E c)) s = run_state (vfs E (etx_fops E) c) s"
  by (cases c) (auto simp: etx_steps vfs_def Let_def prog split: prod.split)

text \<open>A call that overlaps with no other is a step of the sequential driver.\<close>

lemma etx_call_alone:
  assumes "pool (etx_thread E) s0 P s h"
  shows "\<exists>r h'. pool (etx_thread E) s0 (P @ [(c, Done r)]) (etx_step E c s) (h @ h')"
proof -
  obtain r s' where "run_state (vfs E (etx_fops E) c) s = (r, s')" by fastforce
  with pool_alone [OF assms, of c] show ?thesis by (auto simp: etx_thread_alone etx_step_def)
qed

section \<open>One effect per call\<close>





section \<open>Properties\<close>


text \<open>A kernel whose user memory holds at each address four times the address's low byte.\<close>

definition lab_mem :: "u64 \<Rightarrow> u8 list" where
  "lab_mem a = replicate 4 (ucast a)"

definition mem_kernel :: kenv where
  "mem_kernel = lab_kernel\<lparr>from_user := (\<lambda>h p n. (0, lab_mem p))\<rparr>"

lemma mem_kernel_user: "user_memory mem_kernel lab_mem"
  using lab_WR_RD by (simp add: user_memory_def mem_kernel_def WR_VALUE_def RD_VALUE_def)



text \<open>
  C13: two overlapping \<open>WR_VALUE\<close> calls can both succeed and both log the value of the second, so the
  line \<open>Value = ...\<close> of the first does not report what it wrote.
\<close>

theorem etx_report_race:
  assumes "user_memory E mem"
  shows "\<exists>P s h. pool (etx_thread E) s0 P s h \<and> map fst P = [F_ioctl (WR_VALUE E) a, F_ioctl (WR_VALUE E) b] \<and>
    {Returned 0 0, Returned 1 0} \<subseteq> set h \<and>
    (let line = Void_call (Printk KERN_INFO (ln ''Value = %d'') [PInt (sint (of_le32 (mem b)))])
     in klog s = klog s0 @ [Copy_from_user a 4 0 (mem a), Copy_from_user b 4 0 (mem b), line, line])"
proof -
  let ?cs = "[F_ioctl (WR_VALUE E) a, F_ioctl (WR_VALUE E) b]"
  define line where "line = Void_call (Printk KERN_INFO (ln ''Value = %d'') [PInt (sint (of_le32 (mem b)))])"
  define s where "s = s0\<lparr>klog := klog s0 @ [Copy_from_user a 4 0 (mem a), Copy_from_user b 4 0 (mem b), line, line],
    etx_value := of_le32 (mem b)\<rparr>"
  define P where "P = map (\<lambda>c. (c, Done 0 :: (etx_state, u64) thread)) ?cs"
  define h :: "(fcall, u64) crossing list" where "h = called ?cs @ [Acted 0 [Copy_from_user a 4 0 (mem a)], Acted 1 [Copy_from_user b 4 0 (mem b)],
    Acted 0 [], Acted 0 [line], Acted 1 [], Acted 1 [line :: kevent]]"
  have "fold turn [0, 1, 0, 0, 1, 1] (opened (etx_thread E) ?cs, s0, called ?cs) = (P, s, h)"
    using assms by (simp add: turn_def opened_def etx_thread_def etx_ioctl_steps_def etx_report_steps_def
        user_memory_def s_def P_def line_def h_def)
  from pool_turns [OF pool_opened _ this] have "pool (etx_thread E) s0 P s h" by (simp add: opened_def)
  from pool_return [OF this, of 0 "?cs ! 0" 0] have "pool (etx_thread E) s0 P s (h @ [Returned 0 0])"
    by (simp add: P_def h_def called_def)
  from pool_return [OF this, of 1 "?cs ! 1" 0] have "pool (etx_thread E) s0 P s ((h @ [Returned 0 0]) @ [Returned 1 0])"
    by (simp add: P_def h_def called_def)
  moreover have "map fst P = ?cs" by (simp add: P_def)
  moreover have "klog s = klog s0 @ [Copy_from_user a 4 0 (mem a), Copy_from_user b 4 0 (mem b), line, line]" by (simp add: s_def)
  ultimately show ?thesis unfolding line_def Let_def by (intro exI conjI) auto
qed

theorem etx_report_race_witness:
  "\<exists>P s h. pool (etx_thread mem_kernel) etx_zero P s h \<and>
     map fst P = [F_ioctl (WR_VALUE mem_kernel) 1, F_ioctl (WR_VALUE mem_kernel) 2] \<and> {Returned 0 0, Returned 1 0} \<subseteq> set h \<and>
     (let line = Void_call (Printk KERN_INFO (ln ''Value = %d'') [PInt (sint (of_le32 (lab_mem 2)))])
      in klog s = [Copy_from_user 1 4 0 (lab_mem 1), Copy_from_user 2 4 0 (lab_mem 2), line, line])"
  using etx_report_race [OF mem_kernel_user, of etx_zero 1 2] by (simp add: etx_zero_def)

end
