(* ===== verification/Net_Layout.thy ===== *)
theory Net_Layout
  imports Kernel_API Bytes
begin

text \<open>
  The wire formats the network code lays over byte buffers (Ethernet II, IPv4 without options, TCP
  without options, ICMPv6): header sizes and field offsets, and the protocol numbers it compares
  with. A read through a header pointer is a checked read of the buffer.
\<close>

definition ETH_ALEN :: nat where "ETH_ALEN = 6"
definition ETHHDR :: nat where "ETHHDR = 14"
definition IPHDR :: nat where "IPHDR = 20"
definition TCPHDR :: nat where "TCPHDR = 20"
definition ICMPV6HDR :: nat where "ICMPV6HDR = 8"

definition H_DEST :: nat where "H_DEST = 0"
definition H_SOURCE :: nat where "H_SOURCE = 6"

definition IP_TTL :: nat where "IP_TTL = ETHHDR + 8"
definition IP_PROTOCOL :: nat where "IP_PROTOCOL = ETHHDR + 9"
definition IP_SADDR :: nat where "IP_SADDR = ETHHDR + 12"
definition IP_DADDR :: nat where "IP_DADDR = ETHHDR + 16"

definition ETH_P_IP :: u16 where "ETH_P_IP = 0x0800"
definition IPPROTO_TCP :: u8 where "IPPROTO_TCP = 6"
definition IPPROTO_ICMPV6 :: u8 where "IPPROTO_ICMPV6 = 58"
definition ICMPV6_ECHO_REQUEST :: u8 where "ICMPV6_ECHO_REQUEST = 128"
definition ICMPV6_ECHO_REPLY :: u8 where "ICMPV6_ECHO_REPLY = 129"

lemmas net_layout = ETH_ALEN_def ETHHDR_def IPHDR_def TCPHDR_def ICMPV6HDR_def H_DEST_def H_SOURCE_def
  IP_TTL_def IP_PROTOCOL_def IP_SADDR_def IP_DADDR_def ETH_P_IP_def IPPROTO_TCP_def IPPROTO_ICMPV6_def
  ICMPV6_ECHO_REQUEST_def ICMPV6_ECHO_REPLY_def

definition NET_RX_SUCCESS :: int where "NET_RX_SUCCESS = 0"
definition NET_RX_DROP :: int where "NET_RX_DROP = 1"
definition NETDEV_TX_OK :: int where "NETDEV_TX_OK = 0"

lemmas net_codes = NET_RX_SUCCESS_def NET_RX_DROP_def NETDEV_TX_OK_def

definition rd_field :: "'a list \<Rightarrow> nat \<Rightarrow> nat \<Rightarrow> 'a list option" where
  "rd_field xs i n = (if i + n \<le> length xs then Some (field xs i n) else None)"

lemmas rd_simps = need_def rd_field_def rd_def

text \<open>The members of \<open>struct net_device\<close> a driver initialises.\<close>

record net_device =
  nd_name :: string
  nd_mtu :: nat
  nd_type :: u16
  nd_addr_len :: nat
  nd_features :: u64

definition ARPHRD_ETHER :: u16 where "ARPHRD_ETHER = 1"

end
