(* ===== verification/Net_Eth.thy ===== *)
theory Net_Eth
  imports Net_Layout Shared_Kernel
begin

text \<open>
  \<open>net_eth.c\<close>: an Ethernet driver whose receive function copies a packet, prints its headers and
  frees it, and whose transmit function rewrites two header fields. A packet is its socket buffer's
  address and its bytes.
\<close>

record net_eth_state = kst +
  net_eth_name :: string
  net_eth_addr :: "u8 list"
  net_eth_mtu :: nat

definition MY_NETDEV_NAME :: string where "MY_NETDEV_NAME = ''my_netdev''"

definition my_netdev_mac :: "u8 list" where
  "my_netdev_mac = [0x00, 0x0C, 0x22, 0x44, 0xAA, 0xBB]"

text \<open>The members the device starts with.\<close>

definition eth_zero :: net_eth_state where
  "eth_zero = \<lparr>klog = [], net_eth_name = MY_NETDEV_NAME, net_eth_addr = my_netdev_mac, net_eth_mtu = 0\<rparr>"

abbreviation my_netdev :: obj where "my_netdev \<equiv> Addr_of ''my_netdev''"

definition eth_rx_done :: "kptr \<Rightarrow> kptr \<Rightarrow> ('a kst_scheme, fault + int) state" where
  "eth_rx_done skb kernel_buffer = do {
     kvoid (Kfree kernel_buffer);
     kvoid (Dev_kfree_skb skb);
     State_Monad.return (Inr NET_RX_SUCCESS)
   }"

definition eth_netdev_rx :: "kenv \<Rightarrow> kptr \<Rightarrow> u8 list \<Rightarrow> ('a kst_scheme, fault + int) state" where
  "eth_netdev_rx E skb data =
     (if length data < ETHHDR + IPHDR then do {
        kvoid (Dev_kfree_skb skb);
        State_Monad.return (Inr NET_RX_DROP)
      } else do {
        kernel_buffer \<leftarrow> kptr_call E (Kmalloc (length data));
        if kernel_buffer = NULL then do {
          kvoid (Dev_kfree_skb skb);
          State_Monad.return (Inr NET_RX_DROP)
        } else
          need (rd_field data H_SOURCE ETH_ALEN) (\<lambda>src.
          need (rd_field data H_DEST ETH_ALEN) (\<lambda>dst. do {
            kvoid (Printk KERN_INFO (ln ''Received packet: source MAC: %pM, destination MAC: %pM'')
              [PBytes src, PBytes dst]);
            need (rd_field data IP_SADDR 4) (\<lambda>saddr.
            need (rd_field data IP_DADDR 4) (\<lambda>daddr. do {
              kvoid (Printk KERN_INFO (ln ''  Source IP: %pI4, Destination IP: %pI4'') [PBytes saddr, PBytes daddr]);
              need (rd data IP_PROTOCOL) (\<lambda>protocol.
                if protocol = IPPROTO_ICMPV6 then
                  need (rd data (ETHHDR + IPHDR)) (\<lambda>icmp_type.
                    if icmp_type = ICMPV6_ECHO_REPLY then do {
                      kvoid (Printk KERN_INFO (ln ''  ICMPv6 echo reply received!'') []);
                      eth_rx_done skb kernel_buffer
                    } else eth_rx_done skb kernel_buffer)
                else eth_rx_done skb kernel_buffer)
            }))
          }))
      })"

text \<open>
  The transmit function changes the packet in place, so it returns the packet too. Its last branch
  ends without a \<open>return\<close>.
\<close>

definition eth_netdev_tx :: "kenv \<Rightarrow> kptr \<Rightarrow> u8 list \<Rightarrow> ('a kst_scheme, (fault + int) \<times> u8 list) state" where
  "eth_netdev_tx E skb data = do {
     headroom \<leftarrow> kint E (Validate_headers skb my_netdev MY_NETDEV_NAME);
     if headroom < 0 then do {
       kvoid (Dev_kfree_skb skb);
       State_Monad.return (Inr NETDEV_TX_OK, data)
     } else if length data < H_DEST + ETH_ALEN then State_Monad.return (Inl Out_of_bounds, data)
     else do {
       let data = splice data H_DEST my_netdev_mac;
       if length data \<le> IP_TTL then State_Monad.return (Inl Out_of_bounds, data)
       else do {
         let data = data[IP_TTL := data ! IP_TTL - 1];
         kvoid (Printk KERN_INFO (ln ''my_netdev: Transmitting packet...'') []);
         State_Monad.return (Inl No_return, data)
       }
     }
   }"

datatype eth_call = Ndo_rx kptr "u8 list" | Ndo_tx kptr "u8 list"

text \<open>The operations structure of the device.\<close>

definition eth_netdev_ops :: "kenv \<Rightarrow> eth_call \<Rightarrow> ('a kst_scheme, fault + int) state" where
  "eth_netdev_ops E c = (case c of
     Ndo_rx skb data \<Rightarrow> eth_netdev_rx E skb data
   | Ndo_tx skb data \<Rightarrow> do { (r, _) \<leftarrow> eth_netdev_tx E skb data; State_Monad.return r })"

definition eth_netdev_init :: "kenv \<Rightarrow> (net_eth_state, int) state" where
  "eth_netdev_init E = do {
     upd (net_eth_mtu_update (\<lambda>_. 1500));
     r \<leftarrow> kint E (Register_netdev my_netdev);
     if r \<noteq> 0 then do {
       kvoid (Printk KERN_ERR (ln ''Failed to register my_netdev'') []);
       State_Monad.return (- 1)
     } else do {
       kvoid (Printk KERN_INFO (ln ''my_netdev driver initialized'') []);
       State_Monad.return 0
     }
   }"

definition eth_netdev_exit :: "kenv \<Rightarrow> (net_eth_state, unit) state" where
  "eth_netdev_exit E = kvoid (Unregister_netdev my_netdev)"

lemmas net_eth_prog [prog] = eth_rx_done_def eth_netdev_rx_def eth_netdev_tx_def eth_netdev_ops_def
  eth_netdev_init_def eth_netdev_exit_def

section \<open>Lifecycle\<close>

text \<open>
  A callback begins with the arrival of the packet: the network core hands over a socket buffer,
  which the driver then owns.
\<close>

definition packet_of :: "eth_call \<Rightarrow> kptr \<times> nat" where
  "packet_of c = (case c of Ndo_rx skb data \<Rightarrow> (skb, length data) | Ndo_tx skb data \<Rightarrow> (skb, length data))"

definition arrival :: "eth_call \<Rightarrow> kevent" where
  "arrival c = Ptr_call (Dev_alloc_skb (snd (packet_of c))) (fst (packet_of c))"

definition eth_callback :: "kenv \<Rightarrow> eth_call \<Rightarrow> (net_eth_state, fault option) state" where
  "eth_callback E c =
     (if fst (packet_of c) = NULL then State_Monad.return None
      else do {
        upd (\<lambda>s. s\<lparr>klog := klog s @ [arrival c]\<rparr>);
        r \<leftarrow> eth_netdev_ops E c;
        State_Monad.return (case r of Inl f \<Rightarrow> Some f | Inr _ \<Rightarrow> None)
      })"

definition eth_holds :: "net_eth_state \<Rightarrow> resource list" where
  "eth_holds s = [Registered my_netdev]"

definition eth_crash :: "fault \<Rightarrow> bool" where
  "eth_crash f \<longleftrightarrow> f = Out_of_bounds \<or> f = No_return"

lemma eth_init_safe:
  "kernel_doc E \<Longrightarrow> run_state (returns (eth_netdev_init E)) s = (x, s') \<Longrightarrow> held E s = Some st \<Longrightarrow>
   case x of Inl f \<Rightarrow> eth_crash f | Inr r \<Rightarrow> held E s' = Some (if r < 0 then st else eth_holds s' @ st)"
  by (auto simp: net_eth_prog eth_holds_def held_simps kernel_doc_def order_less_le split: if_splits)

lemma eth_rx_call:
  assumes "run_state (eth_netdev_rx E skb data) (s\<lparr>klog := klog s @ [Ptr_call (Dev_alloc_skb n) skb]\<rparr>) = (x, s')"
    and "held E s = Some st" and "skb \<noteq> NULL"
  shows "x = Inl Out_of_bounds \<or> (\<exists>r. x = Inr r) \<and> held E s' = Some st"
  using assms by (auto simp: net_eth_prog rd_simps Let_def held_simps split: if_splits)

lemma eth_tx_call:
  assumes "run_state (eth_netdev_tx E skb data) (s\<lparr>klog := klog s @ [Ptr_call (Dev_alloc_skb n) skb]\<rparr>) = ((x, data'), s')"
    and "held E s = Some st" and "skb \<noteq> NULL"
  shows "x = Inl Out_of_bounds \<or> x = Inl No_return \<or> (\<exists>r. x = Inr r) \<and> held E s' = Some st"
  using assms by (auto simp: net_eth_prog Let_def held_simps split: if_splits)

lemma eth_call_safe:
  assumes run: "run_state (eth_callback E c) s = (f, s')" and h: "held E s = Some (eth_holds s @ st)"
  shows "case f of Some f \<Rightarrow> eth_crash f | None \<Rightarrow> held E s' = Some (eth_holds s' @ st)"
proof (cases "fst (packet_of c) = NULL")
  case True
  with run h show ?thesis by (simp add: eth_callback_def)
next
  case False
  show ?thesis
  proof (cases c)
    case (Ndo_rx skb data)
    obtain x s1 where rx: "run_state (eth_netdev_rx E skb data)
        (s\<lparr>klog := klog s @ [Ptr_call (Dev_alloc_skb (length data)) skb]\<rparr>) = (x, s1)"
      by fastforce
    with run False Ndo_rx have "s' = s1" "f = (case x of Inl f \<Rightarrow> Some f | Inr _ \<Rightarrow> None)"
      by (simp_all add: eth_callback_def packet_of_def arrival_def eth_netdev_ops_def)
    with eth_rx_call [OF rx h] False Ndo_rx show ?thesis
      by (auto simp: packet_of_def eth_crash_def eth_holds_def)
  next
    case (Ndo_tx skb data)
    obtain x data' s1 where tx: "run_state (eth_netdev_tx E skb data)
        (s\<lparr>klog := klog s @ [Ptr_call (Dev_alloc_skb (length data)) skb]\<rparr>) = ((x, data'), s1)"
      by (metis prod.collapse)
    with run False Ndo_tx have "s' = s1" "f = (case x of Inl f \<Rightarrow> Some f | Inr _ \<Rightarrow> None)"
      by (simp_all add: eth_callback_def packet_of_def arrival_def eth_netdev_ops_def)
    with eth_tx_call [OF tx h] False Ndo_tx show ?thesis
      by (auto simp: packet_of_def eth_crash_def eth_holds_def)
  qed
qed

lemma eth_exit_safe:
  "run_state (eth_netdev_exit E) s = (u, s') \<Longrightarrow> held E s = Some (eth_holds s @ st) \<Longrightarrow> held E s' = Some st"
  by (auto simp: net_eth_prog eth_holds_def held_simps)

definition net_eth_about :: module_about where
  "net_eth_about = \<lparr>MODULE_LICENSE = ''GPL'', MODULE_AUTHOR = Some ''Your Name'',
     MODULE_DESCRIPTION = Some ''Simple network driver with dynamic buffer allocation'', MODULE_VERSION = None\<rparr>"

definition net_eth_module :: "net_eth_state kernel_module" where
  "net_eth_module = \<lparr>module_data = eth_zero, module_init = (\<lambda>E. returns (eth_netdev_init E)), module_exit = eth_netdev_exit, about = net_eth_about\<rparr>"

interpretation net_eth: driver_module "\<lambda>E. returns (eth_netdev_init E)" eth_netdev_exit eth_callback eth_holds kernel_doc eth_crash
  by unfold_locales (erule eth_init_safe eth_call_safe eth_exit_safe, assumption+)+

section \<open>Receive\<close>

lemma eth_rx_fault_iff:
  "(fst (run_state (eth_netdev_rx E skb data) s) = Inl f) \<longleftrightarrow>
   f = Out_of_bounds \<and> length data = 34 \<and> data ! 23 = IPPROTO_ICMPV6 \<and>
   ptr_ret E (klog s) (Kmalloc (length data)) \<noteq> NULL"
  by (auto simp: prog rd_simps net_layout Let_def split: if_splits)

lemma eth_rx_accepts:
  assumes "34 < length data" and "ptr_ret E (klog s) (Kmalloc (length data)) \<noteq> NULL"
  obtains s' where "run_state (eth_netdev_rx E skb data) s = (Inr 0, s')"
proof -
  have "fst (run_state (eth_netdev_rx E skb data) s) = Inr 0"
    using assms by (auto simp: prog rd_simps net_layout net_codes Let_def)
  then show ?thesis using that by (cases "run_state (eth_netdev_rx E skb data) s") auto
qed

lemma eth_rx_frees:
  assumes "held E s = Some (Skb skb # st)"
    and "run_state (eth_netdev_rx E skb data) s = (Inr r, s')"
  shows "held E s' = Some st"
  using assms by (auto simp: prog rd_simps Let_def held_simps split: if_splits)

lemma eth_rx_log:
  assumes "run_state (eth_netdev_rx E skb data) s = (Inr 0, s')"
    and "p = ptr_ret E (klog s) (Kmalloc (length data))"
  shows "klog s' = klog s @ [Ptr_call (Kmalloc (length data)) p,
      Void_call (Printk KERN_INFO (ln ''Received packet: source MAC: %pM, destination MAC: %pM'')
        [PBytes (field data 6 6), PBytes (field data 0 6)]),
      Void_call (Printk KERN_INFO (ln ''  Source IP: %pI4, Destination IP: %pI4'')
        [PBytes (field data 26 4), PBytes (field data 30 4)])] @
    (if data ! 23 = 58 \<and> data ! 34 = 129
     then [Void_call (Printk KERN_INFO (ln ''  ICMPv6 echo reply received!'') [])] else []) @
    [Void_call (Kfree p), Void_call (Dev_kfree_skb skb)]"
  using assms by (auto simp: net_eth_prog rd_simps net_layout net_codes Let_def split: if_splits)

section \<open>Transmit\<close>

lemma eth_tx_result:
  assumes "34 \<le> length data" and "0 \<le> int_ret E (klog s) (Validate_headers skb my_netdev MY_NETDEV_NAME)"
    and "held E s = Some (Skb skb # st)" and run: "run_state (eth_netdev_tx E skb data) s = ((x, data'), s')"
  shows "x = Inl No_return \<and> held E s' = Some (Skb skb # st) \<and> length data' = length data \<and>
    (k < length data \<longrightarrow> data' ! k = (if k < 6 then my_netdev_mac ! k else if k = 22 then data ! k - 1 else data ! k))"
  using assms
  by (auto simp: net_eth_prog net_layout Let_def held_simps nth_list_update nth_splice my_netdev_mac_def)

section \<open>Properties\<close>


text \<open>
  C7: the receive function faults in one case only, a packet of exactly the checked 34 bytes
  whose protocol is ICMPv6, where it reads a header that is not there; otherwise its verdict is right
  and every packet and buffer it held is freed.
\<close>

theorem eth_rx_safe:
  assumes "held E s = Some (Skb skb # st)" and "run_state (eth_netdev_rx E skb data) s = (x, s')"
    and p: "p = ptr_ret E (klog s) (Kmalloc (length data))"
  shows "if length data = 34 \<and> data ! 23 = 58 \<and> p \<noteq> NULL
    then x = Inl Out_of_bounds \<and> held E s' = Some (Mem p # Skb skb # st)
    else x = Inr (if length data < 34 \<or> p = NULL then 1 else 0) \<and> held E s' = Some st"
  using assms by (auto simp: net_eth_prog rd_simps net_layout net_codes Let_def held_simps split: if_splits)

theorem eth_rx_safe_witness:
  "fst (run_state (eth_netdev_rx lab_kernel 0x7000 (replicate 34 58)) (eth_zero\<lparr>klog := [Ptr_call (Dev_alloc_skb 34) 0x7000]\<rparr>)) =
   Inl Out_of_bounds"
proof -
  define s where "s = eth_zero\<lparr>klog := [Ptr_call (Dev_alloc_skb 34) 0x7000]\<rparr>"
  obtain x s' where run: "run_state (eth_netdev_rx lab_kernel 0x7000 (replicate 34 58)) s = (x, s')" by fastforce
  have "held lab_kernel s = Some [Skb 0x7000]" by (simp add: s_def held_simps)
  from eth_rx_safe [OF this run refl] run show ?thesis by (simp add: s_def lab_kernel_sel)
qed

text \<open>
  For an accepted packet the log shows source and destination as they lie in the packet, the
  echo-reply line exactly for an ICMPv6 echo reply, and then the two releases.
\<close>

theorem eth_rx_prints:
  assumes "run_state (eth_netdev_rx E skb data) s = (Inr 0, s')"
    and "p = ptr_ret E (klog s) (Kmalloc (length data))"
  shows "klog s' = klog s @ [Ptr_call (Kmalloc (length data)) p,
      Void_call (Printk KERN_INFO (ln ''Received packet: source MAC: %pM, destination MAC: %pM'')
        [PBytes (field data 6 6), PBytes (field data 0 6)]),
      Void_call (Printk KERN_INFO (ln ''  Source IP: %pI4, Destination IP: %pI4'')
        [PBytes (field data 26 4), PBytes (field data 30 4)])] @
    (if data ! 23 = 58 \<and> data ! 34 = 129
     then [Void_call (Printk KERN_INFO (ln ''  ICMPv6 echo reply received!'') [])] else []) @
    [Void_call (Kfree p), Void_call (Dev_kfree_skb skb)]"
  using assms by (rule eth_rx_log)

theorem eth_rx_prints_witness:
  "Void_call (Printk KERN_INFO (ln ''  ICMPv6 echo reply received!'') []) \<in>
     set (klog (snd (run_state (eth_netdev_rx lab_kernel 0x7000 (replicate 34 58 @ [129])) eth_zero)))"
proof -
  obtain s' where run: "run_state (eth_netdev_rx lab_kernel 0x7000 (replicate 34 58 @ [129])) eth_zero = (Inr 0, s')"
    by (auto simp: net_eth_prog rd_simps net_layout net_codes Let_def lab_kernel_sel nth_append)
  from eth_rx_prints [OF run refl] run show ?thesis by (simp add: nth_append)
qed

text \<open>
  C29: on a packet with complete headers that passes the check, the transmit function changes the
  destination address and the time to live (a zero wraps to 255) and no other byte, keeps the packet
  allocated, and ends without a return value.
\<close>

theorem eth_tx_rewrites:
  assumes "34 \<le> length data" and "0 \<le> int_ret E (klog s) (Validate_headers skb my_netdev MY_NETDEV_NAME)"
    and "held E s = Some (Skb skb # st)" and run: "run_state (eth_netdev_tx E skb data) s = ((x, data'), s')"
  shows "x = Inl No_return \<and> held E s' = Some (Skb skb # st) \<and> length data' = length data \<and>
    (k < length data \<longrightarrow> data' ! k = (if k < 6 then my_netdev_mac ! k else if k = 22 then data ! k - 1 else data ! k))"
  using assms by (rule eth_tx_result)

theorem eth_tx_rewrites_witness:
  "fst (fst (run_state (eth_netdev_tx lab_kernel 0x7000 (replicate 34 0)) (eth_zero\<lparr>klog := [Ptr_call (Dev_alloc_skb 34) 0x7000]\<rparr>))) =
     Inl No_return \<and>
   snd (fst (run_state (eth_netdev_tx lab_kernel 0x7000 (replicate 34 0)) (eth_zero\<lparr>klog := [Ptr_call (Dev_alloc_skb 34) 0x7000]\<rparr>))) ! 22 = 255"
proof -
  define s where "s = eth_zero\<lparr>klog := [Ptr_call (Dev_alloc_skb 34) 0x7000]\<rparr>"
  obtain x data' s' where run: "run_state (eth_netdev_tx lab_kernel 0x7000 (replicate 34 0)) s = ((x, data'), s')"
    by (metis prod.collapse)
  have "held lab_kernel s = Some [Skb 0x7000]" by (simp add: s_def held_simps)
  from eth_tx_rewrites [OF _ _ this run, of 22] run show ?thesis by (simp add: s_def lab_kernel_sel)
qed

text \<open>
  C10: in every order of loads, packets and unloads the driver is registered exactly
  while it is loaded, and holds no packet and no buffer between calls; two faults only can end its
  service, a read past a packet and a transmission that returns no value.
\<close>

theorem net_eth_lifecycle:
  assumes "mod_reach E eth_zero (\<lambda>E. returns (eth_netdev_init E)) eth_netdev_exit eth_callback l s" and "kernel_doc E"
  shows "l = Unloaded \<and> held E s = Some [] \<or> l = Loaded \<and> held E s = Some [Registered my_netdev] \<or>
    l = Crashed Out_of_bounds \<or> l = Crashed No_return"
  using net_eth.reach_wf [OF assms] by (cases l) (auto simp: eth_holds_def eth_crash_def)

theorem net_eth_lifecycle_witness:
  "held lab_kernel (snd (run_state (eth_callback lab_kernel (Ndo_rx 0x7000 (replicate 40 58)))
     (snd (run_state (eth_netdev_init lab_kernel) eth_zero)))) = Some [Registered my_netdev]"
proof -
  obtain s' where init: "run_state (eth_netdev_init lab_kernel) eth_zero = (0, s')"
    by (auto simp: net_eth_prog lab_kernel_sel)
  have loaded: "mod_reach lab_kernel eth_zero (\<lambda>E. returns (eth_netdev_init E)) eth_netdev_exit eth_callback Loaded s'"
    by (rule reach_loaded [of eth_zero _ _ 0]) (simp add: eth_zero_def, simp_all add: init)
  obtain s2 where rx: "run_state (eth_callback lab_kernel (Ndo_rx 0x7000 (replicate 40 58))) s' = (None, s2)"
    by (auto simp: eth_callback_def packet_of_def net_eth_prog rd_simps net_layout net_codes Let_def lab_kernel_sel)
  from mod_reach.step [OF loaded callback, OF rx] init rx show ?thesis
    by (auto dest!: net_eth_lifecycle [OF _ lab_kernel_doc])
qed

end
