(* ===== verification/Concurrent_Buffers.thy ===== *)
theory Concurrent_Buffers
  imports Ioctl_Concurrent Spi_Char_Driver Net_Eth
begin

text \<open>
  Handlers that take memory, under calls that overlap: reads of the SPI character device by any number of
  processes, and packets the Ethernet driver receives on several processors at once. Neither handler shares
  a variable; what one call took must not be given back by another, and nothing may be left.
\<close>

section \<open>Reads of the SPI character device\<close>

text \<open>The bytes a transfer received are fixed when it returns: the buffer is the reader's own.\<close>

definition spi_char_read_steps :: "kenv \<Rightarrow> kptr \<Rightarrow> u64 \<Rightarrow> (spi_char_state, u64) thread" where
  "spi_char_read_steps E user_buf cnt =
     act (do {
       spi_data \<leftarrow> kptr_call E (Spi_transfer (uninit_ptr E) spi_char_DATA_SIZE);
       data \<leftarrow> reads (\<lambda>s. spi_rx E (klog s) spi_data);
       State_Monad.return (spi_data, data)
     }) (\<lambda>(spi_data, data).
     if spi_data = NULL then
       act (kvoid (Dev_err (Addr_of ''d_sb'') (ln ''Failed to receive data from SPI device''))) (\<lambda>_.
       Done (word_of_int (- EFAULT)))
     else
       let n = min cnt (word_of_nat spi_char_DATA_SIZE)
       in act (kcopy_to_user E user_buf (take (unat n) data)) (\<lambda>left.
          if left \<noteq> 0 then act (kvoid (Kfree spi_data)) (\<lambda>_. Done (word_of_int (- EFAULT)))
          else act (kvoid (Kfree spi_data)) (\<lambda>_. Done n)))"

definition spi_char_thread :: "kenv \<Rightarrow> fcall \<Rightarrow> (spi_char_state, u64) thread" where
  "spi_char_thread E c = (case c of F_read buf n \<Rightarrow> spi_char_read_steps E buf n | _ \<Rightarrow> Done (no_handler E c))"

lemma spi_char_thread_alone: "run_state (alone (spi_char_thread E c)) s = run_state (vfs E (spi_char_fops E) c) s"
  by (cases c) (auto simp: spi_char_thread_def spi_char_read_steps_def vfs_def Let_def spi_char_fops_def spi_char_read_def)

text \<open>What a call may end with: nothing left, and for a read the count or \<open>-EFAULT\<close>.\<close>

definition spi_char_ends :: "kenv \<Rightarrow> fcall \<Rightarrow> u64 \<Rightarrow> resource multiset \<Rightarrow> bool" where
  "spi_char_ends E c r M \<longleftrightarrow> M = {#} \<and> (\<forall>buf n. c = F_read buf n \<longrightarrow> r = min n 16 \<or> r = word_of_int (- EFAULT))"

lemma spi_char_owner: "owner E 1 (spi_char_ends E c) {#} (spi_char_thread E c)"
  by (cases c) (auto simp: spi_char_thread_def spi_char_read_steps_def Let_def owner_act got_ptr_def spi_char_ends_def
      spi_char_DATA_SIZE_def)

interpretation spi_char_calls: owning_calls E 1 "spi_char_thread E" "\<lambda>c. {#}" "spi_char_ends E"
  by unfold_locales (rule spi_char_owner)

section \<open>Packets the Ethernet driver receives\<close>

definition need_steps :: "'b option \<Rightarrow> ('b \<Rightarrow> ('s, fault + 'a) thread) \<Rightarrow> ('s, fault + 'a) thread" where
  "need_steps x k = (case x of None \<Rightarrow> Done (Inl Out_of_bounds) | Some v \<Rightarrow> k v)"

definition eth_rx_done_steps :: "kptr \<Rightarrow> kptr \<Rightarrow> ('a kst_scheme, fault + int) thread" where
  "eth_rx_done_steps skb kernel_buffer =
     act (kvoid (Kfree kernel_buffer)) (\<lambda>_.
     act (kvoid (Dev_kfree_skb skb)) (\<lambda>_.
     Done (Inr NET_RX_SUCCESS)))"

definition eth_netdev_rx_steps :: "kenv \<Rightarrow> kptr \<times> u8 list \<Rightarrow> ('a kst_scheme, fault + int) thread" where
  "eth_netdev_rx_steps E packet = (case packet of (skb, data) \<Rightarrow>
     if length data < ETHHDR + IPHDR then
       act (kvoid (Dev_kfree_skb skb)) (\<lambda>_. Done (Inr NET_RX_DROP))
     else
       act (kptr_call E (Kmalloc (length data))) (\<lambda>kernel_buffer.
       if kernel_buffer = NULL then act (kvoid (Dev_kfree_skb skb)) (\<lambda>_. Done (Inr NET_RX_DROP))
       else
         need_steps (rd_field data H_SOURCE ETH_ALEN) (\<lambda>src.
         need_steps (rd_field data H_DEST ETH_ALEN) (\<lambda>dst.
         act (kvoid (Printk KERN_INFO (ln ''Received packet: source MAC: %pM, destination MAC: %pM'')
           [PBytes src, PBytes dst])) (\<lambda>_.
         need_steps (rd_field data IP_SADDR 4) (\<lambda>saddr.
         need_steps (rd_field data IP_DADDR 4) (\<lambda>daddr.
         act (kvoid (Printk KERN_INFO (ln ''  Source IP: %pI4, Destination IP: %pI4'') [PBytes saddr, PBytes daddr])) (\<lambda>_.
         need_steps (rd data IP_PROTOCOL) (\<lambda>protocol.
           if protocol = IPPROTO_ICMPV6 then
             need_steps (rd data (ETHHDR + IPHDR)) (\<lambda>icmp_type.
               if icmp_type = ICMPV6_ECHO_REPLY then
                 act (kvoid (Printk KERN_INFO (ln ''  ICMPv6 echo reply received!'') [])) (\<lambda>_.
                 eth_rx_done_steps skb kernel_buffer)
               else eth_rx_done_steps skb kernel_buffer)
           else eth_rx_done_steps skb kernel_buffer)))))))))"

lemmas eth_steps = eth_netdev_rx_steps_def eth_rx_done_steps_def need_steps_def

lemma eth_steps_alone: "run_state (alone (eth_netdev_rx_steps E (skb, data))) s = run_state (eth_netdev_rx E skb data) s"
  by (simp add: eth_steps eth_netdev_rx_def eth_rx_done_def need_def split: option.split)

text \<open>
  What a call may end with. The function gets through every packet but one of 34 bytes whose protocol is
  ICMPv6: there it reads one byte past the end, with the packet and its buffer still held.
\<close>

definition eth_ends :: "kptr \<times> u8 list \<Rightarrow> fault + int \<Rightarrow> resource multiset \<Rightarrow> bool" where
  "eth_ends packet x M \<longleftrightarrow> (case x of
     Inr v \<Rightarrow> M = {#} \<and> (v = NET_RX_DROP \<or> v = NET_RX_SUCCESS \<and> 34 \<le> length (snd packet))
   | Inl f \<Rightarrow> f = Out_of_bounds \<and> length (snd packet) = 34 \<and> snd packet ! 23 = IPPROTO_ICMPV6 \<and>
       (\<exists>p. M = {#Skb (fst packet), Mem p#}))"

lemma eth_owner: "owner E 2 (eth_ends packet) {#Skb (fst packet)#} (eth_netdev_rx_steps E packet)"
  by (cases packet) (auto simp: eth_steps owner_act got_ptr_def rd_simps net_layout eth_ends_def split: option.split)

interpretation eth_packets: owning_calls E 2 "eth_netdev_rx_steps E" "\<lambda>packet. {#Skb (fst packet)#}" eth_ends
  by unfold_locales (rule eth_owner)

section \<open>Properties\<close>

text \<open>
  C4: however the reads of any number of processes overlap, each call frees only a buffer it took
  itself, has at most one while it runs and none when it is done, and is then done with the count asked for, at
  most 16, or with \<open>-EFAULT\<close>; the kernel saw nothing but what the calls did.
\<close>

theorem spi_reads_overlap:
  assumes "pool (spi_char_thread E) s0 P s h"
  shows "klog s = klog s0 @ all_acted h \<and>
    (\<forall>i<length P. \<exists>M. mrun (kacts_of E (acted i h)) {#} = Some M \<and> size M \<le> 1 \<and>
      (\<forall>r. snd (P ! i) = Done r \<longrightarrow> M = {#} \<and>
        (\<forall>buf n. fst (P ! i) = F_read buf n \<longrightarrow> r = min n 16 \<or> r = word_of_int (- EFAULT))))"
  using spi_char_calls.overlap_safe [OF assms] unfolding spi_char_ends_def .

text \<open>
  Two reads that overlap: the second is in its transfer when the first has copied.
\<close>

theorem spi_reads_overlap_witness:
  "\<exists>P s h. pool (spi_char_thread lab_kernel) spi_char_zero P s h \<and> map fst P = [F_read 0x10 4, F_read 0x20 100] \<and>
     length (acted 0 h) = 3 \<and> mrun (kacts_of lab_kernel (acted 0 h)) {#} = Some {#} \<and>
     length (acted 1 h) = 2 \<and> (\<exists>M. mrun (kacts_of lab_kernel (acted 1 h)) {#} = Some M \<and> size M \<le> 1)"
proof -
  let ?cs = "[F_read 0x10 4, F_read 0x20 100]"
  obtain P s h where run:
    "fold turn [0, 1, 0, 1, 0] (opened (spi_char_thread lab_kernel) ?cs, spi_char_zero, called ?cs) = (P, s, h)"
    by (metis prod_cases3)
  then have P: "map fst P = ?cs" "snd (P ! 0) = Done 4" and log: "length (acted 0 h) = 3" "length (acted 1 h) = 2"
    by (auto simp: turn_def opened_def called_def acted_def spi_char_thread_def spi_char_read_steps_def Let_def lab_kernel_sel
        spi_char_zero_def spi_char_DATA_SIZE_def)
  have pool: "pool (spi_char_thread lab_kernel) spi_char_zero P s h"
    using pool_turns [OF pool_opened _ run] by (simp add: opened_def)
  have two: "length P = 2" using P(1) by (metis length_map length_Cons list.size(3) numeral_2_eq_2)
  note each = conjunct2 [OF spi_reads_overlap [OF pool], rule_format]
  from each [of 0] each [of 1] P log pool two show ?thesis by (intro exI [of _ P] exI [of _ s] exI [of _ h]) auto
qed

text \<open>
  C5: however the packets received on several processors overlap, each call frees only what it holds
  itself, its packet and one buffer at most; it is done with both freed, the packet reported as received only if
  its headers are complete, otherwise as dropped. The one exception is a packet of exactly 34 bytes whose protocol
  is ICMPv6: a call that stops at a fault has read past the end of such a packet and leaves it and its buffer
  unfreed.
\<close>

theorem eth_receive_overlap:
  assumes "pool (eth_netdev_rx_steps E) s0 P s h"
  shows "klog s = klog s0 @ all_acted h \<and>
    (\<forall>i<length P. \<exists>M. mrun (kacts_of E (acted i h)) {#Skb (fst (fst (P ! i)))#} = Some M \<and> size M \<le> 2 \<and>
      (\<forall>x. snd (P ! i) = Done x \<longrightarrow> (case x of
          Inr v \<Rightarrow> M = {#} \<and> (v = NET_RX_DROP \<or> v = NET_RX_SUCCESS \<and> 34 \<le> length (snd (fst (P ! i))))
        | Inl f \<Rightarrow> f = Out_of_bounds \<and> length (snd (fst (P ! i))) = 34 \<and> snd (fst (P ! i)) ! 23 = IPPROTO_ICMPV6 \<and>
            (\<exists>p. M = {#Skb (fst (fst (P ! i))), Mem p#}))))"
  using eth_packets.overlap_safe [OF assms] unfolding eth_ends_def .

text \<open>A good packet, a short one, and the one that faults, received together.\<close>

definition icmp6_packet :: "u8 list" where
  "icmp6_packet = (replicate 34 0)[23 := IPPROTO_ICMPV6]"

theorem eth_receive_overlap_witness:
  "\<exists>P s h. pool (eth_netdev_rx_steps lab_kernel) eth_zero P s h \<and>
     map fst P = [(0x7000, replicate 60 0), (0x7100, replicate 20 0), (0x7200, icmp6_packet)] \<and>
     mrun (kacts_of lab_kernel (acted 0 h)) {#Skb 0x7000#} = Some {#} \<and>
     mrun (kacts_of lab_kernel (acted 1 h)) {#Skb 0x7100#} = Some {#} \<and>
     (\<exists>p. mrun (kacts_of lab_kernel (acted 2 h)) {#Skb 0x7200#} = Some {#Skb 0x7200, Mem p#})"
proof -
  let ?cs = "[(0x7000, replicate 60 0), (0x7100, replicate 20 0), (0x7200, icmp6_packet)] :: (kptr \<times> u8 list) list"
  obtain P s h where run: "fold turn [0, 1, 2, 0, 2, 0, 0, 2, 0]
      (opened (eth_netdev_rx_steps lab_kernel) ?cs, eth_zero, called ?cs) = (P, s, h)"
    by (metis prod_cases3)
  then have P: "P = [(?cs ! 0, Done (Inr NET_RX_SUCCESS)), (?cs ! 1, Done (Inr NET_RX_DROP)), (?cs ! 2, Done (Inl Out_of_bounds))]"
    by (auto simp: turn_def opened_def eth_steps lab_kernel_sel rd_simps field_def net_layout eth_zero_def icmp6_packet_def)
  have pool: "pool (eth_netdev_rx_steps lab_kernel) eth_zero P s h"
    using pool_turns [OF pool_opened _ run] by (simp add: opened_def)
  note each = conjunct2 [OF eth_receive_overlap [OF pool], rule_format]
  from each [of 0] each [of 1] each [of 2] pool show ?thesis
    by (intro exI [of _ P] exI [of _ s] exI [of _ h]) (auto simp: P)
qed

end
