(* ===== verification/E1000_Defs.thy ===== *)
theory E1000_Defs
  imports Bytes "HOL-Library.Signed_Division"
begin

unbundle bit_operations_syntax

text \<open>
  \<open>e1000.h\<close>, the constants: capability flags, DMA burst settings, descriptor-ring and interrupt
  limits, the timer increment values, and the enumerations. \<open>BIT n\<close> is the kernel's macro for a
  word with one bit set.
\<close>

section \<open>Flags\<close>

named_theorems flag \<open>definitions of the flag words\<close>

definition BIT :: "nat \<Rightarrow> u32" where
  "BIT n = push_bit n 1"

definition FLAG_HAS_AMT :: u32 where [flag]: "FLAG_HAS_AMT = BIT 0"
definition FLAG_HAS_FLASH :: u32 where [flag]: "FLAG_HAS_FLASH = BIT 1"
definition FLAG_HAS_HW_VLAN_FILTER :: u32 where [flag]: "FLAG_HAS_HW_VLAN_FILTER = BIT 2"
definition FLAG_HAS_WOL :: u32 where [flag]: "FLAG_HAS_WOL = BIT 3"
definition FLAG_HAS_CTRLEXT_ON_LOAD :: u32 where [flag]: "FLAG_HAS_CTRLEXT_ON_LOAD = BIT 5"
definition FLAG_HAS_SWSM_ON_LOAD :: u32 where [flag]: "FLAG_HAS_SWSM_ON_LOAD = BIT 6"
definition FLAG_HAS_JUMBO_FRAMES :: u32 where [flag]: "FLAG_HAS_JUMBO_FRAMES = BIT 7"
definition FLAG_IS_ICH :: u32 where [flag]: "FLAG_IS_ICH = BIT 9"
definition FLAG_HAS_MSIX :: u32 where [flag]: "FLAG_HAS_MSIX = BIT 10"
definition FLAG_HAS_SMART_POWER_DOWN :: u32 where [flag]: "FLAG_HAS_SMART_POWER_DOWN = BIT 11"
definition FLAG_IS_QUAD_PORT_A :: u32 where [flag]: "FLAG_IS_QUAD_PORT_A = BIT 12"
definition FLAG_IS_QUAD_PORT :: u32 where [flag]: "FLAG_IS_QUAD_PORT = BIT 13"
definition FLAG_HAS_HW_TIMESTAMP :: u32 where [flag]: "FLAG_HAS_HW_TIMESTAMP = BIT 14"
definition FLAG_APME_IN_WUC :: u32 where [flag]: "FLAG_APME_IN_WUC = BIT 15"
definition FLAG_APME_IN_CTRL3 :: u32 where [flag]: "FLAG_APME_IN_CTRL3 = BIT 16"
definition FLAG_APME_CHECK_PORT_B :: u32 where [flag]: "FLAG_APME_CHECK_PORT_B = BIT 17"
definition FLAG_DISABLE_FC_PAUSE_TIME :: u32 where [flag]: "FLAG_DISABLE_FC_PAUSE_TIME = BIT 18"
definition FLAG_NO_WAKE_UCAST :: u32 where [flag]: "FLAG_NO_WAKE_UCAST = BIT 19"
definition FLAG_MNG_PT_ENABLED :: u32 where [flag]: "FLAG_MNG_PT_ENABLED = BIT 20"
definition FLAG_RESET_OVERWRITES_LAA :: u32 where [flag]: "FLAG_RESET_OVERWRITES_LAA = BIT 21"
definition FLAG_TARC_SPEED_MODE_BIT :: u32 where [flag]: "FLAG_TARC_SPEED_MODE_BIT = BIT 22"
definition FLAG_TARC_SET_BIT_ZERO :: u32 where [flag]: "FLAG_TARC_SET_BIT_ZERO = BIT 23"
definition FLAG_RX_NEEDS_RESTART :: u32 where [flag]: "FLAG_RX_NEEDS_RESTART = BIT 24"
definition FLAG_LSC_GIG_SPEED_DROP :: u32 where [flag]: "FLAG_LSC_GIG_SPEED_DROP = BIT 25"
definition FLAG_SMART_POWER_DOWN :: u32 where [flag]: "FLAG_SMART_POWER_DOWN = BIT 26"
definition FLAG_MSI_ENABLED :: u32 where [flag]: "FLAG_MSI_ENABLED = BIT 27"
definition FLAG_RX_CSUM_ENABLED :: u32 where [flag]: "FLAG_RX_CSUM_ENABLED = BIT 28"
definition FLAG_TSO_FORCE :: u32 where [flag]: "FLAG_TSO_FORCE = BIT 29"
definition FLAG_RESTART_NOW :: u32 where [flag]: "FLAG_RESTART_NOW = BIT 30"
definition FLAG_MSI_TEST_FAILED :: u32 where [flag]: "FLAG_MSI_TEST_FAILED = BIT 31"
definition FLAG2_CRC_STRIPPING :: u32 where [flag]: "FLAG2_CRC_STRIPPING = BIT 0"
definition FLAG2_HAS_PHY_WAKEUP :: u32 where [flag]: "FLAG2_HAS_PHY_WAKEUP = BIT 1"
definition FLAG2_IS_DISCARDING :: u32 where [flag]: "FLAG2_IS_DISCARDING = BIT 2"
definition FLAG2_DISABLE_ASPM_L1 :: u32 where [flag]: "FLAG2_DISABLE_ASPM_L1 = BIT 3"
definition FLAG2_HAS_PHY_STATS :: u32 where [flag]: "FLAG2_HAS_PHY_STATS = BIT 4"
definition FLAG2_HAS_EEE :: u32 where [flag]: "FLAG2_HAS_EEE = BIT 5"
definition FLAG2_DMA_BURST :: u32 where [flag]: "FLAG2_DMA_BURST = BIT 6"
definition FLAG2_DISABLE_ASPM_L0S :: u32 where [flag]: "FLAG2_DISABLE_ASPM_L0S = BIT 7"
definition FLAG2_DISABLE_AIM :: u32 where [flag]: "FLAG2_DISABLE_AIM = BIT 8"
definition FLAG2_CHECK_PHY_HANG :: u32 where [flag]: "FLAG2_CHECK_PHY_HANG = BIT 9"
definition FLAG2_NO_DISABLE_RX :: u32 where [flag]: "FLAG2_NO_DISABLE_RX = BIT 10"
definition FLAG2_PCIM2PCI_ARBITER_WA :: u32 where [flag]: "FLAG2_PCIM2PCI_ARBITER_WA = BIT 11"
definition FLAG2_DFLT_CRC_STRIPPING :: u32 where [flag]: "FLAG2_DFLT_CRC_STRIPPING = BIT 12"
definition FLAG2_CHECK_RX_HWTSTAMP :: u32 where [flag]: "FLAG2_CHECK_RX_HWTSTAMP = BIT 13"
definition FLAG2_CHECK_SYSTIM_OVERFLOW :: u32 where [flag]: "FLAG2_CHECK_SYSTIM_OVERFLOW = BIT 14"

definition all_flags :: "u32 list" where
  "all_flags = [
    FLAG_HAS_AMT, FLAG_HAS_FLASH, FLAG_HAS_HW_VLAN_FILTER, FLAG_HAS_WOL, FLAG_HAS_CTRLEXT_ON_LOAD,
    FLAG_HAS_SWSM_ON_LOAD, FLAG_HAS_JUMBO_FRAMES, FLAG_IS_ICH, FLAG_HAS_MSIX,
    FLAG_HAS_SMART_POWER_DOWN, FLAG_IS_QUAD_PORT_A, FLAG_IS_QUAD_PORT, FLAG_HAS_HW_TIMESTAMP,
    FLAG_APME_IN_WUC, FLAG_APME_IN_CTRL3, FLAG_APME_CHECK_PORT_B, FLAG_DISABLE_FC_PAUSE_TIME,
    FLAG_NO_WAKE_UCAST, FLAG_MNG_PT_ENABLED, FLAG_RESET_OVERWRITES_LAA, FLAG_TARC_SPEED_MODE_BIT,
    FLAG_TARC_SET_BIT_ZERO, FLAG_RX_NEEDS_RESTART, FLAG_LSC_GIG_SPEED_DROP, FLAG_SMART_POWER_DOWN,
    FLAG_MSI_ENABLED, FLAG_RX_CSUM_ENABLED, FLAG_TSO_FORCE, FLAG_RESTART_NOW, FLAG_MSI_TEST_FAILED]"

definition all_flags2 :: "u32 list" where
  "all_flags2 = [
    FLAG2_CRC_STRIPPING, FLAG2_HAS_PHY_WAKEUP, FLAG2_IS_DISCARDING, FLAG2_DISABLE_ASPM_L1,
    FLAG2_HAS_PHY_STATS, FLAG2_HAS_EEE, FLAG2_DMA_BURST, FLAG2_DISABLE_ASPM_L0S, FLAG2_DISABLE_AIM,
    FLAG2_CHECK_PHY_HANG, FLAG2_NO_DISABLE_RX, FLAG2_PCIM2PCI_ARBITER_WA, FLAG2_DFLT_CRC_STRIPPING,
    FLAG2_CHECK_RX_HWTSTAMP, FLAG2_CHECK_SYSTIM_OVERFLOW]"

definition E1000_TIDV_FPD :: u32 where "E1000_TIDV_FPD = BIT 31"
definition E1000_RDTR_FPD :: u32 where "E1000_RDTR_FPD = BIT 31"

lemma bit_BIT: "n < 32 \<Longrightarrow> bit (BIT n) k \<longleftrightarrow> k = n"
  by (auto simp: BIT_def bit_simps dest: bit_imp_le_length)

text \<open>Two different single-bit words share no bit.\<close>

lemma BIT_AND_BIT: "m < 32 \<Longrightarrow> n < 32 \<Longrightarrow> m \<noteq> n \<Longrightarrow> BIT m AND BIT n = 0"
  by (rule bit_word_eqI) (auto simp: bit_BIT bit_simps)

lemma BIT_inject: "m < 32 \<Longrightarrow> n < 32 \<Longrightarrow> BIT m = BIT n \<longleftrightarrow> m = n"
  by (metis bit_BIT)

section \<open>Ring and interrupt limits\<close>

definition E1000_DEFAULT_TXD :: nat where "E1000_DEFAULT_TXD = 256"
definition E1000_MAX_TXD :: nat where "E1000_MAX_TXD = 4096"
definition E1000_MIN_TXD :: nat where "E1000_MIN_TXD = 64"
definition E1000_DEFAULT_RXD :: nat where "E1000_DEFAULT_RXD = 256"
definition E1000_MAX_RXD :: nat where "E1000_MAX_RXD = 4096"
definition E1000_MIN_RXD :: nat where "E1000_MIN_RXD = 64"
definition E1000_MIN_ITR_USECS :: nat where "E1000_MIN_ITR_USECS = 10"
definition E1000_MAX_ITR_USECS :: nat where "E1000_MAX_ITR_USECS = 10000"
definition E1000_RX_BUFFER_WRITE :: u16 where "E1000_RX_BUFFER_WRITE = 16"
definition E1000_CHECK_RESET_COUNT :: nat where "E1000_CHECK_RESET_COUNT = 25"

lemmas ring_limits = E1000_DEFAULT_TXD_def E1000_MAX_TXD_def E1000_MIN_TXD_def E1000_DEFAULT_RXD_def
  E1000_MAX_RXD_def E1000_MIN_RXD_def E1000_MIN_ITR_USECS_def E1000_MAX_ITR_USECS_def
  E1000_RX_BUFFER_WRITE_def E1000_CHECK_RESET_COUNT_def

section \<open>DMA burst\<close>

text \<open>The two bits named by \<open>hw.h\<close> are parameters.\<close>

definition E1000_TXDCTL_DMA_BURST_ENABLE :: "u32 \<Rightarrow> u32 \<Rightarrow> u32" where
  "E1000_TXDCTL_DMA_BURST_ENABLE gran count_desc =
     gran OR count_desc OR push_bit 16 1 OR push_bit 8 1 OR 0x1f"

definition E1000_RXDCTL_DMA_BURST_ENABLE :: u32 where
  "E1000_RXDCTL_DMA_BURST_ENABLE = 0x01000000 OR push_bit 16 4 OR push_bit 8 4 OR 0x20"

section \<open>Timer increments\<close>

definition INCVALUE_96MHZ :: nat where "INCVALUE_96MHZ = 125"
definition INCVALUE_SHIFT_96MHZ :: nat where "INCVALUE_SHIFT_96MHZ = 17"
definition INCPERIOD_SHIFT_96MHZ :: nat where "INCPERIOD_SHIFT_96MHZ = 2"
definition INCPERIOD_96MHZ :: nat where "INCPERIOD_96MHZ = drop_bit INCPERIOD_SHIFT_96MHZ 12"
definition INCVALUE_25MHZ :: nat where "INCVALUE_25MHZ = 40"
definition INCVALUE_SHIFT_25MHZ :: nat where "INCVALUE_SHIFT_25MHZ = 18"
definition INCPERIOD_25MHZ :: nat where "INCPERIOD_25MHZ = 1"
definition INCVALUE_24MHZ :: nat where "INCVALUE_24MHZ = 125"
definition INCVALUE_SHIFT_24MHZ :: nat where "INCVALUE_SHIFT_24MHZ = 14"
definition INCPERIOD_24MHZ :: nat where "INCPERIOD_24MHZ = 3"
definition INCVALUE_38400KHZ :: nat where "INCVALUE_38400KHZ = 26"
definition INCVALUE_SHIFT_38400KHZ :: nat where "INCVALUE_SHIFT_38400KHZ = 19"
definition INCPERIOD_38400KHZ :: nat where "INCPERIOD_38400KHZ = 1"

text \<open>In ticks of a clock of \<open>HZ\<close> ticks per second.\<close>

definition E1000_SYSTIM_OVERFLOW_PERIOD :: "nat \<Rightarrow> nat" where
  "E1000_SYSTIM_OVERFLOW_PERIOD HZ = HZ * 60 * 60 * 4"

definition E1000_82574_SYSTIM_EPSILON :: u64 where
  "E1000_82574_SYSTIM_EPSILON = push_bit 35 1"

lemmas inc_defs = INCVALUE_96MHZ_def INCVALUE_SHIFT_96MHZ_def INCPERIOD_SHIFT_96MHZ_def INCPERIOD_96MHZ_def
  INCVALUE_25MHZ_def INCVALUE_SHIFT_25MHZ_def INCPERIOD_25MHZ_def INCVALUE_24MHZ_def INCVALUE_SHIFT_24MHZ_def
  INCPERIOD_24MHZ_def INCVALUE_38400KHZ_def INCVALUE_SHIFT_38400KHZ_def INCPERIOD_38400KHZ_def
  E1000_SYSTIM_OVERFLOW_PERIOD_def

section \<open>Enumerations\<close>

datatype e1000_boards =
    board_82571 | board_82572 | board_82573 | board_82574 | board_82583 | board_80003es2lan
  | board_ich8lan | board_ich9lan | board_ich10lan | board_pchlan | board_pch2lan | board_pch_lpt
  | board_pch_spt | board_pch_cnp

datatype e1000_state_t =
    E1000_OBFF_DISABLED | E1000_TESTING | E1000_RESETTING | E1000_ACCESS_SHARED_RESOURCE | E1000_DOWN

datatype latency_range = lowest_latency | low_latency | bulk_latency | latency_invalid

fun state_bit :: "e1000_state_t \<Rightarrow> nat" where
  "state_bit E1000_OBFF_DISABLED = 0"
| "state_bit E1000_TESTING = 1"
| "state_bit E1000_RESETTING = 2"
| "state_bit E1000_ACCESS_SHARED_RESOURCE = 3"
| "state_bit E1000_DOWN = 4"

fun latency_value :: "latency_range \<Rightarrow> u16" where
  "latency_value lowest_latency = 0"
| "latency_value low_latency = 1"
| "latency_value bulk_latency = 2"
| "latency_value latency_invalid = 255"

section \<open>Properties\<close>

lemma all_flags_BIT:
  "all_flags = map BIT ([0, 1, 2, 3, 5, 6, 7] @ [9..<32])" "all_flags2 = map BIT ([0, 1] @ [2..<15])"
  by (simp_all add: all_flags_def all_flags2_def flag)

text \<open>A list of flags names each bit once.\<close>

lemma flag_list:
  assumes "fs \<in> {all_flags, all_flags2}"
  obtains ns where "fs = map BIT ns" and "distinct ns" and "set ns \<subseteq> {..<32}"
proof (cases "fs = all_flags")
  case True
  show thesis by (rule that [OF True [unfolded all_flags_BIT(1)]]) (simp, auto)
next
  case False
  with assms have fs: "fs = all_flags2" by simp
  show thesis by (rule that [OF fs [unfolded all_flags_BIT(2)]]) (simp, auto)
qed

text \<open>
  In each of the two flag words no bit is used twice: setting or clearing one flag never changes
  what testing another one yields, and does change what testing that flag yields.
\<close>

theorem e1000_flags:
  assumes "fs \<in> {all_flags, all_flags2}" and "f \<in> set fs" and "g \<in> set fs" and "f \<noteq> g"
  shows "distinct fs \<and> (w OR f) AND g = w AND g \<and> (w AND NOT f) AND g = w AND g \<and>
    (w OR f) AND f \<noteq> 0 \<and> (w AND NOT f) AND f = 0"
proof -
  obtain ns where ns: "fs = map BIT ns" "distinct ns" "set ns \<subseteq> {..<32}"
    using flag_list [OF assms(1)] .
  then obtain m n where fg: "f = BIT m" "g = BIT n" "m < 32" "n < 32" "m \<noteq> n"
    using assms(2-4) by auto
  have "distinct fs"
    using ns unfolding ns(1) distinct_map by (auto intro!: inj_onI simp: subset_iff BIT_inject)
  moreover have "(w OR f) AND g = w AND g" "(w AND NOT f) AND g = w AND g" "(w AND NOT f) AND f = 0"
    using fg by (auto intro!: bit_word_eqI simp: bit_simps bit_BIT)
  moreover have "bit ((w OR f) AND f) m"
    using fg by (simp add: bit_simps bit_BIT)
  then have "(w OR f) AND f \<noteq> 0" by auto
  ultimately show ?thesis by blast
qed

theorem e1000_flags_witness:
  "(0x80000000 OR FLAG_HAS_AMT) AND FLAG_MSI_TEST_FAILED = 0x80000000 AND FLAG_MSI_TEST_FAILED"
proof -
  have "FLAG_HAS_AMT \<noteq> FLAG_MSI_TEST_FAILED" by (simp add: flag BIT_inject)
  then show ?thesis
    using e1000_flags [of all_flags FLAG_HAS_AMT FLAG_MSI_TEST_FAILED "0x80000000"] by (simp add: all_flags_def)
qed

text \<open>
  Every scaled increment fits the 24 bits of its register field. At 96, 25 and 24 MHz one second of
  ticks adds exactly \<open>10 ^ 9\<close> scaled nanoseconds; at 38.4 MHz it falls 1.6 milliseconds short. The scale is
  the largest that fits, except at 24 MHz, where three more bits would.
\<close>

theorem timinca_exact:
  "INCVALUE_96MHZ * 2 ^ INCVALUE_SHIFT_96MHZ < 2 ^ 24 \<and> INCVALUE_25MHZ * 2 ^ INCVALUE_SHIFT_25MHZ < 2 ^ 24 \<and>
   INCVALUE_24MHZ * 2 ^ INCVALUE_SHIFT_24MHZ < 2 ^ 24 \<and> INCVALUE_38400KHZ * 2 ^ INCVALUE_SHIFT_38400KHZ < 2 ^ 24 \<and>
   96000000 div INCPERIOD_96MHZ * INCVALUE_96MHZ = 10 ^ 9 * 2 ^ INCPERIOD_SHIFT_96MHZ \<and>
   25000000 div INCPERIOD_25MHZ * INCVALUE_25MHZ = 10 ^ 9 \<and> 24000000 div INCPERIOD_24MHZ * INCVALUE_24MHZ = 10 ^ 9 \<and>
   38400000 div INCPERIOD_38400KHZ * INCVALUE_38400KHZ = 10 ^ 9 - 1600000 \<and>
   2 ^ 24 \<le> INCVALUE_96MHZ * 2 ^ Suc INCVALUE_SHIFT_96MHZ \<and> 2 ^ 24 \<le> INCVALUE_25MHZ * 2 ^ Suc INCVALUE_SHIFT_25MHZ \<and>
   2 ^ 24 \<le> INCVALUE_38400KHZ * 2 ^ Suc INCVALUE_SHIFT_38400KHZ \<and> INCVALUE_24MHZ * 2 ^ (INCVALUE_SHIFT_24MHZ + 3) < 2 ^ 24"
  by (simp add: inc_defs)

text \<open>
  The 64-bit time counter, read once every overflow period of four hours, never wraps twice between
  two readings, on any of the four clocks; on the fastest it wraps after more than nine hours.
\<close>

theorem systim_overflow:
  "E1000_SYSTIM_OVERFLOW_PERIOD HZ = HZ * 14400 \<and>
   14400 * (96000000 div INCPERIOD_96MHZ * (INCVALUE_96MHZ * 2 ^ INCVALUE_SHIFT_96MHZ)) < 2 ^ 64 \<and>
   14400 * (25000000 div INCPERIOD_25MHZ * (INCVALUE_25MHZ * 2 ^ INCVALUE_SHIFT_25MHZ)) < 2 ^ 64 \<and>
   14400 * (24000000 div INCPERIOD_24MHZ * (INCVALUE_24MHZ * 2 ^ INCVALUE_SHIFT_24MHZ)) < 2 ^ 64 \<and>
   14400 * (38400000 div INCPERIOD_38400KHZ * (INCVALUE_38400KHZ * 2 ^ INCVALUE_SHIFT_38400KHZ)) < 2 ^ 64 \<and>
   2 ^ 64 div (96000000 div INCPERIOD_96MHZ * (INCVALUE_96MHZ * 2 ^ INCVALUE_SHIFT_96MHZ)) div 3600 = 9"
  by (simp add: inc_defs)

section \<open>Order of the latency classes\<close>

text \<open>The enumeration's values give the order the code compares them in.\<close>

instantiation latency_range :: linorder
begin

definition less_eq_latency_range :: "latency_range \<Rightarrow> latency_range \<Rightarrow> bool" where
  "less_eq_latency_range a b \<longleftrightarrow> latency_value a \<le> latency_value b"

definition less_latency_range :: "latency_range \<Rightarrow> latency_range \<Rightarrow> bool" where
  "less_latency_range a b \<longleftrightarrow> latency_value a < latency_value b"

instance
proof
  fix a b :: latency_range
  show "a \<le> b \<Longrightarrow> b \<le> a \<Longrightarrow> a = b"
    by (cases a; cases b) (simp_all add: less_eq_latency_range_def word_le_def)
qed (auto simp: less_eq_latency_range_def less_latency_range_def)

end

lemma latency_invalid_top: "r \<le> latency_invalid"
  by (cases r) (simp_all add: less_eq_latency_range_def word_le_def)

end
