(* ===== verification/E1000_Hw.thy ===== *)
theory E1000_Hw
  imports E1000_Defs Kernel_API
begin

text \<open>
  \<open>e1000.h\<close>, the data and the code: descriptor rings and the address macros over them, memory-mapped
  register access, and the inline wrappers that call a board's function pointers. The pointer types
  come from \<open>hw.h\<close>, which the repository does not have: they are function fields that may be null,
  over an arbitrary hardware state.
\<close>

section \<open>Rings and descriptors\<close>

record e1000_ps_page =
  ps_page :: kptr
  ps_dma :: u64

text \<open>The union of a buffer: what the transmit or the receive path stores.\<close>

datatype e1000_buffer_use =
    Tx_use (time_stamp: u64) (tx_length: u16) (next_to_watch: u16) (segs: u32) (bytecount: u32)
      (mapped_as_page: u16)
  | Rx_use (ps_pages: "e1000_ps_page list") (rx_page: kptr)

record e1000_buffer =
  buf_dma :: u64
  buf_skb :: kptr
  buf_use :: e1000_buffer_use

record e1000_ring =
  ring_adapter :: kptr
  ring_desc :: u64
  ring_dma :: u64
  ring_size :: u32
  ring_count :: u32
  next_to_use :: u16
  next_to_clean :: u16
  ring_head :: u64
  ring_tail :: u64
  buffer_info :: "e1000_buffer list"
  ring_name :: string
  ims_val :: u32
  itr_val :: u32
  itr_register :: u64
  set_itr :: int
  rx_skb_top :: kptr

text \<open>PHY register snapshot.\<close>

record e1000_phy_regs =
  bmcr :: u16
  bmsr :: u16
  advertise :: u16
  lpa :: u16
  expansion :: u16
  ctrl1000 :: u16
  stat1000 :: u16
  estatus :: u16

text \<open>The address of descriptor \<open>i\<close>: pointer arithmetic over descriptors of \<open>sz\<close> bytes.\<close>

definition E1000_GET_DESC :: "e1000_ring \<Rightarrow> u64 \<Rightarrow> u64 \<Rightarrow> u64" where
  "E1000_GET_DESC R i sz = ring_desc R + i * sz"

definition E1000_TX_DESC :: "e1000_ring \<Rightarrow> u64 \<Rightarrow> u64 \<Rightarrow> u64" where
  "E1000_TX_DESC R i sizeof_tx_desc = E1000_GET_DESC R i sizeof_tx_desc"

definition E1000_CONTEXT_DESC :: "e1000_ring \<Rightarrow> u64 \<Rightarrow> u64 \<Rightarrow> u64" where
  "E1000_CONTEXT_DESC R i sizeof_context_desc = E1000_GET_DESC R i sizeof_context_desc"

definition E1000_RX_DESC_EXT :: "e1000_ring \<Rightarrow> u64 \<Rightarrow> u64 \<Rightarrow> u64" where
  "E1000_RX_DESC_EXT R i sizeof_ext = ring_desc R + i * sizeof_ext"

definition E1000_RX_DESC_PS :: "e1000_ring \<Rightarrow> u64 \<Rightarrow> u64 \<Rightarrow> u64" where
  "E1000_RX_DESC_PS R i sizeof_ps = ring_desc R + i * sizeof_ps"

section \<open>Function pointers\<close>

record 'h e1000_hw =
  hw_addr :: u64
  phy_reset :: "('h, int) state option"
  phy_read_reg :: "(u32 \<Rightarrow> ('h, int \<times> u16) state) option"
  phy_read_reg_locked :: "(u32 \<Rightarrow> ('h, int \<times> u16) state) option"
  phy_write_reg :: "(u32 \<Rightarrow> u16 \<Rightarrow> ('h, int) state) option"
  phy_write_reg_locked :: "(u32 \<Rightarrow> u16 \<Rightarrow> ('h, int) state) option"
  phy_get_info :: "('h, int) state option"
  mac_read_mac_addr :: "('h, int) state option"
  nvm_validate :: "('h, int) state option"
  nvm_update :: "('h, int) state option"
  nvm_read :: "(u16 \<Rightarrow> u16 \<Rightarrow> ('h, int \<times> u16 list) state) option"
  nvm_write :: "(u16 \<Rightarrow> u16 \<Rightarrow> u16 list \<Rightarrow> ('h, int) state) option"

text \<open>Calling through a function pointer.\<close>

definition through :: "('h, 'a) state option \<Rightarrow> ('h, fault + 'a) state" where
  "through f = (case f of None \<Rightarrow> State_Monad.return (Inl Null_deref) | Some m \<Rightarrow> returns m)"

definition e1000_phy_hw_reset :: "'h e1000_hw \<Rightarrow> ('h, fault + int) state" where
  "e1000_phy_hw_reset hw = through (phy_reset hw)"

definition e1e_rphy :: "'h e1000_hw \<Rightarrow> u32 \<Rightarrow> ('h, fault + int \<times> u16) state" where
  "e1e_rphy hw offset = through (map_option (\<lambda>f. f offset) (phy_read_reg hw))"

definition e1e_rphy_locked :: "'h e1000_hw \<Rightarrow> u32 \<Rightarrow> ('h, fault + int \<times> u16) state" where
  "e1e_rphy_locked hw offset = through (map_option (\<lambda>f. f offset) (phy_read_reg_locked hw))"

definition e1e_wphy :: "'h e1000_hw \<Rightarrow> u32 \<Rightarrow> u16 \<Rightarrow> ('h, fault + int) state" where
  "e1e_wphy hw offset data = through (map_option (\<lambda>f. f offset data) (phy_write_reg hw))"

definition e1e_wphy_locked :: "'h e1000_hw \<Rightarrow> u32 \<Rightarrow> u16 \<Rightarrow> ('h, fault + int) state" where
  "e1e_wphy_locked hw offset data = through (map_option (\<lambda>f. f offset data) (phy_write_reg_locked hw))"

text \<open>\<open>generic\<close> is \<open>e1000_read_mac_addr_generic\<close>, used when the board sets no function of its own.\<close>

definition e1000e_read_mac_addr :: "('h, int) state \<Rightarrow> 'h e1000_hw \<Rightarrow> ('h, fault + int) state" where
  "e1000e_read_mac_addr generic hw =
     (case mac_read_mac_addr hw of Some _ \<Rightarrow> through (mac_read_mac_addr hw) | None \<Rightarrow> returns generic)"

definition e1000_validate_nvm_checksum :: "'h e1000_hw \<Rightarrow> ('h, fault + int) state" where
  "e1000_validate_nvm_checksum hw = through (nvm_validate hw)"

definition e1000e_update_nvm_checksum :: "'h e1000_hw \<Rightarrow> ('h, fault + int) state" where
  "e1000e_update_nvm_checksum hw = through (nvm_update hw)"

definition e1000_read_nvm :: "'h e1000_hw \<Rightarrow> u16 \<Rightarrow> u16 \<Rightarrow> ('h, fault + int \<times> u16 list) state" where
  "e1000_read_nvm hw offset words = through (map_option (\<lambda>f. f offset words) (nvm_read hw))"

definition e1000_write_nvm :: "'h e1000_hw \<Rightarrow> u16 \<Rightarrow> u16 \<Rightarrow> u16 list \<Rightarrow> ('h, fault + int) state" where
  "e1000_write_nvm hw offset words data = through (map_option (\<lambda>f. f offset words data) (nvm_write hw))"

definition e1000_get_phy_info :: "'h e1000_hw \<Rightarrow> ('h, fault + int) state" where
  "e1000_get_phy_info hw = through (phy_get_info hw)"

lemmas hw_calls = through_def e1000_phy_hw_reset_def e1e_rphy_def e1e_rphy_locked_def e1e_wphy_def
  e1e_wphy_locked_def e1000e_read_mac_addr_def e1000_validate_nvm_checksum_def
  e1000e_update_nvm_checksum_def e1000_read_nvm_def e1000_write_nvm_def e1000_get_phy_info_def

section \<open>Registers\<close>

text \<open>
  \<open>readl\<close> reads a 32-bit register of the hardware state at a bus address; \<open>ew32\<close> is \<open>__ew32\<close>, which
  the header declares and another file defines. \<open>er32 reg\<close> is the macro's \<open>__er32\<close> at the register's
  offset. In the array macros the element offset is shifted as a 32-bit number.
\<close>

definition er32_at :: "('h \<Rightarrow> u64 \<Rightarrow> u32) \<Rightarrow> 'h e1000_hw \<Rightarrow> u64 \<Rightarrow> 'h \<Rightarrow> u32" where
  "er32_at readl hw reg h = readl h (hw_addr hw + reg)"

definition e1e_flush :: "('h \<Rightarrow> u64 \<Rightarrow> u32) \<Rightarrow> u64 \<Rightarrow> 'h e1000_hw \<Rightarrow> 'h \<Rightarrow> u32" where
  "e1e_flush readl STATUS hw h = er32_at readl hw STATUS h"

definition E1000_WRITE_REG_ARRAY ::
  "('h e1000_hw \<Rightarrow> u64 \<Rightarrow> u32 \<Rightarrow> 'h \<Rightarrow> 'h) \<Rightarrow> 'h e1000_hw \<Rightarrow> u64 \<Rightarrow> u32 \<Rightarrow> u32 \<Rightarrow> 'h \<Rightarrow> 'h" where
  "E1000_WRITE_REG_ARRAY ew32 a reg offset value = ew32 a (reg + ucast (push_bit 2 offset)) value"

definition E1000_READ_REG_ARRAY ::
  "('h \<Rightarrow> u64 \<Rightarrow> u32) \<Rightarrow> 'h e1000_hw \<Rightarrow> u64 \<Rightarrow> u32 \<Rightarrow> 'h \<Rightarrow> u32" where
  "E1000_READ_REG_ARRAY readl a reg offset h = readl h (hw_addr a + reg + ucast (push_bit 2 offset))"

section \<open>Properties\<close>

text \<open>
  C31: where the ring's memory does not wrap the address space, the address macros put descriptor \<open>i\<close> at its
  place: inside the ring for every index below the count, and apart from every other descriptor.
\<close>

theorem desc_in_ring:
  assumes ring: "unat (ring_desc R) + unat (ring_count R) * unat sz \<le> 2 ^ 64" and "0 < sz"
    and i: "unat i < unat (ring_count R)" and j: "unat j < unat (ring_count R)"
  shows "unat (E1000_TX_DESC R i sz) = unat (ring_desc R) + unat i * unat sz \<and>
    unat (E1000_TX_DESC R i sz) + unat sz \<le> unat (ring_desc R) + unat (ring_count R) * unat sz \<and>
    (if i = j then E1000_TX_DESC R i sz = E1000_TX_DESC R j sz
     else unat (E1000_TX_DESC R i sz) + unat sz \<le> unat (E1000_TX_DESC R j sz) \<or>
       unat (E1000_TX_DESC R j sz) + unat sz \<le> unat (E1000_TX_DESC R i sz)) \<and>
    E1000_CONTEXT_DESC R i sz = E1000_TX_DESC R i sz \<and> E1000_RX_DESC_EXT R i sz = E1000_TX_DESC R i sz \<and>
    E1000_RX_DESC_PS R i sz = E1000_TX_DESC R i sz"
proof -
  have sz: "0 < unat sz" using \<open>0 < sz\<close> by (simp add: word_less_nat_alt)
  have room: "unat k * unat sz + unat sz \<le> unat (ring_count R) * unat sz" if "unat k < unat (ring_count R)" for k :: u64
    using that by (metis Suc_leI add.commute mult_Suc mult_le_mono1)
  have at: "unat (E1000_TX_DESC R k sz) = unat (ring_desc R) + unat k * unat sz" if "unat k < unat (ring_count R)" for k
  proof -
    have "unat (ring_desc R) + unat k * unat sz < 2 ^ 64" using room [OF that] ring sz by linarith
    then show ?thesis
      by (simp add: E1000_TX_DESC_def E1000_GET_DESC_def unat_word_ariths)
  qed
  have apart: "unat i * unat sz + unat sz \<le> unat j * unat sz \<or> unat j * unat sz + unat sz \<le> unat i * unat sz" if "i \<noteq> j"
  proof -
    from that have "Suc (unat i) \<le> unat j \<or> Suc (unat j) \<le> unat i"
      by (metis linorder_neqE_nat Suc_leI word_unat_eq_iff)
    then show ?thesis by (metis add.commute mult_Suc mult_le_mono1)
  qed
  from at [OF i] at [OF j] room [OF i] apart show ?thesis
    by (auto simp: E1000_TX_DESC_def E1000_CONTEXT_DESC_def E1000_RX_DESC_EXT_def E1000_RX_DESC_PS_def E1000_GET_DESC_def)
qed

definition lab_ring :: e1000_ring where
  "lab_ring = \<lparr>ring_adapter = 0, ring_desc = 0x10000, ring_dma = 0, ring_size = 4096, ring_count = 256, next_to_use = 0,
     next_to_clean = 0, ring_head = 0, ring_tail = 0, buffer_info = [], ring_name = [], ims_val = 0, itr_val = 0,
     itr_register = 0, set_itr = 0, rx_skb_top = 0\<rparr>"

theorem desc_in_ring_witness:
  "unat (E1000_TX_DESC lab_ring 255 16) + 16 \<le> 0x10000 + 256 * 16"
  using desc_in_ring [of lab_ring 16 255 0] by (simp add: lab_ring_def)

text \<open>
  A register file behaves like memory: a register read gives what was written there last. This is
  the documented behaviour of a plain read-write register behind \<open>readl\<close> and \<open>__ew32\<close>.
\<close>

definition plain_registers :: "('h \<Rightarrow> u64 \<Rightarrow> u32) \<Rightarrow> ('h e1000_hw \<Rightarrow> u64 \<Rightarrow> u32 \<Rightarrow> 'h \<Rightarrow> 'h) \<Rightarrow> 'h e1000_hw \<Rightarrow> bool" where
  "plain_registers readl ew32 hw \<longleftrightarrow>
     (\<forall>reg v h a. readl (ew32 hw reg v h) (hw_addr hw + a) = (if a = reg then v else readl h (hw_addr hw + a)))"

lemma array_offset_inject:
  "i < 2 ^ 30 \<Longrightarrow> j < 2 ^ 30 \<Longrightarrow> (ucast (push_bit 2 i) :: u64) = ucast (push_bit 2 j) \<longleftrightarrow> i = j" for i j :: u32
proof
  assume ij: "i < 2 ^ 30" "j < 2 ^ 30" and eq: "(ucast (push_bit 2 i) :: u64) = ucast (push_bit 2 j)"
  have "unat (push_bit 2 k) = 4 * unat k" if "k < 2 ^ 30" for k :: u32
    using that by (simp add: push_bit_eq_mult unat_word_ariths word_less_nat_alt)
  moreover have "push_bit 2 i = push_bit 2 j"
  proof (rule bit_word_eqI)
    fix n assume "n < LENGTH(32)"
    then show "bit (push_bit 2 i) n \<longleftrightarrow> bit (push_bit 2 j) n"
      using arg_cong [OF eq, of "\<lambda>w. bit w n"] by (simp add: bit_ucast_iff del: bit_push_bit_iff)
  qed
  ultimately show "i = j" using ij by (simp add: word_unat_eq_iff)
qed simp

text \<open>
  C32: on plain registers, an element written through the array macro is read back, and no other
  element of the array changes, for indices below \<open>2 ^ 30\<close>, where the shift loses no bit.
\<close>

theorem reg_array_roundtrip:
  assumes "plain_registers readl ew32 hw" and "i < 2 ^ 30" and "j < 2 ^ 30"
  shows "E1000_READ_REG_ARRAY readl hw reg j (E1000_WRITE_REG_ARRAY ew32 hw reg i v h) =
    (if j = i then v else E1000_READ_REG_ARRAY readl hw reg j h)"
  using assms array_offset_inject [of j i]
  by (simp add: E1000_READ_REG_ARRAY_def E1000_WRITE_REG_ARRAY_def plain_registers_def add.assoc)

definition lab_hw :: "(u64 \<Rightarrow> u32) e1000_hw" where
  "lab_hw = \<lparr>hw_addr = 0xF0000000, phy_reset = None, phy_read_reg = None, phy_read_reg_locked = None, phy_write_reg = None,
     phy_write_reg_locked = None, phy_get_info = None, mac_read_mac_addr = None, nvm_validate = None, nvm_update = None,
     nvm_read = None, nvm_write = None\<rparr>"

theorem reg_array_roundtrip_witness:
  "E1000_READ_REG_ARRAY (\<lambda>h a. h a) lab_hw 0x5200 3
     (E1000_WRITE_REG_ARRAY (\<lambda>hw reg v h. h(hw_addr hw + reg := v)) lab_hw 0x5200 3 42 (\<lambda>a. 0)) = 42"
proof -
  have "plain_registers (\<lambda>h a. h a) (\<lambda>hw reg v h. h(hw_addr hw + reg := v)) lab_hw"
    by (simp add: plain_registers_def)
  from reg_array_roundtrip [OF this, of 3 3 "0x5200" 42 "\<lambda>a. 0"] show ?thesis by simp
qed

text \<open>
  A wrapper faults exactly when the board left its function pointer null, and then leaves the hardware
  alone; otherwise it does what that function does with the same arguments. Reading the MAC address never
  faults: it has a default.
\<close>

theorem e1000_dispatch:
  "run_state (e1e_rphy hw off) h = (case phy_read_reg hw of None \<Rightarrow> (Inl Null_deref, h)
      | Some f \<Rightarrow> map_prod Inr id (run_state (f off) h)) \<and>
   run_state (e1e_wphy hw off d) h = (case phy_write_reg hw of None \<Rightarrow> (Inl Null_deref, h)
      | Some f \<Rightarrow> map_prod Inr id (run_state (f off d) h)) \<and>
   run_state (e1e_rphy_locked hw off) h = (case phy_read_reg_locked hw of None \<Rightarrow> (Inl Null_deref, h)
      | Some f \<Rightarrow> map_prod Inr id (run_state (f off) h)) \<and>
   run_state (e1e_wphy_locked hw off d) h = (case phy_write_reg_locked hw of None \<Rightarrow> (Inl Null_deref, h)
      | Some f \<Rightarrow> map_prod Inr id (run_state (f off d) h)) \<and>
   (fst (run_state (e1000_phy_hw_reset hw) h) = Inl Null_deref \<longleftrightarrow> phy_reset hw = None) \<and>
   (fst (run_state (e1000_get_phy_info hw) h) = Inl Null_deref \<longleftrightarrow> phy_get_info hw = None) \<and>
   (fst (run_state (e1000_validate_nvm_checksum hw) h) = Inl Null_deref \<longleftrightarrow> nvm_validate hw = None) \<and>
   (fst (run_state (e1000e_update_nvm_checksum hw) h) = Inl Null_deref \<longleftrightarrow> nvm_update hw = None) \<and>
   (fst (run_state (e1000_read_nvm hw o16 n16) h) = Inl Null_deref \<longleftrightarrow> nvm_read hw = None) \<and>
   (fst (run_state (e1000_write_nvm hw o16 n16 ds) h) = Inl Null_deref \<longleftrightarrow> nvm_write hw = None) \<and>
   run_state (e1000e_read_mac_addr generic hw) h =
     map_prod Inr id (run_state (case mac_read_mac_addr hw of None \<Rightarrow> generic | Some m \<Rightarrow> m) h)"
  by (auto simp: hw_calls split: option.split)

end
