(* ===== verification/E1000_Adapter.thy ===== *)
theory E1000_Adapter
  imports E1000_Hw
begin

text \<open>
  \<open>e1000.h\<close>, the records of a board: \<open>struct e1000_adapter\<close>, as a chain of records in the order of the
  struct, and \<open>struct e1000_info\<close>, with the constants that bound their members. A member whose type
  the kernel or \<open>hw.h\<close> defines (a timer, a lock, a statistics block) is a value of the type parameter
  \<open>'k\<close>; a pointer to such an object is its address. A member that exists only under a compile-time
  option is present. The receive functions act on the system's state \<open>'h\<close>.
\<close>

section \<open>The adapter\<close>

record 'k e1000_adapter_tasks =
  ad_watchdog_timer :: 'k
  ad_phy_info_timer :: 'k
  ad_blink_timer :: 'k
  ad_reset_task :: 'k
  ad_watchdog_task :: 'k
  ad_ei :: kptr
  ad_vlgrp :: kptr
  ad_active_vlans :: "u64 list"
  ad_bd_number :: u32
  ad_rx_buffer_len :: u32
  ad_mng_vlan_id :: u16
  ad_link_speed :: u16
  ad_link_duplex :: u16
  ad_eeprom_vers :: u16
  ad_state :: u64
  ad_itr :: u32
  ad_itr_setting :: u32
  ad_tx_itr :: u16
  ad_rx_itr :: u16

record 'k e1000_adapter_tx = "'k e1000_adapter_tasks" +
  ad_tx_ring :: kptr
  ad_tx_fifo_limit :: u32
  ad_napi :: 'k
  ad_uncorr_errors :: u32
  ad_corr_errors :: u32
  ad_restart_queue :: u32
  ad_txd_cmd :: u32
  ad_detect_tx_hung :: bool
  ad_tx_hang_recheck :: bool
  ad_tx_timeout_factor :: u8
  ad_tx_int_delay :: u32
  ad_tx_abs_int_delay :: u32
  ad_total_tx_bytes :: u32
  ad_total_tx_packets :: u32
  ad_total_rx_bytes :: u32
  ad_total_rx_packets :: u32

record 'k e1000_adapter_tx_stats = "'k e1000_adapter_tx" +
  ad_tpt_old :: u64
  ad_colc_old :: u64
  ad_gotc :: u32
  ad_gotc_old :: u64
  ad_tx_timeout_count :: u32
  ad_tx_fifo_head :: u32
  ad_tx_head_addr :: u32
  ad_tx_fifo_size :: u32
  ad_tx_dma_failed :: u32
  ad_tx_hwtstamp_timeouts :: u32
  ad_tx_hwtstamp_skipped :: u32

text \<open>
  \<open>clean_rx\<close> takes the ring and, under NAPI, the work done so far and a limit, and gives the work done;
  without NAPI it takes the ring alone.
\<close>

datatype 'h clean_rx =
    Clean_rx_napi "kptr \<Rightarrow> int \<Rightarrow> int \<Rightarrow> ('h, bool \<times> int) state"
  | Clean_rx "kptr \<Rightarrow> ('h, bool) state"

record ('h, 'k) e1000_adapter_rx = "'k e1000_adapter_tx_stats" +
  ad_clean_rx :: "'h clean_rx option"
  ad_alloc_rx_buf :: "(kptr \<Rightarrow> int \<Rightarrow> u32 \<Rightarrow> ('h, unit) state) option"
  ad_rx_ring :: kptr
  ad_rx_int_delay :: u32
  ad_rx_abs_int_delay :: u32
  ad_hw_csum_err :: u64
  ad_hw_csum_good :: u64
  ad_rx_hdr_split :: u64
  ad_gorc :: u32
  ad_gorc_old :: u64
  ad_alloc_rx_buff_failed :: u32
  ad_rx_dma_failed :: u32
  ad_rx_hwtstamp_cleared :: u32
  ad_c10_mpc_count :: u64
  ad_c10_rx_bytes :: u64
  ad_c10_pba_bytes :: u32
  ad_c10_demote_ltr :: bool

record ('h, 'k) e1000_adapter_os = "('h, 'k) e1000_adapter_rx" +
  ad_rx_ps_pages :: u32
  ad_rx_ps_bsize0 :: u16
  ad_rx_dropped_backlog :: u64
  ad_max_frame_size :: u32
  ad_min_frame_size :: u32
  ad_netdev :: kptr
  ad_pdev :: kptr
  ad_net_stats :: 'k
  ad_hw :: "'h e1000_hw"
  ad_stats64_lock :: 'k
  ad_stats :: 'k
  ad_phy_info :: 'k
  ad_phy_stats :: 'k
  ad_phy_regs :: e1000_phy_regs
  ad_test_tx_ring :: e1000_ring
  ad_test_rx_ring :: e1000_ring
  ad_test_icr :: u32

record ('h, 'k) e1000_adapter_irq = "('h, 'k) e1000_adapter_os" +
  ad_msg_enable :: u32
  ad_num_vectors :: u32
  ad_msix_entries :: kptr
  ad_int_mode :: int
  ad_eiac_mask :: u32
  ad_eeprom_wol :: u32
  ad_wol :: u32
  ad_pba :: u32
  ad_max_hw_frame_size :: u32
  ad_fc_autoneg :: bool
  ad_led_status :: u64
  ad_flags :: u32
  ad_flags2 :: u32

record ('h, 'k) e1000_adapter = "('h, 'k) e1000_adapter_irq" +
  ad_downshift_task :: 'k
  ad_update_phy_task :: 'k
  ad_led_blink_task :: 'k
  ad_print_hang_task :: 'k
  ad_config_space :: kptr
  ad_node :: int
  ad_phy_hang_count :: int
  ad_tx_ring_count :: u16
  ad_rx_ring_count :: u16
  ad_revision_id :: u8
  ad_hwtstamp_config :: 'k
  ad_systim_overflow_work :: 'k
  ad_tx_hwtstamp_skb :: kptr
  ad_tx_hwtstamp_start :: u64
  ad_tx_hwtstamp_work :: 'k
  ad_systim_lock :: 'k
  ad_cc :: 'k
  ad_tc :: 'k
  ad_ptp_clock :: kptr
  ad_ptp_clock_info :: 'k
  ad_pm_qos_req :: 'k
  ad_ptp_delta :: int
  ad_eee_advert :: u16

section \<open>Boards\<close>

text \<open>The MAC type is an enumeration of \<open>hw.h\<close>, a parameter \<open>'m\<close>; \<open>get_variants\<close> may be null.\<close>

record ('h, 'k, 'm) e1000_info =
  info_mac :: 'm
  info_flags :: u32
  info_flags2 :: u32
  info_pba :: u32
  info_max_hw_frame_size :: u32
  info_get_variants :: "(('h, 'k) e1000_adapter \<Rightarrow> ('h, int) state) option"
  info_mac_ops :: kptr
  info_phy_ops :: kptr
  info_nvm_ops :: kptr

section \<open>Constants\<close>

definition E1000E_INT_MODE_LEGACY :: int where "E1000E_INT_MODE_LEGACY = 0"
definition E1000E_INT_MODE_MSI :: int where "E1000E_INT_MODE_MSI = 1"
definition E1000E_INT_MODE_MSIX :: int where "E1000E_INT_MODE_MSIX = 2"
definition E1000_MAX_INTR :: nat where "E1000_MAX_INTR = 10"
definition E1000_FC_PAUSE_TIME :: u16 where "E1000_FC_PAUSE_TIME = 0x0680"
definition AUTO_ALL_MODES :: nat where "AUTO_ALL_MODES = 0"
definition E1000_EEPROM_APME :: u16 where "E1000_EEPROM_APME = 0x0400"
definition E1000_MNG_VLAN_NONE :: int where "E1000_MNG_VLAN_NONE = - 1"
definition DEFAULT_JUMBO :: nat where "DEFAULT_JUMBO = 9234"
definition LINK_TIMEOUT :: nat where "LINK_TIMEOUT = 100"
definition DEFAULT_RDTR :: u32 where "DEFAULT_RDTR = 0"
definition DEFAULT_RADV :: u32 where "DEFAULT_RADV = 8"
definition BURST_RDTR :: u32 where "BURST_RDTR = 0x20"
definition BURST_RADV :: u32 where "BURST_RADV = 0x20"
definition PCICFG_DESC_RING_STATUS :: nat where "PCICFG_DESC_RING_STATUS = 0xe4"
definition FLUSH_DESC_REQUIRED :: u32 where "FLUSH_DESC_REQUIRED = 0x100"
definition E1000_MAX_82574_SYSTIM_REREADS :: nat where "E1000_MAX_82574_SYSTIM_REREADS = 50"

section \<open>Messages and stubs\<close>

text \<open>
  The logging macros address the network device of an adapter the caller has in scope; \<open>e_dbg\<close>
  reaches the adapter through the back pointer of the hardware structure, which \<open>hw.h\<close> defines and is a
  parameter.
\<close>

datatype netdev_level = Netdev_dbg | Netdev_err | Netdev_info | Netdev_warn | Netdev_notice

type_synonym netdev_msg = "netdev_level \<times> kptr \<times> string \<times> string list"

definition e_dbg :: "('h e1000_hw \<Rightarrow> ('h, 'k) e1000_adapter) \<Rightarrow> 'h e1000_hw \<Rightarrow> string \<Rightarrow> string list \<Rightarrow> netdev_msg" where
  "e_dbg adapter_of hw fmt args = (Netdev_dbg, ad_netdev (adapter_of hw), fmt, args)"

definition e_err :: "('h, 'k) e1000_adapter \<Rightarrow> string \<Rightarrow> string list \<Rightarrow> netdev_msg" where
  "e_err adapter fmt args = (Netdev_err, ad_netdev adapter, fmt, args)"

definition e_info :: "('h, 'k) e1000_adapter \<Rightarrow> string \<Rightarrow> string list \<Rightarrow> netdev_msg" where
  "e_info adapter fmt args = (Netdev_info, ad_netdev adapter, fmt, args)"

definition e_warn :: "('h, 'k) e1000_adapter \<Rightarrow> string \<Rightarrow> string list \<Rightarrow> netdev_msg" where
  "e_warn adapter fmt args = (Netdev_warn, ad_netdev adapter, fmt, args)"

definition e_notice :: "('h, 'k) e1000_adapter \<Rightarrow> string \<Rightarrow> string list \<Rightarrow> netdev_msg" where
  "e_notice adapter fmt args = (Netdev_notice, ad_netdev adapter, fmt, args)"

text \<open>Without a PTP clock the two PTP functions are empty.\<close>

definition e1000e_ptp_init :: "('h, 'k) e1000_adapter \<Rightarrow> ('h, unit) state" where
  "e1000e_ptp_init adapter = State_Monad.return ()"

definition e1000e_ptp_remove :: "('h, 'k) e1000_adapter \<Rightarrow> ('h, unit) state" where
  "e1000e_ptp_remove adapter = State_Monad.return ()"

section \<open>Properties\<close>

text \<open>
  An adapter's management VLAN, a 16-bit member, never compares equal to
  the constant for "none", which is the \<open>int\<close> -1; only the constant cut to 16 bits, 65535, can be stored and
  recognised, and no VLAN identifier of 12 bits is mistaken for it.
\<close>

theorem mng_vlan_none:
  "uint (ad_mng_vlan_id A) \<noteq> E1000_MNG_VLAN_NONE \<and>
   (ad_mng_vlan_id A = word_of_int E1000_MNG_VLAN_NONE \<longleftrightarrow> uint (ad_mng_vlan_id A) = 65535) \<and>
   \<not> (uint (ad_mng_vlan_id A) < 4096 \<and> ad_mng_vlan_id A = word_of_int E1000_MNG_VLAN_NONE)"
proof -
  have m: "word_of_int E1000_MNG_VLAN_NONE = (65535 :: u16)" by (simp add: E1000_MNG_VLAN_NONE_def)
  have "uint (ad_mng_vlan_id A) = 65535 \<longleftrightarrow> ad_mng_vlan_id A = 65535"
    using word_uint_eq_iff [of "ad_mng_vlan_id A" 65535] by simp
  moreover have "uint (ad_mng_vlan_id A) \<noteq> - 1"
    using unsigned_greater_eq [of "ad_mng_vlan_id A", where 'a = int] by linarith
  ultimately show ?thesis unfolding m by (auto simp: E1000_MNG_VLAN_NONE_def)
qed

text \<open>
  The constants in their units: an interrupt interval of 10 microseconds is 100000 interrupts a second and one
  of 10000 is 100; 25 polls of at least 10 ms outlast a reset of 210 ms; the pause time, in units of 512 bit
  times, is 851968 ns at 1 Gbit/s, not the 858 microseconds of the comment; both ring limits fit the 16-bit
  counts of the adapter, and the number of receive buffers bundled into one write is a power of two.
\<close>

theorem e1000_units:
  "1000000 div E1000_MIN_ITR_USECS = 100000 \<and> 1000000 div E1000_MAX_ITR_USECS = 100 \<and>
   210 < E1000_CHECK_RESET_COUNT * 10 \<and> unat E1000_FC_PAUSE_TIME * 512 = 851968 \<and>
   E1000_MAX_TXD < 2 ^ LENGTH(16) \<and> E1000_MAX_RXD < 2 ^ LENGTH(16) \<and> E1000_RX_BUFFER_WRITE = push_bit 4 1"
  by (simp add: ring_limits E1000_FC_PAUSE_TIME_def)

end
