(* ===== verification/I2c_User.thy ===== *)
theory I2c_User
  imports User_API
begin

text \<open>\<open>I2c_userSpace_testV1_0.c\<close>: write two bytes to an I2C device, read two back, print them.\<close>

definition I2C_DEVICE_PATH :: string where "I2C_DEVICE_PATH = ''/dev/i2c-1''"

definition i2c_finish :: "int \<Rightarrow> cbuf \<Rightarrow> (ust, fault + int) state" where
  "i2c_finish file buffer = (case (buffer ! 0, buffer ! 1) of
     (Some b0, Some b1) \<Rightarrow> do {
       uemit (Printf (ln ''Received data: 0x%02x 0x%02x'') [AInt (uint b0), AInt (uint b1)]);
       uemit (U_close file);
       State_Monad.return (Inr 0)
     }
   | _ \<Rightarrow> State_Monad.return (Inl Uninitialised))"

definition i2c_main :: "uenv \<Rightarrow> (ust, fault + int) state" where
  "i2c_main E = do {
     let addr = (0x48 :: u32);
     file \<leftarrow> usys E (Open I2C_DEVICE_PATH);
     if file < 0 then do {
       uemit (Perror ''Failed to open the I2C device'');
       State_Monad.return (Inr 1)
     } else do {
       r \<leftarrow> usys E (Ioctl file ''I2C_SLAVE'' (Int_arg addr));
       if r < 0 then do {
         uemit (Perror ''Failed to set I2C slave address'');
         uemit (U_close file);
         State_Monad.return (Inr 1)
       } else do {
         let buffer = [Some 0, Some 0];
         w \<leftarrow> usys E (Write file buffer);
         if w \<noteq> 2 then do {
           uemit (Perror ''Failed to write to the I2C device'');
           uemit (U_close file);
           State_Monad.return (Inr 1)
         } else do {
           (n, buffer) \<leftarrow> uread E file buffer 2;
           if n \<noteq> 2 then do {
             uemit (Perror ''Failed to read from the I2C device'');
             uemit (U_close file);
             State_Monad.return (Inr 1)
           } else i2c_finish file buffer
         }
       }
     }
   }"

lemmas i2c_user_defs = i2c_main_def i2c_finish_def

lemma i2c_tidy:
  "run_state (i2c_main E) s = (Inr r, s') \<Longrightarrow> uheld s = Some st \<Longrightarrow> uheld s' = Some st"
  by (auto simp: i2c_user_defs Let_def uheld_simps split: if_splits option.splits)

interpretation i2c_prog: tidy_program i2c_main "\<lambda>E. True"
  by unfold_locales (rule i2c_tidy)

section \<open>Properties\<close>

text \<open>
  On a system that behaves as documented the program never faults, leaves no file open, and
  either prints the two bytes it read and exits with 0, or reports an error and exits with 1.
\<close>

theorem i2c_user_result:
  assumes doc: "system_doc E" and run: "run_state (i2c_main E) s = (x, s')" and "ulog s = []"
  shows "uheld s' = Some [] \<and>
    (if x = Inr 0
     then \<exists>fd b0 b1. [U_read fd 2 2 [b0, b1], Printf (ln ''Received data: 0x%02x 0x%02x'') [AInt (uint b0), AInt (uint b1)], U_close fd]
       = drop 3 (ulog s')
     else x = Inr 1 \<and> (\<exists>m. Perror m \<in> set (ulog s')))"
proof -
  have two: "\<exists>b0 b1. take 2 (read_data E h fd 2) = [b0, b1] \<and> fill [Some 0, Some 0] [b0, b1] = [Some b0, Some b1]"
    if "read_ret E h fd 2 = 2" for h fd
  proof -
    have "length (take 2 (read_data E h fd 2)) = 2"
      using length_read [OF doc, of h fd 2] that by simp
    then obtain b0 b1 where "take 2 (read_data E h fd 2) = [b0, b1]" unfolding length2 by blast
    then show ?thesis by (simp add: fill_def)
  qed
  from run assms(3) show ?thesis
    by (auto simp: i2c_user_defs Let_def uheld_simps split: if_splits option.splits dest: two)
qed

theorem i2c_user_result_witness:
  "drop 3 (ulog (snd (run_state (i2c_main lab_system) fresh_process))) =
     [U_read 3 2 2 [65, 65], Printf (ln ''Received data: 0x%02x 0x%02x'') [AInt 65, AInt 65], U_close 3]"
proof -
  obtain x s' where run: "run_state (i2c_main lab_system) fresh_process = (x, s')" by fastforce
  have x: "x = Inr 0" and read: "U_read 3 2 2 [65, 65] = hd (drop 3 (ulog s'))"
    using run by (auto simp: i2c_user_defs Let_def lab_system_sel fill_def numeral_eq_Suc)
  from i2c_user_result [OF lab_system_doc run] x obtain fd b0 b1 where
    log: "drop 3 (ulog s') = [U_read fd 2 2 [b0, b1], Printf (ln ''Received data: 0x%02x 0x%02x'') [AInt (uint b0), AInt (uint b1)], U_close fd]"
    by (auto dest: sym)
  with read run show ?thesis by simp
qed

end
