(* ===== verification/Wifi_User.thy ===== *)
theory Wifi_User
  imports User_API
begin

text \<open>\<open>Wi-fi_userSpace.c\<close>: send an AT command to the device file and print the answer.\<close>

definition WIFI_DEVICE_FILE :: string where "WIFI_DEVICE_FILE = ''/dev/myWi-Fi''"

text \<open>The literal is \<open>A\<close>, \<open>T\<close>, carriage return, newline; \<open>strlen\<close> leaves its zero byte out.\<close>

definition wifi_data_to_send :: "u8 list" where
  "wifi_data_to_send = bytes_of (''AT'' @ [CHR 0x0D, CHR 0x0A])"

definition wifi_main :: "uenv \<Rightarrow> (ust, fault + int) state" where
  "wifi_main E = do {
     fd \<leftarrow> usys E (Open WIFI_DEVICE_FILE);
     if fd < 0 then do {
       uemit (Perror ''Failed to open device file'');
       State_Monad.return (Inr (- 1))
     } else do {
       let buffer = replicate 256 None;
       w \<leftarrow> usys E (Write fd (map Some wifi_data_to_send));
       if w < 0 then do {
         uemit (Perror ''Failed to write to device'');
         uemit (U_close fd);
         State_Monad.return (Inr (- 1))
       } else do {
         (num_bytes, buffer) \<leftarrow> uread E fd buffer (256 - 1);
         if num_bytes < 0 then do {
           uemit (Perror ''Failed to read from device'');
           uemit (U_close fd);
           State_Monad.return (Inr (- 1))
         } else if 256 \<le> num_bytes then State_Monad.return (Inl Out_of_bounds)
         else do {
           let buffer = buffer[nat num_bytes := Some 0];
           show_string buffer (\<lambda>str. do {
             uemit (Printf (ln ''Received from device: %s'') [ABytes str]);
             uemit (U_close fd);
             State_Monad.return (Inr 0)
           })
         }
       }
     }
   }"

lemma wifi_tidy:
  "run_state (wifi_main E) s = (Inr r, s') \<Longrightarrow> uheld s = Some st \<Longrightarrow> uheld s' = Some st"
  by (auto simp: wifi_main_def show_string_def Let_def uheld_simps split: if_splits option.splits)

interpretation wifi_prog: tidy_program wifi_main "\<lambda>E. True"
  by unfold_locales (rule wifi_tidy)

section \<open>Properties\<close>

text \<open>
  On a system that behaves as documented the program never reads past its buffer, leaves no
  file open, and exits with 0 after printing what was received up to its first zero byte, or with -1 after
  an error message.
\<close>

theorem wifi_user_result:
  assumes doc: "system_doc E" and run: "run_state (wifi_main E) s = (x, s')" and "ulog s = []"
  shows "uheld s' = Some [] \<and>
    (if x = Inr 0
     then \<exists>fd n bs. drop 2 (ulog s') =
       [U_read fd 255 n bs, Printf (ln ''Received from device: %s'') [ABytes (takeWhile (\<lambda>b. b \<noteq> 0) bs)], U_close fd]
     else x = Inr (- 1) \<and> (\<exists>m. Perror m \<in> set (ulog s')))"
proof -
  have buf: "cstr ((fill (replicate 256 None) (take (nat r) bs)) [nat r := Some 0]) = Some (takeWhile (\<lambda>b. b \<noteq> 0) (take (nat r) bs)) \<and> \<not> 256 \<le> r"
    if "r = read_ret E h fd 255" "bs = read_data E h fd 255" "\<not> r < 0" for r bs h fd
  proof -
    have len: "length (take (nat r) bs) = nat r" "nat r \<le> 255"
      using length_read [OF doc, of h fd 255] that by simp_all
    then have "(fill (replicate 256 None) (take (nat r) bs)) [nat r := Some 0] =
      map Some (take (nat r) bs) @ Some 0 # replicate (255 - nat r) None"
      using Suc_diff_le [of "nat r" 255] by (simp add: fill_def list_update_append)
    then show ?thesis using len by (simp add: cstr_take)
  qed
  from run assms(3) show ?thesis
    by (auto simp: wifi_main_def show_string_def Let_def uheld_simps buf split: if_splits option.splits)
qed

lemma lab_answer:
  "replicate 2 65 = [65, 65 :: u8]" "cstr ((fill (replicate 256 None) [65, 65])[2 := Some 0]) = Some [65, 65]"
proof -
  have "replicate 254 None = None # replicate 253 (None :: u8 option)"
    using replicate_Suc [of 253 "None :: u8 option"] by (simp del: replicate_Suc)
  then show "cstr ((fill (replicate 256 None) [65, 65])[2 := Some 0]) = Some [65, 65]"
    by (simp add: fill_def)
qed (simp add: numeral_2_eq_2)

theorem wifi_user_result_witness:
  "drop 2 (ulog (snd (run_state (wifi_main lab_system) fresh_process))) =
     [U_read 3 255 2 [65, 65], Printf (ln ''Received from device: %s'') [ABytes [65, 65]], U_close 3]"
proof -
  obtain x s' where run: "run_state (wifi_main lab_system) fresh_process = (x, s')" by fastforce
  have x: "x = Inr 0" and read: "U_read 3 255 2 [65, 65] = hd (drop 2 (ulog s'))"
    using run by (auto simp: wifi_main_def show_string_def Let_def lab_system_sel lab_answer)
  from wifi_user_result [OF lab_system_doc run] x obtain fd n bs where
    log: "drop 2 (ulog s') = [U_read fd 255 n bs, Printf (ln ''Received from device: %s'') [ABytes (takeWhile (\<lambda>b. b \<noteq> 0) bs)], U_close fd]"
    by auto
  with read have "bs = [65, 65]" "fd = 3" "n = 2" by simp_all
  with log run show ?thesis by simp
qed

end
