(* ===== verification/Usb_User.thy ===== *)
theory Usb_User
  imports User_API
begin

text \<open>\<open>Usb_userSpace_test_v1_1.c\<close>: write a greeting to a USB device file and print what it answers.\<close>

definition USB_DEVICE_PATH :: string where "USB_DEVICE_PATH = ''/dev/bus/usb/001/002''"

definition usb_main :: "uenv \<Rightarrow> (ust, fault + int) state" where
  "usb_main E = do {
     usb_fd \<leftarrow> usys E (Open USB_DEVICE_PATH);
     if usb_fd < 0 then do {
       uemit (Perror ''Failed to open USB device file'');
       State_Monad.return (Inr 1)
     } else case strcpy (replicate 64 None) ''Hello USB device!'' of
       None \<Rightarrow> State_Monad.return (Inl Out_of_bounds)
     | Some buf \<Rightarrow> do {
         w \<leftarrow> usys E (Write usb_fd (take (length ''Hello USB device!'' + 1) buf));
         if w < 0 then do {
           uemit (Perror ''Failed to write to USB device'');
           uemit (U_close usb_fd);
           State_Monad.return (Inr 1)
         } else do {
           (r, buf) \<leftarrow> uread E usb_fd buf 64;
           if r < 0 then do {
             uemit (Perror ''Failed to read from USB device'');
             uemit (U_close usb_fd);
             State_Monad.return (Inr 1)
           } else
             show_string buf (\<lambda>str. do {
               uemit (Printf (ln ''Received data: %s'') [ABytes str]);
               uemit (U_close usb_fd);
               State_Monad.return (Inr 0)
             })
         }
       }
   }"

lemma usb_tidy:
  "run_state (usb_main E) s = (Inr r, s') \<Longrightarrow> uheld s = Some st \<Longrightarrow> uheld s' = Some st"
  by (auto simp: usb_main_def show_string_def Let_def uheld_simps split: if_splits option.splits)

interpretation usb_prog: tidy_program usb_main "\<lambda>E. True"
  by unfold_locales (rule usb_tidy)

section \<open>Properties\<close>

abbreviation usb_greeting :: string where "usb_greeting \<equiv> ''Hello USB device!''"

lemma usb_greeting_nonzero: "0 \<notin> set (bytes_of usb_greeting)"
  by (simp add: bytes_of_def)

lemma usb_sent: "strcpy (replicate 64 None) usb_greeting = Some (map Some (cstring usb_greeting) @ replicate 46 None)"
  by (simp add: strcpy_def fill_def)

lemma usb_tail:
  "cstr (drop k (map Some (cstring usb_greeting) @ replicate 46 None)) =
   (if k < 18 then Some (drop k (bytes_of usb_greeting)) else None)"
proof (cases "k < 18")
  case True
  then have "drop k (map Some (cstring usb_greeting) @ replicate 46 None) =
      map Some (drop k (bytes_of usb_greeting)) @ Some 0 # replicate 46 None"
    by (simp add: cstring_def drop_map)
  moreover have "0 \<notin> set (drop k (bytes_of usb_greeting))"
    using usb_greeting_nonzero by (meson in_set_dropD)
  ultimately show ?thesis using True by (simp add: cstr_nonzero)
next
  case False
  then have "drop k (map Some (cstring usb_greeting) @ replicate 46 None) = replicate (46 - (k - 18)) None"
    by simp
  then show ?thesis using False by (simp add: cstr_None_no_zero)
qed

lemma usb_shown:
  "length bs \<le> 64 \<Longrightarrow> cstr (fill (map Some (cstring usb_greeting) @ replicate 46 None) bs) =
   (if 0 \<in> set bs then Some (takeWhile (\<lambda>b. b \<noteq> 0) bs)
    else if length bs < 18 then Some (bs @ drop (length bs) (bytes_of usb_greeting)) else None)"
  using usb_tail [of "length bs"] by (simp add: fill_def cstr_zero_in cstr_no_zero del: drop_append)

text \<open>
  What the program prints for an answer without a zero byte is not that answer: a short one is
  followed by the rest of the program's own greeting, and from 18 bytes on it reads memory nobody wrote. An
  answer with a zero byte is printed up to it.
\<close>

theorem usb_user_prints:
  assumes doc: "system_doc E" and run: "run_state (usb_main E) s = (x, s')" and "ulog s = []"
    and "U_read fd 64 n bs \<in> set (ulog s')" and "0 \<le> n"
  shows "if 0 \<in> set bs then x = Inr 0 \<and> Printf (ln ''Received data: %s'') [ABytes (takeWhile (\<lambda>b. b \<noteq> 0) bs)] \<in> set (ulog s')
    else if length bs < 18
    then x = Inr 0 \<and> Printf (ln ''Received data: %s'') [ABytes (bs @ drop (length bs) (bytes_of usb_greeting))] \<in> set (ulog s')
    else x = Inl Out_of_bounds"
proof -
  have le: "length (take (nat (read_ret E h fd 64)) (read_data E h fd 64)) \<le> 64" if "0 \<le> read_ret E h fd 64" for h fd
    using length_read [OF doc that] by simp
  define fd' where "fd' = sys E [] (Open USB_DEVICE_PATH)"
  define w where "w = Write fd' (map Some (cstring usb_greeting))"
  define g where "g = [U_call (Open USB_DEVICE_PATH) fd', U_call w (sys E [U_call (Open USB_DEVICE_PATH) fd'] w)]"
  define r where "r = read_ret E g fd' 64"
  define data where "data = take (nat r) (read_data E g fd' 64)"
  have main: "run_state (usb_main E) s =
    (if fd' < 0 then (Inr 1, s\<lparr>ulog := [U_call (Open USB_DEVICE_PATH) fd', Perror ''Failed to open USB device file'']\<rparr>)
     else if sys E [U_call (Open USB_DEVICE_PATH) fd'] w < 0
     then (Inr 1, s\<lparr>ulog := g @ [Perror ''Failed to write to USB device'', U_close fd']\<rparr>)
     else if r < 0
     then (Inr 1, s\<lparr>ulog := g @ [U_read fd' 64 r data, Perror ''Failed to read from USB device'', U_close fd']\<rparr>)
     else run_state (show_string (fill (map Some (cstring usb_greeting) @ replicate 46 None) data) (\<lambda>str. do {
         uemit (Printf (ln ''Received data: %s'') [ABytes str]);
         uemit (U_close fd');
         State_Monad.return (Inr 0)
       })) (s\<lparr>ulog := g @ [U_read fd' 64 r data]\<rparr>))"
    using assms(3) by (simp add: usb_main_def usb_sent fd'_def [symmetric] w_def [symmetric] g_def r_def data_def)
  have read: "U_read fd 64 n bs \<in> set (ulog s') \<Longrightarrow> n = r \<and> bs = data"
    using run unfolding main by (auto simp: g_def show_string_def split: if_splits option.splits)
  have "length data \<le> 64" if "0 \<le> r"
    using le that unfolding data_def r_def by simp
  with run read assms(4,5) show ?thesis
    unfolding main by (auto simp: g_def show_string_def usb_shown split: if_splits)
qed

theorem usb_user_prints_witness:
  "Printf (ln ''Received data: %s'') [ABytes (bytes_of ''AAllo USB device!'')] \<in> set (ulog (snd (run_state (usb_main lab_system) fresh_process)))"
proof -
  obtain x s' where run: "run_state (usb_main lab_system) fresh_process = (x, s')" by fastforce
  then have "U_read 3 64 2 [65, 65] \<in> set (ulog s')"
    by (auto simp: usb_main_def usb_sent show_string_def Let_def lab_system_sel numeral_2_eq_2 split: option.splits)
  from usb_user_prints [OF lab_system_doc run _ this] run show ?thesis by (simp add: bytes_of_def)
qed

end
