(* ===== verification/Uart_User.thy ===== *)
theory Uart_User
  imports User_API
begin

text \<open>\<open>Uart_userSpace_v1_1.c\<close>: set the serial port to 9600 baud, print what it receives, send a greeting.\<close>

definition uart_tx_data :: "u8 list" where
  "uart_tx_data = cstring ''Hello UART!''"

text \<open>
  The speed constant and the size of \<open>struct termios\<close> of the C library. The status of the three
  terminal-attribute calls is ignored: when \<open>tcgetattr\<close> fails, the attributes set are those of unwritten
  memory with the speed in it.
\<close>

definition B9600 :: u32 where "B9600 = 13"
definition TERMIOS_SIZE :: nat where "TERMIOS_SIZE = 60"

definition uart_configure :: "uenv \<Rightarrow> int \<Rightarrow> (ust, unit) state" where
  "uart_configure E uart_fd = do {
     let uart_options = replicate TERMIOS_SIZE None;
     r \<leftarrow> usys E (Tcgetattr uart_fd);
     attrs \<leftarrow> reads (\<lambda>s. xfer_data E (ulog s));
     let uart_options = (if r = 0 then fill uart_options attrs else uart_options);
     let uart_options = cfsetospeed E uart_options B9600;
     _ \<leftarrow> usys E (Tcsetattr uart_fd uart_options);
     State_Monad.return ()
   }"

definition uart_send :: "uenv \<Rightarrow> int \<Rightarrow> (ust, fault + int) state" where
  "uart_send E uart_fd = do {
     bytes_written \<leftarrow> usys E (Write uart_fd (map Some uart_tx_data));
     if bytes_written = - 1 then do {
       uemit (Perror ''Error writing to UART'');
       uemit (U_close uart_fd);
       State_Monad.return (Inr 1)
     } else do {
       uemit (U_close uart_fd);
       State_Monad.return (Inr 0)
     }
   }"

definition uart_main :: "uenv \<Rightarrow> (ust, fault + int) state" where
  "uart_main E = do {
     let buffer = replicate 256 None;
     uart_fd \<leftarrow> usys E (Open ''/dev/ttyS0'');
     if uart_fd = - 1 then do {
       uemit (Perror ''Error opening UART device'');
       State_Monad.return (Inr 1)
     } else do {
       uart_configure E uart_fd;
       (bytes_read, buffer) \<leftarrow> uread E uart_fd buffer 256;
       if bytes_read = - 1 then do {
         uemit (Perror ''Error reading from UART'');
         uemit (U_close uart_fd);
         State_Monad.return (Inr 1)
       } else
         show_string buffer (\<lambda>str. do {
           uemit (Printf (ln ''Received %d bytes: %s'') [AInt bytes_read, ABytes str]);
           uart_send E uart_fd
         })
     }
   }"

lemmas uart_user_defs = uart_main_def uart_send_def uart_configure_def

lemma uart_send_tidy:
  "run_state (uart_send E fd) s = (r, s') \<Longrightarrow> uheld s = Some (Fd fd # st) \<Longrightarrow> uheld s' = Some st"
  by (auto simp: uart_send_def Let_def uheld_simps split: if_splits)

lemma uart_configure_tidy:
  "run_state (uart_configure E fd) s = (u, s') \<Longrightarrow> uheld s = Some (Fd fd # st) \<Longrightarrow> uheld s' = Some (Fd fd # st)"
  by (auto simp: uart_configure_def uheld_simps Let_def)

lemma uart_tidy:
  assumes doc: "system_doc E" and run: "run_state (uart_main E) s = (Inr r, s')" and st: "uheld s = Some st"
  shows "uheld s' = Some st"
proof -
  define fd where "fd = sys E (ulog s) (Open ''/dev/ttyS0'')"
  define s1 where "s1 = s\<lparr>ulog := ulog s @ [U_call (Open ''/dev/ttyS0'') fd]\<rparr>"
  define s2 where "s2 = snd (run_state (uart_configure E fd) s1)"
  have run1: "run_state (uart_configure E fd) s1 = ((), s2)"
    by (simp add: s2_def prod_eq_iff)
  show ?thesis
  proof (cases "fd = - 1")
    case True
    with run st show ?thesis
      by (auto simp: uart_main_def Let_def uheld_simps fd_def)
  next
    case False
    with doc st have "uheld s1 = Some (Fd fd # st)"
      by (simp add: s1_def fd_def uheld_def opened)
    with run1 have "uheld s2 = Some (Fd fd # st)"
      by (rule uart_configure_tidy)
    with run False run1 show ?thesis
      by (auto simp: uart_main_def Let_def show_string_def fd_def [symmetric] s1_def [symmetric]
          split: if_splits option.splits elim!: uart_send_tidy) (auto simp: uheld_simps)
  qed
qed

interpretation uart_prog: tidy_program uart_main system_doc
  by unfold_locales (rule uart_tidy, assumption+)

section \<open>Properties\<close>

text \<open>
  C34: after a read the program prints the received bytes up to the first zero and goes on; when
  the line delivered no zero byte it reads past what was received, into unwritten memory or past the
  buffer, since nothing terminates the string.
\<close>

theorem uart_user_overread:
  assumes doc: "system_doc E" and run: "run_state (uart_main E) s = (x, s')" and "ulog s = []"
    and "U_read fd 256 n bs \<in> set (ulog s')" and "n \<noteq> - 1"
  shows "if 0 \<in> set bs
    then (x = Inr 0 \<or> x = Inr 1) \<and> Printf (ln ''Received %d bytes: %s'') [AInt n, ABytes (takeWhile (\<lambda>b. b \<noteq> 0) bs)] \<in> set (ulog s')
    else x = Inl Out_of_bounds"
proof -
  have shown: "cstr (fill (replicate 256 None) bs) = (if 0 \<in> set bs then Some (takeWhile (\<lambda>b. b \<noteq> 0) bs) else None)"
    if "length bs \<le> 256" for bs
    using that by (simp add: fill_def cstr_zero_in cstr_no_zero cstr_None_no_zero)
  have le: "length (take (nat (read_ret E h fd 256)) (read_data E h fd 256)) \<le> 256" for h fd
    using length_read [OF doc, of h fd 256] by (cases "0 \<le> read_ret E h fd 256") simp_all
  show ?thesis
  proof (cases "sys E [] (Open ''/dev/ttyS0'') = - 1")
    case True
    with run assms(3-5) show ?thesis by (auto simp: uart_main_def)
  next
    case False
    define fd where "fd = sys E [] (Open ''/dev/ttyS0'')"
    define g where "g = ulog (snd (run_state (uart_configure E fd) (s\<lparr>ulog := [U_call (Open ''/dev/ttyS0'') fd]\<rparr>)))"
    have conf: "run_state (uart_configure E fd) (s\<lparr>ulog := [U_call (Open ''/dev/ttyS0'') fd]\<rparr>) = ((), s\<lparr>ulog := g\<rparr>)"
      by (simp add: g_def uart_configure_def Let_def)
    have g: "\<forall>fd n bs. U_read fd 256 n bs \<notin> set g"
      by (simp add: g_def uart_configure_def Let_def)
    have main: "run_state (uart_main E) s =
      (let r = read_ret E g fd 256; data = take (nat r) (read_data E g fd 256)
       in if r = - 1 then (Inr 1, s\<lparr>ulog := g @ [U_read fd 256 r data, Perror ''Error reading from UART'', U_close fd]\<rparr>)
       else run_state (show_string (fill (replicate 256 None) data) (\<lambda>str. do {
           uemit (Printf (ln ''Received %d bytes: %s'') [AInt r, ABytes str]);
           uart_send E fd
         })) (s\<lparr>ulog := g @ [U_read fd 256 r data]\<rparr>))"
      using False conf assms(3) by (simp add: uart_main_def fd_def [symmetric] Let_def)
    have send: "run_state (uart_send E fd) s = (Inr (if w = - 1 then 1 else 0),
        s\<lparr>ulog := ulog s @ U_call (Write fd (map Some uart_tx_data)) w # (if w = - 1 then [Perror ''Error writing to UART''] else []) @ [U_close fd]\<rparr>)"
      if "w = sys E (ulog s) (Write fd (map Some uart_tx_data))" for fd s w
      using that by (simp add: uart_send_def)
    from run assms(4,5) g show ?thesis
      unfolding main by (auto simp: shown [OF le] show_string_def Let_def send [OF refl] split: if_splits)
  qed
qed

theorem uart_user_overread_witness:
  "fst (run_state (uart_main lab_system) fresh_process) = Inl Out_of_bounds"
proof -
  obtain x s' where run: "run_state (uart_main lab_system) fresh_process = (x, s')" by fastforce
  then have "U_read 3 256 2 [65, 65] \<in> set (ulog s')"
    by (auto simp: uart_user_defs show_string_def Let_def lab_system_sel numeral_2_eq_2 split: option.splits)
  from uart_user_overread [OF lab_system_doc run _ this] run show ?thesis by simp
qed

end
