(* ===== verification/Can_User.thy ===== *)
theory Can_User
  imports User_API
begin

text \<open>\<open>MyCanUserSpace.c\<close>: bind a raw CAN socket, send one frame, print the one received.\<close>

definition CAN_INTERFACE :: string where "CAN_INTERFACE = ''can0''"
definition IFNAMSIZ :: nat where "IFNAMSIZ = 16"
definition AF_CAN :: u16 where "AF_CAN = 29"

text \<open>
  \<open>struct can_frame\<close> in memory: identifier, length code, three bytes of padding and reserved fields
  that the program never writes, eight data bytes; 16 bytes in all.
\<close>

definition can_frame_bytes :: "u32 \<Rightarrow> u8 \<Rightarrow> cbuf \<Rightarrow> cbuf" where
  "can_frame_bytes can_id can_dlc data = map Some (le32 can_id) @ [Some can_dlc, None, None, None] @ data"

definition can_frame_data :: "cbuf \<Rightarrow> cbuf" where
  "can_frame_data frame = drop 8 frame"

definition can_receive :: "uenv \<Rightarrow> int \<Rightarrow> cbuf \<Rightarrow> (ust, fault + int) state" where
  "can_receive E s frame = do {
     (nbytes, frame) \<leftarrow> uread E s frame 16;
     if nbytes < 0 then do {
       uemit (Perror ''Read failed'');
       uemit (U_close s);
       State_Monad.return (Inr 1)
     } else if nbytes = 0 then do {
       uemit (Printf (ln ''No data received'') []);
       uemit (U_close s);
       State_Monad.return (Inr 0)
     } else
       show_string (can_frame_data frame) (\<lambda>str. do {
         uemit (Printf (ln ''Message received: %s'') [ABytes str]);
         uemit (U_close s);
         State_Monad.return (Inr 0)
       })
   }"

definition can_send :: "uenv \<Rightarrow> int \<Rightarrow> (ust, fault + int) state" where
  "can_send E s = (case strcpy (replicate 8 None) ''Hello!'' of
     None \<Rightarrow> State_Monad.return (Inl Out_of_bounds)
   | Some data \<Rightarrow> do {
       let frame = can_frame_bytes 0x123 8 data;
       nbytes \<leftarrow> usys E (Write s frame);
       if nbytes \<noteq> 16 then do {
         uemit (Perror ''Write failed'');
         uemit (U_close s);
         State_Monad.return (Inr 1)
       } else
         show_string (can_frame_data frame) (\<lambda>str. do {
           uemit (Printf (ln ''Message sent: %s'') [ABytes str]);
           can_receive E s frame
         })
     })"

text \<open>
  The status of the \<open>SIOCGIFINDEX\<close> request is not looked at: when it fails, \<open>ifr.ifr_ifindex\<close> is read
  without having been written. The request reads the interface's name from the front of \<open>ifr\<close> and
  stores the index behind it.
\<close>

definition can_main :: "uenv \<Rightarrow> (ust, fault + int) state" where
  "can_main E = do {
     s \<leftarrow> usys E (Socket ''PF_CAN SOCK_RAW CAN_RAW'');
     if s < 0 then do {
       uemit (Perror ''Socket creation failed'');
       State_Monad.return (Inr 1)
     } else case strcpy (replicate IFNAMSIZ None) CAN_INTERFACE of
       None \<Rightarrow> State_Monad.return (Inl Out_of_bounds)
     | Some ifr_name \<Rightarrow> do {
         r \<leftarrow> usys E (Ioctl s ''SIOCGIFINDEX'' (Pointer_to ifr_name));
         if r < 0 then State_Monad.return (Inl Uninitialised)
         else do {
           ifr_ifindex \<leftarrow> reads (\<lambda>st. of_le32 (take 4 (xfer_data E (ulog st))));
           b \<leftarrow> usys E (Bind s \<lparr>can_family = AF_CAN, can_ifindex = ifr_ifindex\<rparr>);
           if b < 0 then do {
             uemit (Perror ''Bind failed'');
             uemit (U_close s);
             State_Monad.return (Inr 1)
           } else can_send E s
         }
       }
   }"

lemmas can_user_defs = can_main_def can_send_def can_receive_def

lemma can_receive_tidy:
  "run_state (can_receive E fd frame) s = (Inr r, s') \<Longrightarrow> uheld s = Some (Fd fd # st) \<Longrightarrow> uheld s' = Some st"
  by (auto simp: can_receive_def show_string_def Let_def uheld_simps split: if_splits option.splits)

lemma can_send_tidy:
  "run_state (can_send E fd) s = (Inr r, s') \<Longrightarrow> uheld s = Some (Fd fd # st) \<Longrightarrow> uheld s' = Some st"
  by (auto simp: can_send_def show_string_def Let_def split: if_splits option.splits
      elim!: can_receive_tidy) (auto simp: uheld_simps)

lemma can_prog_tidy:
  "run_state (can_main E) s = (Inr r, s') \<Longrightarrow> uheld s = Some st \<Longrightarrow> uheld s' = Some st"
  by (auto simp: can_main_def Let_def split: if_splits option.splits elim!: can_send_tidy)
    (auto simp: uheld_simps)

interpretation can_prog: tidy_program can_main "\<lambda>E. True"
  by unfold_locales (rule can_prog_tidy)

section \<open>Properties\<close>

lemma can_greeting: "strcpy (replicate 8 None) ''Hello!'' = Some (map Some (cstring ''Hello!'') @ [None])"
  by (simp add: strcpy_def fill_def)

lemma can_ifname: "strcpy (replicate IFNAMSIZ None) CAN_INTERFACE = Some (map Some (cstring CAN_INTERFACE) @ replicate 11 None)"
  by (simp add: strcpy_def fill_def IFNAMSIZ_def CAN_INTERFACE_def)

lemma can_receive_calls:
  "run_state (can_receive E fd b) s = (x, s') \<Longrightarrow> U_call c n \<in> set (ulog s') \<Longrightarrow> U_call c n \<in> set (ulog s)"
  by (auto simp: can_receive_def show_string_def split: if_splits option.splits)

lemma can_send_writes:
  "run_state (can_send E fd) s = (x, s') \<Longrightarrow> U_call (Write fd' frame) n \<in> set (ulog s') \<Longrightarrow>
   U_call (Write fd' frame) n \<in> set (ulog s) \<or> frame = can_frame_bytes 0x123 8 (map Some (cstring ''Hello!'') @ [None])"
  by (auto simp: can_send_def can_greeting show_string_def Let_def split: if_splits option.splits dest!: can_receive_calls)

text \<open>
  C37: the one frame the program sends is a whole 16-byte frame with identifier 0x123 and length 8; it
  carries the seven bytes of the terminated greeting, and four bytes the program never wrote: the padding
  and the last data byte.
\<close>

theorem can_user_frame:
  assumes "run_state (can_main E) s = (x, s')" and "ulog s = []" and "U_call (Write fd frame) n \<in> set (ulog s')"
  shows "frame = map Some (le32 0x123 @ [8]) @ [None, None, None] @ map Some (cstring ''Hello!'') @ [None] \<and> length frame = 16"
proof -
  have "frame = can_frame_bytes 0x123 8 (map Some (cstring ''Hello!'') @ [None])"
    using assms by (auto simp: can_main_def can_ifname Let_def split: if_splits dest!: can_send_writes)
  then show ?thesis
    by (simp add: can_frame_bytes_def)
qed

theorem can_user_frame_witness:
  "\<exists>frame n. U_call (Write 4 frame) n \<in> set (ulog (snd (run_state (can_main lab_system) fresh_process))) \<and> length frame = 16"
proof -
  obtain x s' where run: "run_state (can_main lab_system) fresh_process = (x, s')" by fastforce
  then have "U_call (Write 4 (can_frame_bytes 0x123 8 (map Some (cstring ''Hello!'') @ [None]))) 16 \<in> set (ulog s')"
    by (auto simp: can_user_defs can_greeting can_ifname lab_system_sel can_frame_bytes_def show_string_def Let_def
        split: option.splits)
  from can_user_frame [OF run _ this] this run show ?thesis by auto
qed

end
