(* ===== verification/C_Loops.thy ===== *)
theory C_Loops
  imports Prelude Kernel_API
begin

text \<open>
  The counting loop of C over a 32-bit \<open>int\<close> that starts at 0. \<open>for_int\<close> is the loop as it runs: test,
  body, increment, for as long as the test holds, and \<open>None\<close> if that never ends. \<open>for_upto\<close> is the
  loop over a known number of rounds. The lemmas give the number of rounds for the two tests the
  programs use, a comparison with an \<open>int\<close> and one with a \<open>size_t\<close>.
\<close>

partial_function (option) for_int ::
  "(u32 \<Rightarrow> bool) \<Rightarrow> (u32 \<Rightarrow> ('s, fault + unit) state) \<Rightarrow> u32 \<Rightarrow> 's \<Rightarrow> ((fault + unit) \<times> 's) option" where
  "for_int go body i s =
     (if go i then
        (case run_state (body i) s of
           (Inl f, s') \<Rightarrow> Some (Inl f, s')
         | (Inr _, s') \<Rightarrow> for_int go body (i + 1) s')
      else Some (Inr (), s))"

fun for_upto :: "(nat \<Rightarrow> ('s, fault + unit) state) \<Rightarrow> nat \<Rightarrow> nat \<Rightarrow> ('s, fault + unit) state" where
  "for_upto body i 0 = State_Monad.return (Inr ())"
| "for_upto body i (Suc n) = do {
     r \<leftarrow> body i;
     case r of Inl f \<Rightarrow> State_Monad.return (Inl f) | Inr _ \<Rightarrow> for_upto body (Suc i) n
   }"

lemma for_int_terminates:
  assumes "\<And>k. k \<le> N \<Longrightarrow> go (word_of_nat k) \<longleftrightarrow> k < N"
    and "\<And>k. k < N \<Longrightarrow> body (word_of_nat k) = body' k"
  shows "k + n = N \<Longrightarrow> for_int go body (word_of_nat k) s = Some (run_state (for_upto body' k n) s)"
proof (induction n arbitrary: k s)
  case 0
  then show ?case using assms(1) [of k] by (subst for_int.simps) simp
next
  case (Suc n)
  have "for_int go body (word_of_nat k) s =
    (case run_state (body' k) s of (Inl f, s') \<Rightarrow> Some (Inl f, s') | (Inr _, s') \<Rightarrow> for_int go body (word_of_nat k + 1) s')"
    using assms Suc.prems by (subst for_int.simps) simp
  also have "word_of_nat k + 1 = (word_of_nat (Suc k) :: u32)" by (simp add: add.commute)
  finally show ?case
    using Suc.IH [of "Suc k"] Suc.prems by (cases "run_state (body' k) s") (auto split: sum.splits)
qed

lemma sint_of_small: "int k < 2 ^ 31 \<Longrightarrow> sint (word_of_nat k :: u32) = int k"
  by (simp add: signed_of_nat signed_take_bit_int_eq_self)

lemma sint_bound: "nat (sint (w :: u32)) < 2 ^ 31"
  using sint_lt [of w] by simp

lemma for_sint_count:
  fixes num :: u32
  assumes "\<And>k. k < 2 ^ 31 \<Longrightarrow> body (word_of_nat k) = body' k"
  shows "for_int (\<lambda>i. sint i < sint num) body 0 s = Some (run_state (for_upto body' 0 (nat (sint num))) s)"
  using for_int_terminates [of "nat (sint num)" "\<lambda>i. sint i < sint num" body body' 0 "nat (sint num)" s] sint_bound [of num] assms
  by (simp add: sint_of_small zless_nat_eq_int_zless)

lemma scast_small: "k < 2 ^ 31 \<Longrightarrow> (scast (word_of_nat k :: u32) :: u64) = word_of_nat k"
  by (simp add: scast_eq sint_of_small)

lemma for_size_count:
  assumes "n < 2 ^ 31" and "\<And>k. k < 2 ^ 31 \<Longrightarrow> body (word_of_nat k) = body' k"
  shows "for_int (\<lambda>i. (scast i :: u64) < word_of_nat n) body 0 s = Some (run_state (for_upto body' 0 n) s)"
proof -
  have "((scast (word_of_nat k :: u32) :: u64) < word_of_nat n) = (k < n)" if "k \<le> n" for k
    using that assms(1) by (simp add: scast_small word_of_nat_less_iff take_bit_nat_eq_self)
  then show ?thesis
    using for_int_terminates [of n "\<lambda>i. (scast i :: u64) < word_of_nat n" body body' 0 n s] assms by simp
qed

end
