(* ===== verification/Spi_User.thy ===== *)
theory Spi_User
  imports User_API C_Loops
begin

text \<open>
  \<open>Spi_userSpace_test_v1_0.c\<close>: open the SPI device file, set mode and speed, exchange three bytes.
  \<open>exit(1)\<close> inside a function ends the program: such a function returns \<open>Inl\<close> of the exit status.
\<close>

definition SPI_DEVICE :: string where "SPI_DEVICE = ''/dev/spidev0.0''"
definition SPI_SPEED :: u32 where "SPI_SPEED = 1000000"

text \<open>\<open>SPI_MODE_0\<close> is 0. The global \<open>spi_fd\<close> is the value returned.\<close>

definition spi_user_init :: "uenv \<Rightarrow> (ust, int + int) state" where
  "spi_user_init E = do {
     spi_fd \<leftarrow> usys E (Open SPI_DEVICE);
     if spi_fd < 0 then do {
       uemit (Perror ''Failed to open SPI device'');
       State_Monad.return (Inl 1)
     } else do {
       let mode = (0 :: u32);
       r \<leftarrow> usys E (Ioctl spi_fd ''SPI_IOC_WR_MODE'' (Pointer_to (map Some (le32 mode))));
       if r < 0 then do {
         uemit (Perror ''Failed to set SPI mode'');
         State_Monad.return (Inl 1)
       } else do {
         r \<leftarrow> usys E (Ioctl spi_fd ''SPI_IOC_WR_MAX_SPEED_HZ'' (Pointer_to (map Some (le32 SPI_SPEED))));
         if r < 0 then do {
           uemit (Perror ''Failed to set SPI speed'');
           State_Monad.return (Inl 1)
         } else State_Monad.return (Inr spi_fd)
       }
     }
   }"

text \<open>The result is the receive buffer after the transfer.\<close>

definition spi_user_transfer :: "uenv \<Rightarrow> int \<Rightarrow> u8 list \<Rightarrow> cbuf \<Rightarrow> (ust, int + cbuf) state" where
  "spi_user_transfer E spi_fd tx rx = do {
     let transfer = Spi_ioc_transfer tx (length rx) (length tx);
     r \<leftarrow> usys E (Ioctl spi_fd ''SPI_IOC_MESSAGE(1)'' transfer);
     if r < 0 then do {
       uemit (Perror ''SPI transfer error'');
       State_Monad.return (Inl 1)
     } else do {
       data \<leftarrow> reads (\<lambda>s. xfer_data E (ulog s));
       State_Monad.return (Inr (fill rx (take (length tx) data)))
     }
   }"

text \<open>The printing loop over the receive buffer, from its first byte to its last.\<close>

fun spi_print :: "cbuf \<Rightarrow> (ust, fault + unit) state" where
  "spi_print [] = State_Monad.return (Inr ())"
| "spi_print (None # bs) = State_Monad.return (Inl Uninitialised)"
| "spi_print (Some b # bs) = do {
     uemit (Printf (ln ''Received: 0x%02X'') [AInt (uint b)]);
     spi_print bs
   }"

text \<open>The same loop with its \<open>int\<close> counter, compared with the unsigned size of the buffer.\<close>

definition spi_loop :: "cbuf \<Rightarrow> ust \<Rightarrow> ((fault + unit) \<times> ust) option" where
  "spi_loop rx_buffer =
     for_int (\<lambda>i. (scast i :: u64) < word_of_nat (length rx_buffer))
       (\<lambda>i. need (rd rx_buffer (unat i)) (\<lambda>b. case b of
          None \<Rightarrow> State_Monad.return (Inl Uninitialised)
        | Some b \<Rightarrow> do {
            uemit (Printf (ln ''Received: 0x%02X'') [AInt (uint b)]);
            State_Monad.return (Inr ())
          })) 0"

definition spi_main :: "uenv \<Rightarrow> (ust, fault + int) state" where
  "spi_main E = do {
     opened \<leftarrow> spi_user_init E;
     case opened of
       Inl code \<Rightarrow> State_Monad.return (Inr code)
     | Inr spi_fd \<Rightarrow> do {
         let tx_buffer = [0x01, 0x02, 0x03];
         moved \<leftarrow> spi_user_transfer E spi_fd tx_buffer (replicate 3 None);
         case moved of
           Inl code \<Rightarrow> State_Monad.return (Inr code)
         | Inr rx_buffer \<Rightarrow> do {
             shown \<leftarrow> spi_print rx_buffer;
             case shown of
               Inl f \<Rightarrow> State_Monad.return (Inl f)
             | Inr _ \<Rightarrow> do {
                 uemit (U_close spi_fd);
                 State_Monad.return (Inr 0)
               }
           }
       }
   }"

lemmas spi_user_defs = spi_main_def spi_user_init_def spi_user_transfer_def

lemma run_spi_print:
  "run_state (spi_print (map Some bs)) s =
   (Inr (), s\<lparr>ulog := ulog s @ map (\<lambda>b. Printf (ln ''Received: 0x%02X'') [AInt (uint b)]) bs\<rparr>)"
  by (induction bs arbitrary: s) auto

lemma track_prints [simp]:
  "track uacts (map (\<lambda>b. Printf f (g b)) bs) st = Some st"
  by (induction bs) (auto simp: track_Cons)

lemma spi_print_upto:
  "i + n = length rx \<Longrightarrow> run_state (spi_print (drop i rx)) s = run_state (for_upto (\<lambda>i. need (rd rx i) (\<lambda>b. case b of
     None \<Rightarrow> State_Monad.return (Inl Uninitialised)
   | Some b \<Rightarrow> do { uemit (Printf (ln ''Received: 0x%02X'') [AInt (uint b)]); State_Monad.return (Inr ()) })) i n) s"
proof (induction n arbitrary: i s)
  case (Suc n)
  then have "drop i rx = rx ! i # drop (Suc i) rx" by (simp add: Cons_nth_drop_Suc)
  with Suc show ?case by (cases "rx ! i") (simp_all add: need_def rd_def)
qed simp

section \<open>Properties\<close>

text \<open>
  C38: where a transfer delivers three bytes, the program either prints those three bytes, closes the
  device and exits with 0, or exits with 1; an error after the open leaves the device file open.
\<close>

theorem spi_user_result:
  assumes "run_state (spi_main E) s = (x, s')" and "ulog s = []" and len: "\<And>h. length (xfer_data E h) = 3"
    and fd: "fd = sys E [] (Open SPI_DEVICE)"
  shows "(x = Inr 0 \<and> uheld s' = Some [] \<and>
      drop 4 (ulog s') = map (\<lambda>b. Printf (ln ''Received: 0x%02X'') [AInt (uint b)]) (xfer_data E (take 4 (ulog s'))) @ [U_close fd]) \<or>
    (x = Inr 1 \<and> (\<exists>m. Perror m \<in> set (ulog s')) \<and> uheld s' = Some (if fd < 0 then [] else [Fd fd]))"
proof -
  have filled: "fill (replicate 3 None) (xfer_data E h) = map Some (xfer_data E h)" for h
    using len [of h] by (simp add: fill_all)
  from assms(1,2) show ?thesis
    by (auto simp: spi_user_defs fd filled len run_spi_print Let_def uheld_simps track_append split: if_splits)
qed

theorem spi_user_result_witness:
  "uheld (snd (run_state (spi_main lab_system) fresh_process)) = Some []"
proof -
  obtain x s' where run: "run_state (spi_main lab_system) fresh_process = (x, s')" by fastforce
  then have "x = Inr 0"
    by (auto simp: spi_user_defs lab_system_sel fill_def Let_def)
  with spi_user_result [OF run _ _ refl] run show ?thesis
    by (simp add: lab_system_sel)
qed

text \<open>
  The printing loop ends for every buffer that an \<open>int\<close> can count, and prints
  what the buffer holds, byte by byte.
\<close>

theorem spi_loop_terminates:
  assumes "length rx_buffer < 2 ^ 31"
  shows "spi_loop rx_buffer s = Some (run_state (spi_print rx_buffer) s)"
  unfolding spi_loop_def spi_print_upto [of 0 "length rx_buffer" rx_buffer, simplified]
  by (rule for_size_count [OF assms]) (simp add: unsigned_of_nat take_bit_nat_eq_self)

theorem spi_loop_terminates_witness:
  "\<exists>s'. spi_loop [Some 1, Some 2, Some 3] fresh_process = Some (Inr (), s')"
  using spi_loop_terminates [of "[Some 1, Some 2, Some 3]" fresh_process] by simp

end
