(* ===== verification/Bluetooth_User.thy ===== *)
theory Bluetooth_User
  imports User_API C_Loops Net_Layout
begin

text \<open>\<open>Bluetooth_userSpace.c\<close>: inquire for devices and print the address of each.\<close>

definition MAX_DEVICES :: nat where "MAX_DEVICES = 10"

text \<open>
  The loop from index \<open>i\<close> with \<open>n\<close> rounds to go. \<open>ba2str\<close> is the library function that writes an
  address as text.
\<close>

fun bt_print :: "(u8 list \<Rightarrow> string) \<Rightarrow> u8 list list \<Rightarrow> nat \<Rightarrow> nat \<Rightarrow> (ust, fault + unit) state" where
  "bt_print ba2str devices i 0 = State_Monad.return (Inr ())"
| "bt_print ba2str devices i (Suc n) =
     need (rd devices i) (\<lambda>addr. do {
       uemit (Printf (ln ''%s'') [AStr (ba2str addr)]);
       bt_print ba2str devices (Suc i) n
     })"

text \<open>The loop with its \<open>int\<close> counter, as the program runs it.\<close>

definition bt_loop :: "(u8 list \<Rightarrow> string) \<Rightarrow> u8 list list \<Rightarrow> u32 \<Rightarrow> ust \<Rightarrow> ((fault + unit) \<times> ust) option" where
  "bt_loop ba2str devices num_devices =
     for_int (\<lambda>i. sint i < sint num_devices)
       (\<lambda>i. need (rd devices (unat i)) (\<lambda>addr. do {
          uemit (Printf (ln ''%s'') [AStr (ba2str addr)]);
          State_Monad.return (Inr ())
        })) 0"

lemma bt_print_upto:
  "run_state (bt_print ba2str devices i n) s = run_state (for_upto (\<lambda>i. need (rd devices i) (\<lambda>addr. do {
     uemit (Printf (ln ''%s'') [AStr (ba2str addr)]); State_Monad.return (Inr ()) })) i n) s"
  by (induction n arbitrary: i s) (simp_all add: need_def split: option.split)

text \<open>The inquiry runs on the adapter \<open>hci_get_route\<close> names, whose result is not checked.\<close>

definition bt_main :: "(u8 list \<Rightarrow> string) \<Rightarrow> uenv \<Rightarrow> (ust, fault + int) state" where
  "bt_main ba2str E = do {
     sock \<leftarrow> usys E (Socket ''AF_BLUETOOTH SOCK_RAW BTPROTO_HCI'');
     if sock < 0 then do {
       uemit (Perror ''Socket creation failed'');
       State_Monad.return (Inr 1)
     } else do {
       route \<leftarrow> usys E Hci_get_route;
       found \<leftarrow> reads (\<lambda>s. bdaddrs E (ulog s));
       (num_devices, devices) \<leftarrow> uinquiry E route 8 MAX_DEVICES;
       if num_devices < 0 then do {
         uemit (Perror ''Device discovery failed'');
         uemit (U_close sock);
         State_Monad.return (Inr 1)
       } else do {
         uemit (Printf (ln ''Found %d devices:'') [AInt num_devices]);
         shown \<leftarrow> bt_print ba2str found 0 (nat num_devices);
         case shown of
           Inl f \<Rightarrow> State_Monad.return (Inl f)
         | Inr _ \<Rightarrow> do {
             uemit (U_free devices);
             uemit (U_close sock);
             State_Monad.return (Inr 0)
           }
       }
     }
   }"

lemma run_bt_print:
  "i + n \<le> length devices \<Longrightarrow> run_state (bt_print ba2str devices i n) s =
   (Inr (), s\<lparr>ulog := ulog s @ map (\<lambda>a. Printf (ln ''%s'') [AStr (ba2str a)]) (take n (drop i devices))\<rparr>)"
proof (induction n arbitrary: i s)
  case (Suc n)
  then have "take (Suc n) (drop i devices) = devices ! i # take n (drop (Suc i) devices)"
    by (simp add: Cons_nth_drop_Suc [symmetric])
  with Suc show ?case by (simp add: need_def rd_def)
qed simp

lemma run_bt_print_short:
  "length devices < i + n \<Longrightarrow> i \<le> length devices \<Longrightarrow> run_state (bt_print ba2str devices i n) s =
   (Inl Out_of_bounds, s\<lparr>ulog := ulog s @ map (\<lambda>a. Printf (ln ''%s'') [AStr (ba2str a)]) (drop i devices)\<rparr>)"
proof (induction n arbitrary: i s)
  case (Suc n)
  show ?case
  proof (cases "i = length devices")
    case False
    with Suc.prems have "drop i devices = devices ! i # drop (Suc i) devices"
      by (simp add: Cons_nth_drop_Suc)
    with Suc False show ?thesis by (simp add: need_def rd_def)
  qed (simp add: need_def rd_def)
qed simp

lemma track_bt_print:
  "run_state (bt_print ba2str devices i n) s = (r, s') \<Longrightarrow> uheld s' = uheld s"
proof (induction n arbitrary: i s)
  case (Suc n)
  then show ?case
    by (auto simp: need_def uheld_simps split: option.splits)
qed (auto simp: uheld_def)

lemma bt_tidy:
  "run_state (bt_main ba2str E) s = (Inr r, s') \<Longrightarrow> uheld s = Some st \<Longrightarrow> uheld s' = Some st"
  by (auto simp: bt_main_def uheld_simps split: if_splits prod.splits sum.splits
      dest!: track_bt_print)

interpretation bt_prog: tidy_program "bt_main ba2str" "\<lambda>E. True"
  by unfold_locales (rule bt_tidy)

section \<open>Properties\<close>

text \<open>
  After an inquiry the program prints the address of every device reported, in order, frees the
  list and closes the socket; it faults exactly when more devices were reported than were found.
\<close>

theorem bt_user_prints:
  assumes "run_state (bt_main ba2str E) s = (x, s')" and "ulog s = []" and "U_inquiry dev len m n p \<in> set (ulog s')" and "0 \<le> n"
    and "found = bdaddrs E (take 2 (ulog s'))"
  shows "dev = sys E (take 1 (ulog s')) Hci_get_route \<and> len = 8 \<and> m = 10 \<and> (if length found < nat n then x = Inl Out_of_bounds
    else x = Inr 0 \<and> (\<exists>sock. drop 3 (ulog s') =
      Printf (ln ''Found %d devices:'') [AInt n] # map (\<lambda>a. Printf (ln ''%s'') [AStr (ba2str a)]) (take (nat n) found) @
      [U_free p, U_close sock]))"
proof -
  define c where "c = Socket ''AF_BLUETOOTH SOCK_RAW BTPROTO_HCI''"
  define r where "r = sys E [] c"
  define v where "v = sys E [U_call c r] Hci_get_route"
  define h where "h = [U_call c r, U_call Hci_get_route v]"
  define k where "k = inquiry_ret E h 10"
  define g where "g = h @ [U_inquiry v 8 10 k (new_devices E h), Printf (ln ''Found %d devices:'') [AInt k]]"
  have r: "\<not> r < 0"
    using assms(1-3) by (auto simp: bt_main_def c_def [symmetric] r_def [symmetric])
  have main: "run_state (bt_main ba2str E) s =
    (if k < 0 then (Inr 1, s\<lparr>ulog := h @ [U_inquiry v 8 10 k (new_devices E h), Perror ''Device discovery failed'', U_close r]\<rparr>)
     else case run_state (bt_print ba2str (bdaddrs E h) 0 (nat k)) (s\<lparr>ulog := g\<rparr>) of
        (Inl f, s') \<Rightarrow> (Inl f, s')
      | (Inr _, s') \<Rightarrow> (Inr 0, s'\<lparr>ulog := ulog s' @ [U_free (new_devices E h), U_close r]\<rparr>))"
    using r assms(2)
    by (simp add: bt_main_def c_def [symmetric] r_def [symmetric] v_def [symmetric] h_def [symmetric] MAX_DEVICES_def
        k_def [symmetric] g_def [symmetric] split: prod.split sum.split)
  have pre: "take 2 g = h" "take 1 g = [U_call c r]" "length g = 4" by (simp_all add: g_def h_def)
  note print = run_bt_print run_bt_print_short
  show ?thesis
  proof (cases "length (bdaddrs E h) < nat k")
    case True
    then have "0 \<le> k" by simp
    with True assms(1,3,5) pre show ?thesis
      unfolding main by (auto simp: print) (auto simp: g_def h_def v_def)
  next
    case False
    with assms(1,3-5) pre show ?thesis
      unfolding main by (auto simp: print split: if_splits) (auto simp: g_def h_def v_def)
  qed
qed

theorem bt_user_prints_witness:
  "take 3 (drop 1 (drop 3 (ulog (snd (run_state (bt_main (\<lambda>a. ''x'') lab_system) fresh_process))))) =
     [Printf (ln ''%s'') [AStr ''x''], Printf (ln ''%s'') [AStr ''x''], U_free 0x300]"
proof -
  obtain x s' where run: "run_state (bt_main (\<lambda>a. ''x'') lab_system) fresh_process = (x, s')" by fastforce
  then have log: "U_inquiry 0 8 10 2 0x300 \<in> set (ulog s')"
      "take 2 (ulog s') = [U_call (Socket ''AF_BLUETOOTH SOCK_RAW BTPROTO_HCI'') 4, U_call Hci_get_route 0]"
    by (auto simp: bt_main_def MAX_DEVICES_def lab_system_sel run_bt_print)
  from bt_user_prints [OF run _ log(1) _ refl] log(2) run show ?thesis
    by (auto simp: lab_system_sel numeral_2_eq_2 numeral_3_eq_3 drop_Suc tl_drop)
qed

text \<open>
  C20: the printing loop, with its 32-bit counter, ends for every number of devices an inquiry can
  report, and does what the loop over exactly that many rounds does, none for a negative number.
\<close>

theorem bt_loop_terminates:
  "bt_loop ba2str devices num_devices s = Some (run_state (bt_print ba2str devices 0 (nat (sint num_devices))) s)"
  unfolding bt_loop_def bt_print_upto
  by (rule for_sint_count) (simp add: unsigned_of_nat take_bit_nat_eq_self)

end
