(* ===== verification/Wifi_Scan_User.thy ===== *)
theory Wifi_Scan_User
  imports User_API "HOL-Library.Signed_Division"
begin

text \<open>
  \<open>Wifi-userSpace.c\<close>: trigger a Wi-Fi scan over netlink and print one result. The attribute parser is
  a library: a message is what \<open>nla_parse\<close> and \<open>nla_parse_nested\<close> find in it.
\<close>

section \<open>The message handler\<close>

text \<open>
  The two attributes the handler looks at, if the message has them. The information elements are read as a
  structure with a signed 32-bit strength; an attribute may be too short to hold it (\<open>Some None\<close>).
\<close>

record bss_attrs =
  bss_bssid :: "u8 list option"
  bss_info_signal_mbm :: "u32 option option"

type_synonym scan_msg = "bss_attrs option"

record wifi_scan_result =
  ssid :: cbuf
  signal_strength :: "int option"

definition uninit_result :: wifi_scan_result where
  "uninit_result = \<lparr>ssid = replicate 32 None, signal_strength = None\<rparr>"

text \<open>\<open>snprintf(buf, sizeof buf, "%s", s)\<close>: at most \<open>sizeof buf - 1\<close> characters and a zero byte.\<close>

definition snprintf_s :: "cbuf \<Rightarrow> u8 list \<Rightarrow> cbuf" where
  "snprintf_s buf str = fill buf (take (length buf - 1) str @ [0])"

definition NL_SKIP :: int where "NL_SKIP = 1"

text \<open>
  The second result is the callback's return value. C's division truncates, and the quotient of a 32-bit
  integer by 100 is one.
\<close>

definition handle_wifi_scan :: "scan_msg \<Rightarrow> wifi_scan_result \<Rightarrow> fault + wifi_scan_result \<times> int" where
  "handle_wifi_scan msg result = (case msg of
     None \<Rightarrow> Inr (result, NL_SKIP)
   | Some bss \<Rightarrow> (case (bss_bssid bss, bss_info_signal_mbm bss) of
       (Some bssid, Some bss_info) \<Rightarrow>
         (case bss_info of
            None \<Rightarrow> Inl Out_of_bounds
          | Some signal_mbm \<Rightarrow>
              (if signal_mbm \<noteq> 0 then
                 (case cstr (map Some bssid) of
                    None \<Rightarrow> Inl Out_of_bounds
                  | Some str \<Rightarrow> Inr (result\<lparr>ssid := snprintf_s (ssid result) str,
                      signal_strength := Some (sint signal_mbm sdiv 100)\<rparr>, NL_SKIP))
               else Inr (result, NL_SKIP)))
     | _ \<Rightarrow> Inr (result, NL_SKIP)))"

section \<open>The program\<close>

text \<open>
  \<open>nl_recvmsgs\<close> is given the handler but no argument for it, so nothing the handler does reaches
  \<open>scan_result\<close>. \<open>genl_ctrl_alloc_cache\<close> is given the address of the socket variable as the place to
  store the cache: on success the variable holds the cache from then on.
\<close>

definition scan_print :: "wifi_scan_result \<Rightarrow> kptr \<Rightarrow> kptr \<Rightarrow> (ust, fault + int) state" where
  "scan_print scan_result msg nlsock = do {
     uemit (Printf (ln ''Wi-Fi scan result:'') []);
     show_string (ssid scan_result) (\<lambda>str. do {
       uemit (Printf (ln ''SSID: %s'') [ABytes str]);
       (case signal_strength scan_result of
          None \<Rightarrow> State_Monad.return (Inl Uninitialised)
        | Some dbm \<Rightarrow> do {
            uemit (Printf (ln ''Signal Strength: %d dBm'') [AInt dbm]);
            uemit (U_nlmsg_free msg);
            uemit (U_nl_socket_free nlsock);
            State_Monad.return (Inr 0)
          })
     })
   }"

text \<open>
  The message is given the socket variable where \<open>genlmsg_put\<close> takes the family number, and the
  interface's index as its only attribute.
\<close>

definition scan_request :: "uenv \<Rightarrow> kptr \<Rightarrow> (ust, fault + int) state" where
  "scan_request E nlsock = do {
     msg \<leftarrow> usys_ptr E Nlmsg_alloc;
     if msg = NULL then do {
       uemit (Stderr (ln ''Error: Failed to allocate netlink message''));
       uemit (U_nl_socket_free nlsock);
       State_Monad.return (Inr 1)
     } else do {
       uemit (U_genlmsg_put msg nlsock ''NL80211_CMD_TRIGGER_SCAN'');
       ifindex \<leftarrow> usys E (If_nametoindex ''wlan0'');
       uemit (U_nla_put_u32 msg ''NL80211_ATTR_IFINDEX'' (word_of_int ifindex));
       ret \<leftarrow> usys E (Nl_send_auto_complete nlsock msg);
       if ret < 0 then do {
         uemit (Stderr (ln ''Error: Failed to send netlink message''));
         uemit (U_nlmsg_free msg);
         uemit (U_nl_socket_free nlsock);
         State_Monad.return (Inr 1)
       } else do {
         ret \<leftarrow> usys E (Nl_recvmsgs nlsock);
         if ret < 0 then do {
           uemit (Stderr (ln ''Error: Failed to receive netlink messages''));
           uemit (U_nlmsg_free msg);
           uemit (U_nl_socket_free nlsock);
           State_Monad.return (Inr 1)
         } else scan_print uninit_result msg nlsock
       }
     }
   }"

definition scan_main :: "uenv \<Rightarrow> (ust, fault + int) state" where
  "scan_main E = do {
     nlsock \<leftarrow> usys_ptr E Nl_socket_alloc;
     if nlsock = NULL then do {
       uemit (Stderr (ln ''Error: Failed to allocate netlink socket''));
       State_Monad.return (Inr 1)
     } else do {
       ret \<leftarrow> usys E (Genl_connect nlsock);
       if ret < 0 then do {
         uemit (Stderr (ln ''Error: Failed to connect to generic netlink''));
         uemit (U_nl_socket_free nlsock);
         State_Monad.return (Inr 1)
       } else do {
         cache \<leftarrow> reads (\<lambda>s. new_cache E (ulog s));
         ret \<leftarrow> usys E (Genl_ctrl_alloc_cache nlsock);
         if ret < 0 then do {
           uemit (Stderr (ln ''Error: Failed to allocate generic netlink cache''));
           uemit (U_nl_socket_free nlsock);
           State_Monad.return (Inr 1)
         } else do {
           let nlsock = cache;
           scan_request E nlsock
         }
       }
     }
   }"

section \<open>Properties\<close>

lemma cstr_snprintf:
  "0 < length buf \<Longrightarrow> 0 \<notin> set str \<Longrightarrow> cstr (snprintf_s buf str) = Some (take (length buf - 1) str)"
proof -
  assume "0 < length buf" and str: "0 \<notin> set str"
  then obtain n where "length buf = Suc n" by (auto simp: gr0_conv_Suc)
  then have "snprintf_s buf str = map Some (take (length buf - 1) str) @ Some 0 # drop (Suc (length (take (length buf - 1) str))) buf"
    by (simp add: snprintf_s_def fill_def take_Cons')
  moreover have "0 \<notin> set (take (length buf - 1) str)" using str by (meson in_set_takeD)
  ultimately show ?thesis by (simp add: cstr_nonzero)
qed

lemma length_snprintf: "0 < length buf \<Longrightarrow> length (snprintf_s buf str) = length buf"
  by (auto simp: snprintf_s_def)

lemma sdiv_100: "\<bar>m sdiv 100\<bar> = \<bar>m\<bar> div 100 \<and> 0 \<le> m sdiv 100 * m" for m :: int
proof (cases "m = 0")
  case False
  have "m sdiv 100 * m = (\<bar>m\<bar> div 100) * (m * sgn m)"
    by (simp add: signed_divide_int_def algebra_simps)
  then have "0 \<le> m sdiv 100 * m"
    by (simp add: mult.commute [of _ "sgn m"] abs_sgn [symmetric] pos_imp_zdiv_nonneg_iff sgn_mult_self_eq)
  with False show ?thesis by (simp add: signed_divide_int_def abs_mult)
qed simp

text \<open>
  C36: for a message with both attributes and a non-zero strength the handler stores a terminated name
  of at most 31 bytes, the attribute's bytes up to the first zero, and the strength in dBm rounded
  towards zero; an attribute without a zero byte is read past its end, and so is one too short for the strength.
\<close>

theorem scan_stores:
  assumes "length (ssid result) = 32" and "mbm \<noteq> 0"
    and msg: "msg = Some \<lparr>bss_bssid = Some bssid, bss_info_signal_mbm = Some (Some mbm)\<rparr>"
    and short: "msg' = Some \<lparr>bss_bssid = Some bssid, bss_info_signal_mbm = Some None\<rparr>"
  shows "(if 0 \<in> set bssid
    then \<exists>res dbm. handle_wifi_scan msg result = Inr (res, 1) \<and> length (ssid res) = 32 \<and>
      cstr (ssid res) = Some (take 31 (takeWhile (\<lambda>b. b \<noteq> 0) bssid)) \<and> signal_strength res = Some dbm \<and>
      \<bar>dbm\<bar> = \<bar>sint mbm\<bar> div 100 \<and> 0 \<le> dbm * sint mbm
    else handle_wifi_scan msg result = Inl Out_of_bounds) \<and>
    handle_wifi_scan msg' result = Inl Out_of_bounds"
proof (cases "0 \<in> set bssid")
  case True
  have "cstr (map Some bssid) = Some (takeWhile (\<lambda>b. b \<noteq> 0) bssid)"
    using cstr_zero_in [OF True, of "[]"] by simp
  moreover have "0 \<notin> set (takeWhile (\<lambda>b. b \<noteq> 0) bssid)" by (metis set_takeWhileD)
  ultimately show ?thesis
    using True assms sdiv_100 [of "sint mbm"] by (simp add: handle_wifi_scan_def cstr_snprintf length_snprintf NL_SKIP_def)
next
  case False
  then have "cstr (map Some bssid) = None" by (auto intro: cstr_None_no_zero)
  with False assms show ?thesis by (simp add: handle_wifi_scan_def)
qed

theorem scan_stores_witness:
  "\<exists>res. handle_wifi_scan (Some \<lparr>bss_bssid = Some [65, 66, 0], bss_info_signal_mbm = Some (Some (- 6550))\<rparr>) uninit_result = Inr (res, 1) \<and>
     cstr (ssid res) = Some [65, 66] \<and> signal_strength res = Some (- 65)"
proof -
  have "length (ssid uninit_result) = 32" by (simp add: uninit_result_def)
  from scan_stores [OF this _ refl refl, of "- 6550" "[65, 66, 0]"] obtain res dbm where
    "handle_wifi_scan (Some \<lparr>bss_bssid = Some [65, 66, 0], bss_info_signal_mbm = Some (Some (- 6550))\<rparr>) uninit_result = Inr (res, 1)"
    "cstr (ssid res) = Some [65, 66]" "signal_strength res = Some dbm" "\<bar>dbm\<bar> = 65" "0 \<le> dbm * (- 6550)"
    by auto
  moreover from this have "dbm = - 65" by auto
  ultimately show ?thesis by blast
qed

lemma scan_request_never:
  "run_state (scan_request E sock) s = (x, s') \<Longrightarrow> x = Inr 1 \<or> x = Inl Out_of_bounds"
  by (auto simp: scan_request_def scan_print_def show_string_def uninit_result_def cstr_None_no_zero split: if_splits)

lemma scan_request_misuse:
  "run_state (scan_request E sock) s = (x, s') \<Longrightarrow> uheld s = Some [Nl_sock p] \<Longrightarrow> sock \<noteq> p \<Longrightarrow> uheld s' = None"
  by (auto simp: scan_request_def scan_print_def show_string_def uninit_result_def cstr_None_no_zero uheld_simps split: if_splits)

lemma scan_request_calls:
  "run_state (scan_request E sock) s = (x, s') \<Longrightarrow> \<exists>es. ulog s' = ulog s @ es"
  by (auto simp: scan_request_def scan_print_def show_string_def uninit_result_def cstr_None_no_zero split: if_splits)

text \<open>
  C35: the program never reports success. The cache overwrites the socket variable, so from then
  on it uses and frees a pointer that is no socket; and as the handler gets no argument, what it would print
  was never written. Failures before that point are reported with everything released.
\<close>

theorem scan_never_succeeds:
  assumes "run_state (scan_main E) s = (x, s')" and "ulog s = []"
    and p: "p = sys_ptr E [] Nl_socket_alloc" and "new_cache E (take 2 (ulog s')) \<noteq> p"
  shows "(x = Inr 1 \<or> x = Inl Out_of_bounds) \<and>
    (if 0 \<le> sys E (take 2 (ulog s')) (Genl_ctrl_alloc_cache p) \<and> p \<noteq> NULL \<and> 0 \<le> sys E (take 1 (ulog s')) (Genl_connect p)
     then uheld s' = None else x = Inr 1 \<and> uheld s' = Some [])"
proof -
  define c where "c = Genl_connect p"
  define h where "h = [U_ptr Nl_socket_alloc p, U_call c (sys E [U_ptr Nl_socket_alloc p] c)]"
  define a where "a = Genl_ctrl_alloc_cache p"
  show ?thesis
  proof (cases "p \<noteq> NULL \<and> 0 \<le> sys E [U_ptr Nl_socket_alloc p] c \<and> 0 \<le> sys E h a")
    case True
    then have run: "run_state (scan_request E (new_cache E h)) (s\<lparr>ulog := h @ [U_call a (sys E h a)]\<rparr>) = (x, s')"
      using assms(1,2) by (simp add: scan_main_def p [symmetric] c_def h_def a_def not_less Let_def)
    then obtain es where log: "ulog s' = h @ U_call a (sys E h a) # es"
      using scan_request_calls [OF run] by auto
    have "uheld (s\<lparr>ulog := h @ [U_call a (sys E h a)]\<rparr>) = Some [Nl_sock p]"
      using True by (simp add: h_def a_def c_def uheld_simps)
    from scan_request_misuse [OF run this] scan_request_never [OF run] True assms(4) log
    show ?thesis by (simp add: h_def a_def c_def)
  next
    case False
    with assms show ?thesis
      by (auto simp: scan_main_def c_def h_def a_def uheld_simps not_le split: if_splits)
  qed
qed

theorem scan_never_succeeds_witness:
  "uheld (snd (run_state (scan_main lab_system) fresh_process)) = None"
proof -
  obtain x s' where run: "run_state (scan_main lab_system) fresh_process = (x, s')" by fastforce
  from scan_never_succeeds [OF run _ refl] run show ?thesis by (simp add: lab_system_sel)
qed

end
