(* ===== verification/Buffer_Stores.thy ===== *)
theory Buffer_Stores
  imports Bytes
begin

text \<open>
  Stores through header pointers, as the packet builders make them one after the other: a struct
  member lies at a fixed index of the buffer, a 16- or 32-bit member takes its bytes in memory
  order, and a bit-field member changes its bits of the byte and keeps the others. The lemmas reduce a
  store inside a region of the buffer to a store on the region alone.
\<close>

type_synonym buffer = "u8 list"

definition store_bytes :: "nat \<Rightarrow> u8 list \<Rightarrow> buffer \<Rightarrow> buffer" where
  "store_bytes i bs m = splice m i bs"

definition store8 :: "nat \<Rightarrow> u8 \<Rightarrow> buffer \<Rightarrow> buffer" where
  "store8 i w m = m[i := w]"

definition store16 :: "nat \<Rightarrow> u16 \<Rightarrow> buffer \<Rightarrow> buffer" where
  "store16 i w m = store_bytes i (le16 w) m"

definition store32 :: "nat \<Rightarrow> u32 \<Rightarrow> buffer \<Rightarrow> buffer" where
  "store32 i w m = store_bytes i (le32 w) m"

text \<open>The bit-field of \<open>n\<close> bits that starts at bit \<open>lo\<close> of a byte.\<close>

definition set_bits :: "nat \<Rightarrow> nat \<Rightarrow> u8 \<Rightarrow> u8 \<Rightarrow> u8" where
  "set_bits lo n v b = (b AND NOT (push_bit lo (mask n))) OR push_bit lo (take_bit n v)"

definition store_bits :: "nat \<Rightarrow> nat \<Rightarrow> nat \<Rightarrow> u8 \<Rightarrow> buffer \<Rightarrow> buffer" where
  "store_bits i lo n v m = m[i := set_bits lo n v (m ! i)]"

lemmas store_defs = store_bytes_def store8_def store16_def store32_def store_bits_def

section \<open>Lengths\<close>

lemma length_store8 [simp]: "length (store8 i w m) = length m"
  by (simp add: store8_def)

lemma length_store_bytes [simp]: "i + length bs \<le> length m \<Longrightarrow> length (store_bytes i bs m) = length m"
  by (simp add: store_bytes_def)

lemma length_store16 [simp]: "i + 2 \<le> length m \<Longrightarrow> length (store16 i w m) = length m"
  by (simp add: store16_def)

lemma length_store32 [simp]: "i + 4 \<le> length m \<Longrightarrow> length (store32 i w m) = length m"
  by (simp add: store32_def)

lemma length_store_bits [simp]: "length (store_bits i lo n v m) = length m"
  by (simp add: store_bits_def)

section \<open>Stores inside a region\<close>

text \<open>
  \<open>pre @ r @ post\<close> is a buffer with a region \<open>r\<close> at index \<open>length pre\<close>: a store into the region
  leaves the rest alone.
\<close>

lemma splice_region: "length pre \<le> i \<Longrightarrow> i - length pre + length bs \<le> length r \<Longrightarrow>
    splice (pre @ r @ post) i bs = pre @ splice r (i - length pre) bs @ post"
  by (simp add: splice_def)

lemma store_bytes_region: "length pre \<le> i \<Longrightarrow> i - length pre + length bs \<le> length r \<Longrightarrow>
    store_bytes i bs (pre @ r @ post) = pre @ store_bytes (i - length pre) bs r @ post"
  by (simp add: store_bytes_def splice_region)

lemma store8_region: "length pre \<le> i \<Longrightarrow> i - length pre < length r \<Longrightarrow>
    store8 i w (pre @ r @ post) = pre @ store8 (i - length pre) w r @ post"
  by (simp add: store8_def list_update_append)

lemma store16_region: "length pre \<le> i \<Longrightarrow> i - length pre + 2 \<le> length r \<Longrightarrow>
    store16 i w (pre @ r @ post) = pre @ store16 (i - length pre) w r @ post"
  by (simp add: store16_def store_bytes_region)

lemma store32_region: "length pre \<le> i \<Longrightarrow> i - length pre + 4 \<le> length r \<Longrightarrow>
    store32 i w (pre @ r @ post) = pre @ store32 (i - length pre) w r @ post"
  by (simp add: store32_def store_bytes_region)

lemma store_bits_region: "length pre \<le> i \<Longrightarrow> i - length pre < length r \<Longrightarrow>
    store_bits i lo n v (pre @ r @ post) = pre @ store_bits (i - length pre) lo n v r @ post"
  by (simp add: store_bits_def list_update_append nth_append)

lemma field_region: "i = length pre \<Longrightarrow> n = length r \<Longrightarrow> field (pre @ r @ post) i n = r"
  by (simp add: field_def)

lemmas store_region = store_bytes_region store8_region store16_region store32_region store_bits_region

text \<open>A header region byte by byte.\<close>

lemma list20E:
  assumes "length xs = 20"
  obtains a b c d e f g h i j k l m n a' b' c' d' e' f' where "xs = [a,b,c,d,e,f,g,h,i,j,k,l,m,n,a',b',c',d',e',f']"
  using assms by (auto simp: length_Suc_conv numeral_eq_Suc)

section \<open>Bit-fields\<close>

lemma bit_set_bits: "k < 8 \<Longrightarrow> bit (set_bits lo n v b) k \<longleftrightarrow> (if lo \<le> k \<and> k < lo + n then bit v (k - lo) else bit b k)"
  by (auto simp: set_bits_def bit_simps)

lemma all_lt8: "(\<forall>k < (8::nat). P k) \<longleftrightarrow> P 0 \<and> P 1 \<and> P 2 \<and> P 3 \<and> P 4 \<and> P 5 \<and> P 6 \<and> P 7"
  by (simp add: numeral_eq_Suc All_less_Suc conj_assoc) (simp add: conj_ac)

lemma u8_eqI: "\<forall>k < 8. bit v k \<longleftrightarrow> bit w k \<Longrightarrow> v = (w :: u8)"
  by (rule bit_word_eqI) simp

lemma set_bits_version: "set_bits 0 4 5 (set_bits 4 4 4 b) = 0x45"
  by (rule u8_eqI) (simp add: all_lt8 bit_set_bits)

lemma set_bits_doff: "set_bits 4 4 5 b = 0x50 OR (b AND 0x0F)"
  by (rule u8_eqI) (simp add: all_lt8 bit_set_bits bit_or_iff bit_and_iff)

lemma set_bits_flags:
  "set_bits 7 1 0 (set_bits 6 1 0 (set_bits 5 1 0 (set_bits 4 1 0
    (set_bits 3 1 0 (set_bits 2 1 0 (set_bits 1 1 0 (set_bits 0 1 0 b))))))) = 0"
  by (rule u8_eqI) (simp add: all_lt8 bit_set_bits)

section \<open>The IPv4 header\<close>

text \<open>The stores both packet builders make into a region of 20 bytes, and the header they leave.\<close>

definition ipv4_bytes :: "u16 \<Rightarrow> u8 \<Rightarrow> u16 \<Rightarrow> u32 \<Rightarrow> u32 \<Rightarrow> u8 list" where
  "ipv4_bytes len proto check s d =
     [0x45, 0] @ le16 len @ le16 0 @ le16 0 @ [64, proto] @ le16 check @ le32 s @ le32 d"

lemma length_ipv4_bytes [simp]: "length (ipv4_bytes len proto check s d) = 20"
  by (simp add: ipv4_bytes_def)

lemma ipv4_stores:
  assumes "length r = 20"
  shows "store16 10 0 (store32 16 d (store32 12 s (store8 9 proto (store8 8 64 (store16 6 0 (store16 4 0 (store16 2 len
     (store8 1 0 (store_bits 0 0 4 5 (store_bits 0 4 4 4 r)))))))))) = ipv4_bytes len proto 0 s d"
proof -
  obtain a b c d' e f g h i j k l m n a' b' c' d'' e' f' where r: "r = [a,b,c,d',e,f,g,h,i,j,k,l,m,n,a',b',c',d'',e',f']"
    using list20E [OF assms] .
  show ?thesis unfolding r by (simp add: ipv4_bytes_def store_defs splice_def le16_def le32_def set_bits_version)
qed

lemma ipv4_check_store: "store16 10 c (ipv4_bytes len proto c0 s d) = ipv4_bytes len proto c s d"
  by (simp add: ipv4_bytes_def store_defs splice_def le16_def le32_def)

end
