(* ===== verification/Net_Spi.thy ===== *)
theory Net_Spi
  imports Net_Layout Buffer_Stores Module_Lifecycle
begin

text \<open>
  \<open>netSpi.c\<close>: a network driver that, for each packet handed to it, reads a temperature over SPI and
  transmits it in a TCP packet of its own.
\<close>

section \<open>Open and close\<close>

record net_spi_state = kst +
  net_my_spi_dev :: kptr

text \<open>The static variables as the file initialises them.\<close>

definition net_spi_zero :: net_spi_state where
  "net_spi_zero = \<lparr>klog = [], net_my_spi_dev = NULL\<rparr>"

definition net_spi_DATA_SIZE :: nat where "net_spi_DATA_SIZE = 16"
definition PACKET_SIZE :: nat where "PACKET_SIZE = 100"

abbreviation net_spi_dev :: obj where "net_spi_dev \<equiv> Addr_of ''my_netdev''"

definition net_spi_open :: "kenv \<Rightarrow> (net_spi_state, int) state" where
  "net_spi_open E = do {
     sp \<leftarrow> kptr_call E Spi_bus_find_device;
     upd (net_my_spi_dev_update (\<lambda>_. sp));
     if sp = NULL then do {
       kvoid (Dev_err net_spi_dev (ln ''Failed to find SPI device''));
       State_Monad.return (- EOPNOTSUPP)
     } else State_Monad.return 0
   }"

definition net_spi_close :: "kenv \<Rightarrow> (net_spi_state, int) state" where
  "net_spi_close E = do {
     sp \<leftarrow> reads net_my_spi_dev;
     (if sp \<noteq> NULL then kvoid (Spi_unregister_device sp) else State_Monad.return ());
     State_Monad.return 0
   }"

section \<open>The packet\<close>

text \<open>
  The functions the file calls but nobody defines, the text of the source address (the file breaks
  off inside the literal), and the bytes the memory of a fresh socket buffer happens to hold.
\<close>

record net_lib =
  in_checksum :: "u8 list \<Rightarrow> u16"
  tcp_v4_check :: "u8 list \<Rightarrow> u8 list \<Rightarrow> u8 list \<Rightarrow> nat \<Rightarrow> u16"
  inet_addr :: "string \<Rightarrow> u32"
  saddr_text :: string
  fresh_skb :: "kptr \<Rightarrow> nat \<Rightarrow> u8"

definition eth_header :: "u8 list \<Rightarrow> u8 list" where
  "eth_header dev_addr = replicate 6 0xFF @ dev_addr @ le16 (htons ETH_P_IP)"

text \<open>
  \<open>tot_len\<close> is stored without \<open>htons\<close>. \<open>version\<close> is the high half of the first byte, \<open>ihl\<close> the low.
\<close>

definition ip_header :: "net_lib \<Rightarrow> u16 \<Rightarrow> u8 list" where
  "ip_header L check =
     [0x45, 0] @ le16 (word_of_nat (IPHDR + TCPHDR + 4)) @ le16 0 @ le16 0 @ [64, IPPROTO_TCP] @ le16 check @
     le32 (inet_addr L (saddr_text L)) @ le32 (inet_addr L ''10.0.0.2'')"

definition ip_header_checked :: "net_lib \<Rightarrow> u8 list" where
  "ip_header_checked L = ip_header L (in_checksum L (ip_header L 0))"

text \<open>
  The reserved bits (low half of byte 12) and the urgent pointer are never written: they keep what
  the fresh memory holds there. \<open>doff\<close> is 5 and the flags are all zero.
\<close>

definition tcp_header :: "(nat \<Rightarrow> u8) \<Rightarrow> u16 \<Rightarrow> u8 list" where
  "tcp_header old check =
     le16 (htons 1234) @ le16 (htons 5678) @ le32 0 @ le32 0 @
     [push_bit 4 (word_of_nat (TCPHDR div 4)) OR (old 12 AND 0x0F), 0] @ le16 (htons 4096) @ le16 check @
     [old 18, old 19]"

text \<open>The whole packet; \<open>payload\<close> is the four bytes of the integer \<open>temperature\<close>.\<close>

definition net_spi_packet :: "net_lib \<Rightarrow> u8 list \<Rightarrow> kptr \<Rightarrow> u32 \<Rightarrow> u8 list" where
  "net_spi_packet L dev_addr skb temperature =
     (let eth = eth_header dev_addr;
          ip = ip_header_checked L;
          old = (\<lambda>i. fresh_skb L skb (ETHHDR + IPHDR + i));
          tcp0 = tcp_header old 0;
          payload = le32 temperature;
          total = length eth + length ip + length tcp0 + length payload
      in eth @ ip @ tcp_header old (tcp_v4_check L ip tcp0 payload total) @ payload)"

subsection \<open>The packet as the code builds it\<close>

text \<open>
  The code fills the fresh buffer member by member, and computes each checksum over the bytes the
  buffer holds at that point. The Ethernet header lies at index 0, the IP header at 14, the TCP
  header at 34 and the payload at 54; the queued packet is what the four \<open>put_skb\<close> calls covered.
\<close>

definition build_eth :: "u8 list \<Rightarrow> buffer \<Rightarrow> buffer" where
  "build_eth dev_addr m =
     (let m = store_bytes H_DEST (replicate ETH_ALEN 0xFF) m;
          m = store_bytes H_SOURCE (take ETH_ALEN dev_addr) m
      in store16 12 (htons ETH_P_IP) m)"

definition build_ip :: "net_lib \<Rightarrow> buffer \<Rightarrow> buffer" where
  "build_ip L m =
     (let m = store_bits ETHHDR 4 4 4 m;
          m = store_bits ETHHDR 0 4 5 m;
          m = store8 (ETHHDR + 1) 0 m;
          m = store16 (ETHHDR + 2) (word_of_nat (IPHDR + TCPHDR + 4)) m;
          m = store16 (ETHHDR + 4) 0 m;
          m = store16 (ETHHDR + 6) 0 m;
          m = store8 IP_TTL 64 m;
          m = store8 IP_PROTOCOL IPPROTO_TCP m;
          m = store32 IP_SADDR (inet_addr L (saddr_text L)) m;
          m = store32 IP_DADDR (inet_addr L ''10.0.0.2'') m;
          m = store16 (ETHHDR + 10) 0 m
      in store16 (ETHHDR + 10) (in_checksum L (field m ETHHDR IPHDR)) m)"

abbreviation TCP_AT :: nat where "TCP_AT \<equiv> ETHHDR + IPHDR"

definition build_tcp :: "buffer \<Rightarrow> buffer" where
  "build_tcp m =
     (let m = store16 TCP_AT (htons 1234) m;
          m = store16 (TCP_AT + 2) (htons 5678) m;
          m = store32 (TCP_AT + 4) 0 m;
          m = store32 (TCP_AT + 8) 0 m;
          m = store_bits (TCP_AT + 12) 4 4 (word_of_nat (TCPHDR div 4)) m;
          m = store_bits (TCP_AT + 13) 0 1 0 m;
          m = store_bits (TCP_AT + 13) 1 1 0 m;
          m = store_bits (TCP_AT + 13) 2 1 0 m;
          m = store_bits (TCP_AT + 13) 3 1 0 m;
          m = store_bits (TCP_AT + 13) 4 1 0 m;
          m = store_bits (TCP_AT + 13) 5 1 0 m;
          m = store_bits (TCP_AT + 13) 6 1 0 m;
          m = store_bits (TCP_AT + 13) 7 1 0 m;
          m = store16 (TCP_AT + 14) (htons 4096) m
      in store16 (TCP_AT + 16) 0 m)"

abbreviation PAYLOAD_AT :: nat where "PAYLOAD_AT \<equiv> TCP_AT + TCPHDR"

definition build_tcp_check :: "net_lib \<Rightarrow> buffer \<Rightarrow> buffer" where
  "build_tcp_check L m =
     store16 (TCP_AT + 16) (tcp_v4_check L (field m ETHHDR IPHDR) (field m TCP_AT TCPHDR) (field m PAYLOAD_AT 4) (PAYLOAD_AT + 4)) m"

definition net_spi_build :: "net_lib \<Rightarrow> u8 list \<Rightarrow> kptr \<Rightarrow> u32 \<Rightarrow> u8 list" where
  "net_spi_build L dev_addr skb temperature =
     (let m = map (fresh_skb L skb) [0..<PACKET_SIZE];
          m = build_eth dev_addr m;
          m = build_ip L m;
          m = build_tcp m;
          m = store32 PAYLOAD_AT temperature m;
          m = build_tcp_check L m
      in take (PAYLOAD_AT + 4) m)"

text \<open>\<open>skb\<close> is the packet the stack hands over for transmission; the function never uses it.\<close>

definition net_spi_rx :: "kenv \<Rightarrow> net_lib \<Rightarrow> u8 list \<Rightarrow> kptr \<Rightarrow> (net_spi_state, fault + int) state" where
  "net_spi_rx E L dev_addr skb = do {
     spi_data \<leftarrow> kptr_call E (Spi_transfer (uninit_ptr E) net_spi_DATA_SIZE);
     if spi_data = NULL then do {
       kvoid (Dev_err net_spi_dev (ln ''Failed to receive data from SPI device''));
       State_Monad.return (Inr NET_RX_DROP)
     } else do {
       data \<leftarrow> reads (\<lambda>s. spi_rx E (klog s) spi_data);
       need (rd_field data 0 4) (\<lambda>bs. do {
         let temperature = of_le32 bs;
         new_skb \<leftarrow> kptr_call E (Dev_alloc_skb PACKET_SIZE);
         if new_skb = NULL then do {
           kvoid (Kfree spi_data);
           kvoid (Dev_err net_spi_dev (ln ''Failed to allocate skb''));
           State_Monad.return (Inr NET_RX_DROP)
         } else do {
           _ \<leftarrow> kint E (Dev_queue_xmit new_skb (net_spi_build L dev_addr new_skb temperature));
           kvoid (Kfree spi_data);
           State_Monad.return (Inr NET_RX_SUCCESS)
         }
       })
     }
   }"

section \<open>Registration\<close>

text \<open>The device; its name and the offload feature are names the file does not define, and parameters.\<close>

definition net_spi_netdev :: "string \<Rightarrow> u64 \<Rightarrow> net_device" where
  "net_spi_netdev MY_NETDEV_NAME NETIF_FEATURES_CSUM_OFFLOAD =
     \<lparr>nd_name = MY_NETDEV_NAME, nd_mtu = 1500, nd_type = ARPHRD_ETHER, nd_addr_len = ETH_ALEN,
      nd_features = NETIF_FEATURES_CSUM_OFFLOAD\<rparr>"

datatype net_spi_call = Ndo_open | Ndo_stop | Ndo_start_xmit kptr

definition net_spi_ops :: "kenv \<Rightarrow> net_lib \<Rightarrow> u8 list \<Rightarrow> net_spi_call \<Rightarrow> (net_spi_state, fault + int) state" where
  "net_spi_ops E L dev_addr c = (case c of
     Ndo_open \<Rightarrow> returns (net_spi_open E)
   | Ndo_stop \<Rightarrow> returns (net_spi_close E)
   | Ndo_start_xmit skb \<Rightarrow> net_spi_rx E L dev_addr skb)"

definition net_spi_init :: "kenv \<Rightarrow> (net_spi_state, int) state" where
  "net_spi_init E = do {
     ret \<leftarrow> kint E (Register_netdev net_spi_dev);
     if ret < 0 then do {
       kvoid (Printk KERN_ERR (ln ''Failed to register netdev: %d'') [PInt ret]);
       State_Monad.return ret
     } else State_Monad.return 0
   }"

definition net_spi_exit :: "kenv \<Rightarrow> (net_spi_state, unit) state" where
  "net_spi_exit E = kvoid (Unregister_netdev net_spi_dev)"

lemmas net_spi_prog [prog] = net_spi_open_def net_spi_close_def net_spi_rx_def net_spi_ops_def
  net_spi_init_def net_spi_exit_def

definition net_spi_callback :: "net_lib \<Rightarrow> u8 list \<Rightarrow> kenv \<Rightarrow> net_spi_call \<Rightarrow> (net_spi_state, fault option) state" where
  "net_spi_callback L dev_addr E c = do {
     r \<leftarrow> net_spi_ops E L dev_addr c;
     State_Monad.return (case r of Inl f \<Rightarrow> Some f | Inr _ \<Rightarrow> None)
   }"

definition net_spi_holds :: "net_spi_state \<Rightarrow> resource list" where
  "net_spi_holds s = [Registered net_spi_dev]"

text \<open>A SPI transfer delivers the bytes that were asked for.\<close>

definition spi_rx_full :: "kenv \<Rightarrow> bool" where
  "spi_rx_full E \<longleftrightarrow> (\<forall>h p. length (spi_rx E h p) = net_spi_DATA_SIZE)"

lemma net_spi_init_law:
  "run_state (net_spi_init E) s = (r, s') \<Longrightarrow> held E s = Some st \<Longrightarrow>
   held E s' = Some (if r < 0 then st else net_spi_holds s' @ st)"
  by (auto simp: prog net_spi_holds_def held_simps split: if_splits)

lemma net_spi_call_law:
  "spi_rx_full E \<Longrightarrow> run_state (net_spi_callback L dev_addr E c) s = (f, s') \<Longrightarrow>
   held E s = Some (net_spi_holds s @ st) \<Longrightarrow> f = None \<and> held E s' = Some (net_spi_holds s' @ st)"
  by (cases c) (auto simp: net_spi_callback_def prog net_spi_holds_def held_simps Let_def rd_simps
      spi_rx_full_def net_spi_DATA_SIZE_def split: if_splits)

lemma net_spi_exit_law:
  "run_state (net_spi_exit E) s = (u, s') \<Longrightarrow> held E s = Some (net_spi_holds s @ st) \<Longrightarrow> held E s' = Some st"
  by (auto simp: prog net_spi_holds_def held_simps)

definition net_spi_about :: module_about where
  "net_spi_about = \<lparr>MODULE_LICENSE = ''GPL'', MODULE_AUTHOR = Some ''Your Name'',
     MODULE_DESCRIPTION = Some ''Network driver with SPI data transfer'', MODULE_VERSION = None\<rparr>"

definition net_spi_module :: "net_spi_state kernel_module" where
  "net_spi_module = \<lparr>module_data = net_spi_zero, module_init = (\<lambda>E. returns (net_spi_init E)), module_exit = net_spi_exit, about = net_spi_about\<rparr>"

interpretation net_spi: kmodule "\<lambda>E. returns (net_spi_init E)" net_spi_exit "net_spi_callback L dev_addr"
    net_spi_holds spi_rx_full
  by (intro kmodule_returns) (rule net_spi_init_law net_spi_call_law net_spi_exit_law, assumption+)+

section \<open>Properties\<close>

lemmas net_spi_packet_simps = net_spi_packet_def eth_header_def ip_header_checked_def ip_header_def tcp_header_def
  net_layout Let_def field_def

lemma replicate6: "replicate 6 x = [x, x, x, x, x, x]"
  by (simp add: numeral_eq_Suc)

lemma le16_shape: "\<exists>a b. le16 w = [a, b] \<and> of_be16 [b, a] = w"
proof -
  have "of_be16 (rev (le16 w)) = w" by (simp add: of_be16_def)
  then show ?thesis by (simp add: le16_def)
qed

lemma le32_shape: "\<exists>a b c d. le32 w = [a, b, c, d] \<and> of_le32 [a, b, c, d] = w"
  using of_le32_le32 [of w] by (simp add: le32_def del: of_le32.simps of_le32_le32)

text \<open>The packet as a list of bytes, its variable parts named.\<close>

lemma net_spi_packet_bytes:
  assumes "length dev_addr = 6"
  obtains m0 m1 m2 m3 m4 m5 c0 c1 s0 s1 s2 s3 d0 d1 d2 d3 k0 k1 t0 t1 t2 t3 where
    "dev_addr = [m0, m1, m2, m3, m4, m5]" and
    "net_spi_packet L dev_addr skb temperature =
      [0xFF, 0xFF, 0xFF, 0xFF, 0xFF, 0xFF, m0, m1, m2, m3, m4, m5, 0x08, 0x00,
       0x45, 0, 44, 0, 0, 0, 0, 0, 64, 6, c0, c1, s0, s1, s2, s3, d0, d1, d2, d3,
       0x04, 0xD2, 0x16, 0x2E, 0, 0, 0, 0, 0, 0, 0, 0,
       0x50 OR (fresh_skb L skb 46 AND 0x0F), 0, 0x10, 0, k0, k1, fresh_skb L skb 52, fresh_skb L skb 53,
       t0, t1, t2, t3]" and
    "le16 (in_checksum L (ip_header L 0)) = [c0, c1]" and "of_le32 [t0, t1, t2, t3] = temperature"
proof -
  obtain m0 m1 m2 m3 m4 m5 where m: "dev_addr = [m0, m1, m2, m3, m4, m5]"
    using assms by (auto simp: length_Suc_conv eval_nat_numeral)
  define cs where "cs = in_checksum L (ip_header L 0)"
  obtain c0 c1 where c: "le16 cs = [c0, c1]" using le16_shape by metis
  obtain s0 s1 s2 s3 where s: "le32 (inet_addr L (saddr_text L)) = [s0, s1, s2, s3]" using le32_shape by metis
  obtain d0 d1 d2 d3 where d: "le32 (inet_addr L ''10.0.0.2'') = [d0, d1, d2, d3]" using le32_shape by metis
  obtain t0 t1 t2 t3 where t: "le32 temperature = [t0, t1, t2, t3]" "of_le32 [t0, t1, t2, t3] = temperature"
    using le32_shape by metis
  have lits: "le16 (htons 0x0800) = [0x08, 0x00]" "le16 (htons 1234) = [0x04, 0xD2]" "le16 (htons 5678) = [0x16, 0x2E]"
    "le16 (htons 4096) = [0x10, 0]"
    unfolding le16_htons by (simp_all add: le16_def)
  have lits2: "le16 44 = [44, 0]" "le16 0 = [0, 0]" "le32 0 = [0, 0, 0, 0]" "push_bit 4 5 = (0x50 :: u8)"
    by (simp_all add: le16_def le32_def)
  define tc where "tc = tcp_v4_check L (ip_header_checked L) (tcp_header (\<lambda>i. fresh_skb L skb (34 + i)) 0) [t0, t1, t2, t3] 58"
  obtain k0 k1 where k: "le16 tc = [k0, k1]" using le16_shape by metis
  have "net_spi_packet L dev_addr skb temperature =
    eth_header dev_addr @ ip_header_checked L @ tcp_header (\<lambda>i. fresh_skb L skb (34 + i)) tc @ [t0, t1, t2, t3]"
    by (simp add: net_spi_packet_def Let_def t(1) tc_def net_layout)
      (simp add: eth_header_def ip_header_checked_def ip_header_def tcp_header_def assms)
  also have "\<dots> = [0xFF, 0xFF, 0xFF, 0xFF, 0xFF, 0xFF, m0, m1, m2, m3, m4, m5, 0x08, 0x00,
       0x45, 0, 44, 0, 0, 0, 0, 0, 64, 6, c0, c1, s0, s1, s2, s3, d0, d1, d2, d3,
       0x04, 0xD2, 0x16, 0x2E, 0, 0, 0, 0, 0, 0, 0, 0,
       0x50 OR (fresh_skb L skb 46 AND 0x0F), 0, 0x10, 0, k0, k1, fresh_skb L skb 52, fresh_skb L skb 53,
       t0, t1, t2, t3]"
    unfolding eth_header_def ip_header_checked_def cs_def [symmetric]
    by (simp add: ip_header_def tcp_header_def s d m k lits lits2 net_layout c replicate6)
  finally show thesis by (rule that [OF m _ c [unfolded cs_def] t(2)])
qed

lemma build_eth_region:
  assumes "length r = 14" and "length dev_addr = 6"
  shows "build_eth dev_addr (r @ post) = eth_header dev_addr @ post"
  using assms by (simp add: build_eth_def eth_header_def store_defs splice_def net_layout)

lemma ip_header_ipv4: "ip_header L check = ipv4_bytes 44 6 check (inet_addr L (saddr_text L)) (inet_addr L ''10.0.0.2'')"
  by (simp add: ip_header_def ipv4_bytes_def net_layout)

lemma build_ip_region:
  assumes "length pre = 14" and "length r = 20"
  shows "build_ip L (pre @ r @ post) = pre @ ip_header_checked L @ post"
  unfolding build_ip_def Let_def ip_header_checked_def ip_header_ipv4
  using assms by (simp add: store_region field_region net_layout ipv4_stores [unfolded One_nat_def] ipv4_check_store del: append_assoc)

lemma tcp_header_length [simp]: "length (tcp_header old check) = 20"
  by (simp add: tcp_header_def)

lemma tcp_check_store: "store16 16 c (tcp_header old c0) = tcp_header old c"
  by (simp add: tcp_header_def store_defs splice_def le16_def le32_def)

lemma tcp_stores:
  assumes "length r = 20" and "m = store16 2 (htons 5678) (store16 0 (htons 1234) r)"
    and "m' = store_bits 12 4 4 5 (store32 8 0 (store32 4 0 m))"
    and "m'' = store_bits 13 7 1 0 (store_bits 13 6 1 0 (store_bits 13 5 1 0 (store_bits 13 4 1 0
      (store_bits 13 3 1 0 (store_bits 13 2 1 0 (store_bits 13 1 1 0 (store_bits 13 0 1 0 m')))))))"
  shows "store16 16 0 (store16 14 (htons 4096) m'') = tcp_header ((!) r) 0"
proof -
  obtain a b c d' e f g h i j k l m n a' b' c' d'' e' f' where r: "r = [a,b,c,d',e,f,g,h,i,j,k,l,m,n,a',b',c',d'',e',f']"
    using list20E [OF assms(1)] .
  show ?thesis unfolding assms(2-) r
    by (simp add: tcp_header_def store_defs splice_def le16_def le32_def set_bits_doff set_bits_flags [unfolded One_nat_def] TCPHDR_def)
qed

lemma build_tcp_region:
  assumes "length pre = 34" and "length r = 20"
  shows "build_tcp (pre @ r @ post) = pre @ tcp_header ((!) r) 0 @ post"
  unfolding build_tcp_def Let_def
  using assms by (simp add: store_region field_region net_layout tcp_stores [OF _ refl refl refl, unfolded One_nat_def] del: append_assoc)

lemma build_check_region:
  assumes "length eth = 14" and "length ip = 20" and "length pl = 4"
  shows "build_tcp_check L (eth @ ip @ tcp_header old 0 @ pl @ post) =
    eth @ ip @ tcp_header old (tcp_v4_check L ip (tcp_header old 0) pl 58) @ pl @ post"
proof -
  have "field (eth @ ip @ tcp_header old 0 @ pl @ post) 14 20 = ip"
    "field (eth @ ip @ tcp_header old 0 @ pl @ post) 34 20 = tcp_header old 0"
    "field (eth @ ip @ tcp_header old 0 @ pl @ post) 54 4 = pl"
    using assms by (simp_all add: field_def)
  then have "build_tcp_check L (eth @ ip @ tcp_header old 0 @ pl @ post) =
    store16 50 (tcp_v4_check L ip (tcp_header old 0) pl 58) ((eth @ ip) @ tcp_header old 0 @ (pl @ post))"
    by (simp add: build_tcp_check_def net_layout)
  also have "\<dots> = (eth @ ip) @ tcp_header old (tcp_v4_check L ip (tcp_header old 0) pl 58) @ (pl @ post)"
    using assms by (simp add: store16_region tcp_check_store del: append_assoc)
  finally show ?thesis by simp
qed

lemma tcp_header_old: "f 12 = g 12 \<Longrightarrow> f 18 = g 18 \<Longrightarrow> f 19 = g 19 \<Longrightarrow> tcp_header f c = tcp_header g c"
  by (simp add: tcp_header_def)

text \<open>The stores leave the packet the layout describes.\<close>

lemma net_spi_build_eq:
  assumes "length dev_addr = 6"
  shows "net_spi_build L dev_addr skb temperature = net_spi_packet L dev_addr skb temperature"
proof -
  define f where "f = fresh_skb L skb"
  define e0 i0 t0 p0 rest where "e0 = map f [0..<14]" and "i0 = map f [14..<34]" and "t0 = map f [34..<54]"
    and "p0 = map f [54..<58]" and "rest = map f [58..<100]"
  have len: "length e0 = 14" "length i0 = 20" "length t0 = 20" "length p0 = 4"
    by (simp_all add: e0_def i0_def t0_def p0_def)
  have "[0..<100] = [0..<14] @ [14..<34] @ [34..<54] @ [54..<58] @ [58..<100]"
    using upt_add_eq_append [of 0 14 86] upt_add_eq_append [of 14 34 66] upt_add_eq_append [of 34 54 46]
      upt_add_eq_append [of 54 58 42] by simp
  then have fresh: "map f [0..<PACKET_SIZE] = e0 @ i0 @ t0 @ p0 @ rest"
    by (simp add: PACKET_SIZE_def e0_def i0_def t0_def p0_def rest_def)
  define eth where "eth = eth_header dev_addr"
  define ip where "ip = ip_header_checked L"
  define tcp where "tcp = tcp_header (\<lambda>i. f (34 + i))"
  have len': "length eth = 14" "length ip = 20"
    using assms by (simp_all add: eth_def eth_header_def ip_def ip_header_checked_def ip_header_def)
  have t0: "tcp_header ((!) t0) 0 = tcp 0"
    unfolding tcp_def by (rule tcp_header_old) (simp_all add: t0_def)
  have s1: "build_eth dev_addr (e0 @ i0 @ t0 @ p0 @ rest) = eth @ i0 @ t0 @ p0 @ rest"
    using assms len by (simp add: build_eth_region eth_def)
  have s2: "build_ip L (eth @ i0 @ t0 @ p0 @ rest) = eth @ ip @ t0 @ p0 @ rest"
    using len len' by (simp add: build_ip_region ip_def)
  have s3: "build_tcp (eth @ ip @ t0 @ p0 @ rest) = eth @ ip @ tcp 0 @ p0 @ rest"
    using build_tcp_region [of "eth @ ip" t0 "p0 @ rest"] len len' by (simp add: t0)
  have s4: "store32 PAYLOAD_AT temperature (eth @ ip @ tcp 0 @ p0 @ rest) = eth @ ip @ tcp 0 @ le32 temperature @ rest"
    using store32_region [of "eth @ ip @ tcp 0" 54 p0 temperature rest] len len'
    by (simp add: net_layout tcp_def) (simp add: store_defs splice_def)
  have s5: "build_tcp_check L (eth @ ip @ tcp 0 @ le32 temperature @ rest) =
      eth @ ip @ tcp (tcp_v4_check L ip (tcp 0) (le32 temperature) 58) @ le32 temperature @ rest"
    using len' by (simp add: build_check_region tcp_def)
  have "net_spi_build L dev_addr skb temperature =
      eth @ ip @ tcp (tcp_v4_check L ip (tcp 0) (le32 temperature) 58) @ le32 temperature"
    unfolding net_spi_build_def Let_def f_def [symmetric] fresh s1 s2 s3 s4 s5
    using len' by (simp add: net_layout tcp_def)
  also have "\<dots> = net_spi_packet L dev_addr skb temperature"
    unfolding net_spi_packet_def Let_def eth_def [symmetric] ip_def [symmetric]
    using len' by (simp add: tcp_def f_def net_layout)
  finally show ?thesis .
qed

definition lab_net_lib :: net_lib where
  "lab_net_lib = \<lparr>in_checksum = (\<lambda>bs. of_nat (length bs)), tcp_v4_check = (\<lambda>ip tcp pl n. of_nat n),
     inet_addr = (\<lambda>t. 0x0200000A), saddr_text = ''10.0.0.1'', fresh_skb = (\<lambda>p i. 0xA5)\<rparr>"

text \<open>
  C8: filling a fresh buffer member by member, bit-fields and both checksums in
  the order of the code, gives the packet the layout describes: the headers one after the other, each
  checksum that of its header with a zero checksum field.
\<close>

theorem net_spi_build_packet:
  assumes "length dev_addr = 6"
  shows "net_spi_build L dev_addr skb temperature = net_spi_packet L dev_addr skb temperature"
  using assms by (rule net_spi_build_eq)

theorem net_spi_build_packet_witness:
  "net_spi_build lab_net_lib [1, 2, 3, 4, 5, 6] 0x7000 25 = net_spi_packet lab_net_lib [1, 2, 3, 4, 5, 6] 0x7000 25"
  by (rule net_spi_build_packet) simp

text \<open>
  The packet fits the allocated buffer and the device's MTU, and is an Ethernet broadcast frame from the device,
  carrying IPv4 and TCP with ports in network order and the temperature in its last four bytes.
\<close>

theorem net_spi_layout:
  assumes "length dev_addr = nd_addr_len (net_spi_netdev nm feat)" and pkt: "pkt = net_spi_build L dev_addr skb temperature"
  shows "length pkt = 58 \<and> length pkt \<le> PACKET_SIZE \<and> length pkt - ETHHDR \<le> nd_mtu (net_spi_netdev nm feat) \<and>
    field pkt 0 6 = replicate 6 0xFF \<and> field pkt 6 6 = dev_addr \<and> of_be16 (field pkt 12 2) = 0x0800 \<and>
    pkt ! 14 = 0x45 \<and> pkt ! 22 = 64 \<and> pkt ! 23 = 6 \<and> field pkt 24 2 = le16 (in_checksum L (ip_header L 0)) \<and>
    of_be16 (field pkt 34 2) = 1234 \<and> of_be16 (field pkt 36 2) = 5678 \<and>
    of_le32 (field pkt 54 4) = temperature"
proof -
  have six: "length dev_addr = 6" using assms(1) by (simp add: net_spi_netdev_def net_layout)
  show ?thesis
    unfolding pkt net_spi_build_eq [OF six]
    by (rule net_spi_packet_bytes [OF six, of L skb temperature])
      (simp add: field_def net_spi_netdev_def ETHHDR_def PACKET_SIZE_def of_be16_def replicate6 del: of_le32.simps)
qed

theorem net_spi_layout_witness:
  "of_le32 (field (net_spi_build lab_net_lib [1, 2, 3, 4, 5, 6] 0x7000 0x12345678) 54 4) = 0x12345678"
  using net_spi_layout [of "[1, 2, 3, 4, 5, 6]", OF _ refl, of "[]" 0 lab_net_lib "0x7000" "0x12345678"]
  by (simp add: net_spi_netdev_def net_layout)

text \<open>
  C27: the total length on the wire reads 11264, not the 44 bytes the IP packet has, because it
  is stored without \<open>htons\<close>; and the packet discloses two and a half bytes of the fresh buffer's old
  content, in the urgent pointer and the reserved bits.
\<close>

theorem net_spi_wire_defects:
  assumes "length dev_addr = 6" and pkt: "pkt = net_spi_build L dev_addr skb temperature"
  shows "of_be16 (field pkt 16 2) = 11264 \<and> length pkt - ETHHDR = 44 \<and>
    pkt ! 52 = fresh_skb L skb 52 \<and> pkt ! 53 = fresh_skb L skb 53 \<and>
    (j < 4 \<longrightarrow> (bit (pkt ! 46) j \<longleftrightarrow> bit (fresh_skb L skb 46) j))"
proof -
  have nibble: "bit (0x50 OR (w AND 0x0F)) j \<longleftrightarrow> bit w j" if "j < 4" for w :: u8
  proof -
    from that consider "j = 0" | "j = 1" | "j = 2" | "j = 3" by linarith
    then show ?thesis by cases (simp_all add: bit_or_iff bit_and_iff)
  qed
  have "pkt ! 46 = 0x50 OR (fresh_skb L skb 46 AND 0x0F) \<and> of_be16 (field pkt 16 2) = 11264 \<and> length pkt = 58 \<and>
    pkt ! 52 = fresh_skb L skb 52 \<and> pkt ! 53 = fresh_skb L skb 53"
    unfolding pkt net_spi_build_eq [OF assms(1)]
    by (rule net_spi_packet_bytes [OF assms(1), of L skb temperature]) (simp add: field_def of_be16_def)
  with nibble show ?thesis by (simp add: ETHHDR_def)
qed

theorem net_spi_wire_defects_witness:
  "of_be16 (field (net_spi_build lab_net_lib [1, 2, 3, 4, 5, 6] 0x7000 25) 16 2) = 11264 \<and>
   net_spi_build lab_net_lib [1, 2, 3, 4, 5, 6] 0x7000 25 ! 53 = 0xA5"
  using net_spi_wire_defects [of "[1, 2, 3, 4, 5, 6]", OF _ refl, of lab_net_lib "0x7000" 25] by (simp add: lab_net_lib_def)

text \<open>
  C6: with a transfer that delivers its 16 bytes, the transmit handler never faults, queues exactly one
  packet made of the first four bytes received, or none, gives back everything it allocated, and never
  frees the packet it was handed.
\<close>

theorem net_spi_xmit:
  assumes "spi_rx_full E" and "held E s = Some (Skb skb # st)"
    and "run_state (net_spi_rx E L dev_addr skb) s = (x, s')"
    and "p = ptr_ret E (klog s) (Spi_transfer (uninit_ptr E) 16)"
    and "h = klog s @ [Ptr_call (Spi_transfer (uninit_ptr E) 16) p]" and "q = ptr_ret E h (Dev_alloc_skb 100)"
  shows "x = Inr (if p = NULL \<or> q = NULL then 1 else 0) \<and> held E s' = Some (Skb skb # st) \<and>
    [e. e \<leftarrow> drop (length (klog s)) (klog s'), \<exists>c r. e = Int_call c r] =
      (if p = NULL \<or> q = NULL then []
       else let pkt = net_spi_build L dev_addr q (of_le32 (take 4 (spi_rx E h p)))
         in [Int_call (Dev_queue_xmit q pkt) (int_ret E (h @ [Ptr_call (Dev_alloc_skb 100) q]) (Dev_queue_xmit q pkt))])"
  using assms
  by (auto simp: net_spi_prog Let_def rd_field_def need_def field_def spi_rx_full_def net_spi_DATA_SIZE_def PACKET_SIZE_def
      net_codes held_simps split: if_splits)

lemma lab_spi_rx_full: "spi_rx_full lab_kernel"
  by (simp add: spi_rx_full_def lab_kernel_def net_spi_DATA_SIZE_def)

theorem net_spi_xmit_witness:
  "held lab_kernel (snd (run_state (net_spi_rx lab_kernel lab_net_lib [1, 2, 3, 4, 5, 6] 0x7000)
     (net_spi_zero\<lparr>klog := [Ptr_call (Dev_alloc_skb 34) 0x7000]\<rparr>))) = Some [Skb 0x7000]"
proof -
  define s where "s = net_spi_zero\<lparr>klog := [Ptr_call (Dev_alloc_skb 34) 0x7000]\<rparr>"
  obtain x s' where run: "run_state (net_spi_rx lab_kernel lab_net_lib [1, 2, 3, 4, 5, 6] 0x7000) s = (x, s')" by fastforce
  have "held lab_kernel s = Some [Skb 0x7000]" by (simp add: s_def held_simps)
  from net_spi_xmit [OF lab_spi_rx_full this run refl refl refl] run show ?thesis by (simp add: s_def)
qed

text \<open>
  With transfers that deliver their bytes, every order of loads, opens, stops, transmissions
  and unloads keeps the device registered exactly while the module is loaded, and nothing else held.
\<close>

theorem net_spi_lifecycle:
  assumes "mod_reach E net_spi_zero (\<lambda>E. returns (net_spi_init E)) net_spi_exit (net_spi_callback L dev_addr) l s" and "spi_rx_full E"
  shows "(l = Unloaded \<or> l = Loaded) \<and> held E s = Some (if l = Loaded then [Registered net_spi_dev] else [])"
  using net_spi.reach_held [OF assms] by (simp add: net_spi_holds_def)

theorem net_spi_lifecycle_witness:
  "held lab_kernel (snd (run_state (net_spi_init lab_kernel) net_spi_zero)) = Some [Registered net_spi_dev]"
proof -
  obtain s' where run: "run_state (net_spi_init lab_kernel) net_spi_zero = (0, s')"
    by (auto simp: net_spi_prog lab_kernel_sel)
  have "mod_reach lab_kernel net_spi_zero (\<lambda>E. returns (net_spi_init E)) net_spi_exit (net_spi_callback lab_net_lib [1, 2, 3, 4, 5, 6]) Loaded s'"
    by (rule reach_loaded [of net_spi_zero _ _ 0]) (simp add: net_spi_zero_def, simp_all add: run)
  from net_spi_lifecycle [OF this lab_spi_rx_full] run show ?thesis by simp
qed

text \<open>
  Close does not forget the SPI device, so stopping the interface twice unregisters the
  same device twice.
\<close>

theorem net_spi_double_close:
  assumes "net_my_spi_dev s \<noteq> NULL"
  shows "klog (snd (run_state (do { _ \<leftarrow> net_spi_close E; net_spi_close E }) s)) =
    klog s @ [Void_call (Spi_unregister_device (net_my_spi_dev s)), Void_call (Spi_unregister_device (net_my_spi_dev s))]"
  using assms by (simp add: net_spi_prog)

theorem net_spi_double_close_witness:
  "klog (snd (run_state (do { _ \<leftarrow> net_spi_close lab_kernel; net_spi_close lab_kernel }) (net_spi_zero\<lparr>net_my_spi_dev := 0x4000\<rparr>))) =
     [Void_call (Spi_unregister_device 0x4000), Void_call (Spi_unregister_device 0x4000)]"
  using net_spi_double_close [of "net_spi_zero\<lparr>net_my_spi_dev := 0x4000\<rparr>" lab_kernel] by (simp add: net_spi_zero_def)

end
