(* ===== verification/Net_Link.thy ===== *)
theory Net_Link
  imports Net_Spi
begin

text \<open>
  \<open>netSpi.c\<close> under the network core: the interface is brought up by \<open>ndo_open\<close> and down by \<open>ndo_stop\<close>, in
  turn, and packets are sent while it is up. The SPI device the driver uses is one it finds on the bus, not
  one it has registered.
\<close>

section \<open>Up and down\<close>

inductive link_step :: "kenv \<Rightarrow> net_lib \<Rightarrow> u8 list \<Rightarrow> bool \<times> net_spi_state \<Rightarrow> bool \<times> net_spi_state \<Rightarrow> bool"
  for E L dev_addr where
  link_up: "run_state (net_spi_ops E L dev_addr Ndo_open) s = (Inr r, s') \<Longrightarrow> link_step E L dev_addr (False, s) (r = 0, s')"
| link_down: "run_state (net_spi_ops E L dev_addr Ndo_stop) s = (Inr r, s') \<Longrightarrow> link_step E L dev_addr (True, s) (False, s')"
| link_send: "run_state (net_spi_ops E L dev_addr (Ndo_start_xmit skb)) s = (x, s') \<Longrightarrow> link_step E L dev_addr (True, s) (True, s')"

inductive_cases link_stepE [consumes 1, case_names going_up going_down sending]: "link_step E L dev_addr (up, s) (up', s')"

inductive link_reach :: "kenv \<Rightarrow> net_lib \<Rightarrow> u8 list \<Rightarrow> bool \<Rightarrow> net_spi_state \<Rightarrow> bool" for E L dev_addr where
  link_start: "klog s = [] \<Longrightarrow> link_reach E L dev_addr False s"
| link_next: "link_reach E L dev_addr up s \<Longrightarrow> link_step E L dev_addr (up, s) (up', s') \<Longrightarrow> link_reach E L dev_addr up' s'"

text \<open>
  The device in use: found, and given up since. Giving up a device that is not the one found last, or none,
  has no result.
\<close>

fun spi_use :: "kevent \<Rightarrow> kptr option \<Rightarrow> kptr option option" where
  "spi_use (Ptr_call Spi_bus_find_device p) u = (if p = NULL then Some u else Some (Some p))"
| "spi_use (Void_call (Spi_unregister_device p)) u = (if u = Some p then Some None else None)"
| "spi_use _ u = Some u"

fun spi_uses :: "kevent list \<Rightarrow> kptr option \<Rightarrow> kptr option option" where
  "spi_uses [] u = Some u"
| "spi_uses (e # h) u = (case spi_use e u of None \<Rightarrow> None | Some u' \<Rightarrow> spi_uses h u')"

lemma spi_uses_append [simp]: "spi_uses (g @ h) u = (case spi_uses g u of None \<Rightarrow> None | Some u' \<Rightarrow> spi_uses h u')"
  by (induction g arbitrary: u) (auto split: option.split)

fun spi_calls :: "kevent \<Rightarrow> bool" where
  "spi_calls (Ptr_call Spi_bus_find_device p) = True"
| "spi_calls (Void_call (Spi_unregister_device p)) = True"
| "spi_calls _ = False"

lemma spi_uses_other: "\<forall>e\<in>set h. \<not> spi_calls e \<Longrightarrow> spi_uses h u = Some u"
proof (induction h)
  case (Cons e h)
  then show ?case by (cases e rule: spi_calls.cases) auto
qed simp

text \<open>Sending neither looks for the device nor gives it up.\<close>

lemma send_calls:
  "run_state (net_spi_rx E L dev_addr skb) s = (x, s') \<Longrightarrow>
   \<exists>es. klog s' = klog s @ es \<and> (\<forall>e\<in>set es. \<not> spi_calls e) \<and> net_my_spi_dev s' = net_my_spi_dev s"
  by (auto simp: net_spi_rx_def Let_def rd_simps split: if_splits option.splits)

section \<open>Which device is in use\<close>

definition spi_given_up :: "kevent list \<Rightarrow> kptr list" where
  "spi_given_up h = [p. Void_call (Spi_unregister_device p) \<leftarrow> h]"

lemma spi_given_up_append [simp]: "spi_given_up (g @ h) = spi_given_up g @ spi_given_up h"
  by (simp add: spi_given_up_def)

lemma spi_given_up_simps [simp]:
  "spi_given_up [] = []"
  "spi_given_up (Void_call (Spi_unregister_device p) # h) = p # spi_given_up h"
  by (simp_all add: spi_given_up_def)

lemma spi_given_up_cons: "\<not> spi_calls e \<Longrightarrow> spi_given_up (e # h) = spi_given_up h"
  by (cases e rule: spi_calls.cases) (auto simp: spi_given_up_def)

lemma spi_given_up_found [simp]: "spi_given_up (Ptr_call c p # h) = spi_given_up h"
  by (simp add: spi_given_up_def)

lemma spi_given_up_other: "\<forall>e\<in>set h. \<not> spi_calls e \<Longrightarrow> spi_given_up h = []"
  by (induction h) (simp_all add: spi_given_up_cons)

lemma set_spi_given_up: "p \<in> set (spi_given_up h) \<longleftrightarrow> Void_call (Spi_unregister_device p) \<in> set h"
proof (induction h)
  case (Cons e h)
  then show ?case by (cases e rule: spi_calls.cases) (auto simp: spi_given_up_def)
qed simp

text \<open>The bus: a device that was unregistered is gone, so it is not found again.\<close>

definition spi_fresh :: "kenv \<Rightarrow> bool" where
  "spi_fresh E \<longleftrightarrow> (\<forall>h p. p \<noteq> NULL \<longrightarrow> Void_call (Spi_unregister_device p) \<in> set h \<longrightarrow> ptr_ret E h Spi_bus_find_device \<noteq> p)"

text \<open>What one call of the core does to the device in use and to the devices given up.\<close>

lemma open_device:
  assumes "run_state (net_spi_ops E L dev_addr Ndo_open) s = (Inr r, s')" and "spi_uses (klog s) None = Some u"
    and "p = ptr_ret E (klog s) Spi_bus_find_device"
  shows "net_my_spi_dev s' = p \<and> (r = 0 \<longleftrightarrow> p \<noteq> NULL) \<and> spi_uses (klog s') None = Some (if p = NULL then u else Some p) \<and>
    spi_given_up (klog s') = spi_given_up (klog s)"
  using assms by (auto simp: net_spi_prog net_codes EOPNOTSUPP_def spi_given_up_cons split: if_splits)

lemma close_device:
  assumes "run_state (net_spi_ops E L dev_addr Ndo_stop) s = (Inr r, s')" and "net_my_spi_dev s \<noteq> NULL"
    and "spi_uses (klog s) None = Some (Some (net_my_spi_dev s))"
  shows "spi_uses (klog s') None = Some None \<and> spi_given_up (klog s') = spi_given_up (klog s) @ [net_my_spi_dev s]"
  using assms by (auto simp: net_spi_prog)

lemma send_device:
  assumes "run_state (net_spi_ops E L dev_addr (Ndo_start_xmit skb)) s = (x, s')" and "spi_uses (klog s) None = Some u"
  shows "net_my_spi_dev s' = net_my_spi_dev s \<and> spi_uses (klog s') None = Some u \<and> spi_given_up (klog s') = spi_given_up (klog s)"
proof -
  have "run_state (net_spi_rx E L dev_addr skb) s = (x, s')" using assms(1) by (simp add: net_spi_ops_def)
  from send_calls [OF this] obtain es where "klog s' = klog s @ es" "\<forall>e\<in>set es. \<not> spi_calls e"
    "net_my_spi_dev s' = net_my_spi_dev s" by blast
  with assms(2) show ?thesis by (simp add: spi_uses_other spi_given_up_other)
qed

lemma link_device:
  assumes "link_reach E L dev_addr up s"
  shows "spi_uses (klog s) None = Some (if up then Some (net_my_spi_dev s) else None) \<and> (up \<longrightarrow> net_my_spi_dev s \<noteq> NULL)"
  using assms
proof induction
  case (link_next up s up' s')
  from link_next.hyps(2) show ?case
  proof (cases rule: link_stepE)
    case (going_up r)
    then show ?thesis using open_device [OF going_up(3) _ refl] link_next.IH going_up by auto
  next
    case (going_down r)
    then show ?thesis using close_device [OF going_down(3)] link_next.IH going_down by simp
  next
    case (sending skb x)
    then show ?thesis using send_device [OF sending(3)] link_next.IH sending by auto
  qed
qed simp

text \<open>
  If a device given up is not found again, no device is given up twice, and the one in use is a new one.
\<close>

lemma link_new_device:
  assumes "link_reach E L dev_addr up s" and "spi_fresh E"
  shows "distinct (spi_given_up (klog s) @ (if up then [net_my_spi_dev s] else []))"
  using assms(1)
proof induction
  case (link_next up s up' s')
  note inv = link_device [OF link_next.hyps(1)]
  from link_next.hyps(2) show ?case
  proof (cases rule: link_stepE)
    case (going_up r)
    define p where "p = ptr_ret E (klog s) Spi_bus_find_device"
    have "p \<noteq> NULL \<longrightarrow> p \<notin> set (spi_given_up (klog s))" using assms(2) by (auto simp: spi_fresh_def set_spi_given_up p_def)
    then show ?thesis using open_device [OF going_up(3) _ p_def] inv link_next.IH going_up by auto
  next
    case (going_down r)
    then show ?thesis using close_device [OF going_down(3)] inv link_next.IH going_down by simp
  next
    case (sending skb x)
    then show ?thesis using send_device [OF sending(3)] inv link_next.IH sending by simp
  qed
qed simp

lemma link_one_device:
  assumes "link_reach E L dev_addr up s" and "\<forall>h. ptr_ret E h Spi_bus_find_device \<in> {NULL, p}"
  shows "(up \<longrightarrow> net_my_spi_dev s = p) \<and> set (spi_given_up (klog s)) \<subseteq> {p}"
  using assms(1)
proof induction
  case (link_next up s up' s')
  note inv = link_device [OF link_next.hyps(1)]
  from link_next.hyps(2) show ?case
  proof (cases rule: link_stepE)
    case (going_up r)
    then show ?thesis using open_device [OF going_up(3) _ refl] inv link_next.IH assms(2) by fastforce
  next
    case (going_down r)
    then show ?thesis using close_device [OF going_down(3)] inv link_next.IH by simp
  next
    case (sending skb x)
    then show ?thesis using send_device [OF sending(3)] inv link_next.IH by simp
  qed
qed simp

section \<open>Properties\<close>

text \<open>
  C26: on a bus with one SPI device, the interface goes up at most once. The device in use is
  always the one found, it is given up when the interface goes down and never twice, and as it is only found,
  not registered, by the driver, every later attempt to bring the interface up fails.
\<close>

theorem net_spi_up_once:
  assumes "link_reach E L dev_addr up s" and "spi_fresh E" and "\<forall>h. ptr_ret E h Spi_bus_find_device \<in> {NULL, p}" and "p \<noteq> NULL"
  shows "spi_uses (klog s) None = Some (if up then Some p else None) \<and>
    (spi_given_up (klog s) = [] \<or>
     \<not> up \<and> spi_given_up (klog s) = [p] \<and> fst (run_state (net_spi_open E) s) = - EOPNOTSUPP)"
proof -
  note one = link_one_device [OF assms(1,3)]
  have "spi_given_up (klog s) = [] \<or> \<not> up \<and> spi_given_up (klog s) = [p]"
    using link_new_device [OF assms(1,2)] one by (cases "spi_given_up (klog s)" rule: remdups_adj.cases) auto
  moreover have "fst (run_state (net_spi_open E) s) = - EOPNOTSUPP" if "spi_given_up (klog s) = [p]"
  proof -
    have "Void_call (Spi_unregister_device p) \<in> set (klog s)" using that by (simp flip: set_spi_given_up)
    with assms(2-4) have "ptr_ret E (klog s) Spi_bus_find_device = NULL" unfolding spi_fresh_def by blast
    then show ?thesis by (simp add: net_spi_prog)
  qed
  ultimately show ?thesis using link_device [OF assms(1)] one by auto
qed

text \<open>A bus whose one device is gone once it is unregistered.\<close>

definition one_spi_bus :: kenv where
  "one_spi_bus = lab_kernel\<lparr>ptr_ret := (\<lambda>h c. if Void_call (Spi_unregister_device 0x4000) \<in> set h then NULL else 0x4000)\<rparr>"

theorem net_spi_up_once_witness:
  "\<exists>s. link_reach one_spi_bus lab_net_lib [1, 2, 3, 4, 5, 6] False s \<and> spi_given_up (klog s) = [0x4000] \<and>
     fst (run_state (net_spi_open one_spi_bus) s) = - EOPNOTSUPP"
proof -
  define up where "up = net_spi_zero\<lparr>klog := [Ptr_call Spi_bus_find_device 0x4000], net_my_spi_dev := 0x4000\<rparr>"
  define down where "down = up\<lparr>klog := klog up @ [Void_call (Spi_unregister_device 0x4000)]\<rparr>"
  let ?reach = "link_reach one_spi_bus lab_net_lib [1, 2, 3, 4, 5, 6]"
  have "?reach False net_spi_zero" by (rule link_start) (simp add: net_spi_zero_def)
  moreover have "link_step one_spi_bus lab_net_lib [1, 2, 3, 4, 5, 6] (False, net_spi_zero) (0 = (0 :: int), up)"
    by (rule link_up) (simp add: net_spi_prog one_spi_bus_def net_spi_zero_def up_def)
  ultimately have "?reach True up" using link_next by fastforce
  moreover have "link_step one_spi_bus lab_net_lib [1, 2, 3, 4, 5, 6] (True, up) (False, down)"
    by (rule link_down [of _ _ _ _ 0]) (simp add: net_spi_prog net_spi_zero_def up_def down_def)
  ultimately have "?reach False down" by (rule link_next)
  moreover have "spi_given_up (klog down) = [0x4000]" by (simp add: down_def up_def)
  moreover have "spi_fresh one_spi_bus" "\<forall>h. ptr_ret one_spi_bus h Spi_bus_find_device \<in> {NULL, 0x4000}"
    by (auto simp: spi_fresh_def one_spi_bus_def)
  ultimately show ?thesis using net_spi_up_once [of one_spi_bus lab_net_lib "[1, 2, 3, 4, 5, 6]" False down "0x4000"] by force
qed

end
