(* ===== verification/Net_Sender.thy ===== *)
theory Net_Sender
  imports User_API Net_Layout Buffer_Stores
begin

text \<open>
  \<open>net_usp.c\<close>, the sending program: build an Ethernet frame with an IPv4 header and an ICMPv6 echo
  request, and send it on a raw socket. (The receiving program of the same file is inside a comment.)
\<close>

definition usp_NETDEV_NAME :: string where "usp_NETDEV_NAME = ''my_netdev''"
definition DESTINATION_IP :: string where "DESTINATION_IP = ''192.168.0.20''"

text \<open>
  The library and the values the file uses without defining them: the checksum function, the
  address parser, and the interface's MAC address.
\<close>

record usp_lib =
  usp_in_checksum :: "u8 list \<Rightarrow> u16"
  usp_inet_addr :: "string \<Rightarrow> u32"
  usp_mac :: "u8 list"

definition usp_packet_size :: nat where
  "usp_packet_size = ETHHDR + IPHDR + ICMPV6HDR + 64"

definition usp_eth :: "usp_lib \<Rightarrow> u8 list" where
  "usp_eth L = replicate 6 0xFF @ usp_mac L @ le16 (htons ETH_P_IP)"

definition usp_ip :: "usp_lib \<Rightarrow> u16 \<Rightarrow> u8 list" where
  "usp_ip L check =
     [0x45, 0] @ le16 (word_of_nat (IPHDR + ICMPV6HDR + 64)) @ le16 0 @ le16 0 @ [64, IPPROTO_ICMPV6] @
     le16 check @ le32 (usp_inet_addr L ''192.168.1.10'') @ le32 (usp_inet_addr L DESTINATION_IP)"

definition usp_ip_checked :: "usp_lib \<Rightarrow> u8 list" where
  "usp_ip_checked L = usp_ip L (usp_in_checksum L (usp_ip L 0))"

text \<open>The allocated memory is not cleared: what the program does not write stays unwritten.\<close>

definition usp_packet :: "usp_lib \<Rightarrow> cbuf" where
  "usp_packet L = fill (replicate usp_packet_size None) (usp_eth L @ usp_ip_checked L @ [ICMPV6_ECHO_REQUEST, 0])"

text \<open>
  The same packet as the stores the program makes, one after the other, into memory that held \<open>old\<close>.
\<close>

definition usp_build_eth :: "usp_lib \<Rightarrow> buffer \<Rightarrow> buffer" where
  "usp_build_eth L m =
     (let m = store_bytes H_DEST (replicate ETH_ALEN 0xFF) m;
          m = store_bytes H_SOURCE (take ETH_ALEN (usp_mac L)) m
      in store16 12 (htons ETH_P_IP) m)"

definition usp_build_ip :: "usp_lib \<Rightarrow> buffer \<Rightarrow> buffer" where
  "usp_build_ip L m =
     (let m = store_bits ETHHDR 4 4 4 m;
          m = store_bits ETHHDR 0 4 5 m;
          m = store8 (ETHHDR + 1) 0 m;
          m = store16 (ETHHDR + 2) (word_of_nat (IPHDR + ICMPV6HDR + 64)) m;
          m = store16 (ETHHDR + 4) 0 m;
          m = store16 (ETHHDR + 6) 0 m;
          m = store8 IP_TTL 64 m;
          m = store8 IP_PROTOCOL IPPROTO_ICMPV6 m;
          m = store32 IP_SADDR (usp_inet_addr L ''192.168.1.10'') m;
          m = store32 IP_DADDR (usp_inet_addr L DESTINATION_IP) m;
          m = store16 (ETHHDR + 10) 0 m
      in store16 (ETHHDR + 10) (usp_in_checksum L (field m ETHHDR IPHDR)) m)"

definition usp_build_icmp :: "buffer \<Rightarrow> buffer" where
  "usp_build_icmp m =
     (let m = store8 (ETHHDR + IPHDR) ICMPV6_ECHO_REQUEST m
      in store8 (ETHHDR + IPHDR + 1) 0 m)"

definition usp_build :: "usp_lib \<Rightarrow> u8 list \<Rightarrow> u8 list" where
  "usp_build L old = usp_build_icmp (usp_build_ip L (usp_build_eth L old))"

definition AF_PACKET :: u16 where "AF_PACKET = 17"

text \<open>
  The address of the interface: cleared, then family, address length, hardware address and interface
  index. \<open>if_nametoindex\<close> answers 0 when there is no such interface, which is not looked at.
\<close>

definition zero_ll :: sockaddr_ll where
  "zero_ll = \<lparr>sll_family = 0, sll_protocol = 0, sll_ifindex = 0, sll_hatype = 0, sll_pkttype = 0, sll_halen = 0,
     sll_addr = replicate 8 0\<rparr>"

definition usp_address :: "uenv \<Rightarrow> usp_lib \<Rightarrow> (ust, sockaddr_ll) state" where
  "usp_address E L = do {
     let socket_address = zero_ll\<lparr>sll_family := AF_PACKET, sll_halen := word_of_nat ETH_ALEN\<rparr>;
     let socket_address = socket_address\<lparr>sll_addr := store_bytes 0 (take ETH_ALEN (usp_mac L)) (sll_addr socket_address)\<rparr>;
     ifindex \<leftarrow> usys E (If_nametoindex usp_NETDEV_NAME);
     State_Monad.return (socket_address\<lparr>sll_ifindex := word_of_int ifindex\<rparr>)
   }"

text \<open>The result of \<open>malloc\<close> is written through without a test. Neither socket nor memory is given back.\<close>

definition usp_main :: "uenv \<Rightarrow> usp_lib \<Rightarrow> (ust, fault + int) state" where
  "usp_main E L = do {
     sockfd \<leftarrow> usys E (Socket ''AF_PACKET SOCK_RAW ETH_P_ALL'');
     if sockfd = - 1 then do {
       uemit (Perror ''socket'');
       State_Monad.return (Inr 1)
     } else do {
       socket_address \<leftarrow> usp_address E L;
       packet \<leftarrow> usys_ptr E (Malloc usp_packet_size);
       if packet = NULL then State_Monad.return (Inl Null_deref)
       else do {
         r \<leftarrow> usys E (Sendto sockfd (usp_packet L) socket_address);
         if r = - 1 then do {
           uemit (Perror ''sendto'');
           State_Monad.return (Inr 1)
         } else do {
           uemit (Printf (ln ''Sent ICMPv6 echo request to %s'') [AStr DESTINATION_IP]);
           State_Monad.return (Inr 0)
         }
       }
     }
   }"

section \<open>Properties\<close>

definition lab_usp :: usp_lib where
  "lab_usp = \<lparr>usp_in_checksum = (\<lambda>bs. 0), usp_inet_addr = (\<lambda>t. 0x0A01A8C0), usp_mac = [1, 2, 3, 4, 5, 6]\<rparr>"

text \<open>Each group of stores fills its region of the memory.\<close>

lemma usp_ip_ipv4: "usp_ip L check =
    ipv4_bytes 92 58 check (usp_inet_addr L ''192.168.1.10'') (usp_inet_addr L DESTINATION_IP)"
  by (simp add: usp_ip_def ipv4_bytes_def net_layout)

lemma usp_build_eth_region:
  assumes "length r = 14" and "length (usp_mac L) = 6"
  shows "usp_build_eth L (r @ post) = usp_eth L @ post"
  using assms by (simp add: usp_build_eth_def usp_eth_def store_defs splice_def net_layout)

lemma usp_build_ip_region:
  assumes "length pre = 14" and "length r = 20"
  shows "usp_build_ip L (pre @ r @ post) = pre @ usp_ip_checked L @ post"
  unfolding usp_build_ip_def Let_def usp_ip_checked_def usp_ip_ipv4
  using assms by (simp add: store_region field_region net_layout ipv4_stores [unfolded One_nat_def] ipv4_check_store del: append_assoc)

lemma usp_build_icmp_region:
  assumes "length pre = 34"
  shows "usp_build_icmp (pre @ [a, b] @ rest) = pre @ [128, 0] @ rest"
  using assms by (simp add: usp_build_icmp_def store8_def list_update_append net_layout)

lemma usp_build_bytes:
  assumes "length e = 14" and "length i = 20" and "length (usp_mac L) = 6"
  shows "usp_build L (e @ i @ [a, b] @ rest) = usp_eth L @ usp_ip_checked L @ [128, 0] @ rest"
proof -
  have len: "length (usp_eth L) = 14" "length (usp_ip_checked L) = 20"
    using assms(3) by (simp_all add: usp_eth_def usp_ip_checked_def usp_ip_ipv4)
  show ?thesis
    unfolding usp_build_def
    using assms len usp_build_icmp_region [of "usp_eth L @ usp_ip_checked L" a b rest]
      usp_build_ip_region [of "usp_eth L" i L "[a, b] @ rest"]
    by (simp add: usp_build_eth_region)
qed

lemma usp_build_eq:
  assumes "length (usp_mac L) = 6" and "length old = usp_packet_size"
  shows "usp_build L old = overlay (usp_packet L) old"
proof -
  define e i ab rest where "e = take 14 old" and "i = take 20 (drop 14 old)" and "ab = take 2 (drop 34 old)" and "rest = drop 36 old"
  have size: "length old = 106" using assms(2) by (simp add: usp_packet_size_def net_layout)
  have old: "old = e @ i @ ab @ rest"
    using append_take_drop_id [of 14 old] append_take_drop_id [of 20 "drop 14 old"] append_take_drop_id [of 2 "drop 34 old"]
    by (simp add: e_def i_def ab_def rest_def)
  have len: "length e = 14" "length i = 20" "length ab = 2" "length rest = 70"
    using size by (simp_all add: e_def i_def ab_def rest_def)
  obtain a b where ab: "ab = [a, b]" using len(3) by (auto simp: length2)
  have len': "length (usp_eth L) = 14" "length (usp_ip_checked L) = 20"
    using assms(1) by (simp_all add: usp_eth_def usp_ip_checked_def usp_ip_ipv4)
  have pkt: "usp_packet L = map Some (usp_eth L) @ map Some (usp_ip_checked L) @ map Some [128, 0] @ replicate 70 None"
    using len' by (simp add: usp_packet_def fill_def usp_packet_size_def net_layout)
  show ?thesis
    unfolding pkt old ab
    using len len' assms(1) usp_build_bytes [of e i L a b rest]
    by (simp add: overlay_append overlay_written overlay_unwritten)
qed

text \<open>
  C28: into memory with any content, the program's stores leave the packet: every byte
  the packet has is written, and every byte the packet leaves unwritten still is what the memory held.
\<close>

theorem usp_build_overlay:
  assumes "length (usp_mac L) = 6" and "length old = usp_packet_size"
  shows "usp_build L old = overlay (usp_packet L) old"
  using assms by (rule usp_build_eq)

theorem usp_build_overlay_witness:
  "usp_build lab_usp (replicate 106 0xA5) = overlay (usp_packet lab_usp) (replicate 106 0xA5)"
  by (rule usp_build_overlay) (simp_all add: lab_usp_def usp_packet_size_def net_layout)

text \<open>
  The packet is 106 bytes: an Ethernet header, an IPv4 header whose total length is stored in the
  wrong byte order, the request's type and code, and 70 bytes the program never wrote.
\<close>

theorem usp_packet_layout:
  assumes "length (usp_mac L) = 6"
  shows "length (usp_packet L) = 106 \<and> take 14 (usp_packet L) = map Some (replicate 6 0xFF @ usp_mac L @ [0x08, 0x00]) \<and>
    take 20 (drop 14 (usp_packet L)) = map Some (usp_ip_checked L) \<and> of_be16 (field (usp_ip_checked L) 2 2) = 23552 \<and>
    drop 34 (usp_packet L) = [Some 128, Some 0] @ replicate 70 None"
proof -
  have "le16 (htons 0x0800) = [0x08, 0x00]" unfolding le16_htons by (simp add: le16_def)
  then have eth: "usp_eth L = replicate 6 0xFF @ usp_mac L @ [0x08, 0x00]"
    by (simp add: usp_eth_def ETH_P_IP_def)
  have len: "length (usp_eth L) = 14" "length (usp_ip_checked L) = 20"
    using assms by (simp_all add: eth usp_ip_checked_def usp_ip_def)
  have "usp_packet L = map Some (usp_eth L) @ map Some (usp_ip_checked L) @ [Some 128, Some 0] @ replicate 70 None"
    using len by (simp add: usp_packet_def fill_def usp_packet_size_def net_layout)
  moreover have "of_be16 (field (usp_ip_checked L) 2 2) = 23552"
    by (simp add: usp_ip_checked_def usp_ip_def net_layout field_def le16_def of_be16_def)
  ultimately show ?thesis using len eth assms by simp
qed

theorem usp_packet_layout_witness:
  "length (usp_packet lab_usp) = 106 \<and> drop 34 (usp_packet lab_usp) = [Some 128, Some 0] @ replicate 70 None"
  using usp_packet_layout [of lab_usp] by (simp add: lab_usp_def)

text \<open>
  The program sends that packet at most once, to its own hardware address on the interface found by
  name, exits with 0 exactly when it was sent, and never gives the socket or the memory back; only a
  failed allocation makes it fault.
\<close>

definition usp_dest :: "usp_lib \<Rightarrow> int \<Rightarrow> sockaddr_ll" where
  "usp_dest L ifindex = \<lparr>sll_family = 17, sll_protocol = 0, sll_ifindex = word_of_int ifindex, sll_hatype = 0,
     sll_pkttype = 0, sll_halen = 6, sll_addr = usp_mac L @ [0, 0]\<rparr>"

lemma usp_address_log [simp]: "snd (run_state (usp_address E L) s) =
    s\<lparr>ulog := ulog s @ [U_call (If_nametoindex usp_NETDEV_NAME) (sys E (ulog s) (If_nametoindex usp_NETDEV_NAME))]\<rparr>"
  by (simp add: usp_address_def Let_def)

lemma run_usp_address:
  assumes "length (usp_mac L) = 6"
  shows "run_state (usp_address E L) s = (usp_dest L (sys E (ulog s) (If_nametoindex usp_NETDEV_NAME)),
    s\<lparr>ulog := ulog s @ [U_call (If_nametoindex usp_NETDEV_NAME) (sys E (ulog s) (If_nametoindex usp_NETDEV_NAME))]\<rparr>)"
proof -
  have "store_bytes 0 (usp_mac L) (replicate 8 0) = usp_mac L @ [0, 0]"
    using assms by (simp add: store_bytes_def splice_def numeral_2_eq_2)
  then show ?thesis
    using assms by (simp add: usp_address_def usp_dest_def zero_ll_def AF_PACKET_def ETH_ALEN_def Let_def)
qed

theorem usp_result:
  assumes "run_state (usp_main E L) s = (x, s')" and "ulog s = []" and doc: "system_doc E" and mac: "length (usp_mac L) = 6"
    and fd: "fd = sys E [] (Socket ''AF_PACKET SOCK_RAW ETH_P_ALL'')" and p: "p = sys_ptr E (take 2 (ulog s')) (Malloc 106)"
    and ifindex: "ifindex = sys E (take 1 (ulog s')) (If_nametoindex ''my_netdev'')"
  shows "if fd = - 1 then x = Inr 1 \<and> uheld s' = Some []
    else if p = NULL then x = Inl Null_deref \<and> uheld s' = Some [Fd fd]
    else uheld s' = Some [Heap p, Fd fd] \<and>
      (\<exists>n. U_call (Sendto fd (usp_packet L) (usp_dest L ifindex)) n \<in> set (ulog s') \<and> x = Inr (if n = - 1 then 1 else 0))"
proof -
  define c where "c = Socket ''AF_PACKET SOCK_RAW ETH_P_ALL''"
  define r where "r = sys E [] c"
  have ge: "0 \<le> r" if "r \<noteq> - 1"
    using sys_error [OF doc, of "[]" c] that unfolding r_def by linarith
  have size: "usp_packet_size = 106" by (simp add: usp_packet_size_def net_layout)
  show ?thesis
  proof (cases "r = - 1")
    case True
    with assms(1,2) fd show ?thesis
      by (auto simp: usp_main_def c_def [symmetric] r_def [symmetric] uheld_def ugot_def) (auto simp: c_def uheld_simps)
  next
    case False
    define a where "a = If_nametoindex ''my_netdev''"
    define n where "n = sys E [U_call c r] a"
    define h where "h = [U_call c r, U_call a n]"
    define q where "q = sys_ptr E h (Malloc 106)"
    define b where "b = Sendto r (usp_packet L) (usp_dest L n)"
    define w where "w = sys E (h @ [U_ptr (Malloc 106) q]) b"
    have main: "run_state (usp_main E L) s = (if q = NULL then (Inl Null_deref, s\<lparr>ulog := h @ [U_ptr (Malloc 106) q]\<rparr>)
      else if w = - 1 then (Inr 1, s\<lparr>ulog := h @ [U_ptr (Malloc 106) q, U_call b w, Perror ''sendto'']\<rparr>)
      else (Inr 0, s\<lparr>ulog := h @ [U_ptr (Malloc 106) q, U_call b w,
        Printf (ln ''Sent ICMPv6 echo request to %s'') [AStr DESTINATION_IP]]\<rparr>))"
      using False assms(2)
      by (simp add: usp_main_def c_def [symmetric] r_def [symmetric] size run_usp_address [OF mac] usp_NETDEV_NAME_def
          a_def [symmetric] n_def [symmetric] h_def [symmetric] q_def [symmetric] b_def [symmetric] w_def [symmetric])
    have log: "take 2 (ulog s') = h" "take 1 (ulog s') = [U_call c r]"
      using assms(1) unfolding main by (auto simp: h_def split: if_splits)
    have eqs: "fd = r" "p = q" "ifindex = n"
      unfolding fd p ifindex log by (simp_all add: r_def c_def q_def n_def a_def)
    from assms(1) False ge [OF False] show ?thesis
      unfolding main eqs by (auto simp: h_def b_def c_def a_def uheld_simps split: if_splits)
  qed
qed

theorem usp_result_witness:
  "uheld (snd (run_state (usp_main lab_system lab_usp) fresh_process)) = Some [Heap 0x500, Fd 4]"
proof -
  obtain x s' where run: "run_state (usp_main lab_system lab_usp) fresh_process = (x, s')" by fastforce
  have "length (usp_mac lab_usp) = 6" by (simp add: lab_usp_def)
  from usp_result [OF run _ lab_system_doc this refl refl refl] run show ?thesis by (simp add: lab_system_sel)
qed

end
