(* ===== verification/Net_Path.thy ===== *)
theory Net_Path
  imports Net_Eth Net_Sender Net_Spi
begin

text \<open>
  The network code along the path of a packet: both packet builders name the interface of the Ethernet
  driver. The echo request goes through that driver's transmit function and into the receive function
  of a machine that runs the same driver; the temperature packet is received as it was built.
\<close>

section \<open>Frames as lists of bytes\<close>

lemma tx_fields:
  assumes "34 \<le> length data" and "0 \<le> int_ret E (klog s) (Validate_headers skb my_netdev MY_NETDEV_NAME)"
    and run: "run_state (eth_netdev_tx E skb data) s = ((x, data'), s')"
  shows "data' = my_netdev_mac @ take 16 (drop 6 data) @ [data ! 22 - 1] @ drop 23 data"
proof -
  have len: "length my_netdev_mac = 6" by (simp add: my_netdev_mac_def)
  have "data' = (my_netdev_mac @ drop 6 data)[22 := data ! 22 - 1]"
    using assms len by (auto simp: net_eth_prog net_layout Let_def splice_def nth_append)
  also have "\<dots> = my_netdev_mac @ (drop 6 data)[16 := data ! 22 - 1]"
    by (simp add: list_update_append len)
  also have "(drop 6 data)[16 := data ! 22 - 1] = take 16 (drop 6 data) @ [data ! 22 - 1] @ drop 23 data"
    using assms(1) by (simp add: upd_conv_take_nth_drop)
  finally show ?thesis .
qed

lemma usp_frame_bytes:
  assumes "length (usp_mac L) = 6" and "length old = usp_packet_size"
  obtains c where "usp_build L old =
    replicate 6 0xFF @ usp_mac L @ [0x08, 0] @
    [0x45, 0, 92, 0, 0, 0, 0, 0, 64, 58] @ le16 c @
    le32 (usp_inet_addr L ''192.168.1.10'') @ le32 (usp_inet_addr L DESTINATION_IP) @ [128, 0] @ drop 36 old"
    and "c = usp_in_checksum L (usp_ip L 0)"
proof -
  define e i ab where "e = take 14 old" and "i = take 20 (drop 14 old)" and "ab = take 2 (drop 34 old)"
  have size: "length old = 106" using assms(2) by (simp add: usp_packet_size_def net_layout)
  have old: "old = e @ i @ ab @ drop 36 old"
    using append_take_drop_id [of 14 old] append_take_drop_id [of 20 "drop 14 old"] append_take_drop_id [of 2 "drop 34 old"]
    by (simp add: e_def i_def ab_def)
  have len: "length e = 14" "length i = 20" "length ab = 2"
    using size by (simp_all add: e_def i_def ab_def)
  obtain a b where ab: "ab = [a, b]" using len(3) by (auto simp: length2)
  have w: "le16 92 = [92, 0]" "le16 0 = [0, 0]" "le16 (htons 0x0800) = [0x08, 0]"
    unfolding le16_htons by (simp_all add: le16_def)
  show thesis
    using that [OF _ refl] usp_build_bytes [OF len(1,2) assms(1), of a b "drop 36 old"] old ab
    by (simp add: usp_eth_def usp_ip_checked_def usp_ip_ipv4 ipv4_bytes_def w ETH_P_IP_def)
qed

text \<open>The echo request as the driver puts it on the wire: its own address as destination, one hop less.\<close>

lemma sent_frame:
  assumes mac: "length (usp_mac L) = 6" and old: "length old = usp_packet_size"
    and go: "0 \<le> int_ret E (klog s) (Validate_headers skb my_netdev MY_NETDEV_NAME)"
    and tx: "run_state (eth_netdev_tx E skb (usp_build L old)) s = ((x, frame), s')"
  shows "frame = my_netdev_mac @ usp_mac L @ [0x08, 0] @ [0x45, 0, 92, 0, 0, 0, 0, 0, 63, 58] @
    le16 (usp_in_checksum L (usp_ip L 0)) @ le32 (usp_inet_addr L ''192.168.1.10'') @ le32 (usp_inet_addr L DESTINATION_IP) @
    [128, 0] @ drop 36 old"
proof -
  have size: "length (usp_build L old) = 106"
    by (rule usp_frame_bytes [OF mac old]) (use assms in \<open>simp add: usp_packet_size_def net_layout\<close>)
  obtain c where b: "usp_build L old =
    replicate 6 0xFF @ usp_mac L @ [0x08, 0] @
    [0x45, 0, 92, 0, 0, 0, 0, 0, 64, 58] @ le16 c @
    le32 (usp_inet_addr L ''192.168.1.10'') @ le32 (usp_inet_addr L DESTINATION_IP) @ [128, 0] @ drop 36 old"
    and c: "c = usp_in_checksum L (usp_ip L 0)"
    using usp_frame_bytes [OF mac old] .
  obtain m0 m1 m2 m3 m4 m5 where m: "usp_mac L = [m0, m1, m2, m3, m4, m5]"
    using mac by (auto simp: length_Suc_conv eval_nat_numeral)
  show ?thesis
    unfolding tx_fields [OF _ go tx, unfolded size, simplified]
    unfolding b c m by (simp add: replicate6)
qed

lemma sent_length:
  assumes "length (usp_mac L) = 6" and "length old = usp_packet_size"
    and "0 \<le> int_ret E (klog s) (Validate_headers skb my_netdev MY_NETDEV_NAME)"
    and "run_state (eth_netdev_tx E skb (usp_build L old)) s = ((x, frame), s')"
  shows "length frame = 106"
  using assms(1,2) unfolding sent_frame [OF assms] by (simp add: my_netdev_mac_def usp_packet_size_def net_layout)

section \<open>Properties\<close>

text \<open>
  C21: the echo request of the sending program, sent through the Ethernet driver and received
  by it, is reported with the sender's address, the driver's own address as destination and the two IP
  addresses, and never as an echo reply, whatever the unwritten bytes hold; its time to live is one less,
  and its checksum is still that of the header before the change.
\<close>

theorem icmp_frame_path:
  assumes "length (usp_mac L) = 6" and "length old = usp_packet_size"
    and "0 \<le> int_ret E (klog s) (Validate_headers skb my_netdev MY_NETDEV_NAME)"
    and tx: "run_state (eth_netdev_tx E skb (usp_build L old)) s = ((x, frame), s')"
    and rx: "run_state (eth_netdev_rx E' skb' frame) r = (Inr 0, r')"
    and p: "p = ptr_ret E' (klog r) (Kmalloc 106)"
  shows "klog r' = klog r @ [Ptr_call (Kmalloc 106) p,
      Void_call (Printk KERN_INFO (ln ''Received packet: source MAC: %pM, destination MAC: %pM'')
        [PBytes (usp_mac L), PBytes my_netdev_mac]),
      Void_call (Printk KERN_INFO (ln ''  Source IP: %pI4, Destination IP: %pI4'')
        [PBytes (le32 (usp_inet_addr L ''192.168.1.10'')), PBytes (le32 (usp_inet_addr L DESTINATION_IP))]),
      Void_call (Kfree p), Void_call (Dev_kfree_skb skb')] \<and>
    frame ! 22 = 63 \<and> field frame 24 2 = le16 (usp_in_checksum L (usp_ip L 0)) \<and> usp_ip L 0 ! 8 = 64"
proof -
  obtain a0 a1 where ca: "le16 (usp_in_checksum L (usp_ip L 0)) = [a0, a1]" using le16_shape by metis
  obtain s0 s1 s2 s3 where sa: "le32 (usp_inet_addr L ''192.168.1.10'') = [s0, s1, s2, s3]" using le32_shape by metis
  obtain d0 d1 d2 d3 where da: "le32 (usp_inet_addr L DESTINATION_IP) = [d0, d1, d2, d3]" using le32_shape by metis
  obtain m0 m1 m2 m3 m4 m5 where m: "usp_mac L = [m0, m1, m2, m3, m4, m5]"
    using assms(1) by (auto simp: length_Suc_conv eval_nat_numeral)
  have frame: "frame = [0x00, 0x0C, 0x22, 0x44, 0xAA, 0xBB, m0, m1, m2, m3, m4, m5, 0x08, 0,
    0x45, 0, 92, 0, 0, 0, 0, 0, 63, 58, a0, a1, s0, s1, s2, s3, d0, d1, d2, d3, 128, 0] @ drop 36 old"
    using sent_frame [OF assms(1-4)] by (simp add: ca sa da m my_netdev_mac_def)
  have len: "length frame = 106" by (rule sent_length [OF assms(1-4)])
  have ttl: "usp_ip L 0 ! 8 = 64" by (simp add: usp_ip_def le16_def)
  show ?thesis
    using eth_rx_log [OF rx, unfolded len, OF p] ttl ca
    by (simp add: frame field_def sa da m my_netdev_mac_def)
qed

theorem icmp_frame_path_witness:
  "\<exists>r'. run_state (eth_netdev_rx lab_kernel 0x7100
      (snd (fst (run_state (eth_netdev_tx lab_kernel 0x7000 (usp_build lab_usp (replicate 106 129))) eth_zero)))) eth_zero = (Inr 0, r') \<and>
    Void_call (Printk KERN_INFO (ln ''Received packet: source MAC: %pM, destination MAC: %pM'')
      [PBytes [1, 2, 3, 4, 5, 6], PBytes my_netdev_mac]) \<in> set (klog r')"
proof -
  have mac: "length (usp_mac lab_usp) = 6" and old: "length (replicate 106 129 :: u8 list) = usp_packet_size"
    by (simp_all add: lab_usp_def usp_packet_size_def net_layout)
  obtain x frame s' where tx: "run_state (eth_netdev_tx lab_kernel 0x7000 (usp_build lab_usp (replicate 106 129))) eth_zero = ((x, frame), s')"
    by (metis prod.collapse)
  have go: "0 \<le> int_ret lab_kernel (klog eth_zero) (Validate_headers 0x7000 my_netdev MY_NETDEV_NAME)"
    by (simp add: lab_kernel_sel)
  have "length frame = 106" by (rule sent_length [OF mac old go tx])
  then obtain r' where rx: "run_state (eth_netdev_rx lab_kernel 0x7100 frame) eth_zero = (Inr 0, r')"
    using eth_rx_accepts [of frame lab_kernel eth_zero "0x7100"] by (auto simp: lab_kernel_sel)
  from icmp_frame_path [OF mac old go tx rx refl] rx show ?thesis
    by (simp add: tx) (simp add: lab_usp_def)
qed

text \<open>
  The temperature packet, received by the Ethernet driver: it is long enough for every header the
  driver reads, is reported with the sending device's address and the broadcast address, and is no
  ICMPv6 packet.
\<close>

theorem spi_frame_received:
  assumes "length dev_addr = 6" and "p = ptr_ret E (klog s) (Kmalloc 58)" and "p \<noteq> NULL"
  shows "\<exists>s' saddr daddr. run_state (eth_netdev_rx E skb (net_spi_build L dev_addr new_skb temperature)) s = (Inr 0, s') \<and>
    klog s' = klog s @ [Ptr_call (Kmalloc 58) p,
      Void_call (Printk KERN_INFO (ln ''Received packet: source MAC: %pM, destination MAC: %pM'')
        [PBytes dev_addr, PBytes (replicate 6 0xFF)]),
      Void_call (Printk KERN_INFO (ln ''  Source IP: %pI4, Destination IP: %pI4'') [PBytes saddr, PBytes daddr]),
      Void_call (Kfree p), Void_call (Dev_kfree_skb skb)]"
proof -
  define pkt where "pkt = net_spi_build L dev_addr new_skb temperature"
  have bytes: "length pkt = 58 \<and> field pkt 6 6 = dev_addr \<and> field pkt 0 6 = replicate 6 0xFF \<and> pkt ! 23 = 6"
    unfolding pkt_def net_spi_build_eq [OF assms(1)]
    by (rule net_spi_packet_bytes [OF assms(1), of L new_skb temperature]) (simp add: field_def replicate6)
  then obtain s' where rx: "run_state (eth_netdev_rx E skb pkt) s = (Inr 0, s')"
    using eth_rx_accepts [of pkt E s skb] assms(2,3) by auto
  from eth_rx_log [OF rx refl] bytes assms(2) rx show ?thesis
    unfolding pkt_def [symmetric] by auto
qed

theorem spi_frame_received_witness:
  "fst (run_state (eth_netdev_rx lab_kernel 0x7000 (net_spi_build lab_net_lib [1, 2, 3, 4, 5, 6] 0x7000 25)) eth_zero) = Inr 0"
  using spi_frame_received [of "[1, 2, 3, 4, 5, 6]" "0x6000" lab_kernel eth_zero "0x7000" lab_net_lib "0x7000" 25]
  by (auto simp: lab_kernel_sel)

end
