(* ===== verification/Net_Receiver.thy ===== *)
theory Net_Receiver
  imports User_API Net_Layout Net_Sender
begin

text \<open>
  \<open>net_usp.c\<close>, the receiving program, which the file holds inside a comment that is never closed: announce
  a request, receive a packet, print its headers, and again, without end.
\<close>

text \<open>
  The library: \<open>inet_ntoa\<close> writes an address as text into one static buffer, so two calls in one \<open>printf\<close>
  show the text of whichever was evaluated last, which C leaves open; \<open>from_addr\<close> is the sender's
  address a receive stored.
\<close>

record rcv_lib =
  inet_ntoa :: "u8 list \<Rightarrow> string"
  from_addr :: "uevent list \<Rightarrow> u8 list"
  saddr_last :: bool

definition RCV_SIZE :: nat where "RCV_SIZE = 2048"

text \<open>\<open>n\<close> bytes of a buffer, if all of them were written.\<close>

definition written :: "cbuf \<Rightarrow> nat \<Rightarrow> nat \<Rightarrow> u8 list option" where
  "written b i n = (if None \<notin> set (field b i n) then Some (map the (field b i n)) else None)"

definition reading :: "'b option \<Rightarrow> ('b \<Rightarrow> ('s, fault + 'a) state) \<Rightarrow> ('s, fault + 'a) state" where
  "reading x k = (case x of None \<Rightarrow> State_Monad.return (Inl Uninitialised) | Some v \<Rightarrow> k v)"

text \<open>
  Printing the headers. Outside the kernel \<open>%pM\<close> is a pointer followed by the letter M, so what is printed of the
  Ethernet header is where it lies. The packet pointer is read through from the IP header on.
\<close>

definition recv_report :: "uenv \<Rightarrow> rcv_lib \<Rightarrow> kptr \<Rightarrow> cbuf \<Rightarrow> (ust, fault + cbuf) state" where
  "recv_report E L p buf = do {
     uemit (Printf (ln ''  Ethernet source: %pM, destination: %pM'') [AInt (uint p + 6), AInt (uint p)]);
     if p = NULL then State_Monad.return (Inl Null_deref)
     else
       reading (written buf IP_SADDR 4) (\<lambda>saddr.
       reading (written buf IP_DADDR 4) (\<lambda>daddr. do {
         let shown = inet_ntoa L (if saddr_last L then saddr else daddr);
         uemit (Printf (ln ''  IP source: %s, destination: %s'') [AStr shown, AStr shown]);
         reading (written buf (ETHHDR + IPHDR) 2) (\<lambda>tc. do {
           uemit (Printf (ln ''  ICMPv6 type: %d, code: %d'') [AInt (uint (tc ! 0)), AInt (uint (tc ! 1))]);
           _ \<leftarrow> usys E (Sleep 1);
           State_Monad.return (Inr buf)
         })
       }))
   }"

text \<open>One round of the loop. A receive without flags stores and answers as a read does.\<close>

definition recv_round :: "uenv \<Rightarrow> rcv_lib \<Rightarrow> int \<Rightarrow> kptr \<Rightarrow> cbuf \<Rightarrow> (ust, fault + cbuf) state" where
  "recv_round E L fd p buf = do {
     uemit (Printf (ln ''Sending ICMPv6 echo request to %s'') [AStr DESTINATION_IP]);
     (bytes_received, buf) \<leftarrow> uread E fd buf RCV_SIZE;
     if bytes_received = - 1 then do {
       uemit (Perror ''recvfrom'');
       State_Monad.return (Inr buf)
     } else do {
       from \<leftarrow> reads (\<lambda>s. from_addr L (ulog s));
       uemit (Printf (ln ''Received %zd bytes from %s'') [AInt bytes_received, AStr (inet_ntoa L from)]);
       recv_report E L p buf
     }
   }"

partial_function (option) recv_loop ::
  "uenv \<Rightarrow> rcv_lib \<Rightarrow> int \<Rightarrow> kptr \<Rightarrow> cbuf \<Rightarrow> ust \<Rightarrow> ((fault + int) \<times> ust) option" where
  "recv_loop E L fd p buf s =
     (case run_state (recv_round E L fd p buf) s of
        (Inl f, s') \<Rightarrow> Some (Inl f, s')
      | (Inr buf', s') \<Rightarrow> recv_loop E L fd p buf' s')"

text \<open>
  The program. It sets up the address of the interface as the sending program does, and never uses it.
  What follows the loop is never reached, since the loop has no exit.
\<close>

definition recv_main :: "uenv \<Rightarrow> usp_lib \<Rightarrow> rcv_lib \<Rightarrow> ust \<Rightarrow> ((fault + int) \<times> ust) option" where
  "recv_main E U L s =
     (let (sockfd, s) = run_state (usys E (Socket ''AF_PACKET SOCK_RAW ETH_P_ALL'')) s
      in if sockfd = - 1 then
           (let (_, s) = run_state (uemit (Perror ''socket'')) s in Some (Inr 1, s))
         else
           (let s = snd (run_state (usp_address E U) s);
                (packet_buffer, s) = run_state (usys_ptr E (Malloc RCV_SIZE)) s
            in recv_loop E L sockfd packet_buffer (replicate RCV_SIZE None) s))"

text \<open>The first \<open>n\<close> rounds.\<close>

fun recv_rounds :: "uenv \<Rightarrow> rcv_lib \<Rightarrow> int \<Rightarrow> kptr \<Rightarrow> nat \<Rightarrow> cbuf \<Rightarrow> ust \<Rightarrow> (fault + cbuf) \<times> ust" where
  "recv_rounds E L fd p 0 buf s = (Inr buf, s)"
| "recv_rounds E L fd p (Suc n) buf s =
     (case run_state (recv_round E L fd p buf) s of
        (Inl f, s') \<Rightarrow> (Inl f, s')
      | (Inr buf', s') \<Rightarrow> recv_rounds E L fd p n buf' s')"

section \<open>One round\<close>

definition announced :: "uevent list \<Rightarrow> nat" where
  "announced h = count_list h (Printf (ln ''Sending ICMPv6 echo request to %s'') [AStr DESTINATION_IP])"

text \<open>Packets that hold every header the program prints, or errors.\<close>

definition full_packets :: "uenv \<Rightarrow> bool" where
  "full_packets E \<longleftrightarrow> (\<forall>h fd. read_ret E h fd RCV_SIZE = - 1 \<or> 36 \<le> read_ret E h fd RCV_SIZE)"

lemma written_fill:
  assumes "i + n \<le> length data" and "length data \<le> length buf"
  shows "written (fill buf data) i n = Some (field data i n)"
proof -
  have "field (fill buf data) i n = map Some (field data i n)"
    using assms by (simp add: fill_def field_def take_map drop_map)
  then show ?thesis by (auto simp: written_def comp_def)
qed

lemma round_outcome:
  "fst (run_state (recv_round E L fd p buf) s) = Inl f \<Longrightarrow> f = Null_deref \<or> f = Uninitialised"
  by (auto simp: recv_round_def recv_report_def reading_def Let_def split: if_splits option.splits)

lemma round_ok:
  assumes doc: "system_doc E" and full: "full_packets E" and "p \<noteq> NULL" and buf: "length buf = RCV_SIZE"
  obtains buf' s' where "run_state (recv_round E L fd p buf) s = (Inr buf', s')" and "length buf' = RCV_SIZE"
    and "announced (ulog s') = Suc (announced (ulog s))"
proof -
  define h where "h = ulog s @ [Printf (ln ''Sending ICMPv6 echo request to %s'') [AStr DESTINATION_IP]]"
  define r where "r = read_ret E h fd RCV_SIZE"
  define data where "data = take (nat r) (read_data E h fd RCV_SIZE)"
  consider "r = - 1" | "36 \<le> r" using full by (auto simp: full_packets_def r_def)
  moreover obtain x s' where run: "run_state (recv_round E L fd p buf) s = (x, s')" by fastforce
  ultimately have "\<exists>buf'. x = Inr buf' \<and> length buf' = RCV_SIZE \<and> announced (ulog s') = Suc (announced (ulog s))"
  proof cases
    case 1
    with run show ?thesis
      by (auto simp: recv_round_def h_def [symmetric] r_def [symmetric] buf) (auto simp: announced_def h_def)
  next
    case 2
    then have len: "length data = nat r" "nat r \<le> RCV_SIZE"
      using length_read [OF doc, of h fd RCV_SIZE] by (simp_all add: data_def r_def)
    have w: "written (fill buf data) i n = Some (field data i n)" if "i + n \<le> 36" for i n
      by (rule written_fill) (use that 2 len buf in linarith)+
    have "r \<noteq> - 1" using 2 by simp
    with assms(3) run show ?thesis
      by (auto simp: recv_round_def recv_report_def reading_def Let_def h_def [symmetric] r_def [symmetric]
          data_def [symmetric] w net_layout buf) (auto simp: announced_def h_def ln_def)
  qed
  with run that show thesis by blast
qed

lemma loop_round: "run_state (recv_round E L fd p buf) s = (Inr buf', s') \<Longrightarrow> recv_loop E L fd p buf s = recv_loop E L fd p buf' s'"
  by (subst recv_loop.simps) simp

lemma rounds_ok:
  assumes "system_doc E" and "full_packets E" and "p \<noteq> NULL"
  shows "length buf = RCV_SIZE \<Longrightarrow> \<exists>buf' s'. recv_rounds E L fd p n buf s = (Inr buf', s') \<and>
    recv_loop E L fd p buf s = recv_loop E L fd p buf' s' \<and> announced (ulog s') = announced (ulog s) + n"
proof (induction n arbitrary: buf s)
  case (Suc n)
  obtain buf1 s1 where r: "run_state (recv_round E L fd p buf) s = (Inr buf1, s1)" "length buf1 = RCV_SIZE"
    "announced (ulog s1) = Suc (announced (ulog s))"
    using round_ok [OF assms Suc.prems] .
  from Suc.IH [OF r(2), of s1] r loop_round [OF r(1)] show ?case by auto
qed simp

lemma loop_fault: "run_state (recv_round E L fd p buf) s = (Inl f, s') \<Longrightarrow> recv_loop E L fd p buf s = Some (Inl f, s')"
  by (subst recv_loop.simps) simp

text \<open>A result of the loop is the fault of some round.\<close>

lemma loop_result:
  assumes "recv_loop E L fd p buf s = Some y"
  shows "fst y = Inl Null_deref \<or> fst y = Inl Uninitialised"
proof (rule recv_loop.raw_induct [where P = "\<lambda>E L fd p buf s y. fst y = Inl Null_deref \<or> fst y = Inl Uninitialised", OF _ assms])
  fix loop E L fd p buf s y
  assume "\<And>E L fd p buf s y. loop E L fd p buf s = Some y \<Longrightarrow> fst y = Inl Null_deref \<or> fst y = Inl Uninitialised"
    and "(case run_state (recv_round E L fd p buf) s of (Inl f, s') \<Rightarrow> Some (Inl f, s')
      | (Inr buf', s') \<Rightarrow> loop E L fd p buf' s') = Some y"
  then show "fst y = Inl Null_deref \<or> fst y = Inl Uninitialised"
    using round_outcome [of E L fd p buf s]
    by (cases "run_state (recv_round E L fd p buf) s") (auto split: sum.splits)
qed

lemma loop_forever:
  assumes "recv_loop E L fd p buf s = Some y"
  shows "system_doc E \<Longrightarrow> full_packets E \<Longrightarrow> p \<noteq> NULL \<Longrightarrow> length buf \<noteq> RCV_SIZE"
proof -
  let ?P = "\<lambda>E (L :: rcv_lib) fd p buf (s :: ust) (y :: (fault + int) \<times> ust).
    system_doc E \<longrightarrow> full_packets E \<longrightarrow> p \<noteq> NULL \<longrightarrow> length buf \<noteq> RCV_SIZE"
  have "?P E L fd p buf s y"
  proof (rule recv_loop.raw_induct [where P = ?P, OF _ assms], intro impI notI)
    fix loop E L fd p buf s y
    assume IH: "\<And>E L fd p buf s y. loop E L fd p buf s = Some y \<Longrightarrow> ?P E L fd p buf s y"
      and step: "(case run_state (recv_round E L fd p buf) s of (Inl f, s') \<Rightarrow> Some (Inl f, s')
        | (Inr buf', s') \<Rightarrow> loop E L fd p buf' s') = Some y"
      and a: "system_doc E" "full_packets E" "p \<noteq> NULL" "length buf = RCV_SIZE"
    obtain buf1 s1 where r: "run_state (recv_round E L fd p buf) s = (Inr buf1, s1)" "length buf1 = RCV_SIZE"
      using round_ok [OF a] .
    with step have "loop E L fd p buf1 s1 = Some y" by simp
    from IH [OF this] a r show False by blast
  qed
  then show "system_doc E \<Longrightarrow> full_packets E \<Longrightarrow> p \<noteq> NULL \<Longrightarrow> length buf \<noteq> RCV_SIZE" by blast
qed

section \<open>Properties\<close>

text \<open>
  The program never exits with success, so that what follows its loop is never
  reached: it ends only by failing to get a socket, or by a fault, on a packet shorter than its headers or
  without memory.
\<close>

theorem receiver_outcome:
  assumes "recv_main E U L s = Some (x, s')"
  shows "(x = Inr 1 \<and> sys E (ulog s) (Socket ''AF_PACKET SOCK_RAW ETH_P_ALL'') = - 1) \<or>
    x = Inl Null_deref \<or> x = Inl Uninitialised"
  using assms loop_result by (fastforce simp: recv_main_def Let_def split: if_splits)

definition lab_rcv :: rcv_lib where
  "lab_rcv = \<lparr>inet_ntoa = (\<lambda>a. ''10.0.0.1''), from_addr = (\<lambda>h. [10, 0, 0, 1]), saddr_last = True\<rparr>"

theorem receiver_outcome_witness:
  "\<exists>s'. recv_main lab_system lab_usp lab_rcv fresh_process = Some (Inl Uninitialised, s')"
proof -
  have short: "written (fill (replicate RCV_SIZE None) (replicate 2 65)) IP_SADDR 4 = None"
    by (simp add: written_def fill_def field_def RCV_SIZE_def net_layout)
  have two: "min RCV_SIZE 2 = 2" "(0x500 :: kptr) \<noteq> NULL" by (simp_all add: RCV_SIZE_def)
  have round: "fst (run_state (recv_round lab_system lab_rcv 4 0x500 (replicate RCV_SIZE None)) s) = Inl Uninitialised" for s
    by (simp add: recv_round_def recv_report_def reading_def lab_system_sel short two RCV_SIZE_def [symmetric])
      (simp add: RCV_SIZE_def short [unfolded RCV_SIZE_def])
  let ?s = "fresh_process\<lparr>ulog := [U_call (Socket ''AF_PACKET SOCK_RAW ETH_P_ALL'') 4, U_call (If_nametoindex usp_NETDEV_NAME) 2, U_ptr (Malloc RCV_SIZE) 0x500]\<rparr>"
  obtain s' where "run_state (recv_round lab_system lab_rcv 4 0x500 (replicate RCV_SIZE None)) ?s = (Inl Uninitialised, s')"
    using round [of ?s] by (metis prod.collapse)
  from loop_fault [OF this] have run: "recv_main lab_system lab_usp lab_rcv fresh_process = Some (Inl Uninitialised, s')"
    by (simp add: recv_main_def lab_system_sel)
  from receiver_outcome [OF run] run show ?thesis by blast
qed

text \<open>
  C22: given documented system calls, a socket, memory, and packets that hold the headers, the receiving program (which its file
  holds in a comment, with the construction and sending of the request left out) runs forever: it has no result,
  and for every \<open>n\<close> it comes, from the state in which it enters its loop, through \<open>n\<close> rounds without a fault,
  having announced \<open>n\<close> requests.
\<close>

theorem receiver_forever:
  assumes "system_doc E" and "full_packets E"
    and fd: "sys E (ulog s) (Socket ''AF_PACKET SOCK_RAW ETH_P_ALL'') = fd" "fd \<noteq> - 1"
    and h: "h = ulog s @ [U_call (Socket ''AF_PACKET SOCK_RAW ETH_P_ALL'') fd]"
    and i: "i = sys E h (If_nametoindex ''my_netdev'')"
    and p: "sys_ptr E (h @ [U_call (If_nametoindex ''my_netdev'') i]) (Malloc 2048) = p" "p \<noteq> NULL"
    and s0: "s0 = s\<lparr>ulog := h @ [U_call (If_nametoindex ''my_netdev'') i, U_ptr (Malloc 2048) p]\<rparr>"
  shows "recv_main E U L s = None \<and>
    (\<exists>buf' s'. recv_rounds E L fd p n (replicate 2048 None) s0 = (Inr buf', s') \<and>
      recv_main E U L s = recv_loop E L fd p buf' s' \<and> announced (ulog s') = announced (ulog s0) + n)"
proof
  have main: "recv_main E U L s = recv_loop E L fd p (replicate RCV_SIZE None) s0"
    using fd p by (simp add: recv_main_def RCV_SIZE_def usp_NETDEV_NAME_def h i s0)
  have len: "length (replicate RCV_SIZE None :: cbuf) = RCV_SIZE" by simp
  show "recv_main E U L s = None"
  proof (rule ccontr)
    assume "recv_main E U L s \<noteq> None"
    then obtain y where "recv_loop E L fd p (replicate RCV_SIZE None) s0 = Some y" using main by auto
    from loop_forever [OF this assms(1,2) p(2)] len show False by blast
  qed
  show "\<exists>buf' s'. recv_rounds E L fd p n (replicate 2048 None) s0 = (Inr buf', s') \<and>
      recv_main E U L s = recv_loop E L fd p buf' s' \<and> announced (ulog s') = announced (ulog s0) + n"
    using rounds_ok [OF assms(1,2) p(2) len, of L fd n s0] unfolding main by (simp add: RCV_SIZE_def)
qed

definition lab_receiving :: uenv where
  "lab_receiving = lab_system\<lparr>read_ret := (\<lambda>h fd n. min (int n) 60), read_data := (\<lambda>h fd n. replicate (min n 60) 1)\<rparr>"

theorem receiver_forever_witness:
  "recv_main lab_receiving lab_usp lab_rcv fresh_process = None"
proof -
  have doc: "system_doc lab_receiving"
    using lab_system_doc by (auto simp: system_doc_def lab_receiving_def lab_system_sel)
  have full: "full_packets lab_receiving"
    by (simp add: full_packets_def lab_receiving_def RCV_SIZE_def)
  from receiver_forever [OF doc full, of fresh_process 4 _ _ "0x500", OF _ _ refl refl _ _ refl] show ?thesis
    by (simp add: lab_receiving_def lab_system_sel)
qed

end
