(* ===== verification/Net_Echo.thy ===== *)
theory Net_Echo
  imports Net_Path Net_Receiver
begin

text \<open>
  The two programs of \<open>net_usp.c\<close> and the Ethernet driver between them: the request the sending program
  builds goes through the driver's transmit function and arrives at the socket of the receiving program.
\<close>

text \<open>
  C30: the receiving program takes in all 106 bytes, unwritten ones included, and reports
  one of the two IP addresses as source and destination alike, and an ICMPv6 message of type 128 and code 0:
  the request it would have to send itself, and no reply.
\<close>

theorem echo_reported:
  assumes mac: "length (usp_mac L) = 6" and old: "length old = usp_packet_size"
    and go: "0 \<le> int_ret E (klog s) (Validate_headers skb my_netdev MY_NETDEV_NAME)"
    and tx: "run_state (eth_netdev_tx E skb (usp_build L old)) s = ((y, frame), s')"
    and h: "h = ulog r @ [Printf (ln ''Sending ICMPv6 echo request to %s'') [AStr DESTINATION_IP]]"
    and recv: "read_ret U h fd 2048 = 106" "read_data U h fd 2048 = frame"
    and p: "p \<noteq> NULL" and buf: "length buf = 2048"
    and run: "run_state (recv_round U lib fd p buf) r = (x, r')"
  shows "x = Inr (map Some frame @ drop 106 buf) \<and>
    (\<exists>q. ulog r' = h @ [U_read fd 2048 106 frame,
      Printf (ln ''Received %zd bytes from %s'') [AInt 106, AStr (inet_ntoa lib (from_addr lib (h @ [U_read fd 2048 106 frame])))],
      Printf (ln ''  Ethernet source: %pM, destination: %pM'') [AInt (uint p + 6), AInt (uint p)],
      Printf (ln ''  IP source: %s, destination: %s'')
        (replicate 2 (AStr (inet_ntoa lib (le32 (usp_inet_addr L (if saddr_last lib then ''192.168.1.10'' else ''192.168.0.20'')))))),
      Printf (ln ''  ICMPv6 type: %d, code: %d'') [AInt 128, AInt 0], U_call (Sleep 1) q])"
proof -
  have len: "length frame = 106" by (rule sent_length [OF mac old go tx])
  obtain m0 m1 m2 m3 m4 m5 where m: "usp_mac L = [m0, m1, m2, m3, m4, m5]"
    using mac by (auto simp: length_Suc_conv eval_nat_numeral)
  have fields: "field frame 26 4 = le32 (usp_inet_addr L ''192.168.1.10'')" "field frame 30 4 = le32 (usp_inet_addr L DESTINATION_IP)"
    "field frame 34 2 = [128, 0]"
    unfolding sent_frame [OF mac old go tx] field_def m by (simp_all add: my_netdev_mac_def)
  have w: "written (fill buf frame) i n = Some (field frame i n)" if "i + n \<le> 106" for i n
    by (rule written_fill) (use that len buf in simp_all)
  have fb: "fill buf frame = map Some frame @ drop 106 buf"
    using len buf by (simp add: fill_def)
  show ?thesis
    using run [symmetric] p
    unfolding h
    by (simp add: recv_round_def RCV_SIZE_def recv [unfolded h DESTINATION_IP_def] len recv_report_def reading_def net_layout w fields [unfolded DESTINATION_IP_def] fb [symmetric]
        DESTINATION_IP_def Let_def del: append_assoc) (simp add: fb numeral_2_eq_2)
qed

text \<open>A system whose one packet is the frame the driver sends.\<close>

definition lab_frame :: "u8 list" where
  "lab_frame = snd (fst (run_state (eth_netdev_tx lab_kernel 0x7000 (usp_build lab_usp (replicate 106 0))) eth_zero))"

definition lab_echo :: uenv where
  "lab_echo = lab_system\<lparr>read_ret := (\<lambda>h fd n. 106), read_data := (\<lambda>h fd n. lab_frame)\<rparr>"

theorem echo_reported_witness:
  "Printf (ln ''  ICMPv6 type: %d, code: %d'') [AInt 128, AInt 0]
     \<in> set (ulog (snd (run_state (recv_round lab_echo lab_rcv 4 0x500 (replicate 2048 None)) fresh_process)))"
proof -
  have mac: "length (usp_mac lab_usp) = 6" and old: "length (replicate 106 0 :: u8 list) = usp_packet_size"
    by (simp_all add: lab_usp_def usp_packet_size_def net_layout)
  have go: "0 \<le> int_ret lab_kernel (klog eth_zero) (Validate_headers 0x7000 my_netdev MY_NETDEV_NAME)"
    by (simp add: lab_kernel_sel)
  obtain y s' where tx: "run_state (eth_netdev_tx lab_kernel 0x7000 (usp_build lab_usp (replicate 106 0))) eth_zero = ((y, lab_frame), s')"
    by (metis lab_frame_def prod.collapse)
  obtain x r' where run: "run_state (recv_round lab_echo lab_rcv 4 0x500 (replicate 2048 None)) fresh_process = (x, r')"
    by fastforce
  have "\<exists>q. ulog r' = ulog fresh_process @ [Printf (ln ''Sending ICMPv6 echo request to %s'') [AStr DESTINATION_IP]] @ q \<and>
      Printf (ln ''  ICMPv6 type: %d, code: %d'') [AInt 128, AInt 0] \<in> set q"
    using echo_reported [OF mac old go tx refl _ _ _ _ run] by (force simp: lab_echo_def)
  then show ?thesis by (auto simp: run)
qed

end
