(* ===== verification/Hello_User.thy ===== *)
theory Hello_User
  imports User_API
begin

text \<open>\<open>hello_test.c\<close>: print one line and exit with 0.\<close>

definition hello_main :: "uenv \<Rightarrow> (ust, fault + int) state" where
  "hello_main E = do {
     uemit (Printf (ln ''hello test'') []);
     State_Monad.return (Inr 0)
   }"

interpretation hello_prog: tidy_program hello_main "\<lambda>E. True"
  by unfold_locales (auto simp: hello_main_def uheld_simps)

end
