(* ===== verification/Spec2Isabelle.thy ===== *)
theory Spec2Isabelle
  imports Modules Module_Sharing Open_Files Concurrent_Buffers E1000_Adapter I2c_User Wifi_User Usb_User Uart_User Can_User Spi_User Bluetooth_User Wifi_Scan_User Net_Link Net_Echo Hello_User
begin

text \<open>
  A collection of small Linux drivers and the user-space programs that exercise them: character
  drivers, bus drivers, network drivers, the header of Intel's e1000 driver, and test programs. The
  files do not call one another. What they share is the kernel below the drivers, the system calls
  below the programs, and, between a program and a driver, the device file.

  \<^bold>\<open>How the program is modelled.\<close> The kernel and the C library are not in the repository, so they are
  parameters: the records \<open>kenv\<close> (theory \<open>Kernel_API\<close>) and \<open>uenv\<close> (theory \<open>User_API\<close>) answer each call from
  the whole history of calls before it, so any answer is possible at any point. A driver's static
  variables are a record that extends \<open>kst\<close>; each C function is a program of the state monad over it,
  statement by statement, and every call it makes is appended to the history \<open>klog\<close> with its answer.
  A user program does the same over \<open>ust\<close>. Undefined behaviour is a value of \<open>fault\<close>: dereferencing
  null, reading outside a buffer or memory never written, ending without a return, running code that was
  unloaded. Machine integers are words of their width, packets are byte lists, a buffer with unwritten
  bytes is a list of optional bytes, and an \<open>int\<close> that is only tested for its sign is an integer.

  \<^bold>\<open>Shared theories.\<close> \<open>Prelude\<close>: C types, two state primitives, and the resource tracker \<open>track\<close>, which
  replays a history against a stack and rejects a release out of order or a use after release.
  \<open>Bytes\<close>: byte orders with their round trips, buffer fields, C strings. \<open>Buffer_Stores\<close>: stores of
  members and bit-fields through a header pointer, and the IPv4 header both packet builders make.
  \<open>C_Loops\<close>: the counting loop over a 32-bit \<open>int\<close>, which may not end, and the lemmas that give its
  number of rounds. \<open>Kernel_API\<close>: the calls, the documented sign conventions (\<open>kernel_doc\<close>), the
  resources each call takes or gives (\<open>kacts\<close>, \<open>held\<close>), kernels that grant every request from some point on
  (\<open>grants_from\<close>), file operations and the dispatch \<open>vfs\<close>, and
  \<open>lab_kernel\<close>, a kernel to run things on. \<open>User_API\<close>: the same for programs. \<open>Net_Layout\<close>: wire
  offsets and checked reads.

  \<^bold>\<open>Interfaces.\<close> \<open>Module_Lifecycle\<close>: the step relation \<open>mod_step\<close> of loading, calling back and unloading,
  in which every load starts from the static variables as the file initialises them (each driver's \<open>_zero\<close>),
  and the locale \<open>driver_module\<close>: a driver whose init, callbacks and exit respect its resources holds
  exactly those while loaded and none otherwise, crashes only in the ways it names, and can always be
  unloaded and, where its init is accepted, loaded again. \<open>kmodule\<close> is the contract with no crash at
  all, and gives \<open>driver_module\<close>; \<open>simulation\<close> relates a driver to an abstract machine that is told what each operation
  put out and accepts or refuses it (\<open>accepts\<close>). \<open>Char_Device\<close>:
  the locale \<open>char_device\<close>, what a read handler owes the programs behind the device file, and the system
  \<open>via_driver\<close> whose calls end in a driver. \<open>Device_Files\<close>: the step relation \<open>dev_step\<close> of programs that
  open, use and close the device file while the module is loaded and unloaded, with the kernel's count of
  open files, its projection onto \<open>mod_step\<close>, and the locale \<open>owned_device\<close>. \<open>Shared_Kernel\<close>: the kernel
  as one module among others sees it (\<open>view\<close>), the step relation \<open>among_step\<close> in which the rest of the system
  acts between the module's steps, the registry of device numbers, and the locale \<open>numbered_module\<close>, which
  extends \<open>kmodule\<close> by what a module with a fixed number guarantees to the others. \<open>Concurrent_Calls\<close>:
  handlers as threads of steps, the step relation \<open>pool\<close> of calls that overlap in every interleaving, with a
  history that says which call made which kernel calls, and the contracts of a handler under it, \<open>linear_object\<close>
  (one effect per call, hence linearizable) and \<open>owning_calls\<close> (each call gives back what it took itself, and
  only that, and ends as it promises). \<open>User_API\<close>: the locale
  \<open>tidy_program\<close>. Every driver and every program that meets a contract interprets it, in its own theory or
  where drivers are put together.

  \<^bold>\<open>Drivers.\<close> \<open>Can_Driver\<close> (\<open>MyCanDriver.c\<close>), \<open>Wifi_Driver\<close> (\<open>Wi-fi_device_driver.c\<close>), \<open>Bluetooth_Driver\<close>
  (\<open>MyBlutooth_Device_Driver.c\<close>): stubs under the fixed numbers 250, 251, 252. \<open>Esp32_Driver\<close>
  (\<open>MyWi-fiDriver.c\<close>), \<open>Ioctl_Driver\<close> (\<open>Ioctl_kernel_device_driver.c\<close>), \<open>I2c_Driver\<close> (\<open>I2c_driver_test.c\<close>),
  \<open>Spi_Char_Driver\<close> (\<open>CharSpiKS.c\<close>): allocated numbers, classes, devices, error labels. \<open>Spi_Bus_Driver\<close>
  (\<open>Spi_kernel_space_test_v1_1.c\<close>), \<open>Usb_Driver\<close> (\<open>USB_device_driver_v1_1.c\<close>), \<open>Uart_Driver\<close>
  (\<open>UART_as_char_driver_registration.c\<close>): bus registration. \<open>Net_Eth\<close> (\<open>net_eth.c\<close>) and \<open>Net_Spi\<close>
  (\<open>netSpi.c\<close>): packets. Each names its functions as the source does (with a prefix where C's static
  names collide), records what the file declares of its module (\<open>_about\<close>, \<open>_module\<close>), and proves what its
  init does on every answer, what its operations compute, and where it fails its callers. \<open>Modules\<close> puts
  the drivers with one registration together. \<open>Net_Spi\<close> has its packet twice, as the stores the code
  makes (\<open>net_spi_build\<close>, which the transmit handler queues) and as the layout they amount to
  (\<open>net_spi_packet\<close>), with the proof that both agree. \<open>E1000_Defs\<close>, \<open>E1000_Hw\<close> and \<open>E1000_Adapter\<close>
  (\<open>e1000.h\<close>): flags, limits, timer increments, rings, descriptor addresses, register access, the
  wrappers over function pointers, and the adapter and board records.

  \<^bold>\<open>Programs.\<close> \<open>I2c_User\<close>, \<open>Wifi_User\<close>, \<open>Usb_User\<close>, \<open>Uart_User\<close>, \<open>Can_User\<close>, \<open>Spi_User\<close>, \<open>Bluetooth_User\<close>,
  \<open>Wifi_Scan_User\<close> (\<open>Wifi-userSpace.c\<close>), \<open>Hello_User\<close>, and \<open>Net_Sender\<close> and \<open>Net_Receiver\<close> (\<open>net_usp.c\<close>)
  model each \<open>main\<close> whole: what it prints, its exit status, the descriptors it leaves open, the memory it
  reads. The sender's packet, too, is given as stores and as a layout.

  \<^bold>\<open>Composition.\<close> \<open>Open_Files\<close> has the character drivers under open files: which are pinned by them,
  which can be unloaded under them, which is never reached. \<open>Module_Sharing\<close> has the modules on one kernel in
  every interleaving. \<open>Net_Path\<close> follows a packet from its builder through the Ethernet driver's transmit and
  receive functions, \<open>Net_Echo\<close> on to the receiving program. \<open>Net_Link\<close> has the SPI network driver's
  interface going up and down under the network core. \<open>Ioctl_Concurrent\<close> and \<open>Concurrent_Buffers\<close> have the
  handlers that share a variable or take memory (ioctl, SPI read, packet reception) called by several
  processes or processors at once: each is cut into its steps, proved to be the sequential handler when
  nothing interrupts it, and shown to be linearizable, whatever the user copies answer, or to account for every
  buffer and packet call by call; what the missing lock costs is the line that reports another process's value. This theory has the three fixed-number drivers on one
  kernel, the Wi-Fi program on the Wi-Fi drivers, and any program on any character driver.

  \<^bold>\<open>Recursion.\<close> The code has three loops. The two printing loops are \<open>for_int\<close> loops (\<open>bt_loop\<close>, \<open>spi_loop\<close>),
  proved to end and to equal the structural recursions the programs use; the receiving loop is a
  \<open>partial_function\<close> proved never to end on full packets. No fuel is used. How often and in which order
  the kernel calls a driver is the step relation, without bound.

  \<^bold>\<open>Not modelled.\<close> The external declarations of \<open>e1000.h\<close>, whose code is elsewhere; the placeholder
  \<open>uart_fops\<close>, whose members are comments; the files that only hold links. A member of \<open>e1000_adapter\<close> that exists only
  under a compile-time option is in the record. What a SPI transfer received is the list \<open>spi_rx\<close> of the bytes at
  the buffer it returned; of a buffer shorter than \<open>DATA_SIZE\<close> nothing is said, since the transfer helper of the
  character driver is not in the repository. Modules interleave by whole steps (an init, a callback, an
  exit); inside a handler a step is one access to what is shared, so a user copy of the four-byte \<open>value\<close> is
  one access, and the handlers that make a single call (CAN, Wi-Fi, Bluetooth, ESP32) are one step each. The
  network core makes the transmit calls of one queue one after the other, so those are not overlapped. The
  receiver is inside a comment of its file and is modelled as it stands there, without the packet construction
  and sending it leaves out. A call that fails to
  fill its result leaves an arbitrary value in it. Where a file uses a name it does not declare (the \<open>cdev\<close> of
  \<open>MyWi-fiDriver.c\<close>, the transfer helper of the SPI files), the obvious static object or a parameter stands
  for it.
\<close>

section \<open>The three drivers with fixed numbers, side by side\<close>

text \<open>
  Loading the CAN, Wi-Fi and Bluetooth modules one after the other on one kernel, whose history goes from
  each to the next, and unloading them in the reverse order.
\<close>

definition load_static :: "kenv \<Rightarrow> kevent list \<Rightarrow> int list \<times> (can_state \<times> wifi_state \<times> bluetooth_state)" where
  "load_static E h =
     (let (r1, s1) = run_state (can_init E) \<lparr>klog = h, can_dev = 0\<rparr>;
          (r2, s2) = run_state (wifi_init E) \<lparr>klog = klog s1, wifi_dev = 0\<rparr>;
          (r3, s3) = run_state (bluetooth_init E) \<lparr>klog = klog s2, bluetooth_dev = 0\<rparr>
      in ([r1, r2, r3], s1, s2, s3))"

definition unload_static :: "kenv \<Rightarrow> can_state \<times> wifi_state \<times> bluetooth_state \<Rightarrow> can_state" where
  "unload_static E ss =
     (let (s1, s2, s3) = ss;
          s3' = snd (run_state (bluetooth_exit E) s3);
          s2' = snd (run_state (wifi_exit E) (s2\<lparr>klog := klog s3'\<rparr>))
      in snd (run_state (can_exit E) (s1\<lparr>klog := klog s2'\<rparr>)))"

text \<open>
  Documented behaviour of the character-device registry: a number range nobody holds can be
  registered, and a cdev can be added on a registered range.
\<close>

definition chrdev_registry :: "kenv \<Rightarrow> bool" where
  "chrdev_registry E \<longleftrightarrow>
     (\<forall>h st d nm. track (kacts E) h [] = Some st \<longrightarrow> Region d 1 \<notin> set st \<longrightarrow> 0 \<le> int_ret E h (Register_chrdev_region d 1 nm)) \<and>
     (\<forall>h c d. 0 \<le> int_ret E h (Cdev_add c d 1))"

lemma registry_free:
  "chrdev_registry E \<Longrightarrow> held E s = Some st \<Longrightarrow> Region d 1 \<notin> set st \<Longrightarrow> 0 \<le> int_ret E (klog s) (Register_chrdev_region d 1 nm)"
  by (auto simp: chrdev_registry_def held_def)

lemma static_init_ok:
  assumes "chrdev_registry E" and "Region (MKDEV E 250 0) 1 \<notin> set st"
    and "held E s = Some st"
  shows "\<exists>s'. run_state (can_init E) s = (0, s') \<and> can_dev s' = MKDEV E 250 0"
  using registry_free [OF assms(1,3,2), of can_DEV_NAME] assms(1)
  by (auto simp: can_prog Let_def can_MAJOR_NUM_def can_MINOR_NUM_def can_NUM_MINORS_def chrdev_registry_def not_less [symmetric])

lemma wifi_init_ok:
  assumes "chrdev_registry E" and "Region (MKDEV E 251 0) 1 \<notin> set st"
    and "held E s = Some st"
  shows "\<exists>s'. run_state (wifi_init E) s = (0, s') \<and> wifi_dev s' = MKDEV E 251 0"
  using registry_free [OF assms(1,3,2), of wifi_DEV_NAME] assms(1)
  by (auto simp: wifi_prog Let_def wifi_MAJOR_NUM_def wifi_MINOR_NUM_def wifi_NUM_MINORS_def chrdev_registry_def not_less [symmetric])

lemma bluetooth_init_ok:
  assumes "chrdev_registry E" and "Region (MKDEV E 252 0) 1 \<notin> set st"
    and "held E s = Some st"
  shows "\<exists>s'. run_state (bluetooth_init E) s = (0, s') \<and> bluetooth_dev s' = MKDEV E 252 0"
  using registry_free [OF assms(1,3,2), of bluetooth_DEV_NAME] assms(1)
  by (auto simp: bluetooth_prog Let_def bluetooth_MAJOR_NUM_def bluetooth_MINOR_NUM_def bluetooth_NUM_MINORS_def chrdev_registry_def
      not_less [symmetric])

lemma held_klog: "klog s = klog t \<Longrightarrow> held E s = held E t"
  by (simp add: held_def)

text \<open>
  The three modules with fixed device numbers never get in each other's way: on a kernel whose
  registry gives out free numbers, all three load, each with its own range, and unloading them in reverse
  order gives everything back.
\<close>

theorem static_drivers_coexist:
  assumes reg: "chrdev_registry E" and dev: "distinct [MKDEV E 250 0, MKDEV E 251 0, MKDEV E 252 0]"
    and st: "track (kacts E) h [] = Some st" "Region (MKDEV E 250 0) 1 \<notin> set st" "Region (MKDEV E 251 0) 1 \<notin> set st" "Region (MKDEV E 252 0) 1 \<notin> set st"
    and load: "load_static E h = (rs, s1, s2, s3)"
  shows "rs = [0, 0, 0] \<and>
    held E s3 = Some ([Cdev_live bluetooth_cdev, Region (MKDEV E 252 0) 1, Cdev_live wifi_cdev, Region (MKDEV E 251 0) 1,
      Cdev_live can_cdev, Region (MKDEV E 250 0) 1] @ st) \<and>
    held E (unload_static E (s1, s2, s3)) = Some st"
proof -
  note holds = can_holds_def wifi_holds_def bluetooth_holds_def can_NUM_MINORS_def wifi_NUM_MINORS_def bluetooth_NUM_MINORS_def
  let ?s0 = "\<lparr>klog = h, can_dev = 0\<rparr>"
  have h0: "held E ?s0 = Some st" using st(1) by (simp add: held_def)
  obtain t1 where t1: "run_state (can_init E) ?s0 = (0, t1)" "can_dev t1 = MKDEV E 250 0"
    using static_init_ok [OF reg st(2) h0] by blast
  have h1: "held E t1 = Some (can_holds t1 @ st)" using can_init_law [OF t1(1) h0] by simp
  let ?s1 = "\<lparr>klog = klog t1, wifi_dev = 0\<rparr>"
  have h1': "held E ?s1 = Some (can_holds t1 @ st)" using h1 by (simp add: held_def)
  obtain t2 where t2: "run_state (wifi_init E) ?s1 = (0, t2)" "wifi_dev t2 = MKDEV E 251 0"
    using wifi_init_ok [OF reg _ h1'] dev st by (auto simp: holds t1(2))
  have h2: "held E t2 = Some (wifi_holds t2 @ can_holds t1 @ st)" using wifi_init_law [OF t2(1) h1'] by simp
  let ?s2 = "\<lparr>klog = klog t2, bluetooth_dev = 0\<rparr>"
  have h2': "held E ?s2 = Some (wifi_holds t2 @ can_holds t1 @ st)" using h2 by (simp add: held_def)
  obtain t3 where t3: "run_state (bluetooth_init E) ?s2 = (0, t3)" "bluetooth_dev t3 = MKDEV E 252 0"
    using bluetooth_init_ok [OF reg _ h2'] dev st by (auto simp: holds t1(2) t2(2))
  have h3: "held E t3 = Some (bluetooth_holds t3 @ wifi_holds t2 @ can_holds t1 @ st)"
    using bluetooth_init_law [OF t3(1) h2'] by simp
  have ss: "rs = [0, 0, 0]" "s1 = t1" "s2 = t2" "s3 = t3"
    using load t1(1) t2(1) t3(1) by (auto simp: load_static_def)
  define u3 where "u3 = snd (run_state (bluetooth_exit E) t3)"
  define u2 where "u2 = snd (run_state (wifi_exit E) (t2\<lparr>klog := klog u3\<rparr>))"
  have "held E u3 = Some (wifi_holds t2 @ can_holds t1 @ st)"
    by (rule bluetooth_exit_law [OF _ h3]) (simp add: u3_def prod_eq_iff)
  then have "held E (t2\<lparr>klog := klog u3\<rparr>) = Some (wifi_holds (t2\<lparr>klog := klog u3\<rparr>) @ can_holds t1 @ st)"
    by (simp add: held_def holds)
  then have "held E u2 = Some (can_holds t1 @ st)"
    by (rule wifi_exit_law [rotated]) (simp add: u2_def prod_eq_iff)
  then have "held E (t1\<lparr>klog := klog u2\<rparr>) = Some (can_holds (t1\<lparr>klog := klog u2\<rparr>) @ st)"
    by (simp add: held_def holds)
  then have "held E (unload_static E (t1, t2, t3)) = Some st"
    by (rule can_exit_law [rotated]) (simp add: unload_static_def u3_def u2_def prod_eq_iff)
  with h3 ss show ?thesis by (simp add: holds t1(2) t2(2) t3(2))
qed

lemma lab_registry: "chrdev_registry lab_kernel"
  by (simp add: chrdev_registry_def lab_kernel_sel)

theorem static_drivers_coexist_witness:
  "\<exists>s1 s2 s3. load_static lab_kernel [] = ([0, 0, 0], s1, s2, s3) \<and> held lab_kernel (unload_static lab_kernel (s1, s2, s3)) = Some []"
proof -
  obtain rs s1 s2 s3 where load: "load_static lab_kernel [] = (rs, s1, s2, s3)" by (metis prod.collapse)
  have dev: "distinct [MKDEV lab_kernel 250 0, MKDEV lab_kernel 251 0, MKDEV lab_kernel 252 0]"
    by (simp add: lab_kernel_def)
  from static_drivers_coexist [OF lab_registry dev _ _ _ _ load] load show ?thesis by auto
qed

section \<open>The Wi-Fi program on the Wi-Fi drivers\<close>

text \<open>
  C39: on the stub driver the program succeeds and prints an empty answer; on the driver written for its
  device file, which has no write handler, it fails at the write, whenever the kernel answers a missing
  handler with a negative error. Either driver sees the device opened once and released once.
\<close>

theorem wifi_end_to_end:
  assumes "0 \<le> sys U [] (Open WIFI_DEVICE_FILE)" and "sint (no_handler E (F_write p 4)) < 0"
    and stub: "run_state (wifi_main (via_driver E wifi_fops ds p U)) fresh_process = (x, s)"
    and esp32: "run_state (wifi_main (via_driver E esp32_fops ds' p U)) fresh_process = (x', s')"
  shows "x = Inr 0 \<and> Printf (ln ''Received from device: %s'') [ABytes []] \<in> set (ulog s) \<and>
    klog (replay E wifi_fops p (ulog s) ds) = klog ds @
      [Void_call (Printk KERN_INFO (ln ''Wi-Fi device opened'') []), Void_call (Printk KERN_INFO (ln ''Wi-Fi device closed'') [])] \<and>
    x' = Inr (- 1) \<and> Perror ''Failed to write to device'' \<in> set (ulog s') \<and>
    klog (replay E esp32_fops p (ulog s') ds') = klog ds' @
      [Void_call (Printk KERN_INFO (ln ''Opened /dev/myWi-Fi device'') []), Void_call (Printk KERN_INFO (ln ''Closed /dev/my-Wi-Fi device'') [])]"
proof -
  have len: "length wifi_data_to_send = 4" by (simp add: wifi_data_to_send_def)
  have empty: "cstr ((fill (replicate 256 None) [])[0 := Some 0]) = Some []"
    by (simp add: fill_def numeral_eq_Suc)
  note run = wifi_main_def via_driver_def Let_def drive_def vfs_def user_status_def len show_string_def not_less
  show ?thesis
    using assms(1,2) stub [symmetric] esp32 [symmetric]
    by (simp add: run wifi_prog esp32_prog empty)
qed

theorem wifi_end_to_end_witness:
  "fst (run_state (wifi_main (via_driver lab_kernel wifi_fops wifi_zero 0x10 lab_system)) fresh_process) = Inr 0 \<and>
   fst (run_state (wifi_main (via_driver lab_kernel esp32_fops esp32_zero 0x10 lab_system)) fresh_process) = Inr (- 1)"
  using wifi_end_to_end [of lab_system lab_kernel "0x10" wifi_zero _ _ esp32_zero, OF _ _ prod.collapse [symmetric] prod.collapse [symmetric]]
  by (simp add: lab_system_sel lab_kernel_sel)

section \<open>Programs on any of the character drivers\<close>

text \<open>
  C15: whichever character driver serves a device file, the system its programs see keeps
  the documented types: calls answer -1 or more, and a read reports no more bytes than were asked
  for and no more than the driver really copied to the user.
\<close>

theorem drivers_typed:
  assumes "no_handler_error E" and "spi_char_rx_full E" and "\<And>h c. - 1 \<le> sys U h c"
  shows "system_doc (via_driver E can_fops ds1 p U) \<and> system_doc (via_driver E wifi_fops ds2 p U) \<and>
    system_doc (via_driver E bluetooth_fops ds3 p U) \<and> system_doc (via_driver E esp32_fops ds4 p U) \<and>
    system_doc (via_driver E (etx_fops E) ds5 p U) \<and> system_doc (via_driver E i2c_char_driver_fops ds6 p U) \<and>
    system_doc (via_driver E (spi_char_fops E) ds7 p U)"
  using can_device.typed_system [OF TrueI assms(3)] wifi_device.typed_system [OF TrueI assms(3)]
    bluetooth_device.typed_system [OF TrueI assms(3)] esp32_device.typed_system [OF assms(1,3)]
    etx_device.typed_system [OF TrueI assms(3)] i2c_device.typed_system [OF TrueI assms(3)]
    spi_char_device.typed_system [OF assms(2,3)]
  by blast

lemma lab_no_handler_error: "no_handler_error lab_kernel"
  by (simp add: no_handler_error_def lab_kernel_sel)

lemma lab_spi_char_rx_full: "spi_char_rx_full lab_kernel"
  by (simp add: spi_char_rx_full_def lab_kernel_def spi_char_DATA_SIZE_def)

theorem drivers_typed_witness:
  "system_doc (via_driver lab_kernel (spi_char_fops lab_kernel) (spi_char_zero\<lparr>klog := []\<rparr>) 0x10 lab_system)"
proof -
  have "- 1 \<le> sys lab_system h c" for h c using lab_system_doc by (simp add: system_doc_def)
  from drivers_typed [OF lab_no_handler_error lab_spi_char_rx_full this] show ?thesis by blast
qed

end
